(* ===== verification/Prelude.thy ===== *)
theory Prelude
  imports "HOL-Library.Word" "HOL-Library.List_Lexorder" "HOL-Library.Char_ord"
begin

text \<open>
  Shared vocabulary of the development: the machine types of the sources, the text formatting
  they use (\<open>std::to_string\<close>, zero padded hexadecimal), canonical address vectors
  (\<open>std::sort\<close> followed by \<open>std::unique\<close>), and the generic lemmas on lists and words
  the component theories rest on.
\<close>

unbundle bit_operations_syntax

subsection \<open>Machine types\<close>

type_synonym u8 = "8 word"
type_synonym u16 = "16 word"
type_synonym u32 = "32 word"
type_synonym u64 = "64 word"

text \<open>
  Register indices are \<open>std::uint8_t\<close> in the sources; they are never computed with beyond
  masking, so the model keeps them as natural numbers and proves the bound below sixteen where an
  index is produced.  Signed immediates and displacements (\<open>std::int32_t\<close>) are integers; the
  cast \<open>static_cast<std::uint32_t>\<close> is \<^const>\<open>word_of_int\<close> and the cast back is
  \<^const>\<open>sint\<close>.
\<close>

type_synonym reg = nat

abbreviation to_u32 :: "int \<Rightarrow> u32" where
  "to_u32 i \<equiv> word_of_int i"

abbreviation to_i32 :: "u32 \<Rightarrow> int" where
  "to_i32 w \<equiv> sint w"

named_theorems kind_facts "unfolding of the SH-4 instruction tables"
named_theorems word_facts "word identities used by the instruction semantics"
named_theorems pass_facts "what an optimizer step keeps"

subsection \<open>Text formatting\<close>

definition digit_char :: "nat \<Rightarrow> char" where
  "digit_char d = ''0123456789ABCDEF'' ! d"

fun nat_to_string :: "nat \<Rightarrow> string" where
  "nat_to_string n =
     (if n < 10 then [digit_char n] else nat_to_string (n div 10) @ [digit_char (n mod 10)])"

declare nat_to_string.simps [simp del]

definition to_string :: "int \<Rightarrow> string" where
  "to_string i = (if i < 0 then CHR ''-'' # nat_to_string (nat (- i)) else nat_to_string (nat i))"

fun hex_digits :: "nat \<Rightarrow> nat \<Rightarrow> string" where
  "hex_digits 0 n = []"
| "hex_digits (Suc k) n = hex_digits k (n div 16) @ [digit_char (n mod 16)]"

lemma hex_digits_numeral [simp]:
  "hex_digits (numeral k) n =
     hex_digits (pred_numeral k) (n div 16) @ [digit_char (n mod 16)]"
  by (simp only: numeral_eq_Suc [of k] hex_digits.simps)

lemma length_hex_digits [simp]: "length (hex_digits k n) = k"
  by (induction k arbitrary: n) auto

lemma nat_to_string_nonempty [simp]: "nat_to_string n \<noteq> []"
  by (subst nat_to_string.simps) simp

lemma to_string_nonempty [simp]: "to_string i \<noteq> []"
  by (simp add: to_string_def)

subsection \<open>Canonical vectors\<close>

definition sort_unique :: "('a::linorder) list \<Rightarrow> 'a list" where
  "sort_unique xs = remdups_adj (sort xs)"

lemma set_sort_unique [simp]: "set (sort_unique xs) = set xs"
  by (simp add: sort_unique_def)

lemma sorted_sort_unique [simp]: "sorted (sort_unique xs)"
  by (simp add: sort_unique_def)

lemma distinct_remdups_adj_sorted: "sorted xs \<Longrightarrow> distinct (remdups_adj xs)"
proof (induction xs rule: remdups_adj.induct)
  case (3 x y xs)
  then show ?case by (auto simp: order.antisym)
qed auto

lemma distinct_sort_unique [simp]: "distinct (sort_unique xs)"
  by (simp add: sort_unique_def distinct_remdups_adj_sorted)

lemma sort_unique_cong: "set xs = set ys \<Longrightarrow> sort_unique xs = sort_unique ys"
  by (rule sorted_distinct_set_unique) auto

lemma sort_unique_id: "sorted xs \<Longrightarrow> distinct xs \<Longrightarrow> sort_unique xs = xs"
  by (rule sorted_distinct_set_unique) auto

lemma sort_unique_idem [simp]: "sort_unique (sort_unique xs) = sort_unique xs"
  by (rule sort_unique_cong) simp

lemma sort_unique_fixed_iff: "sort_unique xs = xs \<longleftrightarrow> sorted xs \<and> distinct xs"
  by (metis sort_unique_id sorted_sort_unique distinct_sort_unique)

subsection \<open>Words\<close>

lemma of_int_sint_u32 [simp]: "to_u32 (to_i32 w) = w"
  by simp

lemma and_15_less [simp]: "unat ((w::'a::len word) AND 15) < 16"
proof -
  have "unat (w AND 15) \<le> unat (15::'a word)"
    by (metis word_and_le1 word_le_nat_alt)
  also have "\<dots> \<le> 15"
    by (metis of_nat_numeral unat_of_nat mod_less_eq_dividend)
  finally show ?thesis by simp
qed

end
