(* ===== verification/Instruction.thy ===== *)
theory Instruction
  imports Prelude
begin

text \<open>
  The SH-4 instruction vocabulary (\<open>include/katana/sh4/instruction.hpp\<close>): special registers,
  instruction kinds, control-flow kinds and the decoded instruction.  The source enumeration
  \<open>InstructionKind\<close> is cut, in its own order, into contiguous groups, one datatype each,
  which \<open>InstructionKind\<close> joins; the enumerators keep their names.  The enumerator
  \<open>None\<close> of the smaller enumerations carries a suffix because \<open>None\<close> is a constant of HOL.
\<close>

subsection \<open>Enumerations\<close>

datatype SpecialRegister =
    NoneRegister | Mach | Macl | Pr | Fpul | Fpscr | Sr | Gbr | Vbr | Ssr | Spc | Sgr | Dbr | Bank0
  | Bank1 | Bank2 | Bank3 | Bank4 | Bank5 | Bank6 | Bank7

datatype (plugins only: code size) ArithKind =
    MovImmediate | AddImmediate | MovRegister | AddRegister | SubRegister | NegateRegister
  | NotRegister | AddWithCarry | AddWithOverflow | SubWithCarry | SubWithOverflow | NegateWithCarry
  | ExtendUnsignedByte | ExtendUnsignedWord | ExtendSignedByte | ExtendSignedWord | SwapBytes
  | SwapWords | ExtractMiddle | DecrementAndTest | MoveT

datatype (plugins only: code size) ShiftKind =
    ShiftLogicalLeftOne | ShiftLogicalRightOne | ShiftArithmeticLeftOne | ShiftArithmeticRightOne
  | ShiftLogicalLeftTwo | ShiftLogicalLeftEight | ShiftLogicalLeftSixteen | ShiftLogicalRightTwo
  | ShiftLogicalRightEight | ShiftLogicalRightSixteen | RotateLeft | RotateRight
  | RotateLeftThroughT | RotateRightThroughT | ShiftArithmeticDynamic | ShiftLogicalDynamic

datatype (plugins only: code size) MulDivKind =
    MultiplyLong | MultiplySignedWord | MultiplyUnsignedWord | DoubleMultiplySignedLong
  | DoubleMultiplyUnsignedLong | MultiplyAccumulateWord | MultiplyAccumulateLong
  | DivideInitializeUnsigned | DivideInitializeSigned | DivideStep | ClearMac

datatype (plugins only: code size) LogicKind =
    AndRegister | OrRegister | XorRegister | AndImmediate | OrImmediate | XorImmediate | ClearS
  | SetS | ClearT | SetT | CompareEqualImmediate | CompareEqualRegister | CompareHigherOrSame
  | CompareGreaterOrEqual | CompareHigher | CompareGreaterThan | ComparePositiveOrZero
  | ComparePositive | CompareString | TestImmediate | TestRegister | TestByteImmediate
  | AndByteImmediate | XorByteImmediate | OrByteImmediate | TestAndSetByte

datatype (plugins only: code size) MoveKind =
    MovByteStore | MovWordStore | MovLongStore | MovByteLoad | MovWordLoad | MovLongLoad
  | MovByteStorePreDecrement | MovWordStorePreDecrement | MovLongStorePreDecrement
  | MovByteLoadPostIncrement | MovWordLoadPostIncrement | MovLongLoadPostIncrement
  | MovByteStoreDisplacement | MovWordStoreDisplacement | MovLongStoreDisplacement
  | MovByteLoadDisplacement | MovWordLoadDisplacement | MovLongLoadDisplacement
  | MovByteStoreR0Indexed | MovWordStoreR0Indexed | MovLongStoreR0Indexed | MovByteLoadR0Indexed
  | MovWordLoadR0Indexed | MovLongLoadR0Indexed | MovByteStoreGbrDisplacement
  | MovWordStoreGbrDisplacement | MovLongStoreGbrDisplacement | MovByteLoadGbrDisplacement
  | MovWordLoadGbrDisplacement | MovLongLoadGbrDisplacement | MovWordLoadPcRelative
  | MovLongLoadPcRelative | MoveAddressPcRelative

datatype (plugins only: code size) SystemKind =
    StoreSpecialRegister | StoreSpecialRegisterPreDecrement | LoadSpecialRegister
  | LoadSpecialRegisterPostIncrement | TrapAlways | ReturnFromException | Sleep | LoadTlb
  | Prefetch | Ocbi | Ocbp | Ocbwb | MovcaLong

datatype (plugins only: code size) FlowKind =
    Bra | Bsr | Braf | Bsrf | Bt | Bf | BtS | BfS | Jmp | Jsr

datatype (plugins only: code size) FpuKind =
    FmovRegister | FmovLoad | FmovLoadPostIncrement | FmovLoadR0Indexed | FmovStore
  | FmovStorePreDecrement | FmovStoreR0Indexed | Fldi0 | Fldi1 | Flds | Fsts | Fabs | Fadd
  | FcmpEqual | FcmpGreater | Fdiv | FloatFromFpul | Fmac | Fmul | Fneg | Fsqrt | Fsrra | Fsca
  | Fipr | Ftrv | Fsub | Ftrc | FcnvDoubleToSingle | FcnvSingleToDouble | Frchg | Fschg

datatype (plugins only: code size) InstructionKind =
    Unknown | Nop | Rts | K_Arith ArithKind | K_Shift ShiftKind | K_MulDiv MulDivKind
  | K_Logic LogicKind | K_Move MoveKind | K_System SystemKind | K_Flow FlowKind | K_Fpu FpuKind

datatype ControlFlowKind =
    NoneFlow | UnconditionalBranch | ConditionalBranch | Call | Return | IndirectBranch
  | IndirectCall | Trap | ExceptionReturn | Halt

subsection \<open>Decoded instructions\<close>

record DecodedInstruction =
  d_opcode :: u16
  d_kind :: InstructionKind
  d_destination_register :: reg
  d_source_register :: reg
  d_branch_register :: reg
  d_immediate :: int
  d_displacement :: int
  d_special_register :: SpecialRegister
  d_control_flow :: ControlFlowKind
  d_has_delay_slot :: bool
  d_is_privileged :: bool
  d_text :: string

text \<open>The default member initialisers of the struct, with the opcode \<open>decode\<close> stores first.\<close>

definition fresh_instruction :: "u16 \<Rightarrow> DecodedInstruction" where
  "fresh_instruction opcode = \<lparr>d_opcode = opcode, d_kind = Unknown, d_destination_register = 0,
     d_source_register = 0, d_branch_register = 0, d_immediate = 0, d_displacement = 0,
     d_special_register = NoneRegister, d_control_flow = NoneFlow, d_has_delay_slot = False,
     d_is_privileged = False, d_text = []\<rparr>"

definition is_known :: "DecodedInstruction \<Rightarrow> bool" where
  "is_known i \<longleftrightarrow> d_kind i \<noteq> Unknown"

definition changes_control_flow :: "DecodedInstruction \<Rightarrow> bool" where
  "changes_control_flow i \<longleftrightarrow> d_control_flow i \<noteq> NoneFlow"

end
