(* ===== verification/Instruction_Metadata.thy ===== *)
theory Instruction_Metadata
  imports Instruction
begin

text \<open>
  The opcode tables of \<open>src/decoder/instruction_metadata.cpp\<close> and the table self-check of
  \<open>src/decoder/decoder_validation.cpp\<close>.  Each row of the model is one row of the source, in
  the same order; the blank-line groups of \<open>kInstructionMetadata\<close> and
  \<open>kSpecialRegisterMetadata\<close> are separate lists.
\<close>

subsection \<open>Rows\<close>

datatype OperandFormat =
    NoneFormat | RegisterN | RegisterMRegisterN | Immediate8RegisterN | Immediate8Register0
  | Displacement8 | Displacement12 | RegisterIndirectN | Displacement4 | Displacement8RegisterN
  | R0Indexed | GbrDisplacement8 | PcDisplacement8 | SpecialRegisterTransfer

record InstructionMetadata =
  md_kind :: InstructionKind
  md_name :: string
  md_mask :: u16
  md_pattern :: u16
  md_operand_format :: OperandFormat
  md_control_flow :: ControlFlowKind
  md_has_delay_slot :: bool
  md_is_privileged :: bool

record SpecialRegisterEncodingMetadata =
  sm_kind :: InstructionKind
  sm_mnemonic :: string
  sm_mask :: u16
  sm_pattern :: u16
  sm_special_register :: SpecialRegister
  sm_special_register_name :: string
  sm_memory_form :: bool
  sm_register_is_source :: bool
  sm_is_privileged :: bool

definition matches :: "InstructionMetadata \<Rightarrow> u16 \<Rightarrow> bool" where
  "matches m opcode \<longleftrightarrow> opcode AND md_mask m = md_pattern m"

definition special_matches :: "SpecialRegisterEncodingMetadata \<Rightarrow> u16 \<Rightarrow> bool" where
  "special_matches m opcode \<longleftrightarrow> opcode AND sm_mask m = sm_pattern m"

text \<open>The row macros \<open>KATANA_FLOW\<close>, \<open>KATANA_RULE\<close> and \<open>KATANA_SPECIAL\<close>.\<close>

definition KATANA_FLOW :: "InstructionKind \<Rightarrow> string \<Rightarrow> u16 \<Rightarrow> u16 \<Rightarrow> OperandFormat \<Rightarrow>
    ControlFlowKind \<Rightarrow> bool \<Rightarrow> bool \<Rightarrow> InstructionMetadata" where
  "KATANA_FLOW k name msk pat fmt flow delay privileged =
     \<lparr>md_kind = k, md_name = name, md_mask = msk, md_pattern = pat, md_operand_format = fmt,
      md_control_flow = flow, md_has_delay_slot = delay, md_is_privileged = privileged\<rparr>"

definition KATANA_RULE :: "InstructionKind \<Rightarrow> string \<Rightarrow> u16 \<Rightarrow> u16 \<Rightarrow> OperandFormat \<Rightarrow>
    InstructionMetadata" where
  "KATANA_RULE k name msk pat fmt = KATANA_FLOW k name msk pat fmt NoneFlow False False"

definition KATANA_SPECIAL :: "SystemKind \<Rightarrow> string \<Rightarrow> u16 \<Rightarrow> SpecialRegister \<Rightarrow> string \<Rightarrow>
    bool \<Rightarrow> bool \<Rightarrow> bool \<Rightarrow> SpecialRegisterEncodingMetadata" where
  "KATANA_SPECIAL k mnemonic pat special name memory source privileged =
     \<lparr>sm_kind = K_System k, sm_mnemonic = mnemonic, sm_mask = 0xF0FF, sm_pattern = pat,
      sm_special_register = special, sm_special_register_name = name, sm_memory_form = memory,
      sm_register_is_source = source, sm_is_privileged = privileged\<rparr>"

subsection \<open>The instruction table\<close>

definition flow_rules :: "InstructionMetadata list" where
  "flow_rules = [
     KATANA_RULE Nop ''Nop'' 0xFFFF 0x0009 NoneFormat,
     KATANA_FLOW Rts ''Rts'' 0xFFFF 0x000B NoneFormat
       Return True False,
     KATANA_FLOW (K_System ReturnFromException) ''ReturnFromException'' 0xFFFF 0x002B NoneFormat
       ExceptionReturn True True,
     KATANA_FLOW (K_System Sleep) ''Sleep'' 0xFFFF 0x001B NoneFormat
       Halt False True,
     KATANA_FLOW (K_System LoadTlb) ''LoadTlb'' 0xFFFF 0x0038 NoneFormat
       NoneFlow False True,
     KATANA_RULE (K_System Prefetch) ''Prefetch'' 0xF0FF 0x0083 RegisterIndirectN,
     KATANA_RULE (K_System Ocbi) ''Ocbi'' 0xF0FF 0x0093 RegisterIndirectN,
     KATANA_RULE (K_System Ocbp) ''Ocbp'' 0xF0FF 0x00A3 RegisterIndirectN,
     KATANA_RULE (K_System Ocbwb) ''Ocbwb'' 0xF0FF 0x00B3 RegisterIndirectN,
     KATANA_RULE (K_System MovcaLong) ''MovcaLong'' 0xF0FF 0x00C3 RegisterIndirectN,
     KATANA_FLOW (K_System TrapAlways) ''TrapAlways'' 0xFF00 0xC300 Immediate8Register0
       Trap False False,
     KATANA_FLOW (K_Flow Bra) ''Bra'' 0xF000 0xA000 Displacement12
       UnconditionalBranch True False,
     KATANA_FLOW (K_Flow Bsr) ''Bsr'' 0xF000 0xB000 Displacement12
       Call True False,
     KATANA_FLOW (K_Flow Braf) ''Braf'' 0xF0FF 0x0023 RegisterN
       IndirectBranch True False,
     KATANA_FLOW (K_Flow Bsrf) ''Bsrf'' 0xF0FF 0x0003 RegisterN
       IndirectCall True False,
     KATANA_FLOW (K_Flow Bt) ''Bt'' 0xFF00 0x8900 Displacement8
       ConditionalBranch False False,
     KATANA_FLOW (K_Flow Bf) ''Bf'' 0xFF00 0x8B00 Displacement8
       ConditionalBranch False False,
     KATANA_FLOW (K_Flow BtS) ''BtS'' 0xFF00 0x8D00 Displacement8
       ConditionalBranch True False,
     KATANA_FLOW (K_Flow BfS) ''BfS'' 0xFF00 0x8F00 Displacement8
       ConditionalBranch True False,
     KATANA_FLOW (K_Flow Jmp) ''Jmp'' 0xF0FF 0x402B RegisterIndirectN
       IndirectBranch True False,
     KATANA_FLOW (K_Flow Jsr) ''Jsr'' 0xF0FF 0x400B RegisterIndirectN
       IndirectCall True False]"

definition fpu_rules :: "InstructionMetadata list" where
  "fpu_rules = [
     KATANA_RULE (K_Fpu FmovRegister) ''FmovRegister'' 0xF00F 0xF00C RegisterMRegisterN,
     KATANA_RULE (K_Fpu FmovLoad) ''FmovLoad'' 0xF00F 0xF008 RegisterMRegisterN,
     KATANA_RULE (K_Fpu FmovLoadPostIncrement) ''FmovLoadPostIncrement'' 0xF00F 0xF009 RegisterMRegisterN,
     KATANA_RULE (K_Fpu FmovLoadR0Indexed) ''FmovLoadR0Indexed'' 0xF00F 0xF006 RegisterMRegisterN,
     KATANA_RULE (K_Fpu FmovStore) ''FmovStore'' 0xF00F 0xF00A RegisterMRegisterN,
     KATANA_RULE (K_Fpu FmovStorePreDecrement) ''FmovStorePreDecrement'' 0xF00F 0xF00B RegisterMRegisterN,
     KATANA_RULE (K_Fpu FmovStoreR0Indexed) ''FmovStoreR0Indexed'' 0xF00F 0xF007 RegisterMRegisterN,
     KATANA_RULE (K_Fpu Fldi0) ''Fldi0'' 0xF0FF 0xF08D RegisterN,
     KATANA_RULE (K_Fpu Fldi1) ''Fldi1'' 0xF0FF 0xF09D RegisterN,
     KATANA_RULE (K_Fpu Flds) ''Flds'' 0xF0FF 0xF01D RegisterN,
     KATANA_RULE (K_Fpu Fsts) ''Fsts'' 0xF0FF 0xF00D RegisterN,
     KATANA_RULE (K_Fpu Fabs) ''Fabs'' 0xF0FF 0xF05D RegisterN,
     KATANA_RULE (K_Fpu Fadd) ''Fadd'' 0xF00F 0xF000 RegisterMRegisterN,
     KATANA_RULE (K_Fpu FcmpEqual) ''FcmpEqual'' 0xF00F 0xF004 RegisterMRegisterN,
     KATANA_RULE (K_Fpu FcmpGreater) ''FcmpGreater'' 0xF00F 0xF005 RegisterMRegisterN,
     KATANA_RULE (K_Fpu Fdiv) ''Fdiv'' 0xF00F 0xF003 RegisterMRegisterN,
     KATANA_RULE (K_Fpu FloatFromFpul) ''FloatFromFpul'' 0xF0FF 0xF02D RegisterN,
     KATANA_RULE (K_Fpu Fmac) ''Fmac'' 0xF00F 0xF00E RegisterMRegisterN,
     KATANA_RULE (K_Fpu Fmul) ''Fmul'' 0xF00F 0xF002 RegisterMRegisterN,
     KATANA_RULE (K_Fpu Fneg) ''Fneg'' 0xF0FF 0xF04D RegisterN,
     KATANA_RULE (K_Fpu Fsqrt) ''Fsqrt'' 0xF0FF 0xF06D RegisterN,
     KATANA_RULE (K_Fpu Fsrra) ''Fsrra'' 0xF0FF 0xF07D RegisterN,
     KATANA_RULE (K_Fpu Fsca) ''Fsca'' 0xF1FF 0xF0FD RegisterN,
     KATANA_RULE (K_Fpu Fipr) ''Fipr'' 0xF0FF 0xF0ED RegisterMRegisterN,
     KATANA_RULE (K_Fpu Ftrv) ''Ftrv'' 0xF3FF 0xF1FD RegisterN,
     KATANA_RULE (K_Fpu Fsub) ''Fsub'' 0xF00F 0xF001 RegisterMRegisterN,
     KATANA_RULE (K_Fpu Ftrc) ''Ftrc'' 0xF0FF 0xF03D RegisterN,
     KATANA_RULE (K_Fpu FcnvDoubleToSingle) ''FcnvDoubleToSingle'' 0xF1FF 0xF0BD RegisterN,
     KATANA_RULE (K_Fpu FcnvSingleToDouble) ''FcnvSingleToDouble'' 0xF1FF 0xF0AD RegisterN,
     KATANA_RULE (K_Fpu Frchg) ''Frchg'' 0xFFFF 0xFBFD NoneFormat,
     KATANA_RULE (K_Fpu Fschg) ''Fschg'' 0xFFFF 0xF3FD NoneFormat]"

definition arith_rules :: "InstructionMetadata list" where
  "arith_rules = [
     KATANA_RULE (K_Arith SubRegister) ''SubRegister'' 0xF00F 0x3008 RegisterMRegisterN,
     KATANA_RULE (K_Arith NegateRegister) ''NegateRegister'' 0xF00F 0x600B RegisterMRegisterN,
     KATANA_RULE (K_Arith NotRegister) ''NotRegister'' 0xF00F 0x6007 RegisterMRegisterN,
     KATANA_RULE (K_Arith AddWithCarry) ''AddWithCarry'' 0xF00F 0x300E RegisterMRegisterN,
     KATANA_RULE (K_Arith AddWithOverflow) ''AddWithOverflow'' 0xF00F 0x300F RegisterMRegisterN,
     KATANA_RULE (K_Arith SubWithCarry) ''SubWithCarry'' 0xF00F 0x300A RegisterMRegisterN,
     KATANA_RULE (K_Arith SubWithOverflow) ''SubWithOverflow'' 0xF00F 0x300B RegisterMRegisterN,
     KATANA_RULE (K_Arith NegateWithCarry) ''NegateWithCarry'' 0xF00F 0x600A RegisterMRegisterN,
     KATANA_RULE (K_Arith ExtendUnsignedByte) ''ExtendUnsignedByte'' 0xF00F 0x600C RegisterMRegisterN,
     KATANA_RULE (K_Arith ExtendUnsignedWord) ''ExtendUnsignedWord'' 0xF00F 0x600D RegisterMRegisterN,
     KATANA_RULE (K_Arith ExtendSignedByte) ''ExtendSignedByte'' 0xF00F 0x600E RegisterMRegisterN,
     KATANA_RULE (K_Arith ExtendSignedWord) ''ExtendSignedWord'' 0xF00F 0x600F RegisterMRegisterN,
     KATANA_RULE (K_Arith SwapBytes) ''SwapBytes'' 0xF00F 0x6008 RegisterMRegisterN,
     KATANA_RULE (K_Arith SwapWords) ''SwapWords'' 0xF00F 0x6009 RegisterMRegisterN,
     KATANA_RULE (K_Arith ExtractMiddle) ''ExtractMiddle'' 0xF00F 0x200D RegisterMRegisterN,
     KATANA_RULE (K_Arith DecrementAndTest) ''DecrementAndTest'' 0xF0FF 0x4010 RegisterN,
     KATANA_RULE (K_Arith MoveT) ''MoveT'' 0xF0FF 0x0029 RegisterN,
     KATANA_RULE (K_Shift ShiftLogicalLeftOne) ''ShiftLogicalLeftOne'' 0xF0FF 0x4000 RegisterN,
     KATANA_RULE (K_Shift ShiftLogicalRightOne) ''ShiftLogicalRightOne'' 0xF0FF 0x4001 RegisterN,
     KATANA_RULE (K_Shift ShiftArithmeticLeftOne) ''ShiftArithmeticLeftOne'' 0xF0FF 0x4020 RegisterN,
     KATANA_RULE (K_Shift ShiftArithmeticRightOne) ''ShiftArithmeticRightOne'' 0xF0FF 0x4021 RegisterN,
     KATANA_RULE (K_Shift ShiftLogicalLeftTwo) ''ShiftLogicalLeftTwo'' 0xF0FF 0x4008 RegisterN,
     KATANA_RULE (K_Shift ShiftLogicalLeftEight) ''ShiftLogicalLeftEight'' 0xF0FF 0x4018 RegisterN,
     KATANA_RULE (K_Shift ShiftLogicalLeftSixteen) ''ShiftLogicalLeftSixteen'' 0xF0FF 0x4028 RegisterN,
     KATANA_RULE (K_Shift ShiftLogicalRightTwo) ''ShiftLogicalRightTwo'' 0xF0FF 0x4009 RegisterN,
     KATANA_RULE (K_Shift ShiftLogicalRightEight) ''ShiftLogicalRightEight'' 0xF0FF 0x4019 RegisterN,
     KATANA_RULE (K_Shift ShiftLogicalRightSixteen) ''ShiftLogicalRightSixteen'' 0xF0FF 0x4029 RegisterN,
     KATANA_RULE (K_Shift RotateLeft) ''RotateLeft'' 0xF0FF 0x4004 RegisterN,
     KATANA_RULE (K_Shift RotateRight) ''RotateRight'' 0xF0FF 0x4005 RegisterN,
     KATANA_RULE (K_Shift RotateLeftThroughT) ''RotateLeftThroughT'' 0xF0FF 0x4024 RegisterN,
     KATANA_RULE (K_Shift RotateRightThroughT) ''RotateRightThroughT'' 0xF0FF 0x4025 RegisterN,
     KATANA_RULE (K_Shift ShiftArithmeticDynamic) ''ShiftArithmeticDynamic'' 0xF00F 0x400C RegisterMRegisterN,
     KATANA_RULE (K_Shift ShiftLogicalDynamic) ''ShiftLogicalDynamic'' 0xF00F 0x400D RegisterMRegisterN]"

definition muldiv_rules :: "InstructionMetadata list" where
  "muldiv_rules = [
     KATANA_RULE (K_MulDiv DivideInitializeUnsigned) ''DivideInitializeUnsigned'' 0xFFFF 0x0019 NoneFormat,
     KATANA_RULE (K_MulDiv ClearMac) ''ClearMac'' 0xFFFF 0x0028 NoneFormat,
     KATANA_RULE (K_MulDiv DivideInitializeSigned) ''DivideInitializeSigned'' 0xF00F 0x2007 RegisterMRegisterN,
     KATANA_RULE (K_MulDiv DivideStep) ''DivideStep'' 0xF00F 0x3004 RegisterMRegisterN,
     KATANA_RULE (K_MulDiv MultiplyAccumulateWord) ''MultiplyAccumulateWord'' 0xF00F 0x400F RegisterMRegisterN,
     KATANA_RULE (K_MulDiv MultiplyAccumulateLong) ''MultiplyAccumulateLong'' 0xF00F 0x000F RegisterMRegisterN,
     KATANA_RULE (K_MulDiv DoubleMultiplySignedLong) ''DoubleMultiplySignedLong'' 0xF00F 0x300D RegisterMRegisterN,
     KATANA_RULE (K_MulDiv DoubleMultiplyUnsignedLong) ''DoubleMultiplyUnsignedLong'' 0xF00F 0x3005 RegisterMRegisterN,
     KATANA_RULE (K_MulDiv MultiplyLong) ''MultiplyLong'' 0xF00F 0x0007 RegisterMRegisterN,
     KATANA_RULE (K_MulDiv MultiplySignedWord) ''MultiplySignedWord'' 0xF00F 0x200F RegisterMRegisterN,
     KATANA_RULE (K_MulDiv MultiplyUnsignedWord) ''MultiplyUnsignedWord'' 0xF00F 0x200E RegisterMRegisterN]"

definition logic_rules :: "InstructionMetadata list" where
  "logic_rules = [
     KATANA_RULE (K_Logic AndRegister) ''AndRegister'' 0xF00F 0x2009 RegisterMRegisterN,
     KATANA_RULE (K_Logic XorRegister) ''XorRegister'' 0xF00F 0x200A RegisterMRegisterN,
     KATANA_RULE (K_Logic OrRegister) ''OrRegister'' 0xF00F 0x200B RegisterMRegisterN,
     KATANA_RULE (K_Logic AndImmediate) ''AndImmediate'' 0xFF00 0xC900 Immediate8Register0,
     KATANA_RULE (K_Logic XorImmediate) ''XorImmediate'' 0xFF00 0xCA00 Immediate8Register0,
     KATANA_RULE (K_Logic OrImmediate) ''OrImmediate'' 0xFF00 0xCB00 Immediate8Register0,
     KATANA_RULE (K_Logic ClearS) ''ClearS'' 0xFFFF 0x0048 NoneFormat,
     KATANA_RULE (K_Logic SetS) ''SetS'' 0xFFFF 0x0058 NoneFormat,
     KATANA_RULE (K_Logic ClearT) ''ClearT'' 0xFFFF 0x0008 NoneFormat,
     KATANA_RULE (K_Logic SetT) ''SetT'' 0xFFFF 0x0018 NoneFormat,
     KATANA_RULE (K_Logic CompareEqualImmediate) ''CompareEqualImmediate'' 0xFF00 0x8800 Immediate8Register0,
     KATANA_RULE (K_Logic CompareEqualRegister) ''CompareEqualRegister'' 0xF00F 0x3000 RegisterMRegisterN,
     KATANA_RULE (K_Logic CompareHigherOrSame) ''CompareHigherOrSame'' 0xF00F 0x3002 RegisterMRegisterN,
     KATANA_RULE (K_Logic CompareGreaterOrEqual) ''CompareGreaterOrEqual'' 0xF00F 0x3003 RegisterMRegisterN,
     KATANA_RULE (K_Logic CompareHigher) ''CompareHigher'' 0xF00F 0x3006 RegisterMRegisterN,
     KATANA_RULE (K_Logic CompareGreaterThan) ''CompareGreaterThan'' 0xF00F 0x3007 RegisterMRegisterN,
     KATANA_RULE (K_Logic ComparePositiveOrZero) ''ComparePositiveOrZero'' 0xF0FF 0x4011 RegisterN,
     KATANA_RULE (K_Logic ComparePositive) ''ComparePositive'' 0xF0FF 0x4015 RegisterN,
     KATANA_RULE (K_Logic CompareString) ''CompareString'' 0xF00F 0x200C RegisterMRegisterN,
     KATANA_RULE (K_Logic TestImmediate) ''TestImmediate'' 0xFF00 0xC800 Immediate8Register0,
     KATANA_RULE (K_Logic TestRegister) ''TestRegister'' 0xF00F 0x2008 RegisterMRegisterN,
     KATANA_RULE (K_Logic TestByteImmediate) ''TestByteImmediate'' 0xFF00 0xCC00 Immediate8Register0,
     KATANA_RULE (K_Logic AndByteImmediate) ''AndByteImmediate'' 0xFF00 0xCD00 Immediate8Register0,
     KATANA_RULE (K_Logic XorByteImmediate) ''XorByteImmediate'' 0xFF00 0xCE00 Immediate8Register0,
     KATANA_RULE (K_Logic OrByteImmediate) ''OrByteImmediate'' 0xFF00 0xCF00 Immediate8Register0,
     KATANA_RULE (K_Logic TestAndSetByte) ''TestAndSetByte'' 0xF0FF 0x401B RegisterIndirectN]"

definition move_rules :: "InstructionMetadata list" where
  "move_rules = [
     KATANA_RULE (K_Move MovByteStorePreDecrement) ''MovByteStorePreDecrement'' 0xF00F 0x2004 RegisterMRegisterN,
     KATANA_RULE (K_Move MovWordStorePreDecrement) ''MovWordStorePreDecrement'' 0xF00F 0x2005 RegisterMRegisterN,
     KATANA_RULE (K_Move MovLongStorePreDecrement) ''MovLongStorePreDecrement'' 0xF00F 0x2006 RegisterMRegisterN,
     KATANA_RULE (K_Move MovByteLoadPostIncrement) ''MovByteLoadPostIncrement'' 0xF00F 0x6004 RegisterMRegisterN,
     KATANA_RULE (K_Move MovWordLoadPostIncrement) ''MovWordLoadPostIncrement'' 0xF00F 0x6005 RegisterMRegisterN,
     KATANA_RULE (K_Move MovLongLoadPostIncrement) ''MovLongLoadPostIncrement'' 0xF00F 0x6006 RegisterMRegisterN,
     KATANA_RULE (K_Move MovByteStoreDisplacement) ''MovByteStoreDisplacement'' 0xFF00 0x8000 Displacement4,
     KATANA_RULE (K_Move MovWordStoreDisplacement) ''MovWordStoreDisplacement'' 0xFF00 0x8100 Displacement4,
     KATANA_RULE (K_Move MovLongStoreDisplacement) ''MovLongStoreDisplacement'' 0xF000 0x1000 Displacement4,
     KATANA_RULE (K_Move MovByteLoadDisplacement) ''MovByteLoadDisplacement'' 0xFF00 0x8400 Displacement4,
     KATANA_RULE (K_Move MovWordLoadDisplacement) ''MovWordLoadDisplacement'' 0xFF00 0x8500 Displacement4,
     KATANA_RULE (K_Move MovLongLoadDisplacement) ''MovLongLoadDisplacement'' 0xF000 0x5000 Displacement4,
     KATANA_RULE (K_Move MovByteStoreR0Indexed) ''MovByteStoreR0Indexed'' 0xF00F 0x0004 R0Indexed,
     KATANA_RULE (K_Move MovWordStoreR0Indexed) ''MovWordStoreR0Indexed'' 0xF00F 0x0005 R0Indexed,
     KATANA_RULE (K_Move MovLongStoreR0Indexed) ''MovLongStoreR0Indexed'' 0xF00F 0x0006 R0Indexed,
     KATANA_RULE (K_Move MovByteLoadR0Indexed) ''MovByteLoadR0Indexed'' 0xF00F 0x000C R0Indexed,
     KATANA_RULE (K_Move MovWordLoadR0Indexed) ''MovWordLoadR0Indexed'' 0xF00F 0x000D R0Indexed,
     KATANA_RULE (K_Move MovLongLoadR0Indexed) ''MovLongLoadR0Indexed'' 0xF00F 0x000E R0Indexed,
     KATANA_RULE (K_Move MovByteStoreGbrDisplacement) ''MovByteStoreGbrDisplacement'' 0xFF00 0xC000 GbrDisplacement8,
     KATANA_RULE (K_Move MovWordStoreGbrDisplacement) ''MovWordStoreGbrDisplacement'' 0xFF00 0xC100 GbrDisplacement8,
     KATANA_RULE (K_Move MovLongStoreGbrDisplacement) ''MovLongStoreGbrDisplacement'' 0xFF00 0xC200 GbrDisplacement8,
     KATANA_RULE (K_Move MovByteLoadGbrDisplacement) ''MovByteLoadGbrDisplacement'' 0xFF00 0xC400 GbrDisplacement8,
     KATANA_RULE (K_Move MovWordLoadGbrDisplacement) ''MovWordLoadGbrDisplacement'' 0xFF00 0xC500 GbrDisplacement8,
     KATANA_RULE (K_Move MovLongLoadGbrDisplacement) ''MovLongLoadGbrDisplacement'' 0xFF00 0xC600 GbrDisplacement8,
     KATANA_RULE (K_Move MovWordLoadPcRelative) ''MovWordLoadPcRelative'' 0xF000 0x9000 PcDisplacement8,
     KATANA_RULE (K_Move MovLongLoadPcRelative) ''MovLongLoadPcRelative'' 0xF000 0xD000 PcDisplacement8,
     KATANA_RULE (K_Move MoveAddressPcRelative) ''MoveAddressPcRelative'' 0xFF00 0xC700 PcDisplacement8,
     KATANA_RULE (K_Move MovByteStore) ''MovByteStore'' 0xF00F 0x2000 RegisterMRegisterN,
     KATANA_RULE (K_Move MovWordStore) ''MovWordStore'' 0xF00F 0x2001 RegisterMRegisterN,
     KATANA_RULE (K_Move MovLongStore) ''MovLongStore'' 0xF00F 0x2002 RegisterMRegisterN,
     KATANA_RULE (K_Move MovByteLoad) ''MovByteLoad'' 0xF00F 0x6000 RegisterMRegisterN,
     KATANA_RULE (K_Move MovWordLoad) ''MovWordLoad'' 0xF00F 0x6001 RegisterMRegisterN,
     KATANA_RULE (K_Move MovLongLoad) ''MovLongLoad'' 0xF00F 0x6002 RegisterMRegisterN,
     KATANA_RULE (K_Arith MovImmediate) ''MovImmediate'' 0xF000 0xE000 Immediate8RegisterN,
     KATANA_RULE (K_Arith AddImmediate) ''AddImmediate'' 0xF000 0x7000 Immediate8RegisterN,
     KATANA_RULE (K_Arith MovRegister) ''MovRegister'' 0xF00F 0x6003 RegisterMRegisterN,
     KATANA_RULE (K_Arith AddRegister) ''AddRegister'' 0xF00F 0x300C RegisterMRegisterN]"

definition instruction_metadata :: "InstructionMetadata list" where
  "instruction_metadata =
     flow_rules @ fpu_rules @ arith_rules @ muldiv_rules @ logic_rules @ move_rules"

definition metadata_for_kind :: "InstructionKind \<Rightarrow> InstructionMetadata option" where
  "metadata_for_kind k = find (\<lambda>m. md_kind m = k) instruction_metadata"

subsection \<open>The special-register table\<close>

definition system_transfers :: "SpecialRegisterEncodingMetadata list" where
  "system_transfers = [
     KATANA_SPECIAL StoreSpecialRegister ''sts'' 0x000A Mach ''mach'' False False False,
     KATANA_SPECIAL StoreSpecialRegister ''sts'' 0x001A Macl ''macl'' False False False,
     KATANA_SPECIAL StoreSpecialRegister ''sts'' 0x002A Pr ''pr'' False False False,
     KATANA_SPECIAL StoreSpecialRegister ''sts'' 0x005A Fpul ''fpul'' False False False,
     KATANA_SPECIAL StoreSpecialRegister ''sts'' 0x006A Fpscr ''fpscr'' False False False,
     KATANA_SPECIAL StoreSpecialRegisterPreDecrement ''sts.l'' 0x4002 Mach ''mach'' True False False,
     KATANA_SPECIAL StoreSpecialRegisterPreDecrement ''sts.l'' 0x4012 Macl ''macl'' True False False,
     KATANA_SPECIAL StoreSpecialRegisterPreDecrement ''sts.l'' 0x4022 Pr ''pr'' True False False,
     KATANA_SPECIAL StoreSpecialRegisterPreDecrement ''sts.l'' 0x4052 Fpul ''fpul'' True False False,
     KATANA_SPECIAL StoreSpecialRegisterPreDecrement ''sts.l'' 0x4062 Fpscr ''fpscr'' True False False,
     KATANA_SPECIAL LoadSpecialRegister ''lds'' 0x400A Mach ''mach'' False True False,
     KATANA_SPECIAL LoadSpecialRegister ''lds'' 0x401A Macl ''macl'' False True False,
     KATANA_SPECIAL LoadSpecialRegister ''lds'' 0x402A Pr ''pr'' False True False,
     KATANA_SPECIAL LoadSpecialRegister ''lds'' 0x405A Fpul ''fpul'' False True False,
     KATANA_SPECIAL LoadSpecialRegister ''lds'' 0x406A Fpscr ''fpscr'' False True False,
     KATANA_SPECIAL LoadSpecialRegisterPostIncrement ''lds.l'' 0x4006 Mach ''mach'' True True False,
     KATANA_SPECIAL LoadSpecialRegisterPostIncrement ''lds.l'' 0x4016 Macl ''macl'' True True False,
     KATANA_SPECIAL LoadSpecialRegisterPostIncrement ''lds.l'' 0x4026 Pr ''pr'' True True False,
     KATANA_SPECIAL LoadSpecialRegisterPostIncrement ''lds.l'' 0x4056 Fpul ''fpul'' True True False,
     KATANA_SPECIAL LoadSpecialRegisterPostIncrement ''lds.l'' 0x4066 Fpscr ''fpscr'' True True False]"

definition control_transfers :: "SpecialRegisterEncodingMetadata list" where
  "control_transfers = [
     KATANA_SPECIAL StoreSpecialRegister ''stc'' 0x0002 Sr ''sr'' False False True,
     KATANA_SPECIAL StoreSpecialRegister ''stc'' 0x0012 Gbr ''gbr'' False False False,
     KATANA_SPECIAL StoreSpecialRegister ''stc'' 0x0022 Vbr ''vbr'' False False True,
     KATANA_SPECIAL StoreSpecialRegister ''stc'' 0x0032 Ssr ''ssr'' False False True,
     KATANA_SPECIAL StoreSpecialRegister ''stc'' 0x0042 Spc ''spc'' False False True,
     KATANA_SPECIAL StoreSpecialRegister ''stc'' 0x003A Sgr ''sgr'' False False True,
     KATANA_SPECIAL StoreSpecialRegister ''stc'' 0x00FA Dbr ''dbr'' False False True,
     KATANA_SPECIAL StoreSpecialRegisterPreDecrement ''stc.l'' 0x4003 Sr ''sr'' True False True,
     KATANA_SPECIAL StoreSpecialRegisterPreDecrement ''stc.l'' 0x4013 Gbr ''gbr'' True False False,
     KATANA_SPECIAL StoreSpecialRegisterPreDecrement ''stc.l'' 0x4023 Vbr ''vbr'' True False True,
     KATANA_SPECIAL StoreSpecialRegisterPreDecrement ''stc.l'' 0x4033 Ssr ''ssr'' True False True,
     KATANA_SPECIAL StoreSpecialRegisterPreDecrement ''stc.l'' 0x4043 Spc ''spc'' True False True,
     KATANA_SPECIAL StoreSpecialRegisterPreDecrement ''stc.l'' 0x4032 Sgr ''sgr'' True False True,
     KATANA_SPECIAL StoreSpecialRegisterPreDecrement ''stc.l'' 0x40F2 Dbr ''dbr'' True False True,
     KATANA_SPECIAL LoadSpecialRegister ''ldc'' 0x400E Sr ''sr'' False True True,
     KATANA_SPECIAL LoadSpecialRegister ''ldc'' 0x401E Gbr ''gbr'' False True False,
     KATANA_SPECIAL LoadSpecialRegister ''ldc'' 0x402E Vbr ''vbr'' False True True,
     KATANA_SPECIAL LoadSpecialRegister ''ldc'' 0x403E Ssr ''ssr'' False True True,
     KATANA_SPECIAL LoadSpecialRegister ''ldc'' 0x404E Spc ''spc'' False True True,
     KATANA_SPECIAL LoadSpecialRegister ''ldc'' 0x40FA Dbr ''dbr'' False True True,
     KATANA_SPECIAL LoadSpecialRegisterPostIncrement ''ldc.l'' 0x4007 Sr ''sr'' True True True,
     KATANA_SPECIAL LoadSpecialRegisterPostIncrement ''ldc.l'' 0x4017 Gbr ''gbr'' True True False,
     KATANA_SPECIAL LoadSpecialRegisterPostIncrement ''ldc.l'' 0x4027 Vbr ''vbr'' True True True,
     KATANA_SPECIAL LoadSpecialRegisterPostIncrement ''ldc.l'' 0x4037 Ssr ''ssr'' True True True,
     KATANA_SPECIAL LoadSpecialRegisterPostIncrement ''ldc.l'' 0x4047 Spc ''spc'' True True True,
     KATANA_SPECIAL LoadSpecialRegisterPostIncrement ''ldc.l'' 0x40F6 Dbr ''dbr'' True True True]"

definition bank_transfers :: "SpecialRegisterEncodingMetadata list" where
  "bank_transfers = [
     KATANA_SPECIAL StoreSpecialRegister ''stc'' 0x0082 Bank0 ''r0_bank'' False False True,
     KATANA_SPECIAL StoreSpecialRegister ''stc'' 0x0092 Bank1 ''r1_bank'' False False True,
     KATANA_SPECIAL StoreSpecialRegister ''stc'' 0x00A2 Bank2 ''r2_bank'' False False True,
     KATANA_SPECIAL StoreSpecialRegister ''stc'' 0x00B2 Bank3 ''r3_bank'' False False True,
     KATANA_SPECIAL StoreSpecialRegister ''stc'' 0x00C2 Bank4 ''r4_bank'' False False True,
     KATANA_SPECIAL StoreSpecialRegister ''stc'' 0x00D2 Bank5 ''r5_bank'' False False True,
     KATANA_SPECIAL StoreSpecialRegister ''stc'' 0x00E2 Bank6 ''r6_bank'' False False True,
     KATANA_SPECIAL StoreSpecialRegister ''stc'' 0x00F2 Bank7 ''r7_bank'' False False True,
     KATANA_SPECIAL StoreSpecialRegisterPreDecrement ''stc.l'' 0x4083 Bank0 ''r0_bank'' True False True,
     KATANA_SPECIAL StoreSpecialRegisterPreDecrement ''stc.l'' 0x4093 Bank1 ''r1_bank'' True False True,
     KATANA_SPECIAL StoreSpecialRegisterPreDecrement ''stc.l'' 0x40A3 Bank2 ''r2_bank'' True False True,
     KATANA_SPECIAL StoreSpecialRegisterPreDecrement ''stc.l'' 0x40B3 Bank3 ''r3_bank'' True False True,
     KATANA_SPECIAL StoreSpecialRegisterPreDecrement ''stc.l'' 0x40C3 Bank4 ''r4_bank'' True False True,
     KATANA_SPECIAL StoreSpecialRegisterPreDecrement ''stc.l'' 0x40D3 Bank5 ''r5_bank'' True False True,
     KATANA_SPECIAL StoreSpecialRegisterPreDecrement ''stc.l'' 0x40E3 Bank6 ''r6_bank'' True False True,
     KATANA_SPECIAL StoreSpecialRegisterPreDecrement ''stc.l'' 0x40F3 Bank7 ''r7_bank'' True False True,
     KATANA_SPECIAL LoadSpecialRegister ''ldc'' 0x408E Bank0 ''r0_bank'' False True True,
     KATANA_SPECIAL LoadSpecialRegister ''ldc'' 0x409E Bank1 ''r1_bank'' False True True,
     KATANA_SPECIAL LoadSpecialRegister ''ldc'' 0x40AE Bank2 ''r2_bank'' False True True,
     KATANA_SPECIAL LoadSpecialRegister ''ldc'' 0x40BE Bank3 ''r3_bank'' False True True,
     KATANA_SPECIAL LoadSpecialRegister ''ldc'' 0x40CE Bank4 ''r4_bank'' False True True,
     KATANA_SPECIAL LoadSpecialRegister ''ldc'' 0x40DE Bank5 ''r5_bank'' False True True,
     KATANA_SPECIAL LoadSpecialRegister ''ldc'' 0x40EE Bank6 ''r6_bank'' False True True,
     KATANA_SPECIAL LoadSpecialRegister ''ldc'' 0x40FE Bank7 ''r7_bank'' False True True,
     KATANA_SPECIAL LoadSpecialRegisterPostIncrement ''ldc.l'' 0x4087 Bank0 ''r0_bank'' True True True,
     KATANA_SPECIAL LoadSpecialRegisterPostIncrement ''ldc.l'' 0x4097 Bank1 ''r1_bank'' True True True,
     KATANA_SPECIAL LoadSpecialRegisterPostIncrement ''ldc.l'' 0x40A7 Bank2 ''r2_bank'' True True True,
     KATANA_SPECIAL LoadSpecialRegisterPostIncrement ''ldc.l'' 0x40B7 Bank3 ''r3_bank'' True True True,
     KATANA_SPECIAL LoadSpecialRegisterPostIncrement ''ldc.l'' 0x40C7 Bank4 ''r4_bank'' True True True,
     KATANA_SPECIAL LoadSpecialRegisterPostIncrement ''ldc.l'' 0x40D7 Bank5 ''r5_bank'' True True True,
     KATANA_SPECIAL LoadSpecialRegisterPostIncrement ''ldc.l'' 0x40E7 Bank6 ''r6_bank'' True True True,
     KATANA_SPECIAL LoadSpecialRegisterPostIncrement ''ldc.l'' 0x40F7 Bank7 ''r7_bank'' True True True]"

definition special_register_encoding_metadata :: "SpecialRegisterEncodingMetadata list" where
  "special_register_encoding_metadata = system_transfers @ control_transfers @ bank_transfers"

subsection \<open>The table self-check\<close>

record OpcodeRuleView =
  rv_name :: string
  rv_mask :: u16
  rv_pattern :: u16

record DecoderCollision =
  dc_first_rule :: string
  dc_second_rule :: string
  dc_example_opcode :: u16

definition opcode_rules_overlap :: "OpcodeRuleView \<Rightarrow> OpcodeRuleView \<Rightarrow> bool" where
  "opcode_rules_overlap first second \<longleftrightarrow>
     (rv_pattern first XOR rv_pattern second) AND rv_mask first AND rv_mask second = 0"

definition decoder_rules :: "OpcodeRuleView list" where
  "decoder_rules =
     map (\<lambda>m. \<lparr>rv_name = md_name m, rv_mask = md_mask m, rv_pattern = md_pattern m\<rparr>)
       instruction_metadata @
     map (\<lambda>m. \<lparr>rv_name = sm_mnemonic m @ '' '' @ sm_special_register_name m,
               rv_mask = sm_mask m, rv_pattern = sm_pattern m\<rparr>)
       special_register_encoding_metadata"

text \<open>The two nested index loops: each rule against the rules after it.\<close>

fun rule_collisions :: "OpcodeRuleView list \<Rightarrow> DecoderCollision list" where
  "rule_collisions [] = []"
| "rule_collisions (first # rest) =
     map (\<lambda>second. \<lparr>dc_first_rule = rv_name first, dc_second_rule = rv_name second,
            dc_example_opcode = rv_pattern first OR rv_pattern second\<rparr>)
       (filter (opcode_rules_overlap first) rest) @
     rule_collisions rest"

definition find_decoder_collisions :: "DecoderCollision list" where
  "find_decoder_collisions = rule_collisions decoder_rules"

subsection \<open>Opcodes by nibble\<close>

text \<open>
  Every mask of the tables is made of whole nibbles, three FPU masks excepted.  A masked comparison
  is therefore a conjunction of nibble equations, which the simplifier decides on the rows.
\<close>

definition nibble :: "nat \<Rightarrow> u16 \<Rightarrow> nat" where
  "nibble k w = unat w div 2 ^ (4 * k) mod 16"

lemma nibble_numeral [simp]: "nibble k (numeral n) = numeral n mod 65536 div 2 ^ (4 * k) mod 16"
proof -
  have "unat (numeral n :: u16) = numeral n mod 2 ^ 16"
    by (simp only: unat_numeral) simp
  then show ?thesis by (simp add: nibble_def)
qed

lemma nibble_less [simp]: "nibble k w < 16"
  by (simp add: nibble_def)

lemma nibble_eq_iff:
  "nibble k v = nibble k w \<longleftrightarrow>
     bit v (4*k) = bit w (4*k) \<and> bit v (4*k+1) = bit w (4*k+1) \<and>
     bit v (4*k+2) = bit w (4*k+2) \<and> bit v (4*k+3) = bit w (4*k+3)"
proof -
  have nb: "nibble k w = take_bit 4 (drop_bit (4*k) (unat w))" for w
    by (simp add: nibble_def take_bit_eq_mod drop_bit_eq_div)
  have "nibble k v = nibble k w \<longleftrightarrow> (\<forall>i<4. bit v (4*k+i) = bit w (4*k+i))"
    by (auto simp: nb bit_eq_iff bit_simps bit_unsigned_iff)
  also have "\<dots> \<longleftrightarrow> bit v (4*k) = bit w (4*k) \<and> bit v (4*k+1) = bit w (4*k+1) \<and>
     bit v (4*k+2) = bit w (4*k+2) \<and> bit v (4*k+3) = bit w (4*k+3)"
    by (auto simp: eval_nat_numeral All_less_Suc)
  finally show ?thesis .
qed

lemma nibble_0_iff:
  "nibble k w = 0 \<longleftrightarrow> \<not> bit w (4*k) \<and> \<not> bit w (4*k+1) \<and> \<not> bit w (4*k+2) \<and> \<not> bit w (4*k+3)"
  using nibble_eq_iff [of k w 0] by (simp add: nibble_def)

lemma all_less_16:
  "(\<forall>n<16. P n) \<longleftrightarrow> P 0 \<and> P 1 \<and> P 2 \<and> P 3 \<and> P 4 \<and> P 5 \<and> P 6 \<and> P 7 \<and> P 8 \<and> P 9 \<and>
     P 10 \<and> P 11 \<and> P 12 \<and> P 13 \<and> P 14 \<and> P (15::nat)"
  by (auto simp: eval_nat_numeral All_less_Suc)

lemma u16_eq_iff: "(v::u16) = w \<longleftrightarrow> (\<forall>n<16. bit v n = bit w n)"
  using bit_word_eqI [of v w] by auto

lemmas opcode_bits = u16_eq_iff all_less_16 nibble_0_iff nibble_eq_iff

lemma mask_FFFF: "opcode AND 0xFFFF = p \<longleftrightarrow>
    nibble 3 opcode = nibble 3 p \<and> nibble 0 opcode = nibble 0 p \<and>
    nibble 1 opcode = nibble 1 p \<and> nibble 2 opcode = nibble 2 p"
  unfolding opcode_bits by (simp add: bit_simps conj_ac numeral_2_eq_2)

lemma mask_F00F: "opcode AND 0xF00F = p \<longleftrightarrow>
    nibble 2 p = 0 \<and> nibble 1 p = 0 \<and>
    nibble 3 opcode = nibble 3 p \<and> nibble 0 opcode = nibble 0 p"
  unfolding opcode_bits by (simp add: bit_simps conj_ac numeral_2_eq_2)

lemma mask_F0FF: "opcode AND 0xF0FF = p \<longleftrightarrow>
    nibble 2 p = 0 \<and> nibble 3 opcode = nibble 3 p \<and>
    nibble 0 opcode = nibble 0 p \<and> nibble 1 opcode = nibble 1 p"
  unfolding opcode_bits by (simp add: bit_simps conj_ac numeral_2_eq_2)

lemma mask_FF00: "opcode AND 0xFF00 = p \<longleftrightarrow>
    nibble 1 p = 0 \<and> nibble 0 p = 0 \<and>
    nibble 3 opcode = nibble 3 p \<and> nibble 2 opcode = nibble 2 p"
  unfolding opcode_bits by (simp add: bit_simps conj_ac numeral_2_eq_2)

lemma mask_F000: "opcode AND 0xF000 = p \<longleftrightarrow>
    nibble 2 p = 0 \<and> nibble 1 p = 0 \<and> nibble 0 p = 0 \<and> nibble 3 opcode = nibble 3 p"
  unfolding opcode_bits by (simp add: bit_simps conj_ac numeral_2_eq_2)

lemma mask_F1FF: "opcode AND 0xF1FF = p \<longleftrightarrow>
    (\<not> bit p 9 \<and> \<not> bit p 10 \<and> \<not> bit p 11) \<and> nibble 3 opcode = nibble 3 p \<and>
    nibble 0 opcode = nibble 0 p \<and> nibble 1 opcode = nibble 1 p \<and> bit opcode 8 = bit p 8"
  unfolding opcode_bits by (simp add: bit_simps conj_ac numeral_2_eq_2)

lemma mask_F3FF: "opcode AND 0xF3FF = p \<longleftrightarrow>
    (\<not> bit p 10 \<and> \<not> bit p 11) \<and> nibble 3 opcode = nibble 3 p \<and>
    nibble 0 opcode = nibble 0 p \<and> nibble 1 opcode = nibble 1 p \<and>
    bit opcode 8 = bit p 8 \<and> bit opcode 9 = bit p 9"
  unfolding opcode_bits by (simp add: bit_simps conj_ac numeral_2_eq_2)

lemmas mask_nibbles = mask_FFFF mask_F00F mask_F0FF mask_FF00 mask_F000 mask_F1FF mask_F3FF

lemma nibble_2_bits:
  "nibble 2 opcode = 11 \<Longrightarrow> bit opcode 8 \<and> bit opcode 9"
  "nibble 2 opcode = 3 \<Longrightarrow> bit opcode 8 \<and> bit opcode 9"
  using nibble_eq_iff [of 2 opcode "0xB00"] nibble_eq_iff [of 2 opcode "0x300"] by simp_all

subsection \<open>The rows\<close>

lemmas instruction_rows = instruction_metadata_def flow_rules_def fpu_rules_def arith_rules_def
  muldiv_rules_def logic_rules_def move_rules_def KATANA_RULE_def KATANA_FLOW_def

lemmas special_rows = special_register_encoding_metadata_def system_transfers_def
  control_transfers_def bank_transfers_def KATANA_SPECIAL_def

lemma kinds_distinct: "distinct (map md_kind instruction_metadata)"
  by (simp add: instruction_rows)

lemma find_distinct:
  "distinct (map f xs) \<Longrightarrow> x \<in> set xs \<Longrightarrow> find (\<lambda>y. f y = f x) xs = Some x"
  by (induction xs) auto

lemma metadata_for_row:
  "m \<in> set instruction_metadata \<Longrightarrow> metadata_for_kind (md_kind m) = Some m"
  by (simp add: metadata_for_kind_def find_distinct kinds_distinct)

lemma metadata_for_kind_Some:
  "metadata_for_kind k = Some m \<Longrightarrow> m \<in> set instruction_metadata \<and> md_kind m = k"
  by (auto simp: metadata_for_kind_def find_Some_iff)

lemma metadata_for_rows:
  "list_all (\<lambda>m. metadata_for_kind (md_kind m) = Some m) instruction_metadata"
  by (simp add: list_all_iff metadata_for_row)

lemmas metadata_for_kind_eval [kind_facts] =
  metadata_for_rows [unfolded instruction_rows append.simps list.pred_inject
    InstructionMetadata.simps]

subsection \<open>What the self-check decides\<close>

text \<open>
  A rule is well formed when its pattern has no bit outside its mask.  On such rules the test of
  \<open>opcode_rules_overlap\<close> is exact, and the example opcode it reports is a common opcode.
\<close>

definition rule_wf :: "OpcodeRuleView \<Rightarrow> bool" where
  "rule_wf r \<longleftrightarrow> rv_pattern r AND rv_mask r = rv_pattern r"

definition rule_matches :: "OpcodeRuleView \<Rightarrow> u16 \<Rightarrow> bool" where
  "rule_matches r opcode \<longleftrightarrow> opcode AND rv_mask r = rv_pattern r"

lemma overlap_if_common:
  assumes "rule_matches a opcode" and "rule_matches b opcode"
  shows "opcode_rules_overlap a b"
  using assms unfolding rule_matches_def opcode_rules_overlap_def
  by (auto simp: bit_eq_iff bit_simps)

lemma common_if_overlap:
  assumes wf: "rule_wf a" "rule_wf b" and ov: "opcode_rules_overlap a b"
  shows "rule_matches a (rv_pattern a OR rv_pattern b) \<and>
    rule_matches b (rv_pattern a OR rv_pattern b)"
proof -
  have "bit (rv_pattern a) n \<longleftrightarrow> bit (rv_pattern a) n \<and> bit (rv_mask a) n" for n
    using arg_cong [OF wf(1) [unfolded rule_wf_def], of "\<lambda>w. bit w n"] by (auto simp: bit_simps)
  moreover have "bit (rv_pattern b) n \<longleftrightarrow> bit (rv_pattern b) n \<and> bit (rv_mask b) n" for n
    using arg_cong [OF wf(2) [unfolded rule_wf_def], of "\<lambda>w. bit w n"] by (auto simp: bit_simps)
  moreover have "bit (rv_mask a) n \<Longrightarrow> bit (rv_mask b) n \<Longrightarrow>
      bit (rv_pattern a) n = bit (rv_pattern b) n" for n
    using arg_cong [OF ov [unfolded opcode_rules_overlap_def], of "\<lambda>w. bit w n"]
    by (auto simp: bit_simps)
  ultimately show ?thesis
    unfolding rule_matches_def by (auto simp: bit_eq_iff bit_simps)
qed

lemma overlap_iff_common:
  assumes "rule_wf a" and "rule_wf b"
  shows "opcode_rules_overlap a b \<longleftrightarrow> (\<exists>opcode. rule_matches a opcode \<and> rule_matches b opcode)"
  using assms by (blast intro: overlap_if_common dest: common_if_overlap)

lemma rule_collisions_empty:
  "rule_collisions rs = [] \<longleftrightarrow> sorted_wrt (\<lambda>a b. \<not> opcode_rules_overlap a b) rs"
  by (induction rs) (auto simp: filter_empty_conv)

lemma set_rule_collisions:
  "c \<in> set (rule_collisions rs) \<longleftrightarrow>
     (\<exists>i j. i < j \<and> j < length rs \<and> opcode_rules_overlap (rs ! i) (rs ! j) \<and>
        c = \<lparr>dc_first_rule = rv_name (rs ! i), dc_second_rule = rv_name (rs ! j),
             dc_example_opcode = rv_pattern (rs ! i) OR rv_pattern (rs ! j)\<rparr>)"
    (is "_ \<longleftrightarrow> ?R rs")
proof (induction rs)
  case (Cons r rs)
  have "?R (r # rs) \<longleftrightarrow> (\<exists>j < length rs. opcode_rules_overlap r (rs ! j) \<and>
        c = \<lparr>dc_first_rule = rv_name r, dc_second_rule = rv_name (rs ! j),
             dc_example_opcode = rv_pattern r OR rv_pattern (rs ! j)\<rparr>) \<or> ?R rs"
    (is "?L \<longleftrightarrow> ?A \<or> ?B")
  proof
    assume ?L
    then obtain i j where ij: "i < j" "j < length (r # rs)"
      "opcode_rules_overlap ((r # rs) ! i) ((r # rs) ! j)"
      "c = \<lparr>dc_first_rule = rv_name ((r # rs) ! i), dc_second_rule = rv_name ((r # rs) ! j),
             dc_example_opcode = rv_pattern ((r # rs) ! i) OR rv_pattern ((r # rs) ! j)\<rparr>"
      by blast
    then obtain j' where [simp]: "j = Suc j'" by (cases j) auto
    show "?A \<or> ?B" using ij by (cases i) auto
  next
    assume "?A \<or> ?B"
    then show ?L
    proof
      assume ?A
      then obtain j where "j < length rs" "opcode_rules_overlap r (rs ! j)"
        "c = \<lparr>dc_first_rule = rv_name r, dc_second_rule = rv_name (rs ! j),
             dc_example_opcode = rv_pattern r OR rv_pattern (rs ! j)\<rparr>" by blast
      then show ?L by (intro exI [of _ 0] exI [of _ "Suc j"]) simp
    next
      assume ?B
      then obtain i j where "i < j" "j < length rs" "opcode_rules_overlap (rs ! i) (rs ! j)"
        "c = \<lparr>dc_first_rule = rv_name (rs ! i), dc_second_rule = rv_name (rs ! j),
             dc_example_opcode = rv_pattern (rs ! i) OR rv_pattern (rs ! j)\<rparr>" by blast
      then show ?L by (intro exI [of _ "Suc i"] exI [of _ "Suc j"]) simp
    qed
  qed
  with Cons show ?case by (auto simp: in_set_conv_nth image_iff)
qed simp

end
