(* ===== verification/Decoder.thy ===== *)
theory Decoder
  imports Instruction_Metadata
begin

text \<open>
  The SH-4 decoder (\<open>src/decoder/decoder.cpp\<close>).  \<open>decode\<close> is a chain of early returns; its
  members are grouped here, in source order, into functions that return \<open>Some\<close> instruction when one
  of their tests succeeds and \<open>None\<close> when control falls through to the next group.
\<close>

subsection \<open>Field extraction and texts\<close>

definition register_name :: "reg \<Rightarrow> string" where
  "register_name index = ''r'' @ to_string (int index)"

definition sign_extend_8 :: "u16 \<Rightarrow> int" where
  "sign_extend_8 v =
     (let raw = v AND 0x00FF in if raw AND 0x80 = 0 then uint raw else uint raw - 0x100)"

definition sign_extend_12 :: "u16 \<Rightarrow> int" where
  "sign_extend_12 v =
     (let raw = v AND 0x0FFF in if raw AND 0x0800 = 0 then uint raw else uint raw - 0x1000)"

definition unknown_instruction_text :: "u16 \<Rightarrow> string" where
  "unknown_instruction_text opcode = ''.word 0x'' @ hex_digits 4 (unat opcode)"

definition matches_metadata :: "u16 \<Rightarrow> InstructionKind \<Rightarrow> bool" where
  "matches_metadata opcode k =
     (case metadata_for_kind k of None \<Rightarrow> False | Some metadata \<Rightarrow> matches metadata opcode)"

text \<open>The casts \<open>(opcode >> 8u) & 0x0Fu\<close> and \<open>(opcode >> 4u) & 0x0Fu\<close>.\<close>

definition field_n :: "u16 \<Rightarrow> reg" where
  "field_n opcode = unat (drop_bit 8 opcode AND 0x0F)"

definition field_m :: "u16 \<Rightarrow> reg" where
  "field_m opcode = unat (drop_bit 4 opcode AND 0x0F)"

definition decode_memory_registers :: "DecodedInstruction \<Rightarrow> u16 \<Rightarrow> DecodedInstruction" where
  "decode_memory_registers i opcode =
     i\<lparr>d_destination_register := field_n opcode, d_source_register := field_m opcode\<rparr>"

text \<open>
  The two most frequent bodies of the chain: \<open>op rm, rn\<close> through \<open>decode_memory_registers\<close>, and
  \<open>op rn\<close>.
\<close>

definition two_registers ::
    "InstructionKind \<Rightarrow> string \<Rightarrow> DecodedInstruction \<Rightarrow> u16 \<Rightarrow> DecodedInstruction" where
  "two_registers k mnemonic i opcode =
     (let i = decode_memory_registers (i\<lparr>d_kind := k\<rparr>) opcode
      in i\<lparr>d_text := mnemonic @ '' '' @ register_name (d_source_register i) @ '', '' @
             register_name (d_destination_register i)\<rparr>)"

definition one_register ::
    "InstructionKind \<Rightarrow> string \<Rightarrow> DecodedInstruction \<Rightarrow> u16 \<Rightarrow> DecodedInstruction" where
  "one_register k mnemonic i opcode =
     (let i = i\<lparr>d_kind := k, d_destination_register := field_n opcode\<rparr>
      in i\<lparr>d_text := mnemonic @ '' '' @ register_name (d_destination_register i)\<rparr>)"

subsection \<open>Special registers\<close>

definition special_transfer ::
    "SpecialRegisterEncodingMetadata \<Rightarrow> DecodedInstruction \<Rightarrow> u16 \<Rightarrow> DecodedInstruction" where
  "special_transfer encoding i opcode =
     (let general_register = field_n opcode;
          i = i\<lparr>d_kind := sm_kind encoding, d_special_register := sm_special_register encoding,
                d_is_privileged := sm_is_privileged encoding\<rparr>;
          i = (if sm_register_is_source encoding then i\<lparr>d_source_register := general_register\<rparr>
               else i\<lparr>d_destination_register := general_register\<rparr>)
      in i\<lparr>d_text :=
           (if sm_memory_form encoding \<and> sm_register_is_source encoding then
              sm_mnemonic encoding @ '' @'' @ register_name general_register @ ''+, '' @
                sm_special_register_name encoding
            else if sm_memory_form encoding then
              sm_mnemonic encoding @ '' '' @ sm_special_register_name encoding @ '', @-'' @
                register_name general_register
            else if sm_register_is_source encoding then
              sm_mnemonic encoding @ '' '' @ register_name general_register @ '', '' @
                sm_special_register_name encoding
            else
              sm_mnemonic encoding @ '' '' @ sm_special_register_name encoding @ '', '' @
                register_name general_register)\<rparr>)"

definition decode_special_register_transfer ::
    "DecodedInstruction \<Rightarrow> u16 \<Rightarrow> DecodedInstruction option" where
  "decode_special_register_transfer i opcode =
     map_option (\<lambda>encoding. special_transfer encoding i opcode)
       (find (\<lambda>encoding. special_matches encoding opcode) special_register_encoding_metadata)"

subsection \<open>Floating point\<close>

definition fpu_kinds :: "FpuKind list" where
  "fpu_kinds = [FmovRegister, FmovLoad, FmovLoadPostIncrement, FmovLoadR0Indexed, FmovStore,
     FmovStorePreDecrement, FmovStoreR0Indexed, Fldi0, Fldi1, Flds, Fsts, Fabs, Fadd, FcmpEqual,
     FcmpGreater, Fdiv, FloatFromFpul, Fmac, Fmul, Fneg, Fsqrt, Fsrra, Fsca, Fipr, Ftrv, Fsub, Ftrc,
     FcnvDoubleToSingle, FcnvSingleToDouble, Frchg, Fschg]"

text \<open>The first \<open>switch\<close>: destination and source register of each FPU kind.\<close>

definition fpu_registers :: "FpuKind \<Rightarrow> nat \<Rightarrow> nat \<Rightarrow> reg \<times> reg" where
  "fpu_registers k n m =
     (if k \<in> {Flds, Ftrc, FcnvDoubleToSingle} then (0, n)
      else if k \<in> {Fldi0, Fldi1, Fsts, Fabs, FloatFromFpul, Fneg, Fsqrt, FcnvSingleToDouble}
        then (n, 0)
      else if k = Fsca then (n AND 0x0E, 0)
      else if k = Fipr then ((drop_bit 2 n AND 3) * 4, (n AND 3) * 4)
      else if k = Ftrv then (n AND 0x0C, 0)
      else if k \<in> {Frchg, Fschg} then (0, 0)
      else (n, m))"

definition fr :: "nat \<Rightarrow> string" where
  "fr index = ''fr'' @ to_string (int index)"

text \<open>The second \<open>switch\<close>: the text of each FPU kind.\<close>

fun fpu_text :: "FpuKind \<Rightarrow> nat \<Rightarrow> nat \<Rightarrow> string" where
  "fpu_text FmovRegister n m = ''fmov '' @ fr m @ '', '' @ fr n"
| "fpu_text FmovLoad n m = ''fmov.s @r'' @ to_string (int m) @ '', '' @ fr n"
| "fpu_text FmovLoadPostIncrement n m = ''fmov.s @r'' @ to_string (int m) @ ''+, '' @ fr n"
| "fpu_text FmovLoadR0Indexed n m = ''fmov.s @(r0,r'' @ to_string (int m) @ ''), '' @ fr n"
| "fpu_text FmovStore n m = ''fmov.s '' @ fr m @ '', @r'' @ to_string (int n)"
| "fpu_text FmovStorePreDecrement n m = ''fmov.s '' @ fr m @ '', @-r'' @ to_string (int n)"
| "fpu_text FmovStoreR0Indexed n m =
     ''fmov.s '' @ fr m @ '', @(r0,r'' @ to_string (int n) @ '')''"
| "fpu_text Fldi0 n m = ''fldi0 '' @ fr n"
| "fpu_text Fldi1 n m = ''fldi1 '' @ fr n"
| "fpu_text Flds n m = ''flds '' @ fr n @ '', fpul''"
| "fpu_text Fsts n m = ''fsts fpul, '' @ fr n"
| "fpu_text Fabs n m = ''fabs '' @ fr n"
| "fpu_text Fadd n m = ''fadd '' @ fr m @ '', '' @ fr n"
| "fpu_text FcmpEqual n m = ''fcmp/eq '' @ fr m @ '', '' @ fr n"
| "fpu_text FcmpGreater n m = ''fcmp/gt '' @ fr m @ '', '' @ fr n"
| "fpu_text Fdiv n m = ''fdiv '' @ fr m @ '', '' @ fr n"
| "fpu_text FloatFromFpul n m = ''float fpul, '' @ fr n"
| "fpu_text Fmac n m = ''fmac fr0, '' @ fr m @ '', '' @ fr n"
| "fpu_text Fmul n m = ''fmul '' @ fr m @ '', '' @ fr n"
| "fpu_text Fneg n m = ''fneg '' @ fr n"
| "fpu_text Fsqrt n m = ''fsqrt '' @ fr n"
| "fpu_text Fsrra n m = ''fsrra '' @ fr n"
| "fpu_text Fsca n m = ''fsca fpul, dr'' @ to_string (int (drop_bit 1 (n AND 0x0E)))"
| "fpu_text Fipr n m = ''fipr fv'' @ to_string (int ((n AND 3) * 4)) @ '', fv'' @
     to_string (int ((drop_bit 2 n AND 3) * 4))"
| "fpu_text Ftrv n m = ''ftrv xmtrx, fv'' @ to_string (int (n AND 0x0C))"
| "fpu_text Fsub n m = ''fsub '' @ fr m @ '', '' @ fr n"
| "fpu_text Ftrc n m = ''ftrc '' @ fr n @ '', fpul''"
| "fpu_text FcnvDoubleToSingle n m = ''fcnvds dr'' @ to_string (int (drop_bit 1 n)) @ '', fpul''"
| "fpu_text FcnvSingleToDouble n m = ''fcnvsd fpul, dr'' @ to_string (int (drop_bit 1 n))"
| "fpu_text Frchg n m = ''frchg''"
| "fpu_text Fschg n m = ''fschg''"

definition decode_fpu_instruction :: "DecodedInstruction \<Rightarrow> u16 \<Rightarrow> DecodedInstruction option" where
  "decode_fpu_instruction i opcode =
     map_option (\<lambda>k.
       let n = field_n opcode; m = field_m opcode; (d, s) = fpu_registers k n m
       in i\<lparr>d_kind := K_Fpu k, d_destination_register := d, d_source_register := s,
             d_text := fpu_text k n m\<rparr>)
       (find (\<lambda>k. matches_metadata opcode (K_Fpu k)) fpu_kinds)"

subsection \<open>The chain\<close>

text \<open>The loop over the four byte-immediate kinds.\<close>

fun decode_byte_immediate ::
    "DecodedInstruction \<Rightarrow> u16 \<Rightarrow> InstructionKind list \<Rightarrow> DecodedInstruction option" where
  "decode_byte_immediate i opcode [] = None"
| "decode_byte_immediate i opcode (k # ks) =
     (if \<not> matches_metadata opcode k then decode_byte_immediate i opcode ks
      else Some (let i = i\<lparr>d_kind := k, d_immediate := uint (opcode AND 0x00FF)\<rparr>;
             mnemonic = (if k = K_Logic TestByteImmediate then ''tst.b''
               else if k = K_Logic AndByteImmediate then ''and.b''
               else if k = K_Logic XorByteImmediate then ''xor.b'' else ''or.b'')
         in i\<lparr>d_text := mnemonic @ '' #'' @ to_string (d_immediate i) @ '', @(r0,gbr)''\<rparr>))"

text \<open>Control flow and system instructions.\<close>

definition decode_control :: "DecodedInstruction \<Rightarrow> u16 \<Rightarrow> DecodedInstruction option" where
  "decode_control i opcode =
   (if matches_metadata opcode Nop then
      Some (i\<lparr>d_kind := Nop, d_text := ''nop''\<rparr>)
    else if matches_metadata opcode (K_MulDiv ClearMac) then
      Some (i\<lparr>d_kind := (K_MulDiv ClearMac), d_text := ''clrmac''\<rparr>)
    else if matches_metadata opcode Rts then
      Some (i\<lparr>d_kind := Rts, d_control_flow := Return, d_has_delay_slot := True,
          d_text := ''rts''\<rparr>)
    else if matches_metadata opcode (K_System ReturnFromException) then
      Some (i\<lparr>d_kind := (K_System ReturnFromException), d_control_flow := ExceptionReturn,
          d_has_delay_slot := True, d_is_privileged := True,
          d_text := ''rte''\<rparr>)
    else if matches_metadata opcode (K_System Sleep) then
      Some (i\<lparr>d_kind := (K_System Sleep), d_control_flow := Halt, d_is_privileged := True,
          d_text := ''sleep''\<rparr>)
    else if matches_metadata opcode (K_System LoadTlb) then
      Some (i\<lparr>d_kind := (K_System LoadTlb), d_is_privileged := True,
          d_text := ''ldtlb''\<rparr>)
    else if matches_metadata opcode (K_System Prefetch) then
      Some (let i = i\<lparr>d_kind := (K_System Prefetch),
          d_source_register := field_n opcode\<rparr>
        in i\<lparr>d_text := ''pref @'' @ register_name (d_source_register i)\<rparr>)
    else if matches_metadata opcode (K_System Ocbi) \<or> matches_metadata opcode (K_System Ocbp) \<or>
        matches_metadata opcode (K_System Ocbwb) then
      Some (let k = (if matches_metadata opcode (K_System Ocbi) then K_System Ocbi
              else if matches_metadata opcode (K_System Ocbp) then K_System Ocbp
              else K_System Ocbwb);
            i = i\<lparr>d_kind := k, d_source_register := field_n opcode\<rparr>;
            mnemonic = (if d_kind i = K_System Ocbi then ''ocbi @''
              else if d_kind i = K_System Ocbp then ''ocbp @'' else ''ocbwb @'')
        in i\<lparr>d_text := mnemonic @ register_name (d_source_register i)\<rparr>)
    else if matches_metadata opcode (K_System MovcaLong) then
      Some (let i = i\<lparr>d_kind := (K_System MovcaLong),
          d_destination_register := field_n opcode, d_source_register := 0\<rparr>
        in i\<lparr>d_text := ''movca.l r0,@'' @ register_name (d_destination_register i)\<rparr>)
    else if matches_metadata opcode (K_Logic TestAndSetByte) then
      Some (let i = i\<lparr>d_kind := (K_Logic TestAndSetByte),
          d_source_register := field_n opcode\<rparr>
        in i\<lparr>d_text := ''tas.b @'' @ register_name (d_source_register i)\<rparr>)
    else if matches_metadata opcode (K_System TrapAlways) then
      Some (let i = i\<lparr>d_kind := (K_System TrapAlways),
          d_immediate := uint (opcode AND 0x00FF), d_control_flow := Trap\<rparr>
        in i\<lparr>d_text := ''trapa #'' @ to_string (d_immediate i)\<rparr>)
    else if matches_metadata opcode (K_Flow Bra) then
      Some (i\<lparr>d_kind := (K_Flow Bra), d_displacement := sign_extend_12 opcode * 2,
          d_control_flow := UnconditionalBranch, d_has_delay_slot := True,
          d_text := ''bra''\<rparr>)
    else if matches_metadata opcode (K_Flow Bsr) then
      Some (i\<lparr>d_kind := (K_Flow Bsr), d_displacement := sign_extend_12 opcode * 2,
          d_control_flow := Call, d_has_delay_slot := True,
          d_text := ''bsr''\<rparr>)
    else if matches_metadata opcode (K_Flow Braf) then
      Some (let i = i\<lparr>d_kind := (K_Flow Braf), d_branch_register := field_n opcode,
          d_control_flow := IndirectBranch, d_has_delay_slot := True\<rparr>
        in i\<lparr>d_text := ''braf '' @ register_name (d_branch_register i)\<rparr>)
    else if matches_metadata opcode (K_Flow Bsrf) then
      Some (let i = i\<lparr>d_kind := (K_Flow Bsrf), d_branch_register := field_n opcode,
          d_control_flow := IndirectCall, d_has_delay_slot := True\<rparr>
        in i\<lparr>d_text := ''bsrf '' @ register_name (d_branch_register i)\<rparr>)
    else if matches_metadata opcode (K_Flow Bt) then
      Some (i\<lparr>d_kind := (K_Flow Bt), d_displacement := sign_extend_8 opcode * 2,
          d_control_flow := ConditionalBranch,
          d_text := ''bt''\<rparr>)
    else if matches_metadata opcode (K_Flow Bf) then
      Some (i\<lparr>d_kind := (K_Flow Bf), d_displacement := sign_extend_8 opcode * 2,
          d_control_flow := ConditionalBranch,
          d_text := ''bf''\<rparr>)
    else if matches_metadata opcode (K_Flow BtS) then
      Some (i\<lparr>d_kind := (K_Flow BtS), d_displacement := sign_extend_8 opcode * 2,
          d_control_flow := ConditionalBranch, d_has_delay_slot := True,
          d_text := ''bt/s''\<rparr>)
    else if matches_metadata opcode (K_Flow BfS) then
      Some (i\<lparr>d_kind := (K_Flow BfS), d_displacement := sign_extend_8 opcode * 2,
          d_control_flow := ConditionalBranch, d_has_delay_slot := True,
          d_text := ''bf/s''\<rparr>)
    else if matches_metadata opcode (K_Flow Jmp) then
      Some (let i = i\<lparr>d_kind := (K_Flow Jmp), d_branch_register := field_n opcode,
          d_control_flow := IndirectBranch, d_has_delay_slot := True\<rparr>
        in i\<lparr>d_text := ''jmp @'' @ register_name (d_branch_register i)\<rparr>)
    else if matches_metadata opcode (K_Flow Jsr) then
      Some (let i = i\<lparr>d_kind := (K_Flow Jsr), d_branch_register := field_n opcode,
          d_control_flow := IndirectCall, d_has_delay_slot := True\<rparr>
        in i\<lparr>d_text := ''jsr @'' @ register_name (d_branch_register i)\<rparr>)
    else None)"

text \<open>Arithmetic.\<close>

definition decode_arith :: "DecodedInstruction \<Rightarrow> u16 \<Rightarrow> DecodedInstruction option" where
  "decode_arith i opcode =
   (if matches_metadata opcode (K_Arith SubRegister) then
      Some (two_registers (K_Arith SubRegister) ''sub'' i opcode)
    else if matches_metadata opcode (K_Arith NegateRegister) then
      Some (two_registers (K_Arith NegateRegister) ''neg'' i opcode)
    else if matches_metadata opcode (K_Arith NotRegister) then
      Some (two_registers (K_Arith NotRegister) ''not'' i opcode)
    else if matches_metadata opcode (K_Arith AddWithCarry) then
      Some (two_registers (K_Arith AddWithCarry) ''addc'' i opcode)
    else if matches_metadata opcode (K_Arith AddWithOverflow) then
      Some (two_registers (K_Arith AddWithOverflow) ''addv'' i opcode)
    else if matches_metadata opcode (K_Arith SubWithCarry) then
      Some (two_registers (K_Arith SubWithCarry) ''subc'' i opcode)
    else if matches_metadata opcode (K_Arith SubWithOverflow) then
      Some (two_registers (K_Arith SubWithOverflow) ''subv'' i opcode)
    else if matches_metadata opcode (K_Arith NegateWithCarry) then
      Some (two_registers (K_Arith NegateWithCarry) ''negc'' i opcode)
    else if matches_metadata opcode (K_Arith ExtendUnsignedByte) then
      Some (two_registers (K_Arith ExtendUnsignedByte) ''extu.b'' i opcode)
    else if matches_metadata opcode (K_Arith ExtendUnsignedWord) then
      Some (two_registers (K_Arith ExtendUnsignedWord) ''extu.w'' i opcode)
    else if matches_metadata opcode (K_Arith ExtendSignedByte) then
      Some (two_registers (K_Arith ExtendSignedByte) ''exts.b'' i opcode)
    else if matches_metadata opcode (K_Arith ExtendSignedWord) then
      Some (two_registers (K_Arith ExtendSignedWord) ''exts.w'' i opcode)
    else if matches_metadata opcode (K_Arith SwapBytes) then
      Some (two_registers (K_Arith SwapBytes) ''swap.b'' i opcode)
    else if matches_metadata opcode (K_Arith SwapWords) then
      Some (two_registers (K_Arith SwapWords) ''swap.w'' i opcode)
    else if matches_metadata opcode (K_Arith ExtractMiddle) then
      Some (two_registers (K_Arith ExtractMiddle) ''xtrct'' i opcode)
    else if matches_metadata opcode (K_Arith DecrementAndTest) then
      Some (one_register (K_Arith DecrementAndTest) ''dt'' i opcode)
    else if matches_metadata opcode (K_Arith MoveT) then
      Some (one_register (K_Arith MoveT) ''movt'' i opcode)
    else None)"

text \<open>Shifts and rotates.\<close>

definition decode_shift :: "DecodedInstruction \<Rightarrow> u16 \<Rightarrow> DecodedInstruction option" where
  "decode_shift i opcode =
   (if matches_metadata opcode (K_Shift ShiftLogicalLeftOne) then
      Some (one_register (K_Shift ShiftLogicalLeftOne) ''shll'' i opcode)
    else if matches_metadata opcode (K_Shift ShiftLogicalRightOne) then
      Some (one_register (K_Shift ShiftLogicalRightOne) ''shlr'' i opcode)
    else if matches_metadata opcode (K_Shift ShiftArithmeticLeftOne) then
      Some (one_register (K_Shift ShiftArithmeticLeftOne) ''shal'' i opcode)
    else if matches_metadata opcode (K_Shift ShiftArithmeticRightOne) then
      Some (one_register (K_Shift ShiftArithmeticRightOne) ''shar'' i opcode)
    else if matches_metadata opcode (K_Shift ShiftLogicalLeftTwo) then
      Some (one_register (K_Shift ShiftLogicalLeftTwo) ''shll2'' i opcode)
    else if matches_metadata opcode (K_Shift ShiftLogicalLeftEight) then
      Some (one_register (K_Shift ShiftLogicalLeftEight) ''shll8'' i opcode)
    else if matches_metadata opcode (K_Shift ShiftLogicalLeftSixteen) then
      Some (one_register (K_Shift ShiftLogicalLeftSixteen) ''shll16'' i opcode)
    else if matches_metadata opcode (K_Shift ShiftLogicalRightTwo) then
      Some (one_register (K_Shift ShiftLogicalRightTwo) ''shlr2'' i opcode)
    else if matches_metadata opcode (K_Shift ShiftLogicalRightEight) then
      Some (one_register (K_Shift ShiftLogicalRightEight) ''shlr8'' i opcode)
    else if matches_metadata opcode (K_Shift ShiftLogicalRightSixteen) then
      Some (one_register (K_Shift ShiftLogicalRightSixteen) ''shlr16'' i opcode)
    else if matches_metadata opcode (K_Shift RotateLeft) then
      Some (one_register (K_Shift RotateLeft) ''rotl'' i opcode)
    else if matches_metadata opcode (K_Shift RotateRight) then
      Some (one_register (K_Shift RotateRight) ''rotr'' i opcode)
    else if matches_metadata opcode (K_Shift RotateLeftThroughT) then
      Some (one_register (K_Shift RotateLeftThroughT) ''rotcl'' i opcode)
    else if matches_metadata opcode (K_Shift RotateRightThroughT) then
      Some (one_register (K_Shift RotateRightThroughT) ''rotcr'' i opcode)
    else if matches_metadata opcode (K_Shift ShiftArithmeticDynamic) then
      Some (two_registers (K_Shift ShiftArithmeticDynamic) ''shad'' i opcode)
    else if matches_metadata opcode (K_Shift ShiftLogicalDynamic) then
      Some (two_registers (K_Shift ShiftLogicalDynamic) ''shld'' i opcode)
    else None)"

text \<open>Multiplication and division steps.\<close>

definition decode_muldiv :: "DecodedInstruction \<Rightarrow> u16 \<Rightarrow> DecodedInstruction option" where
  "decode_muldiv i opcode =
   (if matches_metadata opcode (K_MulDiv DivideInitializeUnsigned) then
      Some (i\<lparr>d_kind := (K_MulDiv DivideInitializeUnsigned), d_text := ''div0u''\<rparr>)
    else if matches_metadata opcode (K_MulDiv DivideInitializeSigned) then
      Some (two_registers (K_MulDiv DivideInitializeSigned) ''div0s'' i opcode)
    else if matches_metadata opcode (K_MulDiv DivideStep) then
      Some (two_registers (K_MulDiv DivideStep) ''div1'' i opcode)
    else if matches_metadata opcode (K_MulDiv MultiplyAccumulateWord) then
      Some (let i = decode_memory_registers (i\<lparr>d_kind := (K_MulDiv
          MultiplyAccumulateWord)\<rparr>) opcode
        in i\<lparr>d_text := ''mac.w @'' @ register_name (d_source_register i) @ ''+, @'' @
          register_name (d_destination_register i) @ ''+''\<rparr>)
    else if matches_metadata opcode (K_MulDiv MultiplyAccumulateLong) then
      Some (let i = decode_memory_registers (i\<lparr>d_kind := (K_MulDiv
          MultiplyAccumulateLong)\<rparr>) opcode
        in i\<lparr>d_text := ''mac.l @'' @ register_name (d_source_register i) @ ''+, @'' @
          register_name (d_destination_register i) @ ''+''\<rparr>)
    else if matches_metadata opcode (K_MulDiv DoubleMultiplySignedLong) then
      Some (two_registers (K_MulDiv DoubleMultiplySignedLong) ''dmuls.l'' i opcode)
    else if matches_metadata opcode (K_MulDiv DoubleMultiplyUnsignedLong) then
      Some (two_registers (K_MulDiv DoubleMultiplyUnsignedLong) ''dmulu.l'' i opcode)
    else if matches_metadata opcode (K_MulDiv MultiplyLong) then
      Some (two_registers (K_MulDiv MultiplyLong) ''mul.l'' i opcode)
    else if matches_metadata opcode (K_MulDiv MultiplySignedWord) then
      Some (two_registers (K_MulDiv MultiplySignedWord) ''muls.w'' i opcode)
    else if matches_metadata opcode (K_MulDiv MultiplyUnsignedWord) then
      Some (two_registers (K_MulDiv MultiplyUnsignedWord) ''mulu.w'' i opcode)
    else None)"

text \<open>Logic, comparisons and flag instructions.\<close>

definition decode_logic :: "DecodedInstruction \<Rightarrow> u16 \<Rightarrow> DecodedInstruction option" where
  "decode_logic i opcode =
   (if matches_metadata opcode (K_Logic AndRegister) then
      Some (two_registers (K_Logic AndRegister) ''and'' i opcode)
    else if matches_metadata opcode (K_Logic XorRegister) then
      Some (two_registers (K_Logic XorRegister) ''xor'' i opcode)
    else if matches_metadata opcode (K_Logic OrRegister) then
      Some (two_registers (K_Logic OrRegister) ''or'' i opcode)
    else if matches_metadata opcode (K_Logic AndImmediate) then
      Some (let i = i\<lparr>d_kind := (K_Logic AndImmediate), d_destination_register := 0,
          d_immediate := uint (opcode AND 0x00FF)\<rparr>
        in i\<lparr>d_text := ''and #'' @ to_string (d_immediate i) @ '', r0''\<rparr>)
    else if matches_metadata opcode (K_Logic XorImmediate) then
      Some (let i = i\<lparr>d_kind := (K_Logic XorImmediate), d_destination_register := 0,
          d_immediate := uint (opcode AND 0x00FF)\<rparr>
        in i\<lparr>d_text := ''xor #'' @ to_string (d_immediate i) @ '', r0''\<rparr>)
    else if matches_metadata opcode (K_Logic OrImmediate) then
      Some (let i = i\<lparr>d_kind := (K_Logic OrImmediate), d_destination_register := 0,
          d_immediate := uint (opcode AND 0x00FF)\<rparr>
        in i\<lparr>d_text := ''or #'' @ to_string (d_immediate i) @ '', r0''\<rparr>)
    else if matches_metadata opcode (K_Logic ClearS) then
      Some (i\<lparr>d_kind := (K_Logic ClearS), d_text := ''clrs''\<rparr>)
    else if matches_metadata opcode (K_Logic SetS) then
      Some (i\<lparr>d_kind := (K_Logic SetS), d_text := ''sets''\<rparr>)
    else if matches_metadata opcode (K_Logic ClearT) then
      Some (i\<lparr>d_kind := (K_Logic ClearT), d_text := ''clrt''\<rparr>)
    else if matches_metadata opcode (K_Logic SetT) then
      Some (i\<lparr>d_kind := (K_Logic SetT), d_text := ''sett''\<rparr>)
    else if matches_metadata opcode (K_Logic CompareEqualImmediate) then
      Some (let i = i\<lparr>d_kind := (K_Logic CompareEqualImmediate),
          d_destination_register := 0, d_immediate := sign_extend_8 opcode\<rparr>
        in i\<lparr>d_text := ''cmp/eq #'' @ to_string (d_immediate i) @ '', r0''\<rparr>)
    else if matches_metadata opcode (K_Logic CompareEqualRegister) then
      Some (two_registers (K_Logic CompareEqualRegister) ''cmp/eq'' i opcode)
    else if matches_metadata opcode (K_Logic CompareHigherOrSame) then
      Some (two_registers (K_Logic CompareHigherOrSame) ''cmp/hs'' i opcode)
    else if matches_metadata opcode (K_Logic CompareGreaterOrEqual) then
      Some (two_registers (K_Logic CompareGreaterOrEqual) ''cmp/ge'' i opcode)
    else if matches_metadata opcode (K_Logic CompareHigher) then
      Some (two_registers (K_Logic CompareHigher) ''cmp/hi'' i opcode)
    else if matches_metadata opcode (K_Logic CompareGreaterThan) then
      Some (two_registers (K_Logic CompareGreaterThan) ''cmp/gt'' i opcode)
    else if matches_metadata opcode (K_Logic ComparePositiveOrZero) then
      Some (one_register (K_Logic ComparePositiveOrZero) ''cmp/pz'' i opcode)
    else if matches_metadata opcode (K_Logic ComparePositive) then
      Some (one_register (K_Logic ComparePositive) ''cmp/pl'' i opcode)
    else if matches_metadata opcode (K_Logic CompareString) then
      Some (two_registers (K_Logic CompareString) ''cmp/str'' i opcode)
    else if matches_metadata opcode (K_Logic TestImmediate) then
      Some (let i = i\<lparr>d_kind := (K_Logic TestImmediate), d_destination_register := 0,
          d_immediate := uint (opcode AND 0x00FF)\<rparr>
        in i\<lparr>d_text := ''tst #'' @ to_string (d_immediate i) @ '', r0''\<rparr>)
    else if matches_metadata opcode (K_Logic TestRegister) then
      Some (two_registers (K_Logic TestRegister) ''tst'' i opcode)
    else decode_byte_immediate i opcode
       [K_Logic TestByteImmediate, K_Logic AndByteImmediate, K_Logic XorByteImmediate,
        K_Logic OrByteImmediate])"

text \<open>Memory moves: pre-decrement, post-increment, displacement.\<close>

definition decode_move_displacement :: "DecodedInstruction \<Rightarrow> u16 \<Rightarrow> DecodedInstruction option" where
  "decode_move_displacement i opcode =
   (if matches_metadata opcode (K_Move MovByteStorePreDecrement) then
      Some (let i = decode_memory_registers (i\<lparr>d_kind := (K_Move
          MovByteStorePreDecrement)\<rparr>) opcode
        in i\<lparr>d_text := ''mov.b '' @ register_name (d_source_register i) @ '', @-'' @
          register_name (d_destination_register i)\<rparr>)
    else if matches_metadata opcode (K_Move MovWordStorePreDecrement) then
      Some (let i = decode_memory_registers (i\<lparr>d_kind := (K_Move
          MovWordStorePreDecrement)\<rparr>) opcode
        in i\<lparr>d_text := ''mov.w '' @ register_name (d_source_register i) @ '', @-'' @
          register_name (d_destination_register i)\<rparr>)
    else if matches_metadata opcode (K_Move MovLongStorePreDecrement) then
      Some (let i = decode_memory_registers (i\<lparr>d_kind := (K_Move
          MovLongStorePreDecrement)\<rparr>) opcode
        in i\<lparr>d_text := ''mov.l '' @ register_name (d_source_register i) @ '', @-'' @
          register_name (d_destination_register i)\<rparr>)
    else if matches_metadata opcode (K_Move MovByteLoadPostIncrement) then
      Some (let i = decode_memory_registers (i\<lparr>d_kind := (K_Move
          MovByteLoadPostIncrement)\<rparr>) opcode
        in i\<lparr>d_text := ''mov.b @'' @ register_name (d_source_register i) @ ''+, '' @
          register_name (d_destination_register i)\<rparr>)
    else if matches_metadata opcode (K_Move MovWordLoadPostIncrement) then
      Some (let i = decode_memory_registers (i\<lparr>d_kind := (K_Move
          MovWordLoadPostIncrement)\<rparr>) opcode
        in i\<lparr>d_text := ''mov.w @'' @ register_name (d_source_register i) @ ''+, '' @
          register_name (d_destination_register i)\<rparr>)
    else if matches_metadata opcode (K_Move MovLongLoadPostIncrement) then
      Some (let i = decode_memory_registers (i\<lparr>d_kind := (K_Move
          MovLongLoadPostIncrement)\<rparr>) opcode
        in i\<lparr>d_text := ''mov.l @'' @ register_name (d_source_register i) @ ''+, '' @
          register_name (d_destination_register i)\<rparr>)
    else if matches_metadata opcode (K_Move MovByteStoreDisplacement) then
      Some (let i = i\<lparr>d_kind := (K_Move MovByteStoreDisplacement), d_source_register := 0,
          d_destination_register := field_m opcode,
          d_displacement := uint (opcode AND 0x000F)\<rparr>
        in i\<lparr>d_text := ''mov.b r0, @('' @ to_string (d_displacement i) @ '', '' @
          register_name (d_destination_register i) @ '')''\<rparr>)
    else if matches_metadata opcode (K_Move MovWordStoreDisplacement) then
      Some (let i = i\<lparr>d_kind := (K_Move MovWordStoreDisplacement), d_source_register := 0,
          d_destination_register := field_m opcode,
          d_displacement := uint (opcode AND 0x000F) * 2\<rparr>
        in i\<lparr>d_text := ''mov.w r0, @('' @ to_string (d_displacement i) @ '', '' @
          register_name (d_destination_register i) @ '')''\<rparr>)
    else if matches_metadata opcode (K_Move MovLongStoreDisplacement) then
      Some (let i = (decode_memory_registers (i\<lparr>d_kind := (K_Move
          MovLongStoreDisplacement)\<rparr>) opcode)\<lparr>d_displacement := uint (opcode AND
          0x000F) * 4\<rparr>
        in i\<lparr>d_text := ''mov.l '' @ register_name (d_source_register i) @ '', @('' @
          to_string (d_displacement i) @ '', '' @ register_name (d_destination_register i) @
          '')''\<rparr>)
    else if matches_metadata opcode (K_Move MovByteLoadDisplacement) then
      Some (let i = i\<lparr>d_kind := (K_Move MovByteLoadDisplacement),
          d_destination_register := 0, d_source_register := field_m opcode,
          d_displacement := uint (opcode AND 0x000F)\<rparr>
        in i\<lparr>d_text := ''mov.b @('' @ to_string (d_displacement i) @ '', '' @
          register_name (d_source_register i) @ ''), r0''\<rparr>)
    else if matches_metadata opcode (K_Move MovWordLoadDisplacement) then
      Some (let i = i\<lparr>d_kind := (K_Move MovWordLoadDisplacement),
          d_destination_register := 0, d_source_register := field_m opcode,
          d_displacement := uint (opcode AND 0x000F) * 2\<rparr>
        in i\<lparr>d_text := ''mov.w @('' @ to_string (d_displacement i) @ '', '' @
          register_name (d_source_register i) @ ''), r0''\<rparr>)
    else if matches_metadata opcode (K_Move MovLongLoadDisplacement) then
      Some (let i = (decode_memory_registers (i\<lparr>d_kind := (K_Move
          MovLongLoadDisplacement)\<rparr>) opcode)\<lparr>d_displacement := uint (opcode AND
          0x000F) * 4\<rparr>
        in i\<lparr>d_text := ''mov.l @('' @ to_string (d_displacement i) @ '', '' @
          register_name (d_source_register i) @ ''), '' @
          register_name (d_destination_register i)\<rparr>)
    else None)"

text \<open>Memory moves: R0-indexed, GBR- and PC-relative.\<close>

definition decode_move_indexed :: "DecodedInstruction \<Rightarrow> u16 \<Rightarrow> DecodedInstruction option" where
  "decode_move_indexed i opcode =
   (if matches_metadata opcode (K_Move MovByteStoreR0Indexed) then
      Some (let i = decode_memory_registers (i\<lparr>d_kind := (K_Move
          MovByteStoreR0Indexed)\<rparr>) opcode
        in i\<lparr>d_text := ''mov.b '' @ register_name (d_source_register i) @ '', @(r0, '' @
          register_name (d_destination_register i) @ '')''\<rparr>)
    else if matches_metadata opcode (K_Move MovWordStoreR0Indexed) then
      Some (let i = decode_memory_registers (i\<lparr>d_kind := (K_Move
          MovWordStoreR0Indexed)\<rparr>) opcode
        in i\<lparr>d_text := ''mov.w '' @ register_name (d_source_register i) @ '', @(r0, '' @
          register_name (d_destination_register i) @ '')''\<rparr>)
    else if matches_metadata opcode (K_Move MovLongStoreR0Indexed) then
      Some (let i = decode_memory_registers (i\<lparr>d_kind := (K_Move
          MovLongStoreR0Indexed)\<rparr>) opcode
        in i\<lparr>d_text := ''mov.l '' @ register_name (d_source_register i) @ '', @(r0, '' @
          register_name (d_destination_register i) @ '')''\<rparr>)
    else if matches_metadata opcode (K_Move MovByteLoadR0Indexed) then
      Some (let i = decode_memory_registers (i\<lparr>d_kind := (K_Move
          MovByteLoadR0Indexed)\<rparr>) opcode
        in i\<lparr>d_text := ''mov.b @(r0, '' @ register_name (d_source_register i) @ ''), '' @
          register_name (d_destination_register i)\<rparr>)
    else if matches_metadata opcode (K_Move MovWordLoadR0Indexed) then
      Some (let i = decode_memory_registers (i\<lparr>d_kind := (K_Move
          MovWordLoadR0Indexed)\<rparr>) opcode
        in i\<lparr>d_text := ''mov.w @(r0, '' @ register_name (d_source_register i) @ ''), '' @
          register_name (d_destination_register i)\<rparr>)
    else if matches_metadata opcode (K_Move MovLongLoadR0Indexed) then
      Some (let i = decode_memory_registers (i\<lparr>d_kind := (K_Move
          MovLongLoadR0Indexed)\<rparr>) opcode
        in i\<lparr>d_text := ''mov.l @(r0, '' @ register_name (d_source_register i) @ ''), '' @
          register_name (d_destination_register i)\<rparr>)
    else if matches_metadata opcode (K_Move MovByteStoreGbrDisplacement) then
      Some (let i = i\<lparr>d_kind := (K_Move MovByteStoreGbrDisplacement),
          d_source_register := 0, d_displacement := uint (opcode AND 0x00FF)\<rparr>
        in i\<lparr>d_text := ''mov.b r0, @('' @ to_string (d_displacement i) @
          '', gbr)''\<rparr>)
    else if matches_metadata opcode (K_Move MovWordStoreGbrDisplacement) then
      Some (let i = i\<lparr>d_kind := (K_Move MovWordStoreGbrDisplacement),
          d_source_register := 0, d_displacement := uint (opcode AND 0x00FF) * 2\<rparr>
        in i\<lparr>d_text := ''mov.w r0, @('' @ to_string (d_displacement i) @
          '', gbr)''\<rparr>)
    else if matches_metadata opcode (K_Move MovLongStoreGbrDisplacement) then
      Some (let i = i\<lparr>d_kind := (K_Move MovLongStoreGbrDisplacement),
          d_source_register := 0, d_displacement := uint (opcode AND 0x00FF) * 4\<rparr>
        in i\<lparr>d_text := ''mov.l r0, @('' @ to_string (d_displacement i) @
          '', gbr)''\<rparr>)
    else if matches_metadata opcode (K_Move MovByteLoadGbrDisplacement) then
      Some (let i = i\<lparr>d_kind := (K_Move MovByteLoadGbrDisplacement),
          d_destination_register := 0, d_displacement := uint (opcode AND 0x00FF)\<rparr>
        in i\<lparr>d_text := ''mov.b @('' @ to_string (d_displacement i) @
          '', gbr), r0''\<rparr>)
    else if matches_metadata opcode (K_Move MovWordLoadGbrDisplacement) then
      Some (let i = i\<lparr>d_kind := (K_Move MovWordLoadGbrDisplacement),
          d_destination_register := 0, d_displacement := uint (opcode AND 0x00FF) * 2\<rparr>
        in i\<lparr>d_text := ''mov.w @('' @ to_string (d_displacement i) @
          '', gbr), r0''\<rparr>)
    else if matches_metadata opcode (K_Move MovLongLoadGbrDisplacement) then
      Some (let i = i\<lparr>d_kind := (K_Move MovLongLoadGbrDisplacement),
          d_destination_register := 0, d_displacement := uint (opcode AND 0x00FF) * 4\<rparr>
        in i\<lparr>d_text := ''mov.l @('' @ to_string (d_displacement i) @
          '', gbr), r0''\<rparr>)
    else if matches_metadata opcode (K_Move MovWordLoadPcRelative) then
      Some (let i = i\<lparr>d_kind := (K_Move MovWordLoadPcRelative),
          d_destination_register := field_n opcode,
          d_displacement := uint (opcode AND 0x00FF) * 2\<rparr>
        in i\<lparr>d_text := ''mov.w @('' @ to_string (d_displacement i) @ '', pc), '' @
          register_name (d_destination_register i)\<rparr>)
    else if matches_metadata opcode (K_Move MovLongLoadPcRelative) then
      Some (let i = i\<lparr>d_kind := (K_Move MovLongLoadPcRelative),
          d_destination_register := field_n opcode,
          d_displacement := uint (opcode AND 0x00FF) * 4\<rparr>
        in i\<lparr>d_text := ''mov.l @('' @ to_string (d_displacement i) @ '', pc), '' @
          register_name (d_destination_register i)\<rparr>)
    else if matches_metadata opcode (K_Move MoveAddressPcRelative) then
      Some (let i = i\<lparr>d_kind := (K_Move MoveAddressPcRelative),
          d_destination_register := 0, d_displacement := uint (opcode AND 0x00FF) * 4\<rparr>
        in i\<lparr>d_text := ''mova @('' @ to_string (d_displacement i) @ '', pc), r0''\<rparr>)
    else None)"

text \<open>Plain memory moves, immediates and register moves.\<close>

definition decode_move_plain :: "DecodedInstruction \<Rightarrow> u16 \<Rightarrow> DecodedInstruction option" where
  "decode_move_plain i opcode =
   (if matches_metadata opcode (K_Move MovByteStore) then
      Some (let i = decode_memory_registers (i\<lparr>d_kind := (K_Move MovByteStore)\<rparr>)
          opcode
        in i\<lparr>d_text := ''mov.b '' @ register_name (d_source_register i) @ '', @'' @
          register_name (d_destination_register i)\<rparr>)
    else if matches_metadata opcode (K_Move MovWordStore) then
      Some (let i = decode_memory_registers (i\<lparr>d_kind := (K_Move MovWordStore)\<rparr>)
          opcode
        in i\<lparr>d_text := ''mov.w '' @ register_name (d_source_register i) @ '', @'' @
          register_name (d_destination_register i)\<rparr>)
    else if matches_metadata opcode (K_Move MovLongStore) then
      Some (let i = decode_memory_registers (i\<lparr>d_kind := (K_Move MovLongStore)\<rparr>)
          opcode
        in i\<lparr>d_text := ''mov.l '' @ register_name (d_source_register i) @ '', @'' @
          register_name (d_destination_register i)\<rparr>)
    else if matches_metadata opcode (K_Move MovByteLoad) then
      Some (let i = decode_memory_registers (i\<lparr>d_kind := (K_Move MovByteLoad)\<rparr>)
          opcode
        in i\<lparr>d_text := ''mov.b @'' @ register_name (d_source_register i) @ '', '' @
          register_name (d_destination_register i)\<rparr>)
    else if matches_metadata opcode (K_Move MovWordLoad) then
      Some (let i = decode_memory_registers (i\<lparr>d_kind := (K_Move MovWordLoad)\<rparr>)
          opcode
        in i\<lparr>d_text := ''mov.w @'' @ register_name (d_source_register i) @ '', '' @
          register_name (d_destination_register i)\<rparr>)
    else if matches_metadata opcode (K_Move MovLongLoad) then
      Some (let i = decode_memory_registers (i\<lparr>d_kind := (K_Move MovLongLoad)\<rparr>)
          opcode
        in i\<lparr>d_text := ''mov.l @'' @ register_name (d_source_register i) @ '', '' @
          register_name (d_destination_register i)\<rparr>)
    else if matches_metadata opcode (K_Arith MovImmediate) then
      Some (let i = i\<lparr>d_kind := (K_Arith MovImmediate),
          d_destination_register := field_n opcode, d_immediate := sign_extend_8 opcode\<rparr>
        in i\<lparr>d_text := ''mov #'' @ to_string (d_immediate i) @ '', '' @
          register_name (d_destination_register i)\<rparr>)
    else if matches_metadata opcode (K_Arith AddImmediate) then
      Some (let i = i\<lparr>d_kind := (K_Arith AddImmediate),
          d_destination_register := field_n opcode, d_immediate := sign_extend_8 opcode\<rparr>
        in i\<lparr>d_text := ''add #'' @ to_string (d_immediate i) @ '', '' @
          register_name (d_destination_register i)\<rparr>)
    else if matches_metadata opcode (K_Arith MovRegister) then
      Some (two_registers (K_Arith MovRegister) ''mov'' i opcode)
    else if matches_metadata opcode (K_Arith AddRegister) then
      Some (two_registers (K_Arith AddRegister) ''add'' i opcode)
    else None)"

text \<open>The whole chain: the first group that recognises the opcode decides.\<close>

fun first_match ::
    "(DecodedInstruction \<Rightarrow> u16 \<Rightarrow> DecodedInstruction option) list \<Rightarrow> DecodedInstruction \<Rightarrow> u16 \<Rightarrow>
     DecodedInstruction option" where
  "first_match [] i opcode = None"
| "first_match (f # fs) i opcode =
     (case f i opcode of Some j \<Rightarrow> Some j | None \<Rightarrow> first_match fs i opcode)"

definition decode_groups ::
    "(DecodedInstruction \<Rightarrow> u16 \<Rightarrow> DecodedInstruction option) list" where
  "decode_groups = [decode_special_register_transfer, decode_fpu_instruction, decode_control,
     decode_arith, decode_shift, decode_muldiv, decode_logic, decode_move_displacement,
     decode_move_indexed, decode_move_plain]"

definition decode :: "u16 \<Rightarrow> DecodedInstruction" where
  "decode opcode =
     (case first_match decode_groups (fresh_instruction opcode) opcode of
        Some i \<Rightarrow> i
      | None \<Rightarrow> (fresh_instruction opcode)\<lparr>d_text := unknown_instruction_text opcode\<rparr>)"

definition calculate_direct_branch_target :: "DecodedInstruction \<Rightarrow> u32 \<Rightarrow> u32 option" where
  "calculate_direct_branch_target i instruction_address =
     (if d_kind i \<in> {K_Flow Bra, K_Flow Bsr, K_Flow Bt, K_Flow Bf, K_Flow BtS, K_Flow BfS}
      then let expanded_target = uint instruction_address + 4 + d_displacement i
           in Some (ucast ((word_of_int expanded_target :: u64) AND 0xFFFFFFFF))
      else None)"

subsection \<open>Evaluating the tests of the chain\<close>

lemma matches_metadata_row:
  "m \<in> set instruction_metadata \<Longrightarrow> matches_metadata opcode (md_kind m) = matches m opcode"
  by (simp add: metadata_for_row matches_metadata_def)

lemma matches_metadata_rows:
  "list_all (\<lambda>m. \<forall>opcode. matches_metadata opcode (md_kind m) = matches m opcode)
     instruction_metadata"
  by (simp add: list_all_iff matches_metadata_row)

lemmas matches_metadata_eval =
  matches_metadata_rows [unfolded instruction_rows append.simps list.pred_inject
    InstructionMetadata.simps matches_def mask_nibbles nibble_numeral, simplified]

lemma special_matches_KATANA:
  "special_matches (KATANA_SPECIAL k nm p r rn a b c) opcode \<longleftrightarrow>
     nibble 2 p = 0 \<and> nibble 3 opcode = nibble 3 p \<and> nibble 0 opcode = nibble 0 p \<and>
     nibble 1 opcode = nibble 1 p"
  by (simp add: special_matches_def KATANA_SPECIAL_def mask_F0FF)

lemma decode_special_None:
  "decode_special_register_transfer i opcode = None \<longleftrightarrow>
     list_all (\<lambda>e. \<not> special_matches e opcode) special_register_encoding_metadata"
  by (auto simp: decode_special_register_transfer_def find_None_iff list_all_iff)

lemmas decode_special_None_eval = decode_special_None
  [unfolded special_register_encoding_metadata_def system_transfers_def control_transfers_def
    bank_transfers_def append.simps list.pred_inject special_matches_KATANA nibble_numeral,
    simplified]

lemma decode_fpu_reject: "nibble 3 opcode \<noteq> 15 \<Longrightarrow> decode_fpu_instruction i opcode = None"
proof -
  assume "nibble 3 opcode \<noteq> 15"
  then have "find (\<lambda>k. matches_metadata opcode (K_Fpu k)) fpu_kinds = None"
    by (simp add: find_None_iff fpu_kinds_def matches_metadata_eval)
  then show ?thesis by (simp add: decode_fpu_instruction_def)
qed

lemma decode_after_fpu:
  "decode_special_register_transfer (fresh_instruction opcode) opcode = None \<Longrightarrow>
   decode_fpu_instruction (fresh_instruction opcode) opcode = None \<Longrightarrow>
   decode opcode = (case first_match (drop 2 decode_groups) (fresh_instruction opcode) opcode of
        Some i \<Rightarrow> i
      | None \<Rightarrow> (fresh_instruction opcode)\<lparr>d_text := unknown_instruction_text opcode\<rparr>)"
  by (simp add: decode_def decode_groups_def)

lemma decode_fpu_Some:
  "decode_special_register_transfer (fresh_instruction opcode) opcode = None \<Longrightarrow>
   find (\<lambda>k. matches_metadata opcode (K_Fpu k)) fpu_kinds = Some k \<Longrightarrow>
   decode opcode = (fresh_instruction opcode)\<lparr>d_kind := K_Fpu k,
     d_destination_register := fst (fpu_registers k (field_n opcode) (field_m opcode)),
     d_source_register := snd (fpu_registers k (field_n opcode) (field_m opcode)),
     d_text := fpu_text k (field_n opcode) (field_m opcode)\<rparr>"
  by (simp add: decode_def decode_groups_def decode_fpu_instruction_def Let_def case_prod_unfold)

lemmas chain_simps = decode_groups_def decode_control_def decode_arith_def decode_shift_def
  decode_muldiv_def decode_logic_def decode_move_displacement_def decode_move_indexed_def
  decode_move_plain_def

lemmas body_simps = two_registers_def one_register_def decode_memory_registers_def Let_def

subsection \<open>Rows decode to themselves\<close>

text \<open>
  \<open>decodes_as m\<close>: every opcode the row matches is decoded to the row's kind, with the control flow,
  delay slot and privilege the row states.
\<close>

definition decodes_as :: "InstructionMetadata \<Rightarrow> u16 \<Rightarrow> bool" where
  "decodes_as m opcode \<longleftrightarrow>
     d_kind (decode opcode) = md_kind m \<and>
     d_control_flow (decode opcode) = md_control_flow m \<and>
     d_has_delay_slot (decode opcode) = md_has_delay_slot m \<and>
     d_is_privileged (decode opcode) = md_is_privileged m \<and>
     d_special_register (decode opcode) = NoneRegister \<and> d_opcode (decode opcode) = opcode \<and>
     (md_mask m = 0xF00F \<longrightarrow> d_destination_register (decode opcode) = field_n opcode \<and>
        d_source_register (decode opcode) = field_m opcode)"

definition row_decodes :: "InstructionMetadata \<Rightarrow> bool" where
  "row_decodes m \<longleftrightarrow> (\<forall>opcode. matches m opcode \<longrightarrow> decodes_as m opcode)"

lemmas row_simps = list.pred_inject KATANA_RULE_def KATANA_FLOW_def InstructionMetadata.simps
  row_decodes_def decodes_as_def matches_def mask_nibbles nibble_numeral

lemmas chain_eval = decode_fpu_reject decode_special_None_eval decode_after_fpu chain_simps
  matches_metadata_eval body_simps fresh_instruction_def

lemma flow_rows_decode: "list_all row_decodes flow_rules"
  by (simp only: flow_rules_def row_simps) (simp add: chain_eval)

lemma arith_rows_decode: "list_all row_decodes arith_rules"
  by (simp only: arith_rules_def row_simps) (simp add: chain_eval)

lemma muldiv_rows_decode: "list_all row_decodes muldiv_rules"
  by (simp only: muldiv_rules_def row_simps) (simp add: chain_eval)

lemma logic_rows_decode: "list_all row_decodes logic_rules"
  by (simp only: logic_rules_def row_simps) (simp add: chain_eval)

lemma move_rows_decode: "list_all row_decodes move_rules"
  by (simp only: move_rules_def row_simps) (simp add: chain_eval)

lemma fpu_rows_decode: "list_all row_decodes fpu_rules"
  by (simp only: fpu_rules_def row_simps)
    (simp add: decode_fpu_Some decode_special_None_eval fpu_kinds_def matches_metadata_eval
      fpu_registers_def fresh_instruction_def nibble_2_bits)

lemma row_decodes:
  assumes "m \<in> set instruction_metadata" and "matches m opcode"
  shows "decodes_as m opcode"
proof -
  have "list_all row_decodes instruction_metadata"
    by (simp only: instruction_metadata_def list_all_append flow_rows_decode fpu_rows_decode
        arith_rows_decode muldiv_rows_decode logic_rows_decode move_rows_decode simp_thms)
  with assms show ?thesis by (auto simp: list_all_iff row_decodes_def)
qed

text \<open>The same for the rows of the special-register table, which are tested first.\<close>

lemma find_unique:
  assumes "x \<in> set xs" and "P x" and "\<And>y. y \<in> set xs \<Longrightarrow> P y \<Longrightarrow> y = x"
  shows "find P xs = Some x"
proof (cases "find P xs")
  case None
  with assms(1,2) show ?thesis by (auto simp: find_None_iff)
next
  case (Some y)
  then have "y \<in> set xs" "P y" by (auto simp: find_Some_iff)
  with assms(3) Some show ?thesis by simp
qed

lemma special_patterns_distinct: "distinct (map sm_pattern special_register_encoding_metadata)"
  by (simp add: special_rows)

lemma special_masks: "e \<in> set special_register_encoding_metadata \<Longrightarrow> sm_mask e = 0xF0FF"
proof -
  have "list_all (\<lambda>e. sm_mask e = 0xF0FF) special_register_encoding_metadata"
    by (simp add: special_rows)
  then show "e \<in> set special_register_encoding_metadata \<Longrightarrow> sm_mask e = 0xF0FF"
    by (simp add: list_all_iff)
qed

lemma special_row_decodes:
  assumes "e \<in> set special_register_encoding_metadata" and "special_matches e opcode"
  shows "decode opcode = special_transfer e (fresh_instruction opcode) opcode"
proof -
  have "find (\<lambda>e. special_matches e opcode) special_register_encoding_metadata = Some e"
  proof (rule find_unique)
    fix e' assume e': "e' \<in> set special_register_encoding_metadata" "special_matches e' opcode"
    with assms have "sm_pattern e' = sm_pattern e"
      by (simp add: special_matches_def special_masks)
    with e' assms(1) show "e' = e"
      using special_patterns_distinct by (auto simp: distinct_map dest: inj_onD)
  qed (use assms in auto)
  then show ?thesis
    by (simp add: decode_def decode_groups_def decode_special_register_transfer_def)
qed

subsection \<open>Known opcodes are those of the tables\<close>

lemma no_row_no_match:
  assumes "\<forall>m\<in>set instruction_metadata. \<not> matches m opcode"
  shows "matches_metadata opcode k = False"
  using assms by (auto simp: matches_metadata_def split: option.splits dest: metadata_for_kind_Some)

lemma decode_unknown:
  assumes "\<forall>m\<in>set instruction_metadata. \<not> matches m opcode"
    and "\<forall>e\<in>set special_register_encoding_metadata. \<not> special_matches e opcode"
  shows "decode opcode = (fresh_instruction opcode)\<lparr>d_text := unknown_instruction_text opcode\<rparr>"
proof -
  have "decode_special_register_transfer (fresh_instruction opcode) opcode = None"
    using assms(2) by (simp add: decode_special_None list_all_iff)
  moreover have "decode_fpu_instruction (fresh_instruction opcode) opcode = None"
    by (simp add: decode_fpu_instruction_def no_row_no_match [OF assms(1)] find_None_iff)
  ultimately show ?thesis
    by (simp add: decode_after_fpu chain_simps no_row_no_match [OF assms(1)])
qed

lemma row_kind_known: "m \<in> set instruction_metadata \<Longrightarrow> md_kind m \<noteq> Unknown"
proof -
  have "list_all (\<lambda>m. md_kind m \<noteq> Unknown) instruction_metadata"
    by (simp add: instruction_rows)
  then show "m \<in> set instruction_metadata \<Longrightarrow> md_kind m \<noteq> Unknown"
    by (simp add: list_all_iff)
qed

lemma special_row_kind:
  assumes "e \<in> set special_register_encoding_metadata"
  shows "sm_kind e \<noteq> Unknown" and "sm_special_register e \<noteq> NoneRegister"
proof -
  have "list_all (\<lambda>e. sm_kind e \<noteq> Unknown \<and> sm_special_register e \<noteq> NoneRegister)
      special_register_encoding_metadata"
    by (simp add: special_rows)
  then show "sm_kind e \<noteq> Unknown" and "sm_special_register e \<noteq> NoneRegister"
    using assms by (auto simp: list_all_iff)
qed

lemma special_transfer_simps [simp]:
  "d_kind (special_transfer e i opcode) = sm_kind e"
  "d_special_register (special_transfer e i opcode) = sm_special_register e"
  "d_is_privileged (special_transfer e i opcode) = sm_is_privileged e"
  "d_control_flow (special_transfer e i opcode) = d_control_flow i"
  "d_has_delay_slot (special_transfer e i opcode) = d_has_delay_slot i"
  "d_immediate (special_transfer e i opcode) = d_immediate i"
  "d_displacement (special_transfer e i opcode) = d_displacement i"
  "d_branch_register (special_transfer e i opcode) = d_branch_register i"
  "d_opcode (special_transfer e i opcode) = d_opcode i"
  by (simp_all add: special_transfer_def Let_def)

lemma decode_known_iff:
  "is_known (decode opcode) \<longleftrightarrow>
     (\<exists>m\<in>set instruction_metadata. matches m opcode) \<or>
     (\<exists>e\<in>set special_register_encoding_metadata. special_matches e opcode)"
proof (cases "(\<exists>m\<in>set instruction_metadata. matches m opcode) \<or>
     (\<exists>e\<in>set special_register_encoding_metadata. special_matches e opcode)")
  case True
  then have "is_known (decode opcode)"
  proof
    assume "\<exists>m\<in>set instruction_metadata. matches m opcode"
    then show ?thesis
      using row_decodes row_kind_known by (auto simp: is_known_def decodes_as_def)
  next
    assume "\<exists>e\<in>set special_register_encoding_metadata. special_matches e opcode"
    then show ?thesis
      using special_row_decodes special_row_kind(1) by (auto simp: is_known_def)
  qed
  with True show ?thesis by simp
next
  case False
  then have "decode opcode = (fresh_instruction opcode)\<lparr>d_text := unknown_instruction_text opcode\<rparr>"
    by (intro decode_unknown) auto
  with False show ?thesis by (simp add: is_known_def fresh_instruction_def)
qed

subsection \<open>The tables have no collision\<close>

lemma decoder_rules_wf: "r \<in> set decoder_rules \<Longrightarrow> rule_wf r"
proof -
  have "list_all rule_wf decoder_rules"
    by (simp add: rule_wf_def decoder_rules_def instruction_rows special_rows)
  then show "r \<in> set decoder_rules \<Longrightarrow> rule_wf r" by (simp add: list_all_iff)
qed

definition row_rule :: "InstructionMetadata \<Rightarrow> OpcodeRuleView" where
  "row_rule m = \<lparr>rv_name = md_name m, rv_mask = md_mask m, rv_pattern = md_pattern m\<rparr>"

definition special_rule :: "SpecialRegisterEncodingMetadata \<Rightarrow> OpcodeRuleView" where
  "special_rule e = \<lparr>rv_name = sm_mnemonic e @ '' '' @ sm_special_register_name e,
     rv_mask = sm_mask e, rv_pattern = sm_pattern e\<rparr>"

lemma decoder_rules_eq:
  "decoder_rules = map row_rule instruction_metadata @
     map special_rule special_register_encoding_metadata"
  by (simp add: decoder_rules_def row_rule_def special_rule_def)

lemma rule_matches_row [simp]: "rule_matches (row_rule m) opcode = matches m opcode"
  and rule_matches_special [simp]: "rule_matches (special_rule e) opcode = special_matches e opcode"
  by (simp_all add: rule_matches_def row_rule_def special_rule_def matches_def special_matches_def)

lemma rows_exclusive:
  assumes "m \<in> set instruction_metadata" "m' \<in> set instruction_metadata"
    and "matches m opcode" "matches m' opcode"
  shows "md_kind m = md_kind m'"
  using row_decodes [OF assms(1,3)] row_decodes [OF assms(2,4)] by (simp add: decodes_as_def)

lemma row_special_exclusive:
  assumes "m \<in> set instruction_metadata" "e \<in> set special_register_encoding_metadata"
  shows "\<not> (matches m opcode \<and> special_matches e opcode)"
proof
  assume both: "matches m opcode \<and> special_matches e opcode"
  have "d_special_register (decode opcode) = NoneRegister"
    using row_decodes [OF assms(1) both [THEN conjunct1]] by (simp add: decodes_as_def)
  moreover have "d_special_register (decode opcode) = sm_special_register e"
    using special_row_decodes [OF assms(2) both [THEN conjunct2]] by simp
  ultimately show False using special_row_kind(2) [OF assms(2)] by simp
qed

lemma sorted_wrt_distinct_key:
  assumes "distinct (map f xs)" and "\<And>x y. x \<in> set xs \<Longrightarrow> y \<in> set xs \<Longrightarrow> \<not> P x y \<Longrightarrow> f x = f y"
  shows "sorted_wrt P xs"
  using assms
proof (induction xs)
  case (Cons x xs)
  have "P x y" if "y \<in> set xs" for y
    using Cons.prems(1) Cons.prems(2) [of x y] that by (auto simp: image_iff)
  moreover have "sorted_wrt P xs"
    using Cons.prems by (intro Cons.IH) auto
  ultimately show ?case by simp
qed simp

lemma not_overlap_iff:
  assumes "a \<in> set decoder_rules" "b \<in> set decoder_rules"
  shows "\<not> opcode_rules_overlap a b \<longleftrightarrow> (\<forall>opcode. \<not> (rule_matches a opcode \<and> rule_matches b opcode))"
  using overlap_iff_common [OF decoder_rules_wf decoder_rules_wf, OF assms] by blast

lemma decoder_rules_separate:
  "sorted_wrt (\<lambda>a b. \<forall>opcode. \<not> (rule_matches a opcode \<and> rule_matches b opcode)) decoder_rules"
  unfolding decoder_rules_eq sorted_wrt_append
proof (intro conjI ballI)
  show "sorted_wrt (\<lambda>a b. \<forall>opcode. \<not> (rule_matches a opcode \<and> rule_matches b opcode))
      (map row_rule instruction_metadata)"
    unfolding sorted_wrt_map
    by (rule sorted_wrt_distinct_key [OF kinds_distinct]) (auto dest: rows_exclusive)
  show "sorted_wrt (\<lambda>a b. \<forall>opcode. \<not> (rule_matches a opcode \<and> rule_matches b opcode))
      (map special_rule special_register_encoding_metadata)"
    unfolding sorted_wrt_map
    by (rule sorted_wrt_distinct_key [OF special_patterns_distinct])
      (auto simp: special_matches_def special_masks)
  show "\<forall>opcode. \<not> (rule_matches a opcode \<and> rule_matches b opcode)"
    if "a \<in> set (map row_rule instruction_metadata)"
      and "b \<in> set (map special_rule special_register_encoding_metadata)" for a b
    using that row_special_exclusive by auto
qed

lemma no_collisions: "find_decoder_collisions = []"
  unfolding find_decoder_collisions_def rule_collisions_empty
  using decoder_rules_separate
  by (rule sorted_wrt_mono_rel [rotated]) (simp add: not_overlap_iff)

subsection \<open>Operand ranges\<close>

lemma sign_extend_8_eq: "sign_extend_8 v = signed_take_bit 7 (uint v)"
proof -
  have b: "(v AND 0x00FF) AND 0x80 = 0 \<longleftrightarrow> \<not> bit (uint v) 7"
    by (simp add: u16_eq_iff all_less_16 bit_simps bit_unsigned_iff)
  have "uint (v AND 0x00FF) = take_bit 8 (uint v)"
    by (simp add: uint_and take_bit_eq_mask mask_eq_exp_minus_1)
  with b show ?thesis
    by (auto simp: sign_extend_8_def Let_def signed_take_bit_eq_take_bit_minus)
qed

lemma sign_extend_12_eq: "sign_extend_12 v = signed_take_bit 11 (uint v)"
proof -
  have b: "(v AND 0x0FFF) AND 0x0800 = 0 \<longleftrightarrow> \<not> bit (uint v) 11"
    by (simp add: u16_eq_iff all_less_16 bit_simps bit_unsigned_iff)
  have "uint (v AND 0x0FFF) = take_bit 12 (uint v)"
    by (simp add: uint_and take_bit_eq_mask mask_eq_exp_minus_1)
  with b show ?thesis
    by (auto simp: sign_extend_12_def Let_def signed_take_bit_eq_take_bit_minus)
qed

lemma sign_extend_8_bounds: "- 128 \<le> sign_extend_8 v" "sign_extend_8 v \<le> 127"
  using signed_take_bit_int_greater_eq_minus_exp [of 7 "uint v"]
    signed_take_bit_int_less_exp [of 7 "uint v"]
  by (simp_all add: sign_extend_8_eq)

lemma sign_extend_12_bounds: "- 2048 \<le> sign_extend_12 v" "sign_extend_12 v \<le> 2047"
  using signed_take_bit_int_greater_eq_minus_exp [of 11 "uint v"]
    signed_take_bit_int_less_exp [of 11 "uint v"]
  by (simp_all add: sign_extend_12_eq)

lemma field_n_less [simp]: "field_n opcode < 16"
  by (simp add: field_n_def)

lemma field_m_less [simp]: "field_m opcode < 16"
  by (simp add: field_m_def)

lemma low_byte_bounds: "0 \<le> uint ((v::u16) AND 0x00FF)" "uint ((v::u16) AND 0x00FF) \<le> 255"
proof -
  have "uint (v AND 0x00FF) = take_bit 8 (uint v)"
    by (simp add: uint_and take_bit_eq_mask mask_eq_exp_minus_1)
  then show "uint (v AND 0x00FF) \<le> 255"
    using take_bit_int_less_exp [of 8 "uint v"] by simp
qed simp

lemma low_nibble_bounds: "0 \<le> uint ((v::u16) AND 0x000F)" "uint ((v::u16) AND 0x000F) \<le> 15"
proof -
  have "uint (v AND 0x000F) = take_bit 4 (uint v)"
    by (simp add: uint_and take_bit_eq_mask mask_eq_exp_minus_1)
  then show "uint (v AND 0x000F) \<le> 15"
    using take_bit_int_less_exp [of 4 "uint v"] by simp
qed simp

lemma field_ranges [simp]:
  "- 128 \<le> sign_extend_8 v" "sign_extend_8 v \<le> 255"
  "- 4096 \<le> sign_extend_8 v * 2" "sign_extend_8 v * 2 \<le> 4094"
  "- 4096 \<le> sign_extend_12 v * 2" "sign_extend_12 v * 2 \<le> 4094"
  "- 128 \<le> uint ((v::u16) AND 0xFF)" "uint (v AND 0xFF) \<le> 255"
  "- 4096 \<le> uint (v AND 0xFF)" "uint (v AND 0xFF) \<le> 4094"
  "- 4096 \<le> uint (v AND 0xFF) * 2" "uint (v AND 0xFF) * 2 \<le> 4094"
  "- 4096 \<le> uint (v AND 0xFF) * 4" "uint (v AND 0xFF) * 4 \<le> 4094"
  "- 4096 \<le> uint (v AND 0xF)" "uint (v AND 0xF) \<le> 4094"
  "- 4096 \<le> uint (v AND 0xF) * 2" "uint (v AND 0xF) * 2 \<le> 4094"
  "- 4096 \<le> uint (v AND 0xF) * 4" "uint (v AND 0xF) * 4 \<le> 4094"
  using sign_extend_8_bounds [of v] sign_extend_12_bounds [of v] low_byte_bounds [of v]
    low_nibble_bounds [of v] by linarith+

definition operands_ok :: "DecodedInstruction \<Rightarrow> bool" where
  "operands_ok i \<longleftrightarrow> d_destination_register i < 16 \<and> d_source_register i < 16 \<and>
     d_branch_register i < 16 \<and> - 128 \<le> d_immediate i \<and> d_immediate i \<le> 255 \<and>
     - 4096 \<le> d_displacement i \<and> d_displacement i \<le> 4094"

lemma operands_ok_fresh [simp]: "operands_ok (fresh_instruction opcode)"
  by (simp add: operands_ok_def fresh_instruction_def)

lemma operands_ok_bodies [simp]:
  "operands_ok i \<Longrightarrow> operands_ok (two_registers k t i opcode)"
  "operands_ok i \<Longrightarrow> operands_ok (one_register k t i opcode)"
  "operands_ok i \<Longrightarrow> operands_ok (decode_memory_registers i opcode)"
  "operands_ok i \<Longrightarrow> operands_ok (special_transfer e i opcode)"
  by (simp_all add: body_simps special_transfer_def operands_ok_def)

lemma and_low_less:
  "(n::nat) < 16 \<Longrightarrow> n AND 14 < 16" "(n::nat) < 16 \<Longrightarrow> n AND 12 < 16" "(n::nat) AND 3 < 4"
proof -
  have le: "n AND k \<le> k" for k :: nat
    using AND_upper2 [of "int k" "int n"] by (simp flip: of_nat_and_eq)
  show "n < 16 \<Longrightarrow> n AND 14 < 16" "n < 16 \<Longrightarrow> n AND 12 < 16" "n AND 3 < 4"
    using le [of 14] le [of 12] le [of 3] by auto
qed

lemma fpu_registers_less:
  "n < 16 \<Longrightarrow> m < 16 \<Longrightarrow> fst (fpu_registers k n m) < 16 \<and> snd (fpu_registers k n m) < 16"
  using and_low_less(1,2) [of n] and_low_less(3) [of n] and_low_less(3) [of "drop_bit 2 n"]
  by (auto simp: fpu_registers_def)

lemma pred_option_chain:
  "P x \<Longrightarrow> pred_option P e \<Longrightarrow> pred_option P (if b then Some x else e)"
  by simp

lemmas operands_simps = operands_ok_def body_simps

lemma special_operands: "operands_ok i \<Longrightarrow> pred_option operands_ok (decode_special_register_transfer i opcode)"
  by (auto simp: decode_special_register_transfer_def pred_option_def)

lemma fpu_operands: "operands_ok i \<Longrightarrow> pred_option operands_ok (decode_fpu_instruction i opcode)"
  using fpu_registers_less [OF field_n_less field_m_less]
  by (auto simp: decode_fpu_instruction_def pred_option_def operands_ok_def Let_def split: prod.splits)
    (metis fst_conv snd_conv)+

lemma control_operands: "operands_ok i \<Longrightarrow> pred_option operands_ok (decode_control i opcode)"
  unfolding decode_control_def
  by (intro pred_option_chain) (simp_all add: operands_simps)

lemma arith_operands: "operands_ok i \<Longrightarrow> pred_option operands_ok (decode_arith i opcode)"
  unfolding decode_arith_def
  by (intro pred_option_chain) (simp_all add: operands_simps)

lemma shift_operands: "operands_ok i \<Longrightarrow> pred_option operands_ok (decode_shift i opcode)"
  unfolding decode_shift_def
  by (intro pred_option_chain) (simp_all add: operands_simps)

lemma muldiv_operands: "operands_ok i \<Longrightarrow> pred_option operands_ok (decode_muldiv i opcode)"
  unfolding decode_muldiv_def
  by (intro pred_option_chain) (simp_all add: operands_simps)

lemma byte_operands: "operands_ok i \<Longrightarrow> pred_option operands_ok (decode_byte_immediate i opcode ks)"
  by (induction ks) (simp_all add: operands_simps)

lemma logic_operands: "operands_ok i \<Longrightarrow> pred_option operands_ok (decode_logic i opcode)"
  unfolding decode_logic_def
  by (intro pred_option_chain byte_operands) (simp_all add: operands_simps)

lemma move_displacement_operands:
  "operands_ok i \<Longrightarrow> pred_option operands_ok (decode_move_displacement i opcode)"
  unfolding decode_move_displacement_def
  by (intro pred_option_chain) (simp_all add: operands_simps)

lemma move_indexed_operands:
  "operands_ok i \<Longrightarrow> pred_option operands_ok (decode_move_indexed i opcode)"
  unfolding decode_move_indexed_def
  by (intro pred_option_chain) (simp_all add: operands_simps)

lemma move_plain_operands:
  "operands_ok i \<Longrightarrow> pred_option operands_ok (decode_move_plain i opcode)"
  unfolding decode_move_plain_def
  by (intro pred_option_chain) (simp_all add: operands_simps)

lemmas group_operands = special_operands fpu_operands control_operands arith_operands
  shift_operands muldiv_operands logic_operands move_displacement_operands move_indexed_operands
  move_plain_operands

lemma first_match_operands:
  "(\<And>f. f \<in> set fs \<Longrightarrow> pred_option P (f i opcode)) \<Longrightarrow> pred_option P (first_match fs i opcode)"
  by (induction fs) (auto split: option.splits simp: pred_option_def)

lemma decode_operands_ok: "operands_ok (decode opcode)"
proof -
  have "pred_option operands_ok (first_match decode_groups (fresh_instruction opcode) opcode)"
    by (rule first_match_operands) (auto simp: decode_groups_def group_operands)
  then show ?thesis
    using operands_ok_fresh [of opcode]
    by (auto simp: decode_def operands_ok_def split: option.splits)
qed

subsection \<open>Assembling and decoding\<close>

text \<open>The opcode of a two-register row with its register fields filled in, as an assembler does.\<close>

definition encode_two_registers :: "InstructionMetadata \<Rightarrow> reg \<Rightarrow> reg \<Rightarrow> u16" where
  "encode_two_registers m n r = md_pattern m OR push_bit 8 (of_nat n) OR push_bit 4 (of_nat r)"

lemma nibble_high_bits: "(n::nat) < 16 \<Longrightarrow> 4 \<le> k \<Longrightarrow> \<not> bit n k"
  using power_increasing [of 4 k "2::nat"] by (simp add: bit_iff_odd)

lemma fields_of_encoding:
  assumes wf: "p AND 0xF00F = p" and "n < 16" and "r < 16"
  defines "opcode \<equiv> (p::u16) OR push_bit 8 (of_nat n) OR push_bit 4 (of_nat r)"
  shows "opcode AND 0xF00F = p" and "field_n opcode = n" and "field_m opcode = r"
proof -
  have p: "\<not> bit p 4" "\<not> bit p 5" "\<not> bit p 6" "\<not> bit p 7"
    "\<not> bit p 8" "\<not> bit p 9" "\<not> bit p 10" "\<not> bit p 11"
    using wf by (simp_all add: u16_eq_iff all_less_16 bit_simps)
  note high = p nibble_high_bits [OF assms(2)] nibble_high_bits [OF assms(3)]
  show "opcode AND 0xF00F = p"
    by (simp add: opcode_def u16_eq_iff all_less_16 bit_simps high)
  have "drop_bit 8 opcode AND 0x0F = of_nat n"
    by (simp add: opcode_def u16_eq_iff all_less_16 bit_simps high)
  then show "field_n opcode = n"
    using assms(2) by (simp add: field_n_def unat_of_nat)
  have "drop_bit 4 opcode AND 0x0F = of_nat r"
    by (simp add: opcode_def u16_eq_iff all_less_16 bit_simps high)
  then show "field_m opcode = r"
    using assms(3) by (simp add: field_m_def unat_of_nat)
qed

lemma row_rule_wf: "m \<in> set instruction_metadata \<Longrightarrow> md_pattern m AND md_mask m = md_pattern m"
  using decoder_rules_wf [of "row_rule m"] by (auto simp: decoder_rules_eq rule_wf_def row_rule_def)

lemma decode_encode_two_registers:
  assumes "m \<in> set instruction_metadata" and "md_mask m = 0xF00F" and "n < 16" and "r < 16"
  defines "i \<equiv> decode (encode_two_registers m n r)"
  shows "d_kind i = md_kind m \<and> d_destination_register i = n \<and> d_source_register i = r"
proof -
  have wf: "md_pattern m AND 0xF00F = md_pattern m"
    using row_rule_wf [OF assms(1)] assms(2) by simp
  note f = fields_of_encoding [OF wf assms(3,4), folded encode_two_registers_def]
  have "matches m (encode_two_registers m n r)"
    using f(1) assms(2) by (simp add: matches_def)
  then have "decodes_as m (encode_two_registers m n r)"
    by (rule row_decodes [OF assms(1)])
  then show ?thesis
    using f(2,3) assms(2) by (simp add: decodes_as_def i_def)
qed

subsection \<open>Direct branches\<close>

text \<open>What the two displacement formats of the table put into the displacement.\<close>

definition branch_displacement :: "InstructionMetadata \<Rightarrow> u16 \<Rightarrow> int option" where
  "branch_displacement m opcode =
     (case md_operand_format m of
        Displacement12 \<Rightarrow> Some (2 * signed_take_bit 11 (uint opcode))
      | Displacement8 \<Rightarrow> Some (2 * signed_take_bit 7 (uint opcode))
      | _ \<Rightarrow> None)"

lemma truncate_to_u32:
  "ucast ((word_of_int x :: u64) AND 0xFFFFFFFF) = (word_of_int x :: u32)"
proof -
  have "(word_of_int x :: u64) AND 0xFFFFFFFF = take_bit 32 (word_of_int x)"
    by (simp add: take_bit_eq_mask mask_eq_exp_minus_1)
  then show ?thesis by (auto intro!: bit_word_eqI simp: bit_simps)
qed

lemma target_of_displacement:
  "ucast ((ucast a + 4 + word_of_int d :: u64) AND 0xFFFFFFFF) = (a + 4 + word_of_int d :: u32)"
  using truncate_to_u32 [of "uint a + 4 + d"] by simp

definition branch_row_ok :: "InstructionMetadata \<Rightarrow> bool" where
  "branch_row_ok m \<longleftrightarrow>
     (md_operand_format m \<in> {Displacement8, Displacement12} \<longleftrightarrow>
      md_kind m \<in> {K_Flow Bra, K_Flow Bsr, K_Flow Bt, K_Flow Bf, K_Flow BtS, K_Flow BfS})"

lemma branch_rows_ok: "m \<in> set instruction_metadata \<Longrightarrow> branch_row_ok m"
proof -
  have "list_all branch_row_ok instruction_metadata"
    by (simp add: instruction_rows branch_row_ok_def)
  then show "m \<in> set instruction_metadata \<Longrightarrow> branch_row_ok m" by (simp add: list_all_iff)
qed

definition branch_rules :: "InstructionMetadata list" where
  "branch_rules =
     filter (\<lambda>m. md_operand_format m \<in> {Displacement8, Displacement12}) instruction_metadata"

lemma branch_rules_displacement:
  "list_all (\<lambda>m. \<forall>opcode. matches m opcode \<longrightarrow>
      branch_displacement m opcode = Some (d_displacement (decode opcode))) branch_rules"
  by (simp only: branch_rules_def instruction_rows append.simps InstructionMetadata.simps)
    (simp add: matches_def mask_nibbles branch_displacement_def chain_eval sign_extend_8_eq
      sign_extend_12_eq)

lemma branch_target_row:
  assumes "m \<in> set instruction_metadata" and "matches m opcode"
  shows "calculate_direct_branch_target (decode opcode) a =
    map_option (\<lambda>d. a + 4 + word_of_int d) (branch_displacement m opcode)"
proof -
  have k: "d_kind (decode opcode) = md_kind m"
    using row_decodes [OF assms] by (simp add: decodes_as_def)
  show ?thesis
  proof (cases "md_operand_format m \<in> {Displacement8, Displacement12}")
    case True
    then have "branch_displacement m opcode = Some (d_displacement (decode opcode))"
      using assms branch_rules_displacement by (auto simp: branch_rules_def list_all_iff)
    moreover have "md_kind m \<in>
        {K_Flow Bra, K_Flow Bsr, K_Flow Bt, K_Flow Bf, K_Flow BtS, K_Flow BfS}"
      using True branch_rows_ok [OF assms(1)] by (simp only: branch_row_ok_def)
    ultimately show ?thesis
      by (simp add: calculate_direct_branch_target_def k Let_def target_of_displacement)
  next
    case False
    then have "branch_displacement m opcode = None"
      by (auto simp: branch_displacement_def split: OperandFormat.splits)
    moreover have "md_kind m \<notin>
        {K_Flow Bra, K_Flow Bsr, K_Flow Bt, K_Flow Bf, K_Flow BtS, K_Flow BfS}"
      using False branch_rows_ok [OF assms(1)] unfolding branch_row_ok_def by blast
    ultimately show ?thesis
      by (simp add: calculate_direct_branch_target_def k)
  qed
qed

end
