(* ===== verification/Ir.thy ===== *)
theory Ir
  imports Prelude
begin

text \<open>
  The intermediate representation (\<open>include/katana/ir/ir.hpp\<close>): operations, effects,
  instructions, basic blocks and functions.  As for the decoder, the enumeration \<open>Operation\<close> is cut
  into contiguous groups in source order.  Effect masks (\<open>StatusRegisterBit\<close>,
  \<open>AccumulatorRegister\<close>) are the eight-bit words of their enumerators.
\<close>

subsection \<open>Widths and effects\<close>

datatype OperandWidth =
    NoneWidth | Bit1 | Bits4 | Bits8 | Bits12 | Bits16 | Bits32 | Bits64

record OperandWidths =
  ow_result :: OperandWidth
  ow_input :: OperandWidth
  ow_immediate :: OperandWidth
  ow_displacement :: OperandWidth
  ow_memory :: OperandWidth
  ow_address :: OperandWidth

type_synonym StatusRegisterBit = u8

definition status_None :: StatusRegisterBit where "status_None = 0"
definition status_T :: StatusRegisterBit where "status_T = 1"
definition status_S :: StatusRegisterBit where "status_S = 2"
definition status_Q :: StatusRegisterBit where "status_Q = 4"
definition status_M :: StatusRegisterBit where "status_M = 8"
definition status_Full :: StatusRegisterBit where "status_Full = 128"

record StatusRegisterEffects =
  se_reads :: StatusRegisterBit
  se_writes :: StatusRegisterBit

datatype MemoryAccessKind = NoneAccess | Read | Write

datatype AddressUpdateKind = NoneUpdate | PreDecrement | PostIncrement

datatype MemoryRegionKind = UnknownRegion | NormalRam | Volatile

record MemoryEffects =
  me_access :: MemoryAccessKind
  me_width :: OperandWidth
  me_access_count :: nat
  me_address_update :: AddressUpdateKind
  me_updated_register_count :: nat
  me_region :: MemoryRegionKind

type_synonym AccumulatorRegister = u8

definition accumulator_None :: AccumulatorRegister where "accumulator_None = 0"
definition accumulator_Mach :: AccumulatorRegister where "accumulator_Mach = 1"
definition accumulator_Macl :: AccumulatorRegister where "accumulator_Macl = 2"

record AccumulatorEffects =
  ae_reads_if_s_clear :: AccumulatorRegister
  ae_reads_if_s_set :: AccumulatorRegister
  ae_writes_if_s_clear :: AccumulatorRegister
  ae_writes_if_s_set :: AccumulatorRegister

datatype DelaySlotRole = NoneRole | Owner | Slot

record DelaySlotRelation =
  ds_role :: DelaySlotRole
  ds_counterpart_address :: "u32 option"

datatype IrSpecialRegister =
    NoneRegister | Mach | Macl | Pr | Fpul | Fpscr | Sr | Gbr | Vbr | Ssr | Spc | Sgr | Dbr | Bank0
  | Bank1 | Bank2 | Bank3 | Bank4 | Bank5 | Bank6 | Bank7

subsection \<open>Operations\<close>

datatype (plugins only: code size) ArithOp =
    MovImmediate | Constant32 | AddImmediate | MovRegister | AddRegister | SubRegister
  | NegateRegister | NotRegister | AddWithCarry | AddWithOverflow | SubWithCarry | SubWithOverflow
  | NegateWithCarry | ExtendUnsignedByte | ExtendUnsignedWord | ExtendSignedByte | ExtendSignedWord
  | SwapBytes | SwapWords | ExtractMiddle | DecrementAndTest | MoveT

datatype (plugins only: code size) ShiftOp =
    ShiftLogicalLeftOne | ShiftLogicalRightOne | ShiftArithmeticLeftOne | ShiftArithmeticRightOne
  | ShiftLogicalLeftTwo | ShiftLogicalLeftEight | ShiftLogicalLeftSixteen | ShiftLogicalRightTwo
  | ShiftLogicalRightEight | ShiftLogicalRightSixteen | RotateLeft | RotateRight
  | RotateLeftThroughT | RotateRightThroughT | ShiftArithmeticDynamic | ShiftLogicalDynamic

datatype (plugins only: code size) MulDivOp =
    MultiplyLong | MultiplySignedWord | MultiplyUnsignedWord | DoubleMultiplySignedLong
  | DoubleMultiplyUnsignedLong | MultiplyAccumulateWord | MultiplyAccumulateLong
  | DivideInitializeUnsigned | DivideInitializeSigned | DivideStep | ClearMac

datatype (plugins only: code size) LogicOp =
    AndRegister | OrRegister | XorRegister | AndImmediate | OrImmediate | XorImmediate | ClearS
  | SetS | ClearT | SetT | CompareEqualImmediate | CompareEqualRegister | CompareHigherOrSame
  | CompareGreaterOrEqual | CompareHigher | CompareGreaterThan | ComparePositiveOrZero
  | ComparePositive | CompareString | TestImmediate | TestRegister | TestByteImmediate
  | AndByteImmediate | XorByteImmediate | OrByteImmediate | TestAndSetByte

datatype (plugins only: code size) MemoryOp =
    LoadByteSigned | LoadWordSigned | LoadLong | StoreByte | StoreWord | StoreLong
  | StoreBytePreDecrement | StoreWordPreDecrement | StoreLongPreDecrement
  | LoadByteSignedPostIncrement | LoadWordSignedPostIncrement | LoadLongPostIncrement
  | StoreByteDisplacement | StoreWordDisplacement | StoreLongDisplacement
  | LoadByteSignedDisplacement | LoadWordSignedDisplacement | LoadLongDisplacement
  | StoreByteR0Indexed | StoreWordR0Indexed | StoreLongR0Indexed | LoadByteSignedR0Indexed
  | LoadWordSignedR0Indexed | LoadLongR0Indexed | StoreByteGbrDisplacement
  | StoreWordGbrDisplacement | StoreLongGbrDisplacement | LoadByteSignedGbrDisplacement
  | LoadWordSignedGbrDisplacement | LoadLongGbrDisplacement | LoadWordSignedPcRelative
  | LoadLongPcRelative | MoveAddressPcRelative

datatype (plugins only: code size) SystemOp =
    StoreSpecialRegister | StoreSpecialRegisterPreDecrement | LoadSpecialRegister
  | LoadSpecialRegisterPostIncrement | TrapAlways | ReturnFromException | Sleep | LoadTlb
  | Prefetch | Ocbi | Ocbp | Ocbwb | MovcaLong

datatype (plugins only: code size) FpuOp =
    FmovRegister | FmovLoad | FmovLoadPostIncrement | FmovLoadR0Indexed | FmovStore
  | FmovStorePreDecrement | FmovStoreR0Indexed | Fldi0 | Fldi1 | Flds | Fsts | Fabs | Fadd
  | FcmpEqual | FcmpGreater | Fdiv | FloatFromFpul | Fmac | Fmul | Fneg | Fsqrt | Fsrra | Fsca
  | Fipr | Ftrv | Fsub | Ftrc | FcnvDoubleToSingle | FcnvSingleToDouble | Frchg | Fschg

datatype (plugins only: code size) FlowOp =
    Branch | Call | BranchIfTrue | BranchIfFalse | JumpRegister | CallRegister | Return

datatype (plugins only: code size) Operation =
    Unknown | Nop | O_Arith ArithOp | O_Shift ShiftOp | O_MulDiv MulDivOp | O_Logic LogicOp
  | O_Memory MemoryOp | O_System SystemOp | O_Fpu FpuOp | O_Flow FlowOp

datatype DynamicTargetClass =
    NotApplicable | GuardedComplete | GuardedPartial | RuntimeOnly | Unresolved | ExactGuarded

subsection \<open>Instructions, blocks and functions\<close>

record Instruction =
  ir_source_address :: u32
  ir_original_opcode :: u16
  ir_original_operation :: Operation
  ir_operation :: Operation
  ir_widths :: OperandWidths
  ir_status_effects :: StatusRegisterEffects
  ir_memory_effects :: MemoryEffects
  ir_accumulator_effects :: AccumulatorEffects
  ir_destination_register :: reg
  ir_source_register :: reg
  ir_branch_register :: reg
  ir_immediate :: int
  ir_displacement :: int
  ir_special_register :: IrSpecialRegister
  ir_effective_address :: "u32 option"
  ir_target_address :: "u32 option"
  ir_resolved_targets :: "u32 list"
  ir_forwarded_value_register :: "reg option"
  ir_dynamic_target_class :: DynamicTargetClass
  ir_delay_slot :: DelaySlotRelation
  ir_is_privileged :: bool
  ir_branch_register_relative :: bool

record BasicBlock =
  bb_start_address :: u32
  bb_instructions :: "Instruction list"
  bb_successors :: "u32 list"
  bb_guarded_case_ownership_targets :: "u32 list"
  bb_has_indirect_successor :: bool

record Function =
  fn_entry_address :: u32
  fn_blocks :: "BasicBlock list"
  fn_direct_callees :: "u32 list"
  fn_indirect_call_sites :: "u32 list"

text \<open>The default member initialisers.\<close>

definition no_widths :: OperandWidths where
  "no_widths = \<lparr>ow_result = NoneWidth, ow_input = NoneWidth, ow_immediate = NoneWidth,
     ow_displacement = NoneWidth, ow_memory = NoneWidth, ow_address = NoneWidth\<rparr>"

definition no_status :: StatusRegisterEffects where
  "no_status = \<lparr>se_reads = status_None, se_writes = status_None\<rparr>"

definition no_memory :: MemoryEffects where
  "no_memory = \<lparr>me_access = NoneAccess, me_width = NoneWidth, me_access_count = 0,
     me_address_update = NoneUpdate, me_updated_register_count = 0, me_region = UnknownRegion\<rparr>"

definition no_accumulator :: AccumulatorEffects where
  "no_accumulator = \<lparr>ae_reads_if_s_clear = accumulator_None, ae_reads_if_s_set = accumulator_None,
     ae_writes_if_s_clear = accumulator_None, ae_writes_if_s_set = accumulator_None\<rparr>"

definition no_delay_slot :: DelaySlotRelation where
  "no_delay_slot = \<lparr>ds_role = NoneRole, ds_counterpart_address = None\<rparr>"

definition empty_instruction :: Instruction where
  "empty_instruction = \<lparr>ir_source_address = 0, ir_original_opcode = 0,
     ir_original_operation = Unknown, ir_operation = Unknown, ir_widths = no_widths,
     ir_status_effects = no_status, ir_memory_effects = no_memory,
     ir_accumulator_effects = no_accumulator, ir_destination_register = 0,
     ir_source_register = 0, ir_branch_register = 0, ir_immediate = 0, ir_displacement = 0,
     ir_special_register = NoneRegister, ir_effective_address = None, ir_target_address = None,
     ir_resolved_targets = [], ir_forwarded_value_register = None,
     ir_dynamic_target_class = NotApplicable, ir_delay_slot = no_delay_slot,
     ir_is_privileged = False, ir_branch_register_relative = False\<rparr>"

end
