(* ===== verification/Ir_Effects.thy ===== *)
theory Ir_Effects
  imports Ir
begin

text \<open>
  The effect tables of the IR: operand widths (\<open>src/ir/operand_width.cpp\<close>), status-register
  effects (\<open>src/ir/status_effect.cpp\<close>), memory effects (\<open>src/ir/memory_effect.cpp\<close>) and
  accumulator effects (\<open>src/ir/accumulator_effect.cpp\<close>).  Each \<open>switch\<close> is a chain over the
  sets of its case labels, in source order.
\<close>

subsection \<open>Operand widths\<close>

definition operand_widths :: "OperandWidth \<Rightarrow> OperandWidth \<Rightarrow> OperandWidth \<Rightarrow> OperandWidth \<Rightarrow>
    OperandWidth \<Rightarrow> OperandWidth \<Rightarrow> OperandWidths" where
  "operand_widths result_w input immediate displacement memory address =
     \<lparr>ow_result = result_w, ow_input = input, ow_immediate = immediate,
      ow_displacement = displacement, ow_memory = memory, ow_address = address\<rparr>"

definition register_binary :: OperandWidths where
  "register_binary = operand_widths Bits32 Bits32 NoneWidth NoneWidth NoneWidth NoneWidth"

definition register_unary :: OperandWidths where
  "register_unary = operand_widths Bits32 Bits32 NoneWidth NoneWidth NoneWidth NoneWidth"

definition memory_load :: "OperandWidth \<Rightarrow> OperandWidths" where
  "memory_load memory_width =
     operand_widths Bits32 NoneWidth NoneWidth NoneWidth memory_width Bits32"

definition memory_store :: "OperandWidth \<Rightarrow> OperandWidths" where
  "memory_store memory_width =
     operand_widths NoneWidth Bits32 NoneWidth NoneWidth memory_width Bits32"

definition operation_operand_widths :: "Operation \<Rightarrow> OperandWidths" where
  "operation_operand_widths operation =
   (if operation \<in> {Unknown, Nop, O_Logic ClearS, O_Logic SetS, O_Logic ClearT, O_Logic SetT,
                  O_MulDiv DivideInitializeUnsigned, O_MulDiv ClearMac, O_System Sleep,
                  O_System LoadTlb, O_Fpu Frchg, O_Fpu Fschg} then
      no_widths
    else if operation \<in> {O_System Prefetch, O_System Ocbi, O_System Ocbp, O_System Ocbwb} then
      operand_widths NoneWidth Bits32 NoneWidth NoneWidth NoneWidth Bits32
    else if operation = O_System MovcaLong then
      memory_store Bits32
    else if operation = O_MulDiv DivideInitializeSigned then
      operand_widths NoneWidth Bits32 NoneWidth NoneWidth NoneWidth NoneWidth
    else if operation = O_System ReturnFromException then
      operand_widths NoneWidth Bits32 NoneWidth NoneWidth NoneWidth Bits32
    else if operation = O_Arith MovImmediate then
      operand_widths Bits32 NoneWidth Bits8 NoneWidth NoneWidth NoneWidth
    else if operation = O_Arith Constant32 then
      operand_widths Bits32 NoneWidth Bits32 NoneWidth NoneWidth NoneWidth
    else if operation \<in> {O_Arith AddImmediate, O_Logic AndImmediate, O_Logic OrImmediate,
                       O_Logic XorImmediate} then
      operand_widths Bits32 Bits32 Bits8 NoneWidth NoneWidth NoneWidth
    else if operation \<in> {O_Logic CompareEqualImmediate, O_Logic TestImmediate} then
      operand_widths Bit1 Bits32 Bits8 NoneWidth NoneWidth NoneWidth
    else if operation = O_Logic TestByteImmediate then
      operand_widths Bit1 Bits8 Bits8 NoneWidth Bits8 Bits32
    else if operation \<in> {O_Logic AndByteImmediate, O_Logic XorByteImmediate,
                       O_Logic OrByteImmediate} then
      operand_widths NoneWidth Bits8 Bits8 NoneWidth Bits8 Bits32
    else if operation = O_Logic TestAndSetByte then
      operand_widths Bit1 Bits8 NoneWidth NoneWidth Bits8 Bits32
    else if operation = O_Arith MoveT then
      operand_widths Bits32 Bit1 NoneWidth NoneWidth NoneWidth NoneWidth
    else if operation \<in> {O_Fpu Fldi0, O_Fpu Fldi1} then
      operand_widths Bits32 NoneWidth NoneWidth NoneWidth NoneWidth NoneWidth
    else if operation \<in> {O_Fpu Flds, O_Fpu Fsts, O_Fpu FloatFromFpul, O_Fpu Ftrc} then
      register_unary
    else if operation = O_Fpu FcnvDoubleToSingle then
      operand_widths Bits32 Bits64 NoneWidth NoneWidth NoneWidth NoneWidth
    else if operation = O_Fpu FcnvSingleToDouble then
      operand_widths Bits64 Bits32 NoneWidth NoneWidth NoneWidth NoneWidth
    else if operation \<in> {O_Arith ExtendUnsignedByte, O_Arith ExtendSignedByte} then
      operand_widths Bits32 Bits8 NoneWidth NoneWidth NoneWidth NoneWidth
    else if operation \<in> {O_Arith ExtendUnsignedWord, O_Arith ExtendSignedWord} then
      operand_widths Bits32 Bits16 NoneWidth NoneWidth NoneWidth NoneWidth
    else if operation \<in> {O_MulDiv MultiplySignedWord, O_MulDiv MultiplyUnsignedWord} then
      operand_widths Bits32 Bits16 NoneWidth NoneWidth NoneWidth NoneWidth
    else if operation \<in> {O_MulDiv DoubleMultiplySignedLong, O_MulDiv DoubleMultiplyUnsignedLong} then
      operand_widths Bits64 Bits32 NoneWidth NoneWidth NoneWidth NoneWidth
    else if operation = O_MulDiv MultiplyAccumulateWord then
      operand_widths NoneWidth Bits16 NoneWidth NoneWidth Bits16 Bits32
    else if operation = O_MulDiv MultiplyAccumulateLong then
      operand_widths NoneWidth Bits32 NoneWidth NoneWidth Bits32 Bits32
    else if operation \<in> {O_Memory StoreByte, O_Memory StoreBytePreDecrement,
                       O_Memory StoreByteR0Indexed} then
      memory_store Bits8
    else if operation \<in> {O_Memory LoadByteSigned, O_Memory LoadByteSignedPostIncrement,
                       O_Memory LoadByteSignedR0Indexed} then
      memory_load Bits8
    else if operation \<in> {O_Memory StoreWord, O_Memory StoreWordPreDecrement,
                       O_Memory StoreWordR0Indexed} then
      memory_store Bits16
    else if operation \<in> {O_Memory LoadWordSigned, O_Memory LoadWordSignedPostIncrement,
                       O_Memory LoadWordSignedR0Indexed} then
      memory_load Bits16
    else if operation \<in> {O_Memory StoreLong, O_Memory StoreLongPreDecrement,
                       O_Memory StoreLongR0Indexed} then
      memory_store Bits32
    else if operation \<in> {O_Fpu FmovStore, O_Fpu FmovStorePreDecrement, O_Fpu FmovStoreR0Indexed} then
      memory_store Bits64
    else if operation \<in> {O_Memory LoadLong, O_Memory LoadLongPostIncrement,
                       O_Memory LoadLongR0Indexed} then
      memory_load Bits32
    else if operation \<in> {O_Fpu FmovLoad, O_Fpu FmovLoadPostIncrement, O_Fpu FmovLoadR0Indexed} then
      memory_load Bits64
    else if operation = O_Memory StoreByteDisplacement then
      operand_widths NoneWidth Bits32 NoneWidth Bits4 Bits8 Bits32
    else if operation = O_Memory LoadByteSignedDisplacement then
      operand_widths Bits32 NoneWidth NoneWidth Bits4 Bits8 Bits32
    else if operation = O_Memory StoreWordDisplacement then
      operand_widths NoneWidth Bits32 NoneWidth Bits4 Bits16 Bits32
    else if operation = O_Memory LoadWordSignedDisplacement then
      operand_widths Bits32 NoneWidth NoneWidth Bits4 Bits16 Bits32
    else if operation = O_Memory StoreLongDisplacement then
      operand_widths NoneWidth Bits32 NoneWidth Bits4 Bits32 Bits32
    else if operation = O_Memory LoadLongDisplacement then
      operand_widths Bits32 NoneWidth NoneWidth Bits4 Bits32 Bits32
    else if operation = O_Memory StoreByteGbrDisplacement then
      operand_widths NoneWidth Bits32 NoneWidth Bits8 Bits8 Bits32
    else if operation = O_Memory LoadByteSignedGbrDisplacement then
      operand_widths Bits32 NoneWidth NoneWidth Bits8 Bits8 Bits32
    else if operation = O_Memory StoreWordGbrDisplacement then
      operand_widths NoneWidth Bits32 NoneWidth Bits8 Bits16 Bits32
    else if operation \<in> {O_Memory LoadWordSignedGbrDisplacement, O_Memory LoadWordSignedPcRelative} then
      operand_widths Bits32 NoneWidth NoneWidth Bits8 Bits16 Bits32
    else if operation = O_Memory StoreLongGbrDisplacement then
      operand_widths NoneWidth Bits32 NoneWidth Bits8 Bits32 Bits32
    else if operation \<in> {O_Memory LoadLongGbrDisplacement, O_Memory LoadLongPcRelative} then
      operand_widths Bits32 NoneWidth NoneWidth Bits8 Bits32 Bits32
    else if operation = O_Memory MoveAddressPcRelative then
      operand_widths Bits32 NoneWidth NoneWidth Bits8 NoneWidth Bits32
    else if operation \<in> {O_System StoreSpecialRegister, O_System LoadSpecialRegister} then
      register_binary
    else if operation = O_System StoreSpecialRegisterPreDecrement then
      operand_widths NoneWidth Bits32 NoneWidth NoneWidth Bits32 Bits32
    else if operation = O_System LoadSpecialRegisterPostIncrement then
      operand_widths Bits32 NoneWidth NoneWidth NoneWidth Bits32 Bits32
    else if operation \<in> {O_Flow Branch, O_Flow Call} then
      operand_widths NoneWidth NoneWidth NoneWidth Bits12 NoneWidth Bits32
    else if operation \<in> {O_Flow BranchIfTrue, O_Flow BranchIfFalse} then
      operand_widths NoneWidth Bit1 NoneWidth Bits8 NoneWidth Bits32
    else if operation \<in> {O_Flow JumpRegister, O_Flow CallRegister} then
      operand_widths NoneWidth Bits32 NoneWidth NoneWidth NoneWidth Bits32
    else if operation = O_Flow Return then
      operand_widths NoneWidth Bits32 NoneWidth NoneWidth NoneWidth Bits32
    else if operation = O_System TrapAlways then
      operand_widths NoneWidth NoneWidth Bits8 NoneWidth NoneWidth Bits32
    else if operation \<in> {O_Logic CompareEqualRegister, O_Logic CompareHigherOrSame,
                       O_Logic CompareGreaterOrEqual, O_Logic CompareHigher,
                       O_Logic CompareGreaterThan, O_Logic CompareString, O_Logic TestRegister} then
      operand_widths Bit1 Bits32 NoneWidth NoneWidth NoneWidth NoneWidth
    else if operation \<in> {O_Logic ComparePositiveOrZero, O_Logic ComparePositive} then
      operand_widths Bit1 Bits32 NoneWidth NoneWidth NoneWidth NoneWidth
    else if operation \<in> {O_Fpu FcmpEqual, O_Fpu FcmpGreater} then
      operand_widths Bit1 Bits32 NoneWidth NoneWidth NoneWidth NoneWidth
    else if operation \<in> {O_Arith MovRegister, O_Arith AddRegister, O_Arith SubRegister,
                       O_Arith NegateRegister, O_Arith NotRegister, O_Arith AddWithCarry,
                       O_Arith AddWithOverflow, O_Arith SubWithCarry, O_Arith SubWithOverflow,
                       O_Arith NegateWithCarry, O_Arith SwapBytes, O_Arith SwapWords,
                       O_Arith ExtractMiddle, O_Shift ShiftArithmeticDynamic,
                       O_Shift ShiftLogicalDynamic, O_MulDiv MultiplyLong, O_MulDiv DivideStep,
                       O_Logic AndRegister, O_Logic OrRegister, O_Logic XorRegister,
                       O_Fpu FmovRegister, O_Fpu Fadd, O_Fpu Fdiv, O_Fpu Fmac, O_Fpu Fmul,
                       O_Fpu Fsub} then
      register_binary
    else if operation \<in> {O_Arith DecrementAndTest, O_Shift ShiftLogicalLeftOne,
                       O_Shift ShiftLogicalRightOne, O_Shift ShiftArithmeticLeftOne,
                       O_Shift ShiftArithmeticRightOne, O_Shift ShiftLogicalLeftTwo,
                       O_Shift ShiftLogicalLeftEight, O_Shift ShiftLogicalLeftSixteen,
                       O_Shift ShiftLogicalRightTwo, O_Shift ShiftLogicalRightEight,
                       O_Shift ShiftLogicalRightSixteen, O_Shift RotateLeft, O_Shift RotateRight,
                       O_Shift RotateLeftThroughT, O_Shift RotateRightThroughT, O_Fpu Fabs,
                       O_Fpu Fneg, O_Fpu Fsqrt, O_Fpu Fsrra} then
      register_unary
    else if operation = O_Fpu Fsca then
      operand_widths Bits64 Bits32 NoneWidth NoneWidth NoneWidth NoneWidth
    else if operation \<in> {O_Fpu Fipr, O_Fpu Ftrv} then
      operand_widths Bits32 Bits32 NoneWidth NoneWidth NoneWidth NoneWidth
    else no_widths)"

definition operand_width_name :: "OperandWidth \<Rightarrow> string" where
  "operand_width_name width =
     (case width of NoneWidth \<Rightarrow> ''none'' | Bit1 \<Rightarrow> ''i1'' | Bits4 \<Rightarrow> ''i4'' | Bits8 \<Rightarrow> ''i8''
      | Bits12 \<Rightarrow> ''i12'' | Bits16 \<Rightarrow> ''i16'' | Bits32 \<Rightarrow> ''i32'' | Bits64 \<Rightarrow> ''i64'')"

subsection \<open>Status-register effects\<close>

definition status_TQM :: StatusRegisterBit where
  "status_TQM = (status_T OR status_Q) OR status_M"

definition status_effects :: "StatusRegisterBit \<Rightarrow> StatusRegisterBit \<Rightarrow> StatusRegisterEffects" where
  "status_effects reads writes = \<lparr>se_reads = reads, se_writes = writes\<rparr>"

definition instruction_status_effects ::
    "Operation \<Rightarrow> IrSpecialRegister \<Rightarrow> StatusRegisterEffects" where
  "instruction_status_effects operation special_register =
   (if operation \<in> {O_Arith MoveT, O_Flow BranchIfTrue, O_Flow BranchIfFalse} then
      status_effects status_T status_None
    else if operation \<in> {O_Arith AddWithCarry, O_Arith SubWithCarry, O_Arith NegateWithCarry,
                       O_Shift RotateLeftThroughT, O_Shift RotateRightThroughT} then
      status_effects status_T status_T
    else if operation \<in> {O_Arith AddWithOverflow, O_Arith SubWithOverflow,
                       O_Arith DecrementAndTest, O_Shift ShiftLogicalLeftOne,
                       O_Shift ShiftLogicalRightOne, O_Shift ShiftArithmeticLeftOne,
                       O_Shift ShiftArithmeticRightOne, O_Shift RotateLeft, O_Shift RotateRight,
                       O_Logic ClearT, O_Logic SetT, O_Logic CompareEqualImmediate,
                       O_Logic CompareEqualRegister, O_Logic CompareHigherOrSame,
                       O_Logic CompareGreaterOrEqual, O_Logic CompareHigher,
                       O_Logic CompareGreaterThan, O_Logic ComparePositiveOrZero,
                       O_Logic ComparePositive, O_Logic CompareString, O_Logic TestImmediate,
                       O_Logic TestRegister, O_Logic TestByteImmediate, O_Logic TestAndSetByte,
                       O_Fpu FcmpEqual, O_Fpu FcmpGreater} then
      status_effects status_None status_T
    else if operation \<in> {O_Logic ClearS, O_Logic SetS} then
      status_effects status_None status_S
    else if operation \<in> {O_MulDiv MultiplyAccumulateWord, O_MulDiv MultiplyAccumulateLong} then
      status_effects status_S status_None
    else if operation \<in> {O_MulDiv DivideInitializeUnsigned, O_MulDiv DivideInitializeSigned} then
      status_effects status_None status_TQM
    else if operation = O_MulDiv DivideStep then
      status_effects status_TQM (status_T OR status_Q)
    else if operation = O_System TrapAlways then
      status_effects status_Full status_Full
    else if operation = O_System ReturnFromException then
      status_effects status_None status_Full
    else if operation \<in> {O_System StoreSpecialRegister, O_System StoreSpecialRegisterPreDecrement} then
      (if special_register = Sr then status_effects status_Full status_None else no_status)
    else if operation \<in> {O_System LoadSpecialRegister, O_System LoadSpecialRegisterPostIncrement} then
      (if special_register = Sr then status_effects status_None status_Full else no_status)
    else no_status)"

definition contains_status_bit :: "StatusRegisterBit \<Rightarrow> StatusRegisterBit \<Rightarrow> bool" where
  "contains_status_bit effects requested =
     (let named_bits = ((status_T OR status_S) OR status_Q) OR status_M
      in if effects AND status_Full \<noteq> 0 \<and> requested \<noteq> 0 \<and> requested AND NOT named_bits = 0 then True
         else requested \<noteq> 0 \<and> effects AND requested = requested)"

subsection \<open>Memory effects\<close>

definition memory_effects ::
    "MemoryAccessKind \<Rightarrow> OperandWidth \<Rightarrow> nat \<Rightarrow> AddressUpdateKind \<Rightarrow> nat \<Rightarrow> MemoryEffects" where
  "memory_effects access width count update updated =
     \<lparr>me_access = access, me_width = width, me_access_count = count, me_address_update = update,
      me_updated_register_count = updated, me_region = UnknownRegion\<rparr>"

definition read_effects :: "OperandWidth \<Rightarrow> MemoryEffects" where
  "read_effects width = memory_effects Read width 1 NoneUpdate 0"

definition write_effects :: "OperandWidth \<Rightarrow> MemoryEffects" where
  "write_effects width = memory_effects Write width 1 NoneUpdate 0"

definition predecrement_write :: "OperandWidth \<Rightarrow> MemoryEffects" where
  "predecrement_write width = memory_effects Write width 1 PreDecrement 1"

definition postincrement_read :: "OperandWidth \<Rightarrow> MemoryEffects" where
  "postincrement_read width = memory_effects Read width 1 PostIncrement 1"

definition instruction_memory_effects :: "Operation \<Rightarrow> reg \<Rightarrow> reg \<Rightarrow> MemoryEffects" where
  "instruction_memory_effects operation destination_register source_register =
   (if operation \<in> {O_Memory LoadByteSigned, O_Memory LoadByteSignedDisplacement,
                  O_Memory LoadByteSignedR0Indexed, O_Memory LoadByteSignedGbrDisplacement,
                  O_Logic TestByteImmediate} then
      read_effects Bits8
    else if operation \<in> {O_Memory LoadWordSigned, O_Memory LoadWordSignedDisplacement,
                       O_Memory LoadWordSignedR0Indexed, O_Memory LoadWordSignedGbrDisplacement,
                       O_Memory LoadWordSignedPcRelative} then
      read_effects Bits16
    else if operation \<in> {O_Memory LoadLong, O_Memory LoadLongDisplacement,
                       O_Memory LoadLongR0Indexed, O_Memory LoadLongGbrDisplacement,
                       O_Memory LoadLongPcRelative} then
      read_effects Bits32
    else if operation \<in> {O_Fpu FmovLoad, O_Fpu FmovLoadR0Indexed} then
      memory_effects Read Bits64 2 NoneUpdate 0
    else if operation \<in> {O_Memory StoreByte, O_Memory StoreByteDisplacement,
                       O_Memory StoreByteR0Indexed, O_Memory StoreByteGbrDisplacement} then
      write_effects Bits8
    else if operation \<in> {O_Memory StoreWord, O_Memory StoreWordDisplacement,
                       O_Memory StoreWordR0Indexed, O_Memory StoreWordGbrDisplacement} then
      write_effects Bits16
    else if operation \<in> {O_Memory StoreLong, O_System MovcaLong, O_Memory StoreLongDisplacement,
                       O_Memory StoreLongR0Indexed, O_Memory StoreLongGbrDisplacement} then
      write_effects Bits32
    else if operation \<in> {O_Fpu FmovStore, O_Fpu FmovStoreR0Indexed} then
      memory_effects Write Bits64 2 NoneUpdate 0
    else if operation \<in> {O_Logic AndByteImmediate, O_Logic XorByteImmediate,
                       O_Logic OrByteImmediate, O_Logic TestAndSetByte} then
      memory_effects Write Bits8 2 NoneUpdate 0
    else if operation = O_Memory StoreBytePreDecrement then
      predecrement_write Bits8
    else if operation = O_Memory StoreWordPreDecrement then
      predecrement_write Bits16
    else if operation = O_Memory StoreLongPreDecrement then
      predecrement_write Bits32
    else if operation = O_System StoreSpecialRegisterPreDecrement then
      predecrement_write Bits32
    else if operation = O_Fpu FmovStorePreDecrement then
      memory_effects Write Bits64 2 PreDecrement 1
    else if operation = O_Memory LoadByteSignedPostIncrement then
      (if destination_register = source_register then read_effects Bits8
         else postincrement_read Bits8)
    else if operation = O_Memory LoadWordSignedPostIncrement then
      (if destination_register = source_register then read_effects Bits16
         else postincrement_read Bits16)
    else if operation = O_Memory LoadLongPostIncrement then
      (if destination_register = source_register then read_effects Bits32
         else postincrement_read Bits32)
    else if operation = O_System LoadSpecialRegisterPostIncrement then
      postincrement_read Bits32
    else if operation = O_Fpu FmovLoadPostIncrement then
      memory_effects Read Bits64 2 PostIncrement 1
    else if operation = O_MulDiv MultiplyAccumulateWord then
      memory_effects Read Bits16 2 PostIncrement 2
    else if operation = O_MulDiv MultiplyAccumulateLong then
      memory_effects Read Bits32 2 PostIncrement 2
    else no_memory)"

subsection \<open>Accumulator effects\<close>

definition accumulator_both :: AccumulatorRegister where
  "accumulator_both = accumulator_Mach OR accumulator_Macl"

definition accumulator_effects :: "AccumulatorRegister \<Rightarrow> AccumulatorRegister \<Rightarrow>
    AccumulatorRegister \<Rightarrow> AccumulatorRegister \<Rightarrow> AccumulatorEffects" where
  "accumulator_effects reads_clear reads_set writes_clear writes_set =
     \<lparr>ae_reads_if_s_clear = reads_clear, ae_reads_if_s_set = reads_set,
      ae_writes_if_s_clear = writes_clear, ae_writes_if_s_set = writes_set\<rparr>"

definition operation_accumulator_effects ::
    "Operation \<Rightarrow> IrSpecialRegister \<Rightarrow> AccumulatorEffects" where
  "operation_accumulator_effects operation special_register =
   (if operation = O_MulDiv ClearMac then
      accumulator_effects accumulator_None accumulator_None accumulator_both accumulator_both
    else if operation \<in> {O_MulDiv MultiplyLong, O_MulDiv MultiplySignedWord,
                        O_MulDiv MultiplyUnsignedWord} then
      accumulator_effects accumulator_None accumulator_None accumulator_Macl accumulator_Macl
    else if operation \<in> {O_MulDiv DoubleMultiplySignedLong,
                        O_MulDiv DoubleMultiplyUnsignedLong} then
      accumulator_effects accumulator_None accumulator_None accumulator_both accumulator_both
    else if operation = O_MulDiv MultiplyAccumulateWord then
      accumulator_effects accumulator_both accumulator_Macl accumulator_both accumulator_Macl
    else if operation = O_MulDiv MultiplyAccumulateLong then
      accumulator_effects accumulator_both accumulator_both accumulator_both accumulator_both
    else if operation \<in> {O_System StoreSpecialRegister,
                        O_System StoreSpecialRegisterPreDecrement} then
      (if special_register = Mach then
         accumulator_effects accumulator_Mach accumulator_Mach accumulator_None accumulator_None
       else if special_register = Macl then
         accumulator_effects accumulator_Macl accumulator_Macl accumulator_None accumulator_None
       else no_accumulator)
    else if operation \<in> {O_System LoadSpecialRegister,
                        O_System LoadSpecialRegisterPostIncrement} then
      (if special_register = Mach then
         accumulator_effects accumulator_None accumulator_None accumulator_Mach accumulator_Mach
       else if special_register = Macl then
         accumulator_effects accumulator_None accumulator_None accumulator_Macl accumulator_Macl
       else no_accumulator)
    else no_accumulator)"

definition contains_accumulator_register ::
    "AccumulatorRegister \<Rightarrow> AccumulatorRegister \<Rightarrow> bool" where
  "contains_accumulator_register effects requested \<longleftrightarrow>
     requested \<noteq> 0 \<and> effects AND requested = requested"

end
