(* ===== verification/Lower.thy ===== *)
theory Lower
  imports Decoder Ir_Effects
begin

text \<open>
  Lowering of decoded instructions to IR (\<open>src/ir/lower.cpp\<close>): the operation of each
  instruction kind, the special register, the printed operation names, and
  \<open>lower_instruction_impl\<close>.
\<close>

subsection \<open>Disassembly lines\<close>

record DisassemblyLine =
  dl_address :: u32
  dl_opcode :: u16
  dl_instruction :: DecodedInstruction
  dl_is_delay_slot :: bool
  dl_target_address :: "u32 option"

subsection \<open>Special registers and operations\<close>

fun lower_special_register :: "SpecialRegister \<Rightarrow> IrSpecialRegister" where
  "lower_special_register SpecialRegister.NoneRegister = IrSpecialRegister.NoneRegister"
| "lower_special_register SpecialRegister.Mach = IrSpecialRegister.Mach"
| "lower_special_register SpecialRegister.Macl = IrSpecialRegister.Macl"
| "lower_special_register SpecialRegister.Pr = IrSpecialRegister.Pr"
| "lower_special_register SpecialRegister.Fpul = IrSpecialRegister.Fpul"
| "lower_special_register SpecialRegister.Fpscr = IrSpecialRegister.Fpscr"
| "lower_special_register SpecialRegister.Sr = IrSpecialRegister.Sr"
| "lower_special_register SpecialRegister.Gbr = IrSpecialRegister.Gbr"
| "lower_special_register SpecialRegister.Vbr = IrSpecialRegister.Vbr"
| "lower_special_register SpecialRegister.Ssr = IrSpecialRegister.Ssr"
| "lower_special_register SpecialRegister.Spc = IrSpecialRegister.Spc"
| "lower_special_register SpecialRegister.Sgr = IrSpecialRegister.Sgr"
| "lower_special_register SpecialRegister.Dbr = IrSpecialRegister.Dbr"
| "lower_special_register SpecialRegister.Bank0 = IrSpecialRegister.Bank0"
| "lower_special_register SpecialRegister.Bank1 = IrSpecialRegister.Bank1"
| "lower_special_register SpecialRegister.Bank2 = IrSpecialRegister.Bank2"
| "lower_special_register SpecialRegister.Bank3 = IrSpecialRegister.Bank3"
| "lower_special_register SpecialRegister.Bank4 = IrSpecialRegister.Bank4"
| "lower_special_register SpecialRegister.Bank5 = IrSpecialRegister.Bank5"
| "lower_special_register SpecialRegister.Bank6 = IrSpecialRegister.Bank6"
| "lower_special_register SpecialRegister.Bank7 = IrSpecialRegister.Bank7"

fun lower_arith :: "ArithKind \<Rightarrow> Operation" where
  "lower_arith ArithKind.MovImmediate = O_Arith ArithOp.MovImmediate"
| "lower_arith ArithKind.AddImmediate = O_Arith ArithOp.AddImmediate"
| "lower_arith ArithKind.MovRegister = O_Arith ArithOp.MovRegister"
| "lower_arith ArithKind.AddRegister = O_Arith ArithOp.AddRegister"
| "lower_arith ArithKind.SubRegister = O_Arith ArithOp.SubRegister"
| "lower_arith ArithKind.NegateRegister = O_Arith ArithOp.NegateRegister"
| "lower_arith ArithKind.NotRegister = O_Arith ArithOp.NotRegister"
| "lower_arith ArithKind.AddWithCarry = O_Arith ArithOp.AddWithCarry"
| "lower_arith ArithKind.AddWithOverflow = O_Arith ArithOp.AddWithOverflow"
| "lower_arith ArithKind.SubWithCarry = O_Arith ArithOp.SubWithCarry"
| "lower_arith ArithKind.SubWithOverflow = O_Arith ArithOp.SubWithOverflow"
| "lower_arith ArithKind.NegateWithCarry = O_Arith ArithOp.NegateWithCarry"
| "lower_arith ArithKind.ExtendUnsignedByte = O_Arith ArithOp.ExtendUnsignedByte"
| "lower_arith ArithKind.ExtendUnsignedWord = O_Arith ArithOp.ExtendUnsignedWord"
| "lower_arith ArithKind.ExtendSignedByte = O_Arith ArithOp.ExtendSignedByte"
| "lower_arith ArithKind.ExtendSignedWord = O_Arith ArithOp.ExtendSignedWord"
| "lower_arith ArithKind.SwapBytes = O_Arith ArithOp.SwapBytes"
| "lower_arith ArithKind.SwapWords = O_Arith ArithOp.SwapWords"
| "lower_arith ArithKind.ExtractMiddle = O_Arith ArithOp.ExtractMiddle"
| "lower_arith ArithKind.DecrementAndTest = O_Arith ArithOp.DecrementAndTest"
| "lower_arith ArithKind.MoveT = O_Arith ArithOp.MoveT"

fun lower_shift :: "ShiftKind \<Rightarrow> Operation" where
  "lower_shift ShiftKind.ShiftLogicalLeftOne = O_Shift ShiftOp.ShiftLogicalLeftOne"
| "lower_shift ShiftKind.ShiftLogicalRightOne = O_Shift ShiftOp.ShiftLogicalRightOne"
| "lower_shift ShiftKind.ShiftArithmeticLeftOne = O_Shift ShiftOp.ShiftArithmeticLeftOne"
| "lower_shift ShiftKind.ShiftArithmeticRightOne = O_Shift ShiftOp.ShiftArithmeticRightOne"
| "lower_shift ShiftKind.ShiftLogicalLeftTwo = O_Shift ShiftOp.ShiftLogicalLeftTwo"
| "lower_shift ShiftKind.ShiftLogicalLeftEight = O_Shift ShiftOp.ShiftLogicalLeftEight"
| "lower_shift ShiftKind.ShiftLogicalLeftSixteen = O_Shift ShiftOp.ShiftLogicalLeftSixteen"
| "lower_shift ShiftKind.ShiftLogicalRightTwo = O_Shift ShiftOp.ShiftLogicalRightTwo"
| "lower_shift ShiftKind.ShiftLogicalRightEight = O_Shift ShiftOp.ShiftLogicalRightEight"
| "lower_shift ShiftKind.ShiftLogicalRightSixteen = O_Shift ShiftOp.ShiftLogicalRightSixteen"
| "lower_shift ShiftKind.RotateLeft = O_Shift ShiftOp.RotateLeft"
| "lower_shift ShiftKind.RotateRight = O_Shift ShiftOp.RotateRight"
| "lower_shift ShiftKind.RotateLeftThroughT = O_Shift ShiftOp.RotateLeftThroughT"
| "lower_shift ShiftKind.RotateRightThroughT = O_Shift ShiftOp.RotateRightThroughT"
| "lower_shift ShiftKind.ShiftArithmeticDynamic = O_Shift ShiftOp.ShiftArithmeticDynamic"
| "lower_shift ShiftKind.ShiftLogicalDynamic = O_Shift ShiftOp.ShiftLogicalDynamic"

fun lower_muldiv :: "MulDivKind \<Rightarrow> Operation" where
  "lower_muldiv MulDivKind.MultiplyLong = O_MulDiv MulDivOp.MultiplyLong"
| "lower_muldiv MulDivKind.MultiplySignedWord = O_MulDiv MulDivOp.MultiplySignedWord"
| "lower_muldiv MulDivKind.MultiplyUnsignedWord = O_MulDiv MulDivOp.MultiplyUnsignedWord"
| "lower_muldiv MulDivKind.DoubleMultiplySignedLong = O_MulDiv MulDivOp.DoubleMultiplySignedLong"
| "lower_muldiv MulDivKind.DoubleMultiplyUnsignedLong = O_MulDiv MulDivOp.DoubleMultiplyUnsignedLong"
| "lower_muldiv MulDivKind.MultiplyAccumulateWord = O_MulDiv MulDivOp.MultiplyAccumulateWord"
| "lower_muldiv MulDivKind.MultiplyAccumulateLong = O_MulDiv MulDivOp.MultiplyAccumulateLong"
| "lower_muldiv MulDivKind.DivideInitializeUnsigned = O_MulDiv MulDivOp.DivideInitializeUnsigned"
| "lower_muldiv MulDivKind.DivideInitializeSigned = O_MulDiv MulDivOp.DivideInitializeSigned"
| "lower_muldiv MulDivKind.DivideStep = O_MulDiv MulDivOp.DivideStep"
| "lower_muldiv MulDivKind.ClearMac = O_MulDiv MulDivOp.ClearMac"

fun lower_logic :: "LogicKind \<Rightarrow> Operation" where
  "lower_logic LogicKind.AndRegister = O_Logic LogicOp.AndRegister"
| "lower_logic LogicKind.OrRegister = O_Logic LogicOp.OrRegister"
| "lower_logic LogicKind.XorRegister = O_Logic LogicOp.XorRegister"
| "lower_logic LogicKind.AndImmediate = O_Logic LogicOp.AndImmediate"
| "lower_logic LogicKind.OrImmediate = O_Logic LogicOp.OrImmediate"
| "lower_logic LogicKind.XorImmediate = O_Logic LogicOp.XorImmediate"
| "lower_logic LogicKind.ClearS = O_Logic LogicOp.ClearS"
| "lower_logic LogicKind.SetS = O_Logic LogicOp.SetS"
| "lower_logic LogicKind.ClearT = O_Logic LogicOp.ClearT"
| "lower_logic LogicKind.SetT = O_Logic LogicOp.SetT"
| "lower_logic LogicKind.CompareEqualImmediate = O_Logic LogicOp.CompareEqualImmediate"
| "lower_logic LogicKind.CompareEqualRegister = O_Logic LogicOp.CompareEqualRegister"
| "lower_logic LogicKind.CompareHigherOrSame = O_Logic LogicOp.CompareHigherOrSame"
| "lower_logic LogicKind.CompareGreaterOrEqual = O_Logic LogicOp.CompareGreaterOrEqual"
| "lower_logic LogicKind.CompareHigher = O_Logic LogicOp.CompareHigher"
| "lower_logic LogicKind.CompareGreaterThan = O_Logic LogicOp.CompareGreaterThan"
| "lower_logic LogicKind.ComparePositiveOrZero = O_Logic LogicOp.ComparePositiveOrZero"
| "lower_logic LogicKind.ComparePositive = O_Logic LogicOp.ComparePositive"
| "lower_logic LogicKind.CompareString = O_Logic LogicOp.CompareString"
| "lower_logic LogicKind.TestImmediate = O_Logic LogicOp.TestImmediate"
| "lower_logic LogicKind.TestRegister = O_Logic LogicOp.TestRegister"
| "lower_logic LogicKind.TestByteImmediate = O_Logic LogicOp.TestByteImmediate"
| "lower_logic LogicKind.AndByteImmediate = O_Logic LogicOp.AndByteImmediate"
| "lower_logic LogicKind.XorByteImmediate = O_Logic LogicOp.XorByteImmediate"
| "lower_logic LogicKind.OrByteImmediate = O_Logic LogicOp.OrByteImmediate"
| "lower_logic LogicKind.TestAndSetByte = O_Logic LogicOp.TestAndSetByte"

fun lower_move :: "MoveKind \<Rightarrow> Operation" where
  "lower_move MoveKind.MovByteLoad = O_Memory MemoryOp.LoadByteSigned"
| "lower_move MoveKind.MovWordLoad = O_Memory MemoryOp.LoadWordSigned"
| "lower_move MoveKind.MovLongLoad = O_Memory MemoryOp.LoadLong"
| "lower_move MoveKind.MovByteStore = O_Memory MemoryOp.StoreByte"
| "lower_move MoveKind.MovWordStore = O_Memory MemoryOp.StoreWord"
| "lower_move MoveKind.MovLongStore = O_Memory MemoryOp.StoreLong"
| "lower_move MoveKind.MovByteStorePreDecrement = O_Memory MemoryOp.StoreBytePreDecrement"
| "lower_move MoveKind.MovWordStorePreDecrement = O_Memory MemoryOp.StoreWordPreDecrement"
| "lower_move MoveKind.MovLongStorePreDecrement = O_Memory MemoryOp.StoreLongPreDecrement"
| "lower_move MoveKind.MovByteLoadPostIncrement = O_Memory MemoryOp.LoadByteSignedPostIncrement"
| "lower_move MoveKind.MovWordLoadPostIncrement = O_Memory MemoryOp.LoadWordSignedPostIncrement"
| "lower_move MoveKind.MovLongLoadPostIncrement = O_Memory MemoryOp.LoadLongPostIncrement"
| "lower_move MoveKind.MovByteStoreDisplacement = O_Memory MemoryOp.StoreByteDisplacement"
| "lower_move MoveKind.MovWordStoreDisplacement = O_Memory MemoryOp.StoreWordDisplacement"
| "lower_move MoveKind.MovLongStoreDisplacement = O_Memory MemoryOp.StoreLongDisplacement"
| "lower_move MoveKind.MovByteLoadDisplacement = O_Memory MemoryOp.LoadByteSignedDisplacement"
| "lower_move MoveKind.MovWordLoadDisplacement = O_Memory MemoryOp.LoadWordSignedDisplacement"
| "lower_move MoveKind.MovLongLoadDisplacement = O_Memory MemoryOp.LoadLongDisplacement"
| "lower_move MoveKind.MovByteStoreR0Indexed = O_Memory MemoryOp.StoreByteR0Indexed"
| "lower_move MoveKind.MovWordStoreR0Indexed = O_Memory MemoryOp.StoreWordR0Indexed"
| "lower_move MoveKind.MovLongStoreR0Indexed = O_Memory MemoryOp.StoreLongR0Indexed"
| "lower_move MoveKind.MovByteLoadR0Indexed = O_Memory MemoryOp.LoadByteSignedR0Indexed"
| "lower_move MoveKind.MovWordLoadR0Indexed = O_Memory MemoryOp.LoadWordSignedR0Indexed"
| "lower_move MoveKind.MovLongLoadR0Indexed = O_Memory MemoryOp.LoadLongR0Indexed"
| "lower_move MoveKind.MovByteStoreGbrDisplacement = O_Memory MemoryOp.StoreByteGbrDisplacement"
| "lower_move MoveKind.MovWordStoreGbrDisplacement = O_Memory MemoryOp.StoreWordGbrDisplacement"
| "lower_move MoveKind.MovLongStoreGbrDisplacement = O_Memory MemoryOp.StoreLongGbrDisplacement"
| "lower_move MoveKind.MovByteLoadGbrDisplacement = O_Memory MemoryOp.LoadByteSignedGbrDisplacement"
| "lower_move MoveKind.MovWordLoadGbrDisplacement = O_Memory MemoryOp.LoadWordSignedGbrDisplacement"
| "lower_move MoveKind.MovLongLoadGbrDisplacement = O_Memory MemoryOp.LoadLongGbrDisplacement"
| "lower_move MoveKind.MovWordLoadPcRelative = O_Memory MemoryOp.LoadWordSignedPcRelative"
| "lower_move MoveKind.MovLongLoadPcRelative = O_Memory MemoryOp.LoadLongPcRelative"
| "lower_move MoveKind.MoveAddressPcRelative = O_Memory MemoryOp.MoveAddressPcRelative"

fun lower_system :: "SystemKind \<Rightarrow> Operation" where
  "lower_system SystemKind.StoreSpecialRegister = O_System SystemOp.StoreSpecialRegister"
| "lower_system SystemKind.StoreSpecialRegisterPreDecrement = O_System SystemOp.StoreSpecialRegisterPreDecrement"
| "lower_system SystemKind.LoadSpecialRegister = O_System SystemOp.LoadSpecialRegister"
| "lower_system SystemKind.LoadSpecialRegisterPostIncrement = O_System SystemOp.LoadSpecialRegisterPostIncrement"
| "lower_system SystemKind.TrapAlways = O_System SystemOp.TrapAlways"
| "lower_system SystemKind.ReturnFromException = O_System SystemOp.ReturnFromException"
| "lower_system SystemKind.Sleep = O_System SystemOp.Sleep"
| "lower_system SystemKind.LoadTlb = O_System SystemOp.LoadTlb"
| "lower_system SystemKind.Prefetch = O_System SystemOp.Prefetch"
| "lower_system SystemKind.Ocbi = O_System SystemOp.Ocbi"
| "lower_system SystemKind.Ocbp = O_System SystemOp.Ocbp"
| "lower_system SystemKind.Ocbwb = O_System SystemOp.Ocbwb"
| "lower_system SystemKind.MovcaLong = O_System SystemOp.MovcaLong"

fun lower_flow :: "FlowKind \<Rightarrow> Operation" where
  "lower_flow FlowKind.Bra = O_Flow FlowOp.Branch"
| "lower_flow FlowKind.Bsr = O_Flow FlowOp.Call"
| "lower_flow FlowKind.Braf = O_Flow FlowOp.JumpRegister"
| "lower_flow FlowKind.Bsrf = O_Flow FlowOp.CallRegister"
| "lower_flow FlowKind.Bt = O_Flow FlowOp.BranchIfTrue"
| "lower_flow FlowKind.BtS = O_Flow FlowOp.BranchIfTrue"
| "lower_flow FlowKind.Bf = O_Flow FlowOp.BranchIfFalse"
| "lower_flow FlowKind.BfS = O_Flow FlowOp.BranchIfFalse"
| "lower_flow FlowKind.Jmp = O_Flow FlowOp.JumpRegister"
| "lower_flow FlowKind.Jsr = O_Flow FlowOp.CallRegister"

fun lower_fpu :: "FpuKind \<Rightarrow> Operation" where
  "lower_fpu FpuKind.FmovRegister = O_Fpu FpuOp.FmovRegister"
| "lower_fpu FpuKind.FmovLoad = O_Fpu FpuOp.FmovLoad"
| "lower_fpu FpuKind.FmovLoadPostIncrement = O_Fpu FpuOp.FmovLoadPostIncrement"
| "lower_fpu FpuKind.FmovLoadR0Indexed = O_Fpu FpuOp.FmovLoadR0Indexed"
| "lower_fpu FpuKind.FmovStore = O_Fpu FpuOp.FmovStore"
| "lower_fpu FpuKind.FmovStorePreDecrement = O_Fpu FpuOp.FmovStorePreDecrement"
| "lower_fpu FpuKind.FmovStoreR0Indexed = O_Fpu FpuOp.FmovStoreR0Indexed"
| "lower_fpu FpuKind.Fldi0 = O_Fpu FpuOp.Fldi0"
| "lower_fpu FpuKind.Fldi1 = O_Fpu FpuOp.Fldi1"
| "lower_fpu FpuKind.Flds = O_Fpu FpuOp.Flds"
| "lower_fpu FpuKind.Fsts = O_Fpu FpuOp.Fsts"
| "lower_fpu FpuKind.Fabs = O_Fpu FpuOp.Fabs"
| "lower_fpu FpuKind.Fadd = O_Fpu FpuOp.Fadd"
| "lower_fpu FpuKind.FcmpEqual = O_Fpu FpuOp.FcmpEqual"
| "lower_fpu FpuKind.FcmpGreater = O_Fpu FpuOp.FcmpGreater"
| "lower_fpu FpuKind.Fdiv = O_Fpu FpuOp.Fdiv"
| "lower_fpu FpuKind.FloatFromFpul = O_Fpu FpuOp.FloatFromFpul"
| "lower_fpu FpuKind.Fmac = O_Fpu FpuOp.Fmac"
| "lower_fpu FpuKind.Fmul = O_Fpu FpuOp.Fmul"
| "lower_fpu FpuKind.Fneg = O_Fpu FpuOp.Fneg"
| "lower_fpu FpuKind.Fsqrt = O_Fpu FpuOp.Fsqrt"
| "lower_fpu FpuKind.Fsrra = O_Fpu FpuOp.Fsrra"
| "lower_fpu FpuKind.Fsca = O_Fpu FpuOp.Fsca"
| "lower_fpu FpuKind.Fipr = O_Fpu FpuOp.Fipr"
| "lower_fpu FpuKind.Ftrv = O_Fpu FpuOp.Ftrv"
| "lower_fpu FpuKind.Fsub = O_Fpu FpuOp.Fsub"
| "lower_fpu FpuKind.Ftrc = O_Fpu FpuOp.Ftrc"
| "lower_fpu FpuKind.FcnvDoubleToSingle = O_Fpu FpuOp.FcnvDoubleToSingle"
| "lower_fpu FpuKind.FcnvSingleToDouble = O_Fpu FpuOp.FcnvSingleToDouble"
| "lower_fpu FpuKind.Frchg = O_Fpu FpuOp.Frchg"
| "lower_fpu FpuKind.Fschg = O_Fpu FpuOp.Fschg"

definition lower_operation :: "InstructionKind \<Rightarrow> Operation" where
  "lower_operation k = (case k of
       InstructionKind.Nop \<Rightarrow> Operation.Nop
     | K_Arith a \<Rightarrow> lower_arith a
     | K_Shift s \<Rightarrow> lower_shift s
     | K_MulDiv m \<Rightarrow> lower_muldiv m
     | K_Logic l \<Rightarrow> lower_logic l
     | K_Move m \<Rightarrow> lower_move m
     | K_System s \<Rightarrow> lower_system s
     | K_Fpu f \<Rightarrow> lower_fpu f
     | K_Flow f \<Rightarrow> lower_flow f
     | InstructionKind.Rts \<Rightarrow> O_Flow FlowOp.Return
     | InstructionKind.Unknown \<Rightarrow> Operation.Unknown)"

definition requires_architectural_safepoint :: "DisassemblyLine \<Rightarrow> bool" where
  "requires_architectural_safepoint line =
     (if dl_is_delay_slot line then False
      else if d_kind (dl_instruction line) \<in> {K_System SystemKind.LoadSpecialRegister,
              K_System SystemKind.LoadSpecialRegisterPostIncrement} \<and>
           d_special_register (dl_instruction line) \<in> {SpecialRegister.Sr, SpecialRegister.Fpscr}
      then True
      else d_kind (dl_instruction line) \<in>
             {K_System SystemKind.LoadTlb, K_Fpu FpuKind.Frchg, K_Fpu FpuKind.Fschg})"

text \<open>
  \<open>lower_instruction_impl\<close>.  The assignments are made in source order; later ones overwrite
  fields of the default-initialised result.
\<close>

definition lowered_effective_address :: "Operation \<Rightarrow> u32 \<Rightarrow> u32 \<Rightarrow> u32 option" where
  "lowered_effective_address operation address displacement =
     (if operation = O_Memory MemoryOp.LoadWordSignedPcRelative then
        Some (address + 4 + displacement)
      else if operation \<in> {O_Memory MemoryOp.LoadLongPcRelative,
                          O_Memory MemoryOp.MoveAddressPcRelative} then
        Some ((address AND 0xFFFFFFFC) + 4 + displacement)
      else None)"

definition lowered_delay_slot :: "DisassemblyLine \<Rightarrow> DelaySlotRelation" where
  "lowered_delay_slot source =
     (if dl_is_delay_slot source then
        \<lparr>ds_role = Slot, ds_counterpart_address = Some (dl_address source - 2)\<rparr>
      else if d_has_delay_slot (dl_instruction source) then
        \<lparr>ds_role = Owner, ds_counterpart_address = Some (dl_address source + 2)\<rparr>
      else no_delay_slot)"

definition lower_instruction :: "DisassemblyLine \<Rightarrow> Instruction" where
  "lower_instruction source =
     (let decoded = dl_instruction source;
          operation = lower_operation (d_kind decoded);
          special = lower_special_register (d_special_register decoded)
      in empty_instruction\<lparr>
           ir_source_address := dl_address source,
           ir_original_opcode := dl_opcode source,
           ir_operation := operation,
           ir_original_operation := operation,
           ir_widths := operation_operand_widths operation,
           ir_special_register := special,
           ir_accumulator_effects := operation_accumulator_effects operation special,
           ir_destination_register := d_destination_register decoded,
           ir_source_register := d_source_register decoded,
           ir_branch_register := d_branch_register decoded,
           ir_memory_effects := instruction_memory_effects operation
             (d_destination_register decoded) (d_source_register decoded),
           ir_immediate := d_immediate decoded,
           ir_displacement := d_displacement decoded,
           ir_status_effects := instruction_status_effects operation special,
           ir_effective_address := lowered_effective_address operation (dl_address source)
             (to_u32 (d_displacement decoded)),
           ir_target_address := dl_target_address source,
           ir_delay_slot := lowered_delay_slot source,
           ir_is_privileged := d_is_privileged decoded,
           ir_branch_register_relative :=
             d_kind decoded \<in> {K_Flow FlowKind.Braf, K_Flow FlowKind.Bsrf},
           ir_dynamic_target_class :=
             (if operation \<in> {O_Flow FlowOp.JumpRegister, O_Flow FlowOp.CallRegister}
              then Unresolved else NotApplicable)\<rparr>)"

subsection \<open>Operation names\<close>

fun arith_name :: "ArithOp \<Rightarrow> string" where
  "arith_name ArithOp.MovImmediate = ''mov_imm''"
| "arith_name ArithOp.Constant32 = ''constant32''"
| "arith_name ArithOp.AddImmediate = ''add_imm''"
| "arith_name ArithOp.MovRegister = ''mov_reg''"
| "arith_name ArithOp.AddRegister = ''add_reg''"
| "arith_name ArithOp.SubRegister = ''sub_reg''"
| "arith_name ArithOp.NegateRegister = ''neg_reg''"
| "arith_name ArithOp.NotRegister = ''not_reg''"
| "arith_name ArithOp.AddWithCarry = ''add_with_carry''"
| "arith_name ArithOp.AddWithOverflow = ''add_with_overflow''"
| "arith_name ArithOp.SubWithCarry = ''sub_with_carry''"
| "arith_name ArithOp.SubWithOverflow = ''sub_with_overflow''"
| "arith_name ArithOp.NegateWithCarry = ''negate_with_carry''"
| "arith_name ArithOp.ExtendUnsignedByte = ''extend_unsigned_byte''"
| "arith_name ArithOp.ExtendUnsignedWord = ''extend_unsigned_word''"
| "arith_name ArithOp.ExtendSignedByte = ''extend_signed_byte''"
| "arith_name ArithOp.ExtendSignedWord = ''extend_signed_word''"
| "arith_name ArithOp.SwapBytes = ''swap_bytes''"
| "arith_name ArithOp.SwapWords = ''swap_words''"
| "arith_name ArithOp.ExtractMiddle = ''extract_middle''"
| "arith_name ArithOp.DecrementAndTest = ''decrement_and_test''"
| "arith_name ArithOp.MoveT = ''move_t''"

fun shift_name :: "ShiftOp \<Rightarrow> string" where
  "shift_name ShiftOp.ShiftLogicalLeftOne = ''shift_logical_left_one''"
| "shift_name ShiftOp.ShiftLogicalRightOne = ''shift_logical_right_one''"
| "shift_name ShiftOp.ShiftArithmeticLeftOne = ''shift_arithmetic_left_one''"
| "shift_name ShiftOp.ShiftArithmeticRightOne = ''shift_arithmetic_right_one''"
| "shift_name ShiftOp.ShiftLogicalLeftTwo = ''shift_logical_left_two''"
| "shift_name ShiftOp.ShiftLogicalLeftEight = ''shift_logical_left_eight''"
| "shift_name ShiftOp.ShiftLogicalLeftSixteen = ''shift_logical_left_sixteen''"
| "shift_name ShiftOp.ShiftLogicalRightTwo = ''shift_logical_right_two''"
| "shift_name ShiftOp.ShiftLogicalRightEight = ''shift_logical_right_eight''"
| "shift_name ShiftOp.ShiftLogicalRightSixteen = ''shift_logical_right_sixteen''"
| "shift_name ShiftOp.RotateLeft = ''rotate_left''"
| "shift_name ShiftOp.RotateRight = ''rotate_right''"
| "shift_name ShiftOp.RotateLeftThroughT = ''rotate_left_through_t''"
| "shift_name ShiftOp.RotateRightThroughT = ''rotate_right_through_t''"
| "shift_name ShiftOp.ShiftArithmeticDynamic = ''shift_arithmetic_dynamic''"
| "shift_name ShiftOp.ShiftLogicalDynamic = ''shift_logical_dynamic''"

fun muldiv_name :: "MulDivOp \<Rightarrow> string" where
  "muldiv_name MulDivOp.MultiplyLong = ''multiply_long''"
| "muldiv_name MulDivOp.MultiplySignedWord = ''multiply_signed_word''"
| "muldiv_name MulDivOp.MultiplyUnsignedWord = ''multiply_unsigned_word''"
| "muldiv_name MulDivOp.DoubleMultiplySignedLong = ''double_multiply_signed_long''"
| "muldiv_name MulDivOp.DoubleMultiplyUnsignedLong = ''double_multiply_unsigned_long''"
| "muldiv_name MulDivOp.MultiplyAccumulateWord = ''multiply_accumulate_word''"
| "muldiv_name MulDivOp.MultiplyAccumulateLong = ''multiply_accumulate_long''"
| "muldiv_name MulDivOp.DivideInitializeUnsigned = ''divide_initialize_unsigned''"
| "muldiv_name MulDivOp.DivideInitializeSigned = ''divide_initialize_signed''"
| "muldiv_name MulDivOp.DivideStep = ''divide_step''"
| "muldiv_name MulDivOp.ClearMac = ''clear_mac''"

fun logic_name :: "LogicOp \<Rightarrow> string" where
  "logic_name LogicOp.AndRegister = ''and_reg''"
| "logic_name LogicOp.OrRegister = ''or_reg''"
| "logic_name LogicOp.XorRegister = ''xor_reg''"
| "logic_name LogicOp.AndImmediate = ''and_imm''"
| "logic_name LogicOp.OrImmediate = ''or_imm''"
| "logic_name LogicOp.XorImmediate = ''xor_imm''"
| "logic_name LogicOp.ClearS = ''clear_s''"
| "logic_name LogicOp.SetS = ''set_s''"
| "logic_name LogicOp.ClearT = ''clear_t''"
| "logic_name LogicOp.SetT = ''set_t''"
| "logic_name LogicOp.CompareEqualImmediate = ''compare_equal_imm''"
| "logic_name LogicOp.CompareEqualRegister = ''compare_equal_reg''"
| "logic_name LogicOp.CompareHigherOrSame = ''compare_higher_or_same''"
| "logic_name LogicOp.CompareGreaterOrEqual = ''compare_greater_or_equal''"
| "logic_name LogicOp.CompareHigher = ''compare_higher''"
| "logic_name LogicOp.CompareGreaterThan = ''compare_greater_than''"
| "logic_name LogicOp.ComparePositiveOrZero = ''compare_positive_or_zero''"
| "logic_name LogicOp.ComparePositive = ''compare_positive''"
| "logic_name LogicOp.CompareString = ''compare_string''"
| "logic_name LogicOp.TestImmediate = ''test_imm''"
| "logic_name LogicOp.TestRegister = ''test_reg''"
| "logic_name LogicOp.TestByteImmediate = ''test_byte_imm''"
| "logic_name LogicOp.AndByteImmediate = ''and_byte_imm''"
| "logic_name LogicOp.XorByteImmediate = ''xor_byte_imm''"
| "logic_name LogicOp.OrByteImmediate = ''or_byte_imm''"
| "logic_name LogicOp.TestAndSetByte = ''test_and_set_byte''"

fun memory_name :: "MemoryOp \<Rightarrow> string" where
  "memory_name MemoryOp.LoadByteSigned = ''load_s8''"
| "memory_name MemoryOp.LoadWordSigned = ''load_s16''"
| "memory_name MemoryOp.LoadLong = ''load_u32''"
| "memory_name MemoryOp.StoreByte = ''store_u8''"
| "memory_name MemoryOp.StoreWord = ''store_u16''"
| "memory_name MemoryOp.StoreLong = ''store_u32''"
| "memory_name MemoryOp.StoreBytePreDecrement = ''store_u8_predecrement''"
| "memory_name MemoryOp.StoreWordPreDecrement = ''store_u16_predecrement''"
| "memory_name MemoryOp.StoreLongPreDecrement = ''store_u32_predecrement''"
| "memory_name MemoryOp.LoadByteSignedPostIncrement = ''load_s8_postincrement''"
| "memory_name MemoryOp.LoadWordSignedPostIncrement = ''load_s16_postincrement''"
| "memory_name MemoryOp.LoadLongPostIncrement = ''load_u32_postincrement''"
| "memory_name MemoryOp.StoreByteDisplacement = ''store_u8_displacement''"
| "memory_name MemoryOp.StoreWordDisplacement = ''store_u16_displacement''"
| "memory_name MemoryOp.StoreLongDisplacement = ''store_u32_displacement''"
| "memory_name MemoryOp.LoadByteSignedDisplacement = ''load_s8_displacement''"
| "memory_name MemoryOp.LoadWordSignedDisplacement = ''load_s16_displacement''"
| "memory_name MemoryOp.LoadLongDisplacement = ''load_u32_displacement''"
| "memory_name MemoryOp.StoreByteR0Indexed = ''store_u8_r0_indexed''"
| "memory_name MemoryOp.StoreWordR0Indexed = ''store_u16_r0_indexed''"
| "memory_name MemoryOp.StoreLongR0Indexed = ''store_u32_r0_indexed''"
| "memory_name MemoryOp.LoadByteSignedR0Indexed = ''load_s8_r0_indexed''"
| "memory_name MemoryOp.LoadWordSignedR0Indexed = ''load_s16_r0_indexed''"
| "memory_name MemoryOp.LoadLongR0Indexed = ''load_u32_r0_indexed''"
| "memory_name MemoryOp.StoreByteGbrDisplacement = ''store_u8_gbr_displacement''"
| "memory_name MemoryOp.StoreWordGbrDisplacement = ''store_u16_gbr_displacement''"
| "memory_name MemoryOp.StoreLongGbrDisplacement = ''store_u32_gbr_displacement''"
| "memory_name MemoryOp.LoadByteSignedGbrDisplacement = ''load_s8_gbr_displacement''"
| "memory_name MemoryOp.LoadWordSignedGbrDisplacement = ''load_s16_gbr_displacement''"
| "memory_name MemoryOp.LoadLongGbrDisplacement = ''load_u32_gbr_displacement''"
| "memory_name MemoryOp.LoadWordSignedPcRelative = ''load_s16_pc_relative''"
| "memory_name MemoryOp.LoadLongPcRelative = ''load_u32_pc_relative''"
| "memory_name MemoryOp.MoveAddressPcRelative = ''move_address_pc_relative''"

fun system_name :: "SystemOp \<Rightarrow> string" where
  "system_name SystemOp.StoreSpecialRegister = ''store_special_register''"
| "system_name SystemOp.StoreSpecialRegisterPreDecrement = ''store_special_register_pre_decrement''"
| "system_name SystemOp.LoadSpecialRegister = ''load_special_register''"
| "system_name SystemOp.LoadSpecialRegisterPostIncrement = ''load_special_register_post_increment''"
| "system_name SystemOp.TrapAlways = ''trap_always''"
| "system_name SystemOp.ReturnFromException = ''return_from_exception''"
| "system_name SystemOp.Sleep = ''sleep''"
| "system_name SystemOp.LoadTlb = ''ldtlb''"
| "system_name SystemOp.Prefetch = ''prefetch''"
| "system_name SystemOp.Ocbi = ''ocbi''"
| "system_name SystemOp.Ocbp = ''ocbp''"
| "system_name SystemOp.Ocbwb = ''ocbwb''"
| "system_name SystemOp.MovcaLong = ''movca_long''"

fun fpu_name :: "FpuOp \<Rightarrow> string" where
  "fpu_name FpuOp.FmovRegister = ''fmov_reg''"
| "fpu_name FpuOp.FmovLoad = ''fmov_load''"
| "fpu_name FpuOp.FmovLoadPostIncrement = ''fmov_load_postinc''"
| "fpu_name FpuOp.FmovLoadR0Indexed = ''fmov_load_r0''"
| "fpu_name FpuOp.FmovStore = ''fmov_store''"
| "fpu_name FpuOp.FmovStorePreDecrement = ''fmov_store_predec''"
| "fpu_name FpuOp.FmovStoreR0Indexed = ''fmov_store_r0''"
| "fpu_name FpuOp.Fldi0 = ''fldi0''"
| "fpu_name FpuOp.Fldi1 = ''fldi1''"
| "fpu_name FpuOp.Flds = ''flds''"
| "fpu_name FpuOp.Fsts = ''fsts''"
| "fpu_name FpuOp.Fabs = ''fabs''"
| "fpu_name FpuOp.Fadd = ''fadd''"
| "fpu_name FpuOp.FcmpEqual = ''fcmp_eq''"
| "fpu_name FpuOp.FcmpGreater = ''fcmp_gt''"
| "fpu_name FpuOp.Fdiv = ''fdiv''"
| "fpu_name FpuOp.FloatFromFpul = ''float''"
| "fpu_name FpuOp.Fmac = ''fmac''"
| "fpu_name FpuOp.Fmul = ''fmul''"
| "fpu_name FpuOp.Fneg = ''fneg''"
| "fpu_name FpuOp.Fsqrt = ''fsqrt''"
| "fpu_name FpuOp.Fsrra = ''fsrra''"
| "fpu_name FpuOp.Fsca = ''fsca''"
| "fpu_name FpuOp.Fipr = ''fipr''"
| "fpu_name FpuOp.Ftrv = ''ftrv''"
| "fpu_name FpuOp.Fsub = ''fsub''"
| "fpu_name FpuOp.Ftrc = ''ftrc''"
| "fpu_name FpuOp.FcnvDoubleToSingle = ''fcnvds''"
| "fpu_name FpuOp.FcnvSingleToDouble = ''fcnvsd''"
| "fpu_name FpuOp.Frchg = ''frchg''"
| "fpu_name FpuOp.Fschg = ''fschg''"

fun flow_name :: "FlowOp \<Rightarrow> string" where
  "flow_name FlowOp.Branch = ''branch''"
| "flow_name FlowOp.Call = ''call''"
| "flow_name FlowOp.BranchIfTrue = ''branch_if_true''"
| "flow_name FlowOp.BranchIfFalse = ''branch_if_false''"
| "flow_name FlowOp.JumpRegister = ''jump_register''"
| "flow_name FlowOp.CallRegister = ''call_register''"
| "flow_name FlowOp.Return = ''return''"

definition operation_name :: "Operation \<Rightarrow> string" where
  "operation_name operation = (case operation of
       Operation.Unknown \<Rightarrow> ''unknown''
     | Operation.Nop \<Rightarrow> ''nop''
     | O_Arith a \<Rightarrow> arith_name a
     | O_Shift s \<Rightarrow> shift_name s
     | O_MulDiv m \<Rightarrow> muldiv_name m
     | O_Logic l \<Rightarrow> logic_name l
     | O_Memory m \<Rightarrow> memory_name m
     | O_System s \<Rightarrow> system_name s
     | O_Fpu f \<Rightarrow> fpu_name f
     | O_Flow f \<Rightarrow> flow_name f)"

end
