(* ===== verification/Runtime_Types.thy ===== *)
theory Runtime_Types
  imports Prelude
begin

text \<open>
  Constants and enumerations of the runtime (\<open>include/katana/runtime/runtime.hpp\<close>,
  \<open>include/katana/runtime/exception.hpp\<close>, \<open>include/katana/runtime/memory.hpp\<close>) and the
  canonical physical address, shared by the address space and the CPU state.
\<close>

subsection \<open>Constants\<close>

definition sr_t_mask :: u32 where "sr_t_mask = 0x00000001"
definition sr_s_mask :: u32 where "sr_s_mask = 0x00000002"
definition sr_interrupt_mask :: u32 where "sr_interrupt_mask = 0x000000F0"
definition sr_q_mask :: u32 where "sr_q_mask = 0x00000100"
definition sr_m_mask :: u32 where "sr_m_mask = 0x00000200"
definition sr_fd_mask :: u32 where "sr_fd_mask = 0x00008000"
definition sr_bl_mask :: u32 where "sr_bl_mask = 0x10000000"
definition sr_rb_mask :: u32 where "sr_rb_mask = 0x20000000"
definition sr_md_mask :: u32 where "sr_md_mask = 0x40000000"
definition sr_writable_mask :: u32 where "sr_writable_mask = 0x700083F3"

definition fpscr_rounding_mode_mask :: u32 where "fpscr_rounding_mode_mask = 0x00000003"
definition fpscr_dn_mask :: u32 where "fpscr_dn_mask = 0x00040000"
definition fpscr_pr_mask :: u32 where "fpscr_pr_mask = 0x00080000"
definition fpscr_sz_mask :: u32 where "fpscr_sz_mask = 0x00100000"
definition fpscr_fr_mask :: u32 where "fpscr_fr_mask = 0x00200000"
definition fpscr_writable_mask :: u32 where "fpscr_writable_mask = 0x003FFFFF"

definition general_exception_vector :: u32 where "general_exception_vector = 0x00000100"
definition tlb_miss_exception_vector :: u32 where "tlb_miss_exception_vector = 0x00000400"
definition interrupt_vector :: u32 where "interrupt_vector = 0x00000600"
definition tlb_multiple_hit_reset_vector :: u32 where "tlb_multiple_hit_reset_vector = 0xA0000000"

definition event_address_error_read :: u32 where "event_address_error_read = 0x000000E0"
definition event_address_error_write :: u32 where "event_address_error_write = 0x00000100"
definition event_tlb_miss_read :: u32 where "event_tlb_miss_read = 0x00000040"
definition event_tlb_miss_write :: u32 where "event_tlb_miss_write = 0x00000060"
definition event_initial_page_write :: u32 where "event_initial_page_write = 0x00000080"
definition event_tlb_protection_read :: u32 where "event_tlb_protection_read = 0x000000A0"
definition event_tlb_protection_write :: u32 where "event_tlb_protection_write = 0x000000C0"
definition event_tlb_multiple_hit :: u32 where "event_tlb_multiple_hit = 0x00000140"
definition event_trapa :: u32 where "event_trapa = 0x00000160"
definition event_illegal_instruction :: u32 where "event_illegal_instruction = 0x00000180"
definition event_slot_illegal_instruction :: u32 where
  "event_slot_illegal_instruction = 0x000001A0"
definition event_fpu_disabled :: u32 where "event_fpu_disabled = 0x00000800"
definition event_slot_fpu_disabled :: u32 where "event_slot_fpu_disabled = 0x00000820"
definition event_fpu_exception :: u32 where "event_fpu_exception = 0x00000120"

lemmas sr_masks = sr_t_mask_def sr_s_mask_def sr_interrupt_mask_def sr_q_mask_def sr_m_mask_def
  sr_fd_mask_def sr_bl_mask_def sr_rb_mask_def sr_md_mask_def sr_writable_mask_def

lemmas fpscr_masks = fpscr_rounding_mode_mask_def fpscr_dn_mask_def fpscr_pr_mask_def fpscr_sz_mask_def fpscr_fr_mask_def
  fpscr_writable_mask_def

lemmas exception_constants = general_exception_vector_def tlb_miss_exception_vector_def
  interrupt_vector_def tlb_multiple_hit_reset_vector_def event_address_error_read_def
  event_address_error_write_def event_tlb_miss_read_def event_tlb_miss_write_def
  event_initial_page_write_def event_tlb_protection_read_def event_tlb_protection_write_def
  event_tlb_multiple_hit_def event_trapa_def event_illegal_instruction_def
  event_slot_illegal_instruction_def event_fpu_disabled_def event_slot_fpu_disabled_def
  event_fpu_exception_def

subsection \<open>Causes and access errors\<close>

datatype ExceptionCause =
    NoneCause | TrapCause | IllegalInstruction | SlotIllegalInstruction | FpuDisabled
  | SlotFpuDisabled | AddressErrorRead | AddressErrorWrite | TlbMissRead | TlbMissWrite
  | InitialPageWrite | TlbProtectionRead | TlbProtectionWrite | TlbMultipleHit | BusErrorRead
  | BusErrorWrite | Interrupt | FpuException

datatype MemoryAccessErrorReason =
    ReasonMisaligned | ReasonUnmapped | ReasonCrossRegion | ReasonReadOnly | ReasonAddressOverflow
  | ReasonDeviceRejected | ReasonTlbMiss | ReasonTlbMultipleHit | ReasonInitialPageWrite
  | ReasonTlbProtection

datatype MemoryAccessOperation = ReadAccess | WriteAccess

datatype MemoryAccessWidth = ByteAccess | HalfwordAccess | WordAccess

record GuestInstructionOrigin =
  go_source_pc :: u32
  go_runtime_pc :: u32
  go_valid :: bool

record MemoryAccessError =
  err_operation :: MemoryAccessOperation
  err_reason :: MemoryAccessErrorReason
  err_width :: MemoryAccessWidth
  err_address :: u32
  err_instruction :: GuestInstructionOrigin

subsection \<open>Addresses\<close>

text \<open>\<open>canonical_physical_address_inline\<close>; the out-of-line function calls it.\<close>

definition canonical_physical_address :: "u32 \<Rightarrow> u32" where
  "canonical_physical_address address =
     (if address AND 0xFC000000 = 0x7C000000 then address
      else if address < 0xE0000000 then address AND 0x1FFFFFFF else address)"

subsection \<open>Bits of 32-bit words\<close>

lemma u32_eq_iff: "(v::u32) = w \<longleftrightarrow> (\<forall>n<32. bit v n = bit w n)"
  using bit_word_eqI [of v w] by auto

lemma bit_exp_u32: "k < 32 \<Longrightarrow> w = (2::u32) ^ k \<Longrightarrow> bit w n \<longleftrightarrow> n = k"
  by (auto simp: bit_exp_iff)

lemma and_single_bit:
  assumes "\<And>n. bit msk n \<longleftrightarrow> n = k" and "k < 32"
  shows "(v::u32) AND msk \<noteq> 0 \<longleftrightarrow> bit v k"
  using assms by (auto simp: u32_eq_iff bit_and_iff)

end
