(* ===== verification/Address_Space.thy ===== *)
theory Address_Space
  imports Runtime_Types
begin

text \<open>
  The runtime address space (\<open>include/katana/runtime/block_guards.hpp\<close>,
  \<open>src/runtime/block_guards.cpp\<close>): the UTLB mappings, the four-entry ITLB with its
  replacement ranks, address translation with its exceptions, the guards of compiled blocks, and the
  snapshot and restore of the whole state.

  \<open>std::array\<close> members are lists of length four.  A C++ exception is a \<open>Left\<close> value of a sum;
  \<open>translate\<close> also returns the address space, because it updates the (mutable) ITLB even when it
  throws afterwards.
\<close>

subsection \<open>Types\<close>

datatype AddressTranslationMode = NoMmu | Mmu

datatype TranslationAccess = InstructionFetch | DataRead | DataWrite

datatype InstructionTranslationPath = DirectPath | MappedPath | InvalidPath

record TlbMapping =
  tm_virtual_page :: u32
  tm_physical_page :: u32
  tm_page_size :: u32
  tm_asid :: u8
  tm_slot :: u8
  tm_valid :: bool
  tm_readable :: bool
  tm_writable :: bool
  tm_executable :: bool
  tm_user_access :: bool
  tm_dirty :: bool
  tm_shared :: bool

record RuntimeAddressSpaceSnapshot =
  sn_mode :: AddressTranslationMode
  sn_mmucr :: u32
  sn_asid :: u8
  sn_address_space_generation :: u64
  sn_mmu_generation :: u64
  sn_watchpoint_generation :: u64
  sn_mappings :: "TlbMapping list"
  sn_itlb :: "TlbMapping list"
  sn_itlb_valid :: "bool list"
  sn_itlb_lru :: "u8 list"
  sn_itlb_source_slots :: "u8 list"

record TranslationResult =
  tr_virtual_address :: u32
  tr_physical_address :: u32
  tr_mmu_generation :: u64
  tr_no_mmu_fastpath :: bool
  tr_utlb_slot :: u8
  tr_itlb_slot :: u8
  tr_itlb_refilled :: bool

record BlockStateGuard =
  bg_mode :: AddressTranslationMode
  bg_mmucr :: u32
  bg_address_space_generation :: u64
  bg_mmu_generation :: u64
  bg_watchpoint_generation :: u64
  bg_fpscr_mode :: u32
  bg_physical_page :: u32

record BlockVariantKey =
  vk_address_space_generation :: u64
  vk_mmu_generation :: u64
  vk_watchpoint_generation :: u64
  vk_fpscr_mode :: u32
  vk_runtime_generation :: u64

datatype StoreQueueAddressingMode = Qacr | Utlb

record StoreQueuePrefetchTranslation =
  sq_source_address :: u32
  sq_target_address :: u32
  sq_addressing :: StoreQueueAddressingMode

record TranslationError =
  te_access :: TranslationAccess
  te_address :: u32
  te_cause :: ExceptionCause

text \<open>What an operation may throw.\<close>

datatype address_error = Translation TranslationError | InvalidArgumentError string

record RuntimeAddressSpace =
  as_mode :: AddressTranslationMode
  as_mmucr :: u32
  as_asid :: u8
  as_address_space_generation :: u64
  as_mmu_generation :: u64
  as_watchpoint_generation :: u64
  as_mappings :: "TlbMapping list"
  as_itlb :: "TlbMapping list"
  as_itlb_valid :: "bool list"
  as_itlb_lru :: "u8 list"
  as_itlb_source_slots :: "u8 list"

definition default_mapping :: TlbMapping where
  "default_mapping = \<lparr>tm_virtual_page = 0, tm_physical_page = 0, tm_page_size = 4096, tm_asid = 0,
     tm_slot = 0, tm_valid = True, tm_readable = True, tm_writable = True, tm_executable = True,
     tm_user_access = True, tm_dirty = True, tm_shared = False\<rparr>"

definition initial_address_space :: RuntimeAddressSpace where
  "initial_address_space = \<lparr>as_mode = NoMmu, as_mmucr = 0, as_asid = 0,
     as_address_space_generation = 0, as_mmu_generation = 0, as_watchpoint_generation = 0,
     as_mappings = [], as_itlb = replicate 4 default_mapping, as_itlb_valid = replicate 4 False,
     as_itlb_lru = replicate 4 0, as_itlb_source_slots = replicate 4 0xFF\<rparr>"

subsection \<open>Constants\<close>

definition fpscr_guard_mask :: u32 where
  "fpscr_guard_mask = ((fpscr_rounding_mode_mask OR fpscr_pr_mask) OR fpscr_sz_mask) OR fpscr_fr_mask"

definition mmucr_at_mask :: u32 where "mmucr_at_mask = 0x00000001"
definition mmucr_sv_mask :: u32 where "mmucr_sv_mask = 0x00000100"
definition mmucr_sqmd_mask :: u32 where "mmucr_sqmd_mask = 0x00000200"

definition mmucr_translation_mask :: u32 where
  "mmucr_translation_mask = (mmucr_at_mask OR mmucr_sv_mask) OR mmucr_sqmd_mask"

definition mmucr_itlb_context_mask :: u32 where
  "mmucr_itlb_context_mask = mmucr_at_mask OR mmucr_sv_mask"

definition store_queue_window_mask :: u32 where "store_queue_window_mask = 0xFC000000"
definition store_queue_window :: u32 where "store_queue_window = 0xE0000000"
definition sh4_on_chip_ram_address :: u32 where "sh4_on_chip_ram_address = 0x7C000000"
definition guard_page_size :: u32 where "guard_page_size = 4096"

subsection \<open>State changes\<close>

definition clear_itlb :: "RuntimeAddressSpace \<Rightarrow> RuntimeAddressSpace" where
  "clear_itlb space =
     space\<lparr>as_itlb_valid := replicate 4 False, as_itlb_lru := replicate 4 0,
           as_itlb_source_slots := replicate 4 0xFF\<rparr>"

definition bump_mmu :: "RuntimeAddressSpace \<Rightarrow> RuntimeAddressSpace" where
  "bump_mmu space = space\<lparr>as_mmu_generation := as_mmu_generation space + 1\<rparr>"

definition set_mode :: "AddressTranslationMode \<Rightarrow> RuntimeAddressSpace \<Rightarrow> RuntimeAddressSpace" where
  "set_mode mode space =
     (if as_mode space \<noteq> mode
      then space\<lparr>as_mode := mode,
                 as_address_space_generation := as_address_space_generation space + 1\<rparr>
      else space)"

definition write_mmucr :: "u32 \<Rightarrow> RuntimeAddressSpace \<Rightarrow> RuntimeAddressSpace" where
  "write_mmucr v space =
     (if as_mmucr space \<noteq> v then
        let translation_changed = ((as_mmucr space XOR v) AND mmucr_translation_mask \<noteq> 0);
            itlb_context_changed = ((as_mmucr space XOR v) AND mmucr_itlb_context_mask \<noteq> 0);
            space = space\<lparr>as_mmucr := v\<rparr>;
            space = (if itlb_context_changed then clear_itlb space else space)
        in if translation_changed then bump_mmu space else space
      else space)"

definition write_pteh :: "u32 \<Rightarrow> RuntimeAddressSpace \<Rightarrow> RuntimeAddressSpace" where
  "write_pteh v space =
     (let asid = ucast (v AND 0xFF)
      in if as_asid space \<noteq> asid then bump_mmu (space\<lparr>as_asid := asid\<rparr>) else space)"

definition valid_page_size :: "u32 \<Rightarrow> bool" where
  "valid_page_size byte_count \<longleftrightarrow> byte_count = 1024 \<or> byte_count = 4096 \<or> byte_count = 65536 \<or> byte_count = 1048576"

text \<open>\<open>std::find_if\<close> by slot, then assignment or \<open>push_back\<close>.\<close>

fun replace_slot :: "TlbMapping \<Rightarrow> TlbMapping list \<Rightarrow> TlbMapping list" where
  "replace_slot mapping [] = [mapping]"
| "replace_slot mapping (m # ms) =
     (if tm_slot m = tm_slot mapping then mapping # ms else m # replace_slot mapping ms)"

definition ldtlb :: "TlbMapping \<Rightarrow> RuntimeAddressSpace \<Rightarrow> address_error + RuntimeAddressSpace" where
  "ldtlb mapping space =
     (if \<not> valid_page_size (tm_page_size mapping) then
        Inl (InvalidArgumentError ''SH-4-TLB-Seitengroesse ist ungueltig.'')
      else
        let byte_count = tm_page_size mapping;
            mapping = mapping\<lparr>tm_virtual_page := tm_virtual_page mapping div byte_count * byte_count,
              tm_physical_page :=
                canonical_physical_address (tm_physical_page mapping) div byte_count * byte_count\<rparr>;
            space = space\<lparr>as_mappings := replace_slot mapping (as_mappings space)\<rparr>
        in Inr (bump_mmu (clear_itlb space)))"

definition clear_tlb :: "RuntimeAddressSpace \<Rightarrow> RuntimeAddressSpace" where
  "clear_tlb space = bump_mmu (clear_itlb (space\<lparr>as_mappings := []\<rparr>))"

definition bump_address_space :: "RuntimeAddressSpace \<Rightarrow> RuntimeAddressSpace" where
  "bump_address_space space =
     space\<lparr>as_address_space_generation := as_address_space_generation space + 1\<rparr>"

definition bump_watchpoints :: "RuntimeAddressSpace \<Rightarrow> RuntimeAddressSpace" where
  "bump_watchpoints space =
     space\<lparr>as_watchpoint_generation := as_watchpoint_generation space + 1\<rparr>"

subsection \<open>Translation\<close>

definition segment :: "u32 \<Rightarrow> u32" where
  "segment address = drop_bit 29 address"

definition instruction_translation_path ::
    "RuntimeAddressSpace \<Rightarrow> u32 \<Rightarrow> bool \<Rightarrow> InstructionTranslationPath" where
  "instruction_translation_path space address privileged =
     (if \<not> privileged \<and> address \<ge> 0x80000000 then InvalidPath
      else if address AND 0xFC000000 = sh4_on_chip_ram_address then DirectPath
      else if segment address = 4 \<or> segment address = 5 then
        (if privileged then DirectPath else InvalidPath)
      else if segment address \<ge> 7 then InvalidPath
      else if as_mode space = NoMmu then DirectPath
      else if segment address = 6 \<and> \<not> privileged then InvalidPath
      else MappedPath)"

definition tlb_matches :: "RuntimeAddressSpace \<Rightarrow> u32 \<Rightarrow> bool \<Rightarrow> TlbMapping \<Rightarrow> bool" where
  "tlb_matches space address privileged m =
     (let start = uint (tm_virtual_page m); stop = start + uint (tm_page_size m);
          asid_match = (tm_shared m \<or> (privileged \<and> as_mmucr space AND mmucr_sv_mask \<noteq> 0) \<or>
                        tm_asid m = as_asid space)
      in tm_valid m \<and> uint address \<ge> start \<and> uint address < stop \<and> asid_match)"

definition translation_error ::
    "TranslationAccess \<Rightarrow> u32 \<Rightarrow> ExceptionCause \<Rightarrow> address_error" where
  "translation_error access address cause =
     Translation \<lparr>te_access = access, te_address = address, te_cause = cause\<rparr>"

definition finish_translation ::
    "RuntimeAddressSpace \<Rightarrow> u32 \<Rightarrow> TranslationAccess \<Rightarrow> bool \<Rightarrow> TlbMapping \<Rightarrow> u8 \<Rightarrow> u8 \<Rightarrow> bool \<Rightarrow>
     address_error + TranslationResult" where
  "finish_translation space address access privileged mapping utlb_slot itlb_slot itlb_refilled =
     (if \<not> privileged \<and> \<not> tm_user_access mapping then
        Inl (translation_error access address
          (if access = DataWrite then TlbProtectionWrite else TlbProtectionRead))
      else if access = DataWrite \<and> (\<not> tm_writable mapping \<or> \<not> tm_dirty mapping) then
        Inl (translation_error access address
          (if tm_writable mapping then InitialPageWrite else TlbProtectionWrite))
      else if (access = InstructionFetch \<and> \<not> tm_executable mapping) \<or>
              (access = DataRead \<and> \<not> tm_readable mapping) then
        Inl (translation_error access address TlbProtectionRead)
      else Inr \<lparr>tr_virtual_address = address,
             tr_physical_address = tm_physical_page mapping + (address - tm_virtual_page mapping),
             tr_mmu_generation = as_mmu_generation space, tr_no_mmu_fastpath = False,
             tr_utlb_slot = utlb_slot, tr_itlb_slot = itlb_slot,
             tr_itlb_refilled = itlb_refilled\<rparr>)"

definition valid_count :: "RuntimeAddressSpace \<Rightarrow> u8" where
  "valid_count space = of_nat (length (filter id (as_itlb_valid space)))"

text \<open>The loop that closes the gap an entry's old rank leaves.\<close>

definition lower_ranks :: "nat \<Rightarrow> u8 \<Rightarrow> RuntimeAddressSpace \<Rightarrow> u8 list" where
  "lower_ranks touched old_rank space =
     map (\<lambda>index. let rank = as_itlb_lru space ! index
            in if index \<noteq> touched \<and> as_itlb_valid space ! index \<and> rank > old_rank
               then rank - 1 else rank) [0..<4]"

definition touch_itlb :: "nat \<Rightarrow> RuntimeAddressSpace \<Rightarrow> RuntimeAddressSpace" where
  "touch_itlb touched space =
     (let old_rank = as_itlb_lru space ! touched; count = valid_count space;
          ranks = lower_ranks touched old_rank space
      in space\<lparr>as_itlb_lru := ranks[touched := (if count = 0 then 0 else count - 1)]\<rparr>)"

text \<open>\<open>std::min_element\<close>: the first position of the least value.\<close>

definition min_element :: "u8 list \<Rightarrow> nat" where
  "min_element xs = foldl (\<lambda>best i. if xs ! i < xs ! best then i else best) 0 [1..<length xs]"

definition itlb_replacement :: "RuntimeAddressSpace \<Rightarrow> nat" where
  "itlb_replacement space =
     (case find (\<lambda>index. \<not> as_itlb_valid space ! index) [0..<4] of
        Some index \<Rightarrow> index
      | None \<Rightarrow> min_element (as_itlb_lru space))"

definition refill_itlb :: "nat \<Rightarrow> TlbMapping \<Rightarrow> RuntimeAddressSpace \<Rightarrow> RuntimeAddressSpace" where
  "refill_itlb replacement found space =
     (let replacing_valid_entry = as_itlb_valid space ! replacement;
          old_rank = as_itlb_lru space ! replacement;
          space = space\<lparr>as_itlb := (as_itlb space)[replacement := found],
                        as_itlb_valid := (as_itlb_valid space)[replacement := True],
                        as_itlb_source_slots :=
                          (as_itlb_source_slots space)[replacement := tm_slot found]\<rparr>;
          count = valid_count space;
          ranks = (if replacing_valid_entry then lower_ranks replacement old_rank space
                   else as_itlb_lru space)
      in space\<lparr>as_itlb_lru := ranks[replacement := count - 1]\<rparr>)"

definition itlb_hit :: "RuntimeAddressSpace \<Rightarrow> u32 \<Rightarrow> bool \<Rightarrow> nat option" where
  "itlb_hit space address privileged =
     find (\<lambda>index. as_itlb_valid space ! index \<and>
                   tlb_matches space address privileged (as_itlb space ! index)) [0..<4]"

text \<open>The UTLB part of \<open>translate_mapped\<close>, from the first \<open>std::find_if\<close> on.\<close>

definition translate_utlb ::
    "RuntimeAddressSpace \<Rightarrow> u32 \<Rightarrow> TranslationAccess \<Rightarrow> bool \<Rightarrow> bool \<Rightarrow>
     (address_error + TranslationResult) \<times> RuntimeAddressSpace" where
  "translate_utlb space address access privileged update_instruction_tlb =
     (case dropWhile (\<lambda>m. \<not> tlb_matches space address privileged m) (as_mappings space) of
        [] \<Rightarrow> (Inl (translation_error access address
                (if access = DataWrite then TlbMissWrite else TlbMissRead)), space)
      | found # rest \<Rightarrow>
          if list_ex (tlb_matches space address privileged) rest then
            (Inl (translation_error access address TlbMultipleHit), space)
          else if access \<noteq> InstructionFetch \<or> \<not> update_instruction_tlb then
            (finish_translation space address access privileged found (tm_slot found) 0xFF False,
             space)
          else
            let replacement = itlb_replacement space; space = refill_itlb replacement found space
            in (finish_translation space address access privileged found (tm_slot found)
                  (of_nat replacement) True, space))"

definition translate_mapped ::
    "RuntimeAddressSpace \<Rightarrow> u32 \<Rightarrow> TranslationAccess \<Rightarrow> bool \<Rightarrow> bool \<Rightarrow>
     (address_error + TranslationResult) \<times> RuntimeAddressSpace" where
  "translate_mapped space address access privileged update_instruction_tlb =
     (case (if access = InstructionFetch \<and> update_instruction_tlb
            then itlb_hit space address privileged else None) of
        Some index \<Rightarrow>
          (finish_translation space address access privileged (as_itlb space ! index) 0xFF
             (of_nat index) False, touch_itlb index space)
      | None \<Rightarrow> translate_utlb space address access privileged update_instruction_tlb)"

definition direct_result :: "RuntimeAddressSpace \<Rightarrow> u32 \<Rightarrow> u32 \<Rightarrow> TranslationResult" where
  "direct_result space address physical =
     \<lparr>tr_virtual_address = address, tr_physical_address = physical,
      tr_mmu_generation = as_mmu_generation space, tr_no_mmu_fastpath = True,
      tr_utlb_slot = 0xFF, tr_itlb_slot = 0xFF, tr_itlb_refilled = False\<rparr>"

definition translate_impl ::
    "RuntimeAddressSpace \<Rightarrow> u32 \<Rightarrow> TranslationAccess \<Rightarrow> bool \<Rightarrow> bool \<Rightarrow>
     (address_error + TranslationResult) \<times> RuntimeAddressSpace" where
  "translate_impl space address access privileged update_instruction_tlb =
     (let read_cause = (if access = DataWrite then AddressErrorWrite else AddressErrorRead);
          failed = (Inl (translation_error access address read_cause), space);
          direct = (\<lambda>physical. (Inr (direct_result space address physical), space));
          mapped = translate_mapped space address access privileged update_instruction_tlb
      in if access = InstructionFetch then
           if address AND 1 \<noteq> 0 then
             (Inl (translation_error access address AddressErrorRead), space)
           else case instruction_translation_path space address privileged of
                  DirectPath \<Rightarrow> direct (canonical_physical_address address)
                | MappedPath \<Rightarrow> mapped
                | InvalidPath \<Rightarrow> failed
         else if \<not> privileged \<and> address \<ge> 0x80000000 then failed
         else if address AND 0xFC000000 = sh4_on_chip_ram_address then direct address
         else if segment address = 4 \<or> segment address = 5 then
           (if \<not> privileged then failed else direct (canonical_physical_address address))
         else if segment address \<ge> 7 then
           (if \<not> privileged then failed else direct address)
         else if as_mode space = NoMmu then direct (canonical_physical_address address)
         else if segment address = 6 \<and> \<not> privileged then failed
         else mapped)"

definition translate ::
    "RuntimeAddressSpace \<Rightarrow> u32 \<Rightarrow> TranslationAccess \<Rightarrow> bool \<Rightarrow>
     (address_error + TranslationResult) \<times> RuntimeAddressSpace" where
  "translate space address access privileged = translate_impl space address access privileged True"

definition inspect_translation ::
    "RuntimeAddressSpace \<Rightarrow> u32 \<Rightarrow> TranslationAccess \<Rightarrow> bool \<Rightarrow>
     (address_error + TranslationResult) \<times> RuntimeAddressSpace" where
  "inspect_translation space address access privileged =
     translate_impl space address access privileged False"

definition translate_store_queue_prefetch ::
    "RuntimeAddressSpace \<Rightarrow> u32 \<Rightarrow> bool \<Rightarrow> address_error + StoreQueuePrefetchTranslation" where
  "translate_store_queue_prefetch space address privileged =
     (if address AND store_queue_window_mask \<noteq> store_queue_window then
        Inl (InvalidArgumentError
          ''Store-Queue-PREF-Uebersetzung verlangt eine Adresse im P4-SQ-Fenster.'')
      else if address AND 3 \<noteq> 0 \<or> (\<not> privileged \<and> as_mmucr space AND mmucr_sqmd_mask \<noteq> 0) then
        Inl (translation_error DataWrite address AddressErrorWrite)
      else if as_mode space = NoMmu then
        Inr \<lparr>sq_source_address = address, sq_target_address = 0, sq_addressing = Qacr\<rparr>
      else case fst (translate_mapped space address DataWrite privileged False) of
             Inl e \<Rightarrow> Inl e
           | Inr translated \<Rightarrow>
               Inr \<lparr>sq_source_address = address,
                    sq_target_address = tr_physical_address translated AND NOT 31,
                    sq_addressing = Utlb\<rparr>)"

subsection \<open>Block guards\<close>

definition block_variant_key :: "BlockStateGuard \<Rightarrow> u64 \<Rightarrow> BlockVariantKey" where
  "block_variant_key guard runtime_generation =
     \<lparr>vk_address_space_generation = bg_address_space_generation guard,
      vk_mmu_generation = bg_mmu_generation guard,
      vk_watchpoint_generation = bg_watchpoint_generation guard,
      vk_fpscr_mode = bg_fpscr_mode guard, vk_runtime_generation = runtime_generation\<rparr>"

definition state_guard :: "RuntimeAddressSpace \<Rightarrow> u32 \<Rightarrow> u32 \<Rightarrow> BlockStateGuard" where
  "state_guard space fpscr physical_address =
     \<lparr>bg_mode = as_mode space, bg_mmucr = as_mmucr space,
      bg_address_space_generation = as_address_space_generation space,
      bg_mmu_generation = as_mmu_generation space,
      bg_watchpoint_generation = as_watchpoint_generation space,
      bg_fpscr_mode = fpscr AND fpscr_guard_mask,
      bg_physical_page = physical_address div guard_page_size * guard_page_size\<rparr>"

definition guard_for ::
    "RuntimeAddressSpace \<Rightarrow> u32 \<Rightarrow> u32 \<Rightarrow> bool \<Rightarrow> address_error + BlockStateGuard" where
  "guard_for space virtual_address fpscr privileged =
     (case fst (inspect_translation space virtual_address InstructionFetch privileged) of
        Inl e \<Rightarrow> Inl e
      | Inr translated \<Rightarrow> Inr (state_guard space fpscr (tr_physical_address translated)))"

definition direct_p1_p2_instruction_guard ::
    "RuntimeAddressSpace \<Rightarrow> u32 \<Rightarrow> u32 \<Rightarrow> bool \<Rightarrow> BlockStateGuard option" where
  "direct_p1_p2_instruction_guard space address fpscr privileged =
     (if \<not> privileged \<or> (segment address \<noteq> 4 \<and> segment address \<noteq> 5) then None
      else Some (state_guard space fpscr (canonical_physical_address address)))"

definition direct_p1_p2_dispatch_guard_current ::
    "RuntimeAddressSpace \<Rightarrow> u32 \<Rightarrow> u32 \<Rightarrow> bool \<Rightarrow> BlockVariantKey \<Rightarrow> u64 \<Rightarrow> bool" where
  "direct_p1_p2_dispatch_guard_current space address fpscr privileged expected runtime_generation \<longleftrightarrow>
     privileged \<and> (segment address = 4 \<or> segment address = 5) \<and>
     vk_address_space_generation expected = as_address_space_generation space \<and>
     vk_mmu_generation expected = as_mmu_generation space \<and>
     vk_watchpoint_generation expected = as_watchpoint_generation space \<and>
     vk_fpscr_mode expected = fpscr AND fpscr_guard_mask \<and>
     vk_runtime_generation expected = runtime_generation"

definition translated_at :: "RuntimeAddressSpace \<Rightarrow> u32 \<Rightarrow> u32 \<Rightarrow> bool \<Rightarrow> u32 \<Rightarrow> bool" where
  "translated_at space virtual_start physical_start privileged offset =
     (case fst (inspect_translation space (virtual_start + offset) InstructionFetch privileged) of
        Inl _ \<Rightarrow> False
      | Inr r \<Rightarrow> tr_physical_address r = physical_start + offset)"

text \<open>The loop over the 1 KiB boundaries; the 64-bit counter is a natural number.\<close>

function check_boundaries :: "(u32 \<Rightarrow> bool) \<Rightarrow> nat \<Rightarrow> nat \<Rightarrow> nat \<Rightarrow> bool" where
  "check_boundaries at virtual_start virtual_end boundary =
     (if boundary < virtual_end then
        let offset = of_nat (boundary - virtual_start)
        in if \<not> at offset \<or> \<not> at (offset - 2) then False
           else check_boundaries at virtual_start virtual_end (boundary + 1024)
      else True)"
  by pat_completeness auto
termination by (relation "measure (\<lambda>(_, _, e, b). e - b)") auto

declare check_boundaries.simps [simp del]

definition prove_instruction_mapping ::
    "RuntimeAddressSpace \<Rightarrow> u32 \<Rightarrow> u32 \<Rightarrow> u32 \<Rightarrow> bool \<Rightarrow> bool" where
  "prove_instruction_mapping space virtual_start physical_start byte_count privileged =
     (if byte_count < 2 \<or> byte_count AND 1 \<noteq> 0 \<or> virtual_start AND 1 \<noteq> 0 \<or> physical_start AND 1 \<noteq> 0 then False
      else
        let virtual_end = unat virtual_start + unat byte_count;
            physical_end = unat physical_start + unat byte_count;
            at = translated_at space virtual_start physical_start privileged
        in if virtual_end > 0x100000000 \<or> physical_end > 0x100000000 then False
           else if \<not> at 0 \<or> \<not> at (byte_count - 2) then False
           else check_boundaries at (unat virtual_start) virtual_end
                  ((unat virtual_start div 1024 + 1) * 1024))"

definition block_fits_translation_page :: "RuntimeAddressSpace \<Rightarrow> u32 \<Rightarrow> u32 \<Rightarrow> bool" where
  "block_fits_translation_page space virtual_start byte_count =
     (if byte_count < 2 \<or> virtual_start AND 1 \<noteq> 0 \<or> byte_count AND 1 \<noteq> 0 then False
      else
        let final_instruction = unat virtual_start + unat byte_count - 2
        in if final_instruction > 0xFFFFFFFF then False
           else case (fst (inspect_translation space virtual_start InstructionFetch True),
                      fst (inspect_translation space (of_nat final_instruction) InstructionFetch
                        True)) of
                  (Inr first_result, Inr final_result) \<Rightarrow>
                    tr_utlb_slot first_result = tr_utlb_slot final_result \<and>
                    unat (tr_physical_address final_result) =
                      unat (tr_physical_address first_result) + unat byte_count - 2
                | _ \<Rightarrow> False)"

subsection \<open>Snapshot and restore\<close>

definition snapshot :: "RuntimeAddressSpace \<Rightarrow> RuntimeAddressSpaceSnapshot" where
  "snapshot space =
     \<lparr>sn_mode = as_mode space, sn_mmucr = as_mmucr space, sn_asid = as_asid space,
      sn_address_space_generation = as_address_space_generation space,
      sn_mmu_generation = as_mmu_generation space,
      sn_watchpoint_generation = as_watchpoint_generation space,
      sn_mappings = as_mappings space, sn_itlb = as_itlb space,
      sn_itlb_valid = as_itlb_valid space, sn_itlb_lru = as_itlb_lru space,
      sn_itlb_source_slots = as_itlb_source_slots space\<rparr>"

definition valid_mapping :: "TlbMapping \<Rightarrow> bool" where
  "valid_mapping m \<longleftrightarrow>
     valid_page_size (tm_page_size m) \<and> tm_slot m < 64 \<and>
     tm_virtual_page m mod tm_page_size m = 0 \<and> tm_physical_page m mod tm_page_size m = 0 \<and>
     canonical_physical_address (tm_physical_page m) = tm_physical_page m"

fun mappings_accepted :: "TlbMapping list \<Rightarrow> u8 set \<Rightarrow> bool" where
  "mappings_accepted [] seen_slots = True"
| "mappings_accepted (m # ms) seen_slots =
     (if \<not> valid_mapping m \<or> tm_slot m \<in> seen_slots then False
      else mappings_accepted ms (insert (tm_slot m) seen_slots))"

text \<open>The ITLB loop from \<open>index\<close> on, with the ranks seen so far.\<close>

fun check_itlb ::
    "RuntimeAddressSpaceSnapshot \<Rightarrow> nat \<Rightarrow> nat list \<Rightarrow> u8 set \<Rightarrow> string option" where
  "check_itlb state count [] seen_ranks = None"
| "check_itlb state count (index # indices) seen_ranks =
     (if \<not> sn_itlb_valid state ! index then
        (if sn_itlb_source_slots state ! index \<noteq> 0xFF then
           Some ''MMU-Handoff besitzt eine inkonsistente ITLB-Quelle.''
         else check_itlb state count indices seen_ranks)
      else
        let source = sn_itlb_source_slots state ! index; rank = sn_itlb_lru state ! index
        in case find (\<lambda>m. tm_slot m = source) (sn_mappings state) of
             Some mapping \<Rightarrow>
               if source \<ge> 64 \<or> \<not> valid_mapping (sn_itlb state ! index) \<or>
                  sn_itlb state ! index \<noteq> mapping \<or> unat rank \<ge> count \<or> rank \<in> seen_ranks
               then Some ''MMU-Handoff besitzt einen inkonsistenten ITLB-Zustand.''
               else check_itlb state count indices (insert rank seen_ranks)
           | None \<Rightarrow> Some ''MMU-Handoff besitzt einen inkonsistenten ITLB-Zustand.'')"

text \<open>The mode test of the source is about values outside the enumeration; it cannot fail on the
  model's datatype.\<close>

definition validate_state_restore ::
    "RuntimeAddressSpace \<Rightarrow> RuntimeAddressSpaceSnapshot \<Rightarrow> string option" where
  "validate_state_restore space state =
     (if length (sn_mappings state) > 64 \<or> as_address_space_generation space = - 1 \<or>
         as_mmu_generation space = - 1 then
        Some ''MMU-Handoff kann nicht guard-sicher importiert werden.''
      else if \<not> mappings_accepted (sn_mappings state) {} then
        Some ''MMU-Handoff besitzt eine ungueltige UTLB-Abbildung.''
      else check_itlb state (length (filter id (sn_itlb_valid state))) [0..<4] {})"

definition commit_validated_state_restore ::
    "RuntimeAddressSpaceSnapshot \<Rightarrow> RuntimeAddressSpace \<Rightarrow> RuntimeAddressSpace" where
  "commit_validated_state_restore state space =
     space\<lparr>as_mode := sn_mode state, as_mmucr := sn_mmucr state, as_asid := sn_asid state,
           as_mappings := sn_mappings state, as_itlb := sn_itlb state,
           as_itlb_valid := sn_itlb_valid state, as_itlb_lru := sn_itlb_lru state,
           as_itlb_source_slots := sn_itlb_source_slots state,
           as_address_space_generation := as_address_space_generation space + 1,
           as_mmu_generation := as_mmu_generation space + 1\<rparr>"

definition restore_state_passive ::
    "RuntimeAddressSpaceSnapshot \<Rightarrow> RuntimeAddressSpace \<Rightarrow> address_error + RuntimeAddressSpace" where
  "restore_state_passive state space =
     (case validate_state_restore space state of
        Some message \<Rightarrow> Inl (InvalidArgumentError message)
      | None \<Rightarrow> Inr (commit_validated_state_restore state space))"

end
