(* ===== verification/Cpu_State.thy ===== *)
theory Cpu_State
  imports Address_Space
begin

text \<open>
  The runtime CPU state and its system operations: status and FPU control registers, register
  banks, reset and cycle accounting (\<open>include/katana/runtime/runtime.hpp\<close>,
  \<open>src/runtime/runtime.cpp\<close>), and exception entry and return (\<open>src/runtime/exception.cpp\<close>).

  Register arrays are functions from the index.  The address space a \<open>CpuState\<close> may own is a field
  (\<open>None\<close> for the null pointer); the guest memory and the disc and bus controllers it points to are
  not used by these operations and are left out.
\<close>

subsection \<open>State\<close>

record Sh4TlbEntry =
  tlb_pteh :: u32
  tlb_ptel :: u32
  tlb_ptea :: u32

record MemoryFaultProvenance =
  mf_valid :: bool
  mf_instruction_valid :: bool
  mf_opcode_valid :: bool
  mf_access_valid :: bool
  mf_source_pc :: u32
  mf_runtime_pc :: u32
  mf_address :: u32
  mf_opcode :: u32
  mf_operation :: MemoryAccessOperation
  mf_width :: MemoryAccessWidth

definition no_provenance :: MemoryFaultProvenance where
  "no_provenance = \<lparr>mf_valid = False, mf_instruction_valid = False, mf_opcode_valid = False,
     mf_access_valid = False, mf_source_pc = 0, mf_runtime_pc = 0, mf_address = 0, mf_opcode = 0,
     mf_operation = ReadAccess, mf_width = ByteAccess\<rparr>"

text \<open>
  The register file and the system registers are one record; the host-side accounting of the
  \<open>CpuState\<close> struct extends it.
\<close>

record Registers =
  cpu_r :: "nat \<Rightarrow> u32"
  cpu_r_bank :: "nat \<Rightarrow> u32"
  cpu_fr :: "nat \<Rightarrow> u32"
  cpu_xf :: "nat \<Rightarrow> u32"
  cpu_pc :: u32
  cpu_pr :: u32
  cpu_gbr :: u32
  cpu_vbr :: u32
  cpu_ssr :: u32
  cpu_spc :: u32
  cpu_sgr :: u32
  cpu_dbr :: u32
  cpu_tra :: u32
  cpu_tea :: u32
  cpu_expevt :: u32
  cpu_intevt :: u32
  cpu_pteh :: u32
  cpu_ptel :: u32
  cpu_ptea :: u32
  cpu_ttb :: u32
  cpu_mmucr :: u32
  cpu_utlb :: "nat \<Rightarrow> Sh4TlbEntry"
  cpu_mach :: u32
  cpu_macl :: u32
  cpu_fpul :: u32
  cpu_fpscr :: u32
  cpu_sr :: u32
  cpu_t :: bool
  cpu_s :: bool
  cpu_q :: bool
  cpu_m :: bool

record CpuState = Registers +
  cpu_tlb_load_count :: u64
  cpu_trap_pending :: bool
  cpu_exception_generation :: u64
  cpu_last_exception_cause :: ExceptionCause
  cpu_exception_in_delay_slot :: bool
  cpu_last_exception_instruction_pc :: u32
  cpu_last_exception_instruction_physical_pc :: u32
  cpu_last_exception_owner_pc :: u32
  cpu_last_memory_fault_provenance :: MemoryFaultProvenance
  cpu_last_exception_generation :: u64
  cpu_sleeping :: bool
  cpu_last_prefetch_address :: u32
  cpu_prefetch_count :: u64
  cpu_attempted_guest_instructions :: u64
  cpu_retired_guest_instructions :: u64
  cpu_total_guest_cycles :: u64
  cpu_pending_guest_cycles :: u64
  cpu_active_instruction_pc :: u32
  cpu_active_instruction_physical_pc :: u32
  cpu_active_block_virtual_start :: u32
  cpu_active_block_physical_start :: u32
  cpu_active_block_size :: u32
  cpu_last_prefetch_was_store_queue :: bool
  cpu_address_space :: "RuntimeAddressSpace option"

text \<open>The default member initialisers of \<open>CpuState\<close>.\<close>

definition initial_cpu :: CpuState where
  "initial_cpu = \<lparr>cpu_r = (\<lambda>_. 0), cpu_r_bank = (\<lambda>_. 0), cpu_fr = (\<lambda>_. 0), cpu_xf = (\<lambda>_. 0),
     cpu_pc = 0, cpu_pr = 0, cpu_gbr = 0, cpu_vbr = 0, cpu_ssr = 0, cpu_spc = 0, cpu_sgr = 0,
     cpu_dbr = 0, cpu_tra = 0, cpu_tea = 0, cpu_expevt = 0, cpu_intevt = 0, cpu_pteh = 0,
     cpu_ptel = 0, cpu_ptea = 0, cpu_ttb = 0, cpu_mmucr = 0,
     cpu_utlb = (\<lambda>_. \<lparr>tlb_pteh = 0, tlb_ptel = 0, tlb_ptea = 0\<rparr>), cpu_mach = 0, cpu_macl = 0,
     cpu_fpul = 0, cpu_fpscr = 0, cpu_sr = 0, cpu_t = False, cpu_s = False, cpu_q = False,
     cpu_m = False, cpu_tlb_load_count = 0, cpu_trap_pending = False,
     cpu_exception_generation = 0, cpu_last_exception_cause = NoneCause,
     cpu_exception_in_delay_slot = False, cpu_last_exception_instruction_pc = 0,
     cpu_last_exception_instruction_physical_pc = 0, cpu_last_exception_owner_pc = 0,
     cpu_last_memory_fault_provenance = no_provenance, cpu_last_exception_generation = 0,
     cpu_sleeping = False, cpu_last_prefetch_address = 0, cpu_prefetch_count = 0,
     cpu_attempted_guest_instructions = 0, cpu_retired_guest_instructions = 0,
     cpu_total_guest_cycles = 0, cpu_pending_guest_cycles = 0, cpu_active_instruction_pc = 0,
     cpu_active_instruction_physical_pc = 0, cpu_active_block_virtual_start = 0,
     cpu_active_block_physical_start = 0, cpu_active_block_size = 0,
     cpu_last_prefetch_was_store_queue = False, cpu_address_space = None\<rparr>"

text \<open>\<open>if (cpu.address_space) cpu.address_space->f(...)\<close>\<close>

definition with_address_space ::
    "(RuntimeAddressSpace \<Rightarrow> RuntimeAddressSpace) \<Rightarrow> CpuState \<Rightarrow> CpuState" where
  "with_address_space f cpu = cpu\<lparr>cpu_address_space := map_option f (cpu_address_space cpu)\<rparr>"

subsection \<open>Status register and register banks\<close>

definition read_sr :: "'a Registers_scheme \<Rightarrow> u32" where
  "read_sr cpu =
     ((((cpu_sr cpu AND NOT (((sr_m_mask OR sr_q_mask) OR sr_s_mask) OR sr_t_mask)) OR
       (if cpu_m cpu then sr_m_mask else 0)) OR
       (if cpu_q cpu then sr_q_mask else 0)) OR
       (if cpu_s cpu then sr_s_mask else 0)) OR
       (if cpu_t cpu then sr_t_mask else 0)"

text \<open>The loop \<open>std::swap(r[index], r_bank[index])\<close> over the eight banked registers.\<close>

definition swap_step :: "nat \<Rightarrow> 'a Registers_scheme \<Rightarrow> 'a Registers_scheme" where
  "swap_step index cpu =
     cpu\<lparr>cpu_r := (cpu_r cpu)(index := cpu_r_bank cpu index),
         cpu_r_bank := (cpu_r_bank cpu)(index := cpu_r cpu index)\<rparr>"

definition swap_banks :: "'a Registers_scheme \<Rightarrow> 'a Registers_scheme" where
  "swap_banks cpu = fold swap_step [0..<8] cpu"

definition bank_one :: "u32 \<Rightarrow> bool" where
  "bank_one v \<longleftrightarrow> v AND (sr_md_mask OR sr_rb_mask) = sr_md_mask OR sr_rb_mask"

definition write_sr :: "u32 \<Rightarrow> 'a Registers_scheme \<Rightarrow> 'a Registers_scheme" where
  "write_sr v cpu =
     (let masked = v AND sr_writable_mask;
          cpu = (if bank_one (cpu_sr cpu) \<noteq> bank_one masked then swap_banks cpu else cpu)
      in cpu\<lparr>cpu_sr := masked,
             cpu_m := (masked AND sr_m_mask \<noteq> 0),
             cpu_q := (masked AND sr_q_mask \<noteq> 0),
             cpu_s := (masked AND sr_s_mask \<noteq> 0),
             cpu_t := (masked AND sr_t_mask \<noteq> 0)\<rparr>)"

definition read_fpscr :: "'a Registers_scheme \<Rightarrow> u32" where
  "read_fpscr cpu = cpu_fpscr cpu"

definition write_fpscr :: "u32 \<Rightarrow> 'a Registers_scheme \<Rightarrow> 'a Registers_scheme" where
  "write_fpscr v cpu =
     (let masked = v AND fpscr_writable_mask;
          cpu = (if (cpu_fpscr cpu AND fpscr_fr_mask \<noteq> 0) \<noteq> (masked AND fpscr_fr_mask \<noteq> 0)
                 then cpu\<lparr>cpu_fr := cpu_xf cpu, cpu_xf := cpu_fr cpu\<rparr> else cpu)
      in cpu\<lparr>cpu_fpscr := masked\<rparr>)"

definition toggle_fpu_register_bank :: "'a Registers_scheme \<Rightarrow> 'a Registers_scheme" where
  "toggle_fpu_register_bank cpu = write_fpscr (read_fpscr cpu XOR fpscr_fr_mask) cpu"

definition fpu_register_bank_selected :: "'a Registers_scheme \<Rightarrow> bool" where
  "fpu_register_bank_selected cpu \<longleftrightarrow> read_fpscr cpu AND fpscr_fr_mask \<noteq> 0"

definition fpu_double_precision :: "'a Registers_scheme \<Rightarrow> bool" where
  "fpu_double_precision cpu \<longleftrightarrow> read_fpscr cpu AND fpscr_pr_mask \<noteq> 0"

definition fpu_transfer_pair :: "'a Registers_scheme \<Rightarrow> bool" where
  "fpu_transfer_pair cpu \<longleftrightarrow> read_fpscr cpu AND fpscr_sz_mask \<noteq> 0"

definition fpu_flush_denormals :: "'a Registers_scheme \<Rightarrow> bool" where
  "fpu_flush_denormals cpu \<longleftrightarrow> read_fpscr cpu AND fpscr_dn_mask \<noteq> 0"

definition interrupt_mask :: "'a Registers_scheme \<Rightarrow> u8" where
  "interrupt_mask cpu = ucast (drop_bit 4 (read_sr cpu AND sr_interrupt_mask))"

definition set_interrupt_mask :: "u8 \<Rightarrow> 'a Registers_scheme \<Rightarrow> 'a Registers_scheme" where
  "set_interrupt_mask level cpu =
     (let clamped = (if level > 15 then 15 else ucast level)
      in write_sr ((read_sr cpu AND NOT sr_interrupt_mask) OR push_bit 4 clamped) cpu)"

definition interrupts_blocked :: "'a Registers_scheme \<Rightarrow> bool" where
  "interrupts_blocked cpu \<longleftrightarrow> read_sr cpu AND sr_bl_mask \<noteq> 0"

definition privileged_mode :: "'a Registers_scheme \<Rightarrow> bool" where
  "privileged_mode cpu \<longleftrightarrow> cpu_sr cpu AND sr_md_mask \<noteq> 0"

definition register_bank_selected :: "'a Registers_scheme \<Rightarrow> bool" where
  "register_bank_selected cpu \<longleftrightarrow> bank_one (read_sr cpu)"

definition fpu_disabled :: "'a Registers_scheme \<Rightarrow> bool" where
  "fpu_disabled cpu \<longleftrightarrow> read_sr cpu AND sr_fd_mask \<noteq> 0"

subsection \<open>Reset\<close>

record ResetState =
  rs_program_counter :: u32
  rs_stack_pointer :: u32
  rs_vector_base :: u32
  rs_status_register :: u32
  rs_fpscr :: u32

definition no_tlb_entry :: Sh4TlbEntry where
  "no_tlb_entry = \<lparr>tlb_pteh = 0, tlb_ptel = 0, tlb_ptea = 0\<rparr>"

definition reset_registers :: "ResetState \<Rightarrow> CpuState \<Rightarrow> CpuState" where
  "reset_registers state cpu =
     cpu\<lparr>cpu_r := (\<lambda>_. 0), cpu_r_bank := (\<lambda>_. 0), cpu_fr := (\<lambda>_. 0), cpu_xf := (\<lambda>_. 0),
         cpu_pc := rs_program_counter state, cpu_pr := 0, cpu_gbr := 0,
         cpu_vbr := rs_vector_base state, cpu_ssr := 0, cpu_spc := 0, cpu_sgr := 0, cpu_dbr := 0,
         cpu_tra := 0, cpu_tea := 0, cpu_expevt := 0, cpu_intevt := 0, cpu_pteh := 0, cpu_ptel := 0,
         cpu_ptea := 0, cpu_ttb := 0, cpu_mmucr := 0, cpu_utlb := (\<lambda>_. no_tlb_entry),
         cpu_tlb_load_count := 0, cpu_mach := 0, cpu_macl := 0, cpu_fpul := 0, cpu_fpscr := 0\<rparr>"

definition reset_accounting :: "CpuState \<Rightarrow> CpuState" where
  "reset_accounting cpu =
     cpu\<lparr>cpu_sr := 0, cpu_t := False, cpu_s := False, cpu_q := False, cpu_m := False,
         cpu_trap_pending := False, cpu_exception_generation := 0,
         cpu_last_exception_cause := NoneCause, cpu_exception_in_delay_slot := False,
         cpu_last_exception_instruction_pc := 0, cpu_last_exception_instruction_physical_pc := 0,
         cpu_last_exception_owner_pc := 0, cpu_last_memory_fault_provenance := no_provenance,
         cpu_last_exception_generation := 0, cpu_sleeping := False,
         cpu_last_prefetch_address := 0, cpu_prefetch_count := 0,
         cpu_attempted_guest_instructions := 0, cpu_retired_guest_instructions := 0,
         cpu_total_guest_cycles := 0, cpu_pending_guest_cycles := 0,
         cpu_active_instruction_pc := 0, cpu_active_instruction_physical_pc := 0,
         cpu_active_block_virtual_start := 0, cpu_active_block_physical_start := 0,
         cpu_active_block_size := 0, cpu_last_prefetch_was_store_queue := False\<rparr>"

definition reset_cpu :: "ResetState \<Rightarrow> CpuState \<Rightarrow> CpuState" where
  "reset_cpu state cpu =
     (let cpu = reset_accounting (write_fpscr (rs_fpscr state) (reset_registers state cpu));
          cpu = with_address_space
                  (\<lambda>space. clear_tlb (write_pteh 0 (write_mmucr 0 (set_mode NoMmu space)))) cpu;
          cpu = cpu\<lparr>cpu_r := (cpu_r cpu)(15 := rs_stack_pointer state)\<rparr>
      in write_sr (rs_status_register state) cpu)"

subsection \<open>Instruction accounting\<close>

definition begin_guest_instruction :: "u32 \<Rightarrow> u64 \<Rightarrow> CpuState \<Rightarrow> CpuState" where
  "begin_guest_instruction instruction_pc guest_cycles cpu =
     (let block_offset = instruction_pc - cpu_active_block_virtual_start cpu
      in cpu\<lparr>cpu_attempted_guest_instructions := cpu_attempted_guest_instructions cpu + 1,
             cpu_active_instruction_pc := instruction_pc,
             cpu_active_instruction_physical_pc :=
               (if cpu_active_block_size cpu \<noteq> 0 \<and> block_offset < cpu_active_block_size cpu
                then cpu_active_block_physical_start cpu + block_offset
                else canonical_physical_address instruction_pc),
             cpu_pending_guest_cycles := cpu_pending_guest_cycles cpu + guest_cycles\<rparr>)"

definition add_guest_instruction_cycles :: "u64 \<Rightarrow> CpuState \<Rightarrow> CpuState" where
  "add_guest_instruction_cycles guest_cycles cpu =
     cpu\<lparr>cpu_pending_guest_cycles := cpu_pending_guest_cycles cpu + guest_cycles\<rparr>"

definition retire_guest_instruction :: "CpuState \<Rightarrow> CpuState" where
  "retire_guest_instruction cpu =
     cpu\<lparr>cpu_retired_guest_instructions := cpu_retired_guest_instructions cpu + 1\<rparr>"

definition take_pending_guest_cycles :: "CpuState \<Rightarrow> u64 \<times> CpuState" where
  "take_pending_guest_cycles cpu =
     (let cycles = cpu_pending_guest_cycles cpu
      in (cycles, cpu\<lparr>cpu_pending_guest_cycles := 0,
                       cpu_total_guest_cycles := cpu_total_guest_cycles cpu + cycles\<rparr>))"

definition elapsed_guest_cycles :: "CpuState \<Rightarrow> u64" where
  "elapsed_guest_cycles cpu = cpu_total_guest_cycles cpu + cpu_pending_guest_cycles cpu"

definition prefetch :: "u32 \<Rightarrow> CpuState \<Rightarrow> CpuState" where
  "prefetch address cpu =
     cpu\<lparr>cpu_last_prefetch_address := address, cpu_prefetch_count := cpu_prefetch_count cpu + 1,
         cpu_last_prefetch_was_store_queue := (address \<ge> 0xE0000000 \<and> address \<le> 0xE3FFFFFF)\<rparr>"

definition ldtlb_mapping :: "CpuState \<Rightarrow> nat \<Rightarrow> TlbMapping" where
  "ldtlb_mapping cpu index =
     (let size_code = (drop_bit 6 (cpu_ptel cpu) AND 2) OR (drop_bit 4 (cpu_ptel cpu) AND 1);
          protection = drop_bit 5 (cpu_ptel cpu) AND 3
      in \<lparr>tm_virtual_page = cpu_pteh cpu AND 0xFFFFFC00,
          tm_physical_page = cpu_ptel cpu AND 0x1FFFFC00,
          tm_page_size = [1024, 4096, 65536, 1048576] ! unat size_code,
          tm_asid = ucast (cpu_pteh cpu AND 0xFF), tm_slot = of_nat index,
          tm_valid = (cpu_ptel cpu AND 0x00000100 \<noteq> 0), tm_readable = True,
          tm_writable = (protection AND 1 \<noteq> 0), tm_executable = True,
          tm_user_access = (protection \<ge> 2), tm_dirty = (cpu_ptel cpu AND 0x00000004 \<noteq> 0),
          tm_shared = (cpu_ptel cpu AND 0x00000002 \<noteq> 0)\<rparr>)"

text \<open>\<open>load_tlb\<close> is \<open>noexcept\<close>; the page size it passes is always one \<open>ldtlb\<close> accepts.\<close>

definition load_tlb :: "CpuState \<Rightarrow> CpuState" where
  "load_tlb cpu =
     (let index = unat (drop_bit 10 (cpu_mmucr cpu) AND 0x3F);
          cpu = cpu\<lparr>cpu_utlb := (cpu_utlb cpu)(index :=
                  \<lparr>tlb_pteh = cpu_pteh cpu, tlb_ptel = cpu_ptel cpu, tlb_ptea = cpu_ptea cpu\<rparr>)\<rparr>;
          cpu = with_address_space
                  (\<lambda>space. case ldtlb (ldtlb_mapping cpu index) space of
                             Inr space' \<Rightarrow> space' | Inl _ \<Rightarrow> space) cpu
      in cpu\<lparr>cpu_tlb_load_count := cpu_tlb_load_count cpu + 1\<rparr>)"

definition advance_utlb_access_counter :: "u64 \<Rightarrow> CpuState \<Rightarrow> CpuState" where
  "advance_utlb_access_counter accesses cpu =
     (if accesses = 0 then cpu
      else let urc = drop_bit 10 (cpu_mmucr cpu) AND 0x3F;
               urb = drop_bit 18 (cpu_mmucr cpu) AND 0x3F;
               boundary = (if urb = 0 then 64 else urb);
               advanced = (if urc \<ge> boundary then ucast ((accesses - 1) mod ucast boundary)
                       else ucast ((ucast urc + accesses mod ucast boundary) mod ucast boundary));
               cpu = cpu\<lparr>cpu_mmucr := (cpu_mmucr cpu AND NOT (push_bit 10 0x3F)) OR
                   push_bit 10 advanced\<rparr>
           in with_address_space (write_mmucr (cpu_mmucr cpu)) cpu)"

subsection \<open>Exceptions\<close>

record ExceptionMetadata =
  em_cause :: ExceptionCause
  em_event_code :: u32
  em_vector_offset :: u32
  em_interrupt :: bool

definition exception_row :: "ExceptionCause \<Rightarrow> u32 \<Rightarrow> u32 \<Rightarrow> bool \<Rightarrow> ExceptionMetadata" where
  "exception_row cause event vector interrupt =
     \<lparr>em_cause = cause, em_event_code = event, em_vector_offset = vector,
      em_interrupt = interrupt\<rparr>"

definition exception_table :: "ExceptionMetadata list" where
  "exception_table = [
     exception_row NoneCause 0 general_exception_vector False,
     exception_row TrapCause event_trapa general_exception_vector False,
     exception_row IllegalInstruction event_illegal_instruction general_exception_vector False,
     exception_row SlotIllegalInstruction event_slot_illegal_instruction
       general_exception_vector False,
     exception_row FpuDisabled event_fpu_disabled general_exception_vector False,
     exception_row SlotFpuDisabled event_slot_fpu_disabled general_exception_vector False,
     exception_row AddressErrorRead event_address_error_read general_exception_vector False,
     exception_row AddressErrorWrite event_address_error_write general_exception_vector False,
     exception_row TlbMissRead event_tlb_miss_read tlb_miss_exception_vector False,
     exception_row TlbMissWrite event_tlb_miss_write tlb_miss_exception_vector False,
     exception_row InitialPageWrite event_initial_page_write general_exception_vector False,
     exception_row TlbProtectionRead event_tlb_protection_read general_exception_vector False,
     exception_row TlbProtectionWrite event_tlb_protection_write general_exception_vector False,
     exception_row TlbMultipleHit event_tlb_multiple_hit general_exception_vector False,
     exception_row AddressErrorRead event_address_error_read general_exception_vector False,
     exception_row AddressErrorWrite event_address_error_write general_exception_vector False,
     exception_row Interrupt 0 interrupt_vector True,
     exception_row FpuException event_fpu_exception general_exception_vector False]"

text \<open>\<open>static_cast<std::size_t>(cause)\<close>: the position of the enumerator.\<close>

definition cause_index :: "ExceptionCause \<Rightarrow> nat" where
  "cause_index cause = (case cause of
       NoneCause \<Rightarrow> 0 | TrapCause \<Rightarrow> 1 | IllegalInstruction \<Rightarrow> 2 | SlotIllegalInstruction \<Rightarrow> 3
     | FpuDisabled \<Rightarrow> 4 | SlotFpuDisabled \<Rightarrow> 5 | AddressErrorRead \<Rightarrow> 6 | AddressErrorWrite \<Rightarrow> 7
     | TlbMissRead \<Rightarrow> 8 | TlbMissWrite \<Rightarrow> 9 | InitialPageWrite \<Rightarrow> 10 | TlbProtectionRead \<Rightarrow> 11
     | TlbProtectionWrite \<Rightarrow> 12 | TlbMultipleHit \<Rightarrow> 13 | BusErrorRead \<Rightarrow> 14 | BusErrorWrite \<Rightarrow> 15
     | Interrupt \<Rightarrow> 16 | FpuException \<Rightarrow> 17)"

definition exception_metadata :: "ExceptionCause \<Rightarrow> u32 \<Rightarrow> ExceptionMetadata" where
  "exception_metadata cause interrupt_event_code =
     (let index = cause_index cause;
          metadata = (if index < length exception_table then exception_table ! index
                      else exception_table ! 0)
      in if em_interrupt metadata then metadata\<lparr>em_event_code := interrupt_event_code\<rparr>
         else metadata)"

definition instruction_physical_pc :: "CpuState \<Rightarrow> u32 \<Rightarrow> u32" where
  "instruction_physical_pc cpu instruction_pc =
     (if instruction_pc = cpu_active_instruction_pc cpu then cpu_active_instruction_physical_pc cpu
      else let offset = instruction_pc - cpu_active_block_virtual_start cpu
           in if cpu_active_block_size cpu \<noteq> 0 \<and> offset < cpu_active_block_size cpu
              then cpu_active_block_physical_start cpu + offset
              else canonical_physical_address instruction_pc)"

definition next_exception_generation :: "u64 \<Rightarrow> u64" where
  "next_exception_generation current = (if current = - 1 then 1 else current + 1)"

definition exception_updates_pteh :: "ExceptionCause \<Rightarrow> bool" where
  "exception_updates_pteh cause \<longleftrightarrow>
     cause \<in> {AddressErrorRead, AddressErrorWrite, TlbMissRead, TlbMissWrite, InitialPageWrite,
              TlbProtectionRead, TlbProtectionWrite, TlbMultipleHit}"

definition make_memory_fault_provenance ::
    "MemoryAccessError \<Rightarrow> u32 \<Rightarrow> u32 option \<Rightarrow> MemoryFaultProvenance" where
  "make_memory_fault_provenance error instruction_pc instruction_opcode =
     (let origin = err_instruction error;
          source_pc = (if go_valid origin \<and> go_source_pc origin \<noteq> 0 then go_source_pc origin
                       else instruction_pc);
          runtime_pc = (if go_valid origin \<and> go_runtime_pc origin \<noteq> 0 then go_runtime_pc origin
                        else instruction_pc)
      in \<lparr>mf_valid = True, mf_instruction_valid = (source_pc \<noteq> 0 \<and> runtime_pc \<noteq> 0),
          mf_opcode_valid = (case instruction_opcode of None \<Rightarrow> False | Some opc \<Rightarrow> opc \<noteq> 0),
          mf_access_valid = True, mf_source_pc = source_pc, mf_runtime_pc = runtime_pc,
          mf_address = err_address error,
          mf_opcode = (case instruction_opcode of None \<Rightarrow> 0 | Some opc \<Rightarrow> opc),
          mf_operation = err_operation error, mf_width = err_width error\<rparr>)"

datatype ManualResetReason = BlockedGeneralException | TlbMultipleHitReset

record ManualResetRequest =
  mr_reason :: ManualResetReason
  mr_cause :: ExceptionCause
  mr_event_code :: u32
  mr_fault_address :: "u32 option"
  mr_instruction_pc :: u32
  mr_owner_pc :: u32
  mr_in_delay_slot :: bool

text \<open>
  \<open>cpu.manual_reset_sink\<close>: the host callback that may take over the reset; \<open>None\<close> when no
  callback is installed.
\<close>

type_synonym reset_sink = "(CpuState \<Rightarrow> ManualResetRequest \<Rightarrow> CpuState) option"

definition reset_sr :: u32 where
  "reset_sr = ((sr_md_mask OR sr_rb_mask) OR sr_bl_mask) OR sr_interrupt_mask"

definition request_manual_reset ::
    "reset_sink \<Rightarrow> ManualResetRequest \<Rightarrow> CpuState \<Rightarrow> CpuState" where
  "request_manual_reset sink request cpu0 =
     (let cpu = cpu0\<lparr>cpu_last_memory_fault_provenance := no_provenance\<rparr>;
          generation = next_exception_generation (cpu_exception_generation cpu);
          attempted = cpu_attempted_guest_instructions cpu;
          retired = cpu_retired_guest_instructions cpu;
          total_cycles = cpu_total_guest_cycles cpu;
          pending_cycles = cpu_pending_guest_cycles cpu;
          physical_instruction_pc = instruction_physical_pc cpu (mr_instruction_pc request);
          fault_pteh = (case mr_fault_address request of
              Some fault \<Rightarrow> if exception_updates_pteh (mr_cause request)
                then Some ((cpu_pteh cpu AND 0x000000FF) OR (fault AND 0xFFFFFC00)) else None
            | None \<Rightarrow> None);
          cpu = (case sink of
              Some callback \<Rightarrow> callback cpu request
            | None \<Rightarrow> reset_cpu \<lparr>rs_program_counter = tlb_multiple_hit_reset_vector,
                rs_stack_pointer = 0, rs_vector_base = 0, rs_status_register = reset_sr,
                rs_fpscr = 0\<rparr> cpu);
          cpu = cpu\<lparr>cpu_exception_generation := generation,
                cpu_attempted_guest_instructions := attempted,
                cpu_retired_guest_instructions := retired,
                cpu_total_guest_cycles := total_cycles,
                cpu_pending_guest_cycles := pending_cycles,
                cpu_last_exception_generation := generation,
                cpu_last_exception_cause := mr_cause request,
                cpu_last_exception_instruction_pc := mr_instruction_pc request,
                cpu_last_exception_instruction_physical_pc := physical_instruction_pc,
                cpu_last_exception_owner_pc := mr_owner_pc request,
                cpu_exception_in_delay_slot := mr_in_delay_slot request,
                cpu_expevt := mr_event_code request\<rparr>;
          cpu = (case mr_fault_address request of
              Some fault \<Rightarrow> cpu\<lparr>cpu_tea := fault\<rparr> | None \<Rightarrow> cpu);
          cpu = (case fault_pteh of
              Some pteh \<Rightarrow> with_address_space (write_pteh pteh) (cpu\<lparr>cpu_pteh := pteh\<rparr>)
            | None \<Rightarrow> cpu);
          cpu = write_sr reset_sr (cpu\<lparr>cpu_pc := tlb_multiple_hit_reset_vector\<rparr>)
      in cpu\<lparr>cpu_trap_pending := False, cpu_sleeping := False\<rparr>)"

record ExceptionRequest =
  er_cause :: ExceptionCause
  er_event_code :: u32
  er_vector_offset :: u32
  er_return_pc :: u32
  er_fault_address :: "u32 option"
  er_interrupt :: bool
  er_in_delay_slot :: bool
  er_instruction_pc :: "u32 option"
  er_delay_slot_owner_pc :: "u32 option"

definition value_or :: "'a option \<Rightarrow> 'a \<Rightarrow> 'a" where
  "value_or x d = (case x of Some v \<Rightarrow> v | None \<Rightarrow> d)"

text \<open>The part of \<open>enter_exception\<close> after the blocked-exception test.\<close>

definition accept_exception ::
    "ExceptionRequest \<Rightarrow> ExceptionMetadata \<Rightarrow> u32 \<Rightarrow> u32 \<Rightarrow> u32 \<Rightarrow> CpuState \<Rightarrow> CpuState" where
  "accept_exception request metadata saved_sr instruction_pc owner_pc cpu =
     (let cpu = cpu\<lparr>cpu_exception_generation :=
                next_exception_generation (cpu_exception_generation cpu),
              cpu_ssr := saved_sr, cpu_spc := er_return_pc request,
              cpu_sgr := cpu_r cpu 15\<rparr>;
          cpu = (case er_fault_address request of
              Some fault \<Rightarrow> cpu\<lparr>cpu_tea := fault\<rparr> | None \<Rightarrow> cpu);
          cpu = (if em_interrupt metadata then cpu\<lparr>cpu_intevt := em_event_code metadata\<rparr>
                 else cpu\<lparr>cpu_expevt := em_event_code metadata\<rparr>);
          cpu = cpu\<lparr>cpu_last_exception_cause := em_cause metadata,
              cpu_exception_in_delay_slot := er_in_delay_slot request,
              cpu_last_exception_instruction_pc := instruction_pc,
              cpu_last_exception_instruction_physical_pc :=
                instruction_physical_pc cpu instruction_pc,
              cpu_last_exception_owner_pc := owner_pc,
              cpu_last_exception_generation := cpu_exception_generation cpu,
              cpu_trap_pending := True, cpu_sleeping := False\<rparr>;
          cpu = write_sr (((saved_sr OR sr_md_mask) OR sr_rb_mask) OR sr_bl_mask) cpu
      in cpu\<lparr>cpu_pc := cpu_vbr cpu + em_vector_offset metadata\<rparr>)"

definition enter_exception :: "reset_sink \<Rightarrow> ExceptionRequest \<Rightarrow> CpuState \<Rightarrow> CpuState" where
  "enter_exception sink request cpu0 =
     (let cpu = cpu0\<lparr>cpu_last_memory_fault_provenance := no_provenance\<rparr>;
          metadata = exception_metadata (er_cause request) (er_event_code request);
          saved_sr = read_sr cpu;
          instruction_pc = value_or (er_instruction_pc request) (cpu_active_instruction_pc cpu);
          owner_pc = value_or (er_delay_slot_owner_pc request) instruction_pc
      in if \<not> em_interrupt metadata \<and> em_vector_offset metadata = general_exception_vector \<and>
            saved_sr AND sr_bl_mask \<noteq> 0
         then request_manual_reset sink
                \<lparr>mr_reason = BlockedGeneralException, mr_cause = em_cause metadata,
                 mr_event_code = em_event_code metadata,
                 mr_fault_address = er_fault_address request,
                 mr_instruction_pc = instruction_pc, mr_owner_pc = owner_pc,
                 mr_in_delay_slot = er_in_delay_slot request\<rparr> cpu
         else accept_exception request metadata saved_sr instruction_pc owner_pc cpu)"

definition raise_trapa :: "reset_sink \<Rightarrow> u8 \<Rightarrow> u32 \<Rightarrow> CpuState \<Rightarrow> CpuState" where
  "raise_trapa sink immediate instruction_pc cpu =
     enter_exception sink
       \<lparr>er_cause = TrapCause, er_event_code = event_trapa,
        er_vector_offset = general_exception_vector, er_return_pc = instruction_pc + 2,
        er_fault_address = None, er_interrupt = False, er_in_delay_slot = False,
        er_instruction_pc = Some instruction_pc, er_delay_slot_owner_pc = None\<rparr>
       (cpu\<lparr>cpu_tra := push_bit 2 (ucast immediate)\<rparr>)"

definition raise_illegal_instruction ::
    "reset_sink \<Rightarrow> u32 \<Rightarrow> u32 option \<Rightarrow> CpuState \<Rightarrow> CpuState" where
  "raise_illegal_instruction sink instruction_pc delay_slot_owner cpu =
     (let in_delay_slot = (delay_slot_owner \<noteq> None)
      in enter_exception sink
       \<lparr>er_cause = (if in_delay_slot then SlotIllegalInstruction else IllegalInstruction),
        er_event_code = (if in_delay_slot then event_slot_illegal_instruction
                         else event_illegal_instruction),
        er_vector_offset = general_exception_vector,
        er_return_pc = value_or delay_slot_owner instruction_pc,
        er_fault_address = None, er_interrupt = False, er_in_delay_slot = in_delay_slot,
        er_instruction_pc = Some instruction_pc, er_delay_slot_owner_pc = delay_slot_owner\<rparr> cpu)"

definition raise_fpu_disabled ::
    "reset_sink \<Rightarrow> u32 \<Rightarrow> u32 option \<Rightarrow> CpuState \<Rightarrow> CpuState" where
  "raise_fpu_disabled sink instruction_pc delay_slot_owner cpu =
     (let in_delay_slot = (delay_slot_owner \<noteq> None)
      in enter_exception sink
       \<lparr>er_cause = (if in_delay_slot then SlotFpuDisabled else FpuDisabled),
        er_event_code = (if in_delay_slot then event_slot_fpu_disabled else event_fpu_disabled),
        er_vector_offset = general_exception_vector,
        er_return_pc = value_or delay_slot_owner instruction_pc,
        er_fault_address = None, er_interrupt = False, er_in_delay_slot = in_delay_slot,
        er_instruction_pc = Some instruction_pc, er_delay_slot_owner_pc = delay_slot_owner\<rparr> cpu)"

definition memory_exception_cause :: "MemoryAccessError \<Rightarrow> ExceptionCause" where
  "memory_exception_cause error =
     (let wr = (err_operation error = WriteAccess)
      in case err_reason error of
           ReasonTlbMiss \<Rightarrow> if wr then TlbMissWrite else TlbMissRead
         | ReasonTlbMultipleHit \<Rightarrow> TlbMultipleHit
         | ReasonInitialPageWrite \<Rightarrow> InitialPageWrite
         | ReasonTlbProtection \<Rightarrow> if wr then TlbProtectionWrite else TlbProtectionRead
         | ReasonDeviceRejected \<Rightarrow> if wr then BusErrorWrite else BusErrorRead
         | _ \<Rightarrow> if wr then AddressErrorWrite else AddressErrorRead)"

definition enter_memory_exception ::
    "reset_sink \<Rightarrow> MemoryAccessError \<Rightarrow> u32 \<Rightarrow> u32 option \<Rightarrow> u32 option \<Rightarrow> CpuState \<Rightarrow> CpuState" where
  "enter_memory_exception sink error instruction_pc instruction_opcode delay_slot_owner cpu =
     (let provenance = make_memory_fault_provenance error instruction_pc instruction_opcode;
          in_delay_slot = (delay_slot_owner \<noteq> None);
          cause = memory_exception_cause error;
          metadata = exception_metadata cause 0;
          cpu = (if exception_updates_pteh (em_cause metadata)
                 then cpu\<lparr>cpu_pteh := (cpu_pteh cpu AND 0x000000FF) OR
                              (err_address error AND 0xFFFFFC00)\<rparr> else cpu);
          cpu = (if cause = TlbMultipleHit then
              request_manual_reset sink
                \<lparr>mr_reason = TlbMultipleHitReset, mr_cause = cause,
                 mr_event_code = event_tlb_multiple_hit,
                 mr_fault_address = Some (err_address error), mr_instruction_pc = instruction_pc,
                 mr_owner_pc = value_or delay_slot_owner instruction_pc,
                 mr_in_delay_slot = in_delay_slot\<rparr> cpu
            else enter_exception sink
              \<lparr>er_cause = cause, er_event_code = em_event_code metadata,
               er_vector_offset = general_exception_vector,
               er_return_pc = value_or delay_slot_owner instruction_pc,
               er_fault_address = Some (err_address error), er_interrupt = False,
               er_in_delay_slot = in_delay_slot, er_instruction_pc = Some instruction_pc,
               er_delay_slot_owner_pc = delay_slot_owner\<rparr> cpu)
      in cpu\<lparr>cpu_last_memory_fault_provenance := provenance\<rparr>)"

definition return_from_exception :: "CpuState \<Rightarrow> CpuState" where
  "return_from_exception cpu =
     (let return_pc = cpu_spc cpu; return_sr = cpu_ssr cpu; cpu = write_sr return_sr cpu
      in cpu\<lparr>cpu_pc := return_pc, cpu_trap_pending := False,
             cpu_last_exception_cause := NoneCause, cpu_exception_in_delay_slot := False,
             cpu_last_memory_fault_provenance := no_provenance\<rparr>)"

subsection \<open>Banks and status register\<close>

lemma swap_banks_eq:
  "swap_banks cpu = cpu\<lparr>cpu_r := (\<lambda>i. if i < 8 then cpu_r_bank cpu i else cpu_r cpu i),
     cpu_r_bank := (\<lambda>i. if i < 8 then cpu_r cpu i else cpu_r_bank cpu i)\<rparr>"
proof -
  have "fold swap_step [0..<n] cpu =
      cpu\<lparr>cpu_r := (\<lambda>i. if i < n then cpu_r_bank cpu i else cpu_r cpu i),
          cpu_r_bank := (\<lambda>i. if i < n then cpu_r cpu i else cpu_r_bank cpu i)\<rparr>" for n
    by (induction n) (auto simp: swap_step_def fun_eq_iff less_Suc_eq intro!: Registers.equality)
  then show ?thesis by (simp add: swap_banks_def)
qed

lemma swap_banks_simps [simp]:
  "cpu_r (swap_banks cpu) i = (if i < 8 then cpu_r_bank cpu i else cpu_r cpu i)"
  "cpu_r_bank (swap_banks cpu) i = (if i < 8 then cpu_r cpu i else cpu_r_bank cpu i)"
  by (simp_all add: swap_banks_eq)

lemma swap_banks_twice [simp]: "swap_banks (swap_banks cpu) = cpu"
  by (simp add: swap_banks_eq fun_eq_iff if_distrib cong: if_cong)

lemma sr_mask_bits [simp]:
  "bit sr_t_mask n \<longleftrightarrow> n = 0" "bit sr_s_mask n \<longleftrightarrow> n = 1" "bit sr_q_mask n \<longleftrightarrow> n = 8"
  "bit sr_m_mask n \<longleftrightarrow> n = 9" "bit sr_fd_mask n \<longleftrightarrow> n = 15" "bit sr_bl_mask n \<longleftrightarrow> n = 28"
  "bit sr_rb_mask n \<longleftrightarrow> n = 29" "bit sr_md_mask n \<longleftrightarrow> n = 30"
  by (rule bit_exp_u32; simp add: sr_masks)+

lemma sr_flag_bits:
  "v AND sr_m_mask \<noteq> 0 \<longleftrightarrow> bit v 9" "v AND sr_q_mask \<noteq> 0 \<longleftrightarrow> bit v 8"
  "v AND sr_s_mask \<noteq> 0 \<longleftrightarrow> bit v 1" "v AND sr_t_mask \<noteq> 0 \<longleftrightarrow> bit v 0"
  "v AND sr_bl_mask \<noteq> 0 \<longleftrightarrow> bit v 28" "v AND sr_md_mask \<noteq> 0 \<longleftrightarrow> bit v 30"
  by (rule and_single_bit; simp)+

lemma bank_one_bits: "bank_one v \<longleftrightarrow> bit v 30 \<and> bit v 29"
  by (auto simp: bank_one_def u32_eq_iff bit_and_iff bit_or_iff dest: spec [of _ 30] spec [of _ 29])

lemma bit_read_sr:
  assumes "n < 32"
  shows "bit (read_sr cpu) n \<longleftrightarrow>
    (if n = 9 then cpu_m cpu else if n = 8 then cpu_q cpu else if n = 1 then cpu_s cpu
     else if n = 0 then cpu_t cpu else bit (cpu_sr cpu) n)"
  using assms by (simp add: read_sr_def bit_or_iff bit_and_iff bit_not_iff)

lemma bank_one_read_sr [simp]: "bank_one (read_sr cpu) = bank_one (cpu_sr cpu)"
  by (simp add: bank_one_bits bit_read_sr)

lemma bit_writable: "bit sr_writable_mask n \<longleftrightarrow> n \<in> {0, 1, 4, 5, 6, 7, 8, 9, 15, 28, 29, 30}"
proof (cases "n < 32")
  case True
  then have "n \<in> set [0..<32]" by simp
  then show ?thesis
    by (simp add: upt_rec sr_writable_mask_def) (elim disjE; simp)
next
  case False
  then show ?thesis by (auto dest: bit_imp_le_length)
qed

lemma bank_one_masked [simp]: "bank_one (v AND sr_writable_mask) = bank_one v"
  by (auto simp: bank_one_bits bit_and_iff bit_writable)

lemma write_sr_simps [simp]:
  "cpu_sr (write_sr v cpu) = v AND sr_writable_mask"
  "cpu_m (write_sr v cpu) = bit v 9" "cpu_q (write_sr v cpu) = bit v 8"
  "cpu_s (write_sr v cpu) = bit v 1" "cpu_t (write_sr v cpu) = bit v 0"
  by (simp_all add: write_sr_def Let_def sr_flag_bits bit_and_iff bit_writable)

text \<open>A state is well formed when the stored word has no bit outside the writable ones.\<close>

definition sr_ok :: "'a Registers_scheme \<Rightarrow> bool" where
  "sr_ok cpu \<longleftrightarrow> cpu_sr cpu AND sr_writable_mask = cpu_sr cpu"

lemma sr_ok_write_sr [simp]: "sr_ok (write_sr v cpu)"
  by (simp add: sr_ok_def)

lemma read_write_sr: "read_sr (write_sr v cpu) = v AND sr_writable_mask"
  by (auto simp: u32_eq_iff bit_read_sr bit_and_iff bit_writable)

lemma write_sr_same_bank:
  assumes "bank_one v = bank_one (cpu_sr cpu)"
  shows "cpu_r (write_sr v cpu) = cpu_r cpu" and "cpu_r_bank (write_sr v cpu) = cpu_r_bank cpu"
  using assms by (simp_all add: write_sr_def Let_def)

lemma write_sr_other_bank:
  assumes "bank_one v \<noteq> bank_one (cpu_sr cpu)"
  shows "cpu_r (write_sr v cpu) = cpu_r (swap_banks cpu)"
    and "cpu_r_bank (write_sr v cpu) = cpu_r_bank (swap_banks cpu)"
  using assms by (simp_all add: write_sr_def Let_def)

lemma write_sr_twice:
  "cpu_r (write_sr w (write_sr v cpu)) = cpu_r (write_sr w cpu)"
  "cpu_r_bank (write_sr w (write_sr v cpu)) = cpu_r_bank (write_sr w cpu)"
  by (auto simp: write_sr_def Let_def fun_eq_iff)

lemma write_sr_cong:
  assumes "cpu_r a = cpu_r b" and "cpu_r_bank a = cpu_r_bank b" and "cpu_sr a = cpu_sr b"
  shows "cpu_r (write_sr v a) = cpu_r (write_sr v b)"
    and "cpu_r_bank (write_sr v a) = cpu_r_bank (write_sr v b)"
  using assms by (auto simp: write_sr_def Let_def fun_eq_iff)

lemma write_sr_frame [simp]:
  "cpu_ssr (write_sr v cpu) = cpu_ssr cpu" "cpu_spc (write_sr v cpu) = cpu_spc cpu"
  "cpu_sgr (write_sr v cpu) = cpu_sgr cpu" "cpu_vbr (write_sr v cpu) = cpu_vbr cpu"
  "cpu_pc (write_sr v cpu) = cpu_pc cpu" "cpu_pr (write_sr v cpu) = cpu_pr cpu"
  "cpu_gbr (write_sr v cpu) = cpu_gbr cpu" "cpu_mach (write_sr v cpu) = cpu_mach cpu"
  "cpu_macl (write_sr v cpu) = cpu_macl cpu" "cpu_fr (write_sr v cpu) = cpu_fr cpu"
  "cpu_xf (write_sr v cpu) = cpu_xf cpu" "cpu_expevt (write_sr v cpu) = cpu_expevt cpu"
  "cpu_intevt (write_sr v cpu) = cpu_intevt cpu" "cpu_fpscr (write_sr v cpu) = cpu_fpscr cpu"
  "cpu_tra (write_sr v cpu) = cpu_tra cpu"
  by (simp_all add: write_sr_def Let_def swap_banks_eq)

lemma write_sr_r15 [simp]: "cpu_r (write_sr v cpu) 15 = cpu_r cpu 15"
  by (simp add: write_sr_def Let_def)

lemma write_sr_cpu_frame [simp]:
  "cpu_trap_pending (write_sr v cpu) = cpu_trap_pending cpu"
  "cpu_exception_generation (write_sr v cpu) = cpu_exception_generation cpu"
  "cpu_last_exception_cause (write_sr v cpu) = cpu_last_exception_cause cpu"
  "cpu_exception_in_delay_slot (write_sr v cpu) = cpu_exception_in_delay_slot cpu"
  by (simp_all add: write_sr_def Let_def swap_banks_eq)

subsection \<open>FPU register banks\<close>

lemma fpscr_fr_bit: "v AND fpscr_fr_mask \<noteq> 0 \<longleftrightarrow> bit v 21"
proof (rule and_single_bit)
  show "bit fpscr_fr_mask n \<longleftrightarrow> n = 21" for n
    by (rule bit_exp_u32) (simp_all add: fpscr_masks)
qed simp

lemma fpscr_writable_fr: "bit fpscr_writable_mask 21"
  by (simp add: fpscr_masks)

lemma toggle_fpu_register_bank_swaps:
  "cpu_fr (toggle_fpu_register_bank cpu) = cpu_xf cpu"
  "cpu_xf (toggle_fpu_register_bank cpu) = cpu_fr cpu"
proof -
  have "bit fpscr_fr_mask 21" by (simp add: fpscr_masks)
  then show "cpu_fr (toggle_fpu_register_bank cpu) = cpu_xf cpu"
    "cpu_xf (toggle_fpu_register_bank cpu) = cpu_fr cpu"
    by (simp_all add: toggle_fpu_register_bank_def write_fpscr_def Let_def fpscr_fr_bit
        read_fpscr_def bit_and_iff bit_xor_iff fpscr_writable_fr)
qed

lemma toggle_fpscr:
  "cpu_fpscr (toggle_fpu_register_bank cpu) = (cpu_fpscr cpu XOR fpscr_fr_mask) AND fpscr_writable_mask"
  by (simp add: toggle_fpu_register_bank_def write_fpscr_def Let_def read_fpscr_def)

lemma toggle_fpu_register_bank_twice:
  assumes "cpu_fpscr cpu AND fpscr_writable_mask = cpu_fpscr cpu"
  shows "toggle_fpu_register_bank (toggle_fpu_register_bank cpu) = cpu"
proof -
  have m: "fpscr_fr_mask AND fpscr_writable_mask = fpscr_fr_mask"
    by (simp add: fpscr_masks)
  have "((cpu_fpscr cpu XOR fpscr_fr_mask) AND fpscr_writable_mask XOR fpscr_fr_mask) AND
      fpscr_writable_mask = cpu_fpscr cpu"
    using assms m by (simp add: and.commute [of _ fpscr_writable_mask] bit.conj_xor_distrib
        and.assoc [symmetric] bit.xor_self xor.assoc)
  then have f: "cpu_fpscr (toggle_fpu_register_bank (toggle_fpu_register_bank cpu)) = cpu_fpscr cpu"
    by (simp add: toggle_fpscr)
  have "toggle_fpu_register_bank cpu = cpu\<lparr>cpu_fr := cpu_xf cpu, cpu_xf := cpu_fr cpu,
      cpu_fpscr := cpu_fpscr (toggle_fpu_register_bank cpu)\<rparr>" for cpu :: "'a Registers_scheme"
    using toggle_fpu_register_bank_swaps [of cpu]
    by (simp add: toggle_fpu_register_bank_def write_fpscr_def Let_def split: if_splits)
  then have "toggle_fpu_register_bank (toggle_fpu_register_bank cpu) =
      (toggle_fpu_register_bank cpu)\<lparr>cpu_fr := cpu_fr cpu, cpu_xf := cpu_xf cpu,
        cpu_fpscr := cpu_fpscr cpu\<rparr>"
    using toggle_fpu_register_bank_swaps [of cpu] f by metis
  also have "\<dots> = cpu"
    by (simp add: toggle_fpu_register_bank_def write_fpscr_def Let_def)
  finally show ?thesis .
qed

subsection \<open>Exception entry and return\<close>

definition takes_exception :: "ExceptionRequest \<Rightarrow> CpuState \<Rightarrow> bool" where
  "takes_exception request cpu \<longleftrightarrow>
     (let metadata = exception_metadata (er_cause request) (er_event_code request)
      in em_interrupt metadata \<or> em_vector_offset metadata \<noteq> general_exception_vector \<or>
         \<not> interrupts_blocked cpu)"

lemma read_sr_provenance [simp]:
  "read_sr (cpu\<lparr>cpu_last_memory_fault_provenance := p\<rparr>) = read_sr cpu"
  by (simp add: read_sr_def)

lemma accept_exception_fields:
  defines "h \<equiv> \<lambda>v. ((v OR sr_md_mask) OR sr_rb_mask) OR sr_bl_mask"
  shows "cpu_ssr (accept_exception request md v ipc opc cpu) = v"
    and "cpu_spc (accept_exception request md v ipc opc cpu) = er_return_pc request"
    and "cpu_sgr (accept_exception request md v ipc opc cpu) = cpu_r cpu 15"
    and "cpu_pc (accept_exception request md v ipc opc cpu) = cpu_vbr cpu + em_vector_offset md"
    and "cpu_sr (accept_exception request md v ipc opc cpu) = h v AND sr_writable_mask"
    and "cpu_r (accept_exception request md v ipc opc cpu) = cpu_r (write_sr (h v) cpu)"
    and "cpu_r_bank (accept_exception request md v ipc opc cpu) = cpu_r_bank (write_sr (h v) cpu)"
    and "cpu_trap_pending (accept_exception request md v ipc opc cpu)"
  unfolding h_def
  by (auto simp: accept_exception_def Let_def split: option.splits intro!: write_sr_cong)

lemma enter_exception_taken:
  fixes sink :: reset_sink
  assumes "takes_exception request cpu"
  defines "cpu' \<equiv> enter_exception sink request cpu"
    and "h \<equiv> ((read_sr cpu OR sr_md_mask) OR sr_rb_mask) OR sr_bl_mask"
  shows "cpu_ssr cpu' = read_sr cpu" and "cpu_spc cpu' = er_return_pc request"
    and "cpu_sgr cpu' = cpu_r cpu 15"
    and "cpu_pc cpu' = cpu_vbr cpu +
      em_vector_offset (exception_metadata (er_cause request) (er_event_code request))"
    and "cpu_sr cpu' = h AND sr_writable_mask"
    and "cpu_r cpu' = cpu_r (write_sr h cpu)"
    and "cpu_r_bank cpu' = cpu_r_bank (write_sr h cpu)"
    and "cpu_trap_pending cpu'"
proof -
  let ?c = "cpu\<lparr>cpu_last_memory_fault_provenance := no_provenance\<rparr>"
  obtain ipc opc where "cpu' = accept_exception request
      (exception_metadata (er_cause request) (er_event_code request)) (read_sr cpu) ipc opc ?c"
    using assms(1)
    by (auto simp: cpu'_def enter_exception_def takes_exception_def interrupts_blocked_def Let_def)
  moreover have "cpu_r (write_sr h ?c) = cpu_r (write_sr h cpu)"
    "cpu_r_bank (write_sr h ?c) = cpu_r_bank (write_sr h cpu)"
    by (rule write_sr_cong; simp)+
  ultimately show "cpu_ssr cpu' = read_sr cpu" "cpu_spc cpu' = er_return_pc request"
    "cpu_sgr cpu' = cpu_r cpu 15"
    "cpu_pc cpu' = cpu_vbr cpu +
      em_vector_offset (exception_metadata (er_cause request) (er_event_code request))"
    "cpu_sr cpu' = h AND sr_writable_mask" "cpu_r cpu' = cpu_r (write_sr h cpu)"
    "cpu_r_bank cpu' = cpu_r_bank (write_sr h cpu)" "cpu_trap_pending cpu'"
    by (simp_all add: accept_exception_fields h_def)
qed

lemma exception_sr_writes_back:
  fixes sink :: reset_sink
  assumes "takes_exception request cpu" and "sr_ok cpu"
  defines "cpu' \<equiv> return_from_exception (enter_exception sink request cpu)"
  shows "cpu_r cpu' = cpu_r cpu" and "cpu_r_bank cpu' = cpu_r_bank cpu"
    and "read_sr cpu' = read_sr cpu" and "cpu_pc cpu' = er_return_pc request"
    and "\<not> cpu_trap_pending cpu'"
proof -
  note e = enter_exception_taken [OF assms(1), of sink]
  have sw: "read_sr cpu AND sr_writable_mask = read_sr cpu"
    using assms(2) by (auto simp: sr_ok_def u32_eq_iff bit_read_sr bit_and_iff bit_writable)
  have bank: "bank_one (read_sr cpu) = bank_one (cpu_sr cpu)" by simp
  let ?e = "enter_exception sink request cpu"
  let ?h = "((read_sr cpu OR sr_md_mask) OR sr_rb_mask) OR sr_bl_mask"
  have "cpu_r (write_sr (read_sr cpu) ?e) = cpu_r (write_sr (read_sr cpu) (write_sr ?h cpu))"
    "cpu_r_bank (write_sr (read_sr cpu) ?e) = cpu_r_bank (write_sr (read_sr cpu) (write_sr ?h cpu))"
    using e(5-7) by (auto intro!: write_sr_cong simp del: bank_one_masked)
  then show "cpu_r cpu' = cpu_r cpu" and "cpu_r_bank cpu' = cpu_r_bank cpu"
    using write_sr_same_bank [OF bank]
    by (simp_all add: cpu'_def return_from_exception_def Let_def e(1) write_sr_twice)
  show "read_sr cpu' = read_sr cpu"
    using read_write_sr [of "read_sr cpu" ?e] sw
    by (simp add: cpu'_def return_from_exception_def Let_def e(1) read_sr_def)
  show "cpu_pc cpu' = er_return_pc request" and "\<not> cpu_trap_pending cpu'"
    by (simp_all add: cpu'_def return_from_exception_def Let_def e(2))
qed


lemma exception_entry_mode:
  fixes sink :: reset_sink
  assumes "takes_exception request cpu"
  shows "privileged_mode (enter_exception sink request cpu)"
    and "register_bank_selected (enter_exception sink request cpu)"
    and "interrupts_blocked (enter_exception sink request cpu)"
  using enter_exception_taken(5) [OF assms, of sink]
  by (simp_all add: privileged_mode_def register_bank_selected_def interrupts_blocked_def
      sr_flag_bits bank_one_bits bit_read_sr bit_and_iff bit_or_iff bit_writable)

lemma reset_sr_bits: "bit reset_sr 30" "bit reset_sr 29" "bit reset_sr 28"
  by (simp_all add: reset_sr_def bit_or_iff)

text \<open>A general exception while interrupts are blocked resets the CPU.\<close>

lemma blocked_exception_resets:
  fixes sink :: reset_sink
  assumes "\<not> takes_exception request cpu"
  defines "cpu' \<equiv> enter_exception sink request cpu"
  shows "cpu_pc cpu' = tlb_multiple_hit_reset_vector" and "read_sr cpu' = reset_sr"
    and "\<not> cpu_trap_pending cpu'"
    and "cpu_last_exception_cause cpu' =
      em_cause (exception_metadata (er_cause request) (er_event_code request))"
    and "cpu_total_guest_cycles cpu' = cpu_total_guest_cycles cpu"
proof -
  obtain req where r: "cpu' = request_manual_reset sink req
      (cpu\<lparr>cpu_last_memory_fault_provenance := no_provenance\<rparr>)"
    and c: "mr_cause req = em_cause (exception_metadata (er_cause request) (er_event_code request))"
    using assms(1) by (auto simp: cpu'_def enter_exception_def takes_exception_def
        interrupts_blocked_def Let_def)
  have "reset_sr AND sr_writable_mask = reset_sr" by (simp add: reset_sr_def sr_masks)
  then show "read_sr cpu' = reset_sr"
    using read_write_sr [of reset_sr]
    by (simp add: r request_manual_reset_def Let_def read_sr_def)
  show "cpu_pc cpu' = tlb_multiple_hit_reset_vector" "\<not> cpu_trap_pending cpu'"
    by (simp_all add: r request_manual_reset_def Let_def)
  show "cpu_last_exception_cause cpu' =
      em_cause (exception_metadata (er_cause request) (er_event_code request))"
    by (simp add: r c request_manual_reset_def Let_def with_address_space_def split: option.splits)
  show "cpu_total_guest_cycles cpu' = cpu_total_guest_cycles cpu"
    by (simp add: r request_manual_reset_def Let_def with_address_space_def write_sr_def
        swap_banks_eq split: option.splits)
qed

lemma interrupt_mask_bits: "bit sr_interrupt_mask n \<longleftrightarrow> n \<in> {4, 5, 6, 7}"
proof (cases "n < 32")
  case True
  then have "n \<in> set [0..<32]" by simp
  then show ?thesis
    by (simp add: upt_rec sr_interrupt_mask_def) (elim disjE; simp)
next
  case False
  then show ?thesis by (auto dest: bit_imp_le_length)
qed

lemma accounting_elapsed:
  "elapsed_guest_cycles (snd (take_pending_guest_cycles cpu)) = elapsed_guest_cycles cpu"
  "cpu_pending_guest_cycles (snd (take_pending_guest_cycles cpu)) = 0"
  by (simp_all add: take_pending_guest_cycles_def elapsed_guest_cycles_def Let_def)

lemma reset_cpu_fields:
  "cpu_fpscr (reset_cpu st cpu) = rs_fpscr st AND fpscr_writable_mask"
  "cpu_sr (reset_cpu st cpu) = rs_status_register st AND sr_writable_mask"
  "read_sr (reset_cpu st cpu) = rs_status_register st AND sr_writable_mask"
  "cpu_vbr (reset_cpu st cpu) = rs_vector_base st"
  "cpu_pc (reset_cpu st cpu) = rs_program_counter st"
  "cpu_r (reset_cpu st cpu) 15 = rs_stack_pointer st"
  by (simp_all add: reset_cpu_def Let_def read_write_sr with_address_space_def reset_accounting_def
      write_fpscr_def reset_registers_def)

lemma trap_metadata: "em_vector_offset (exception_metadata TrapCause e) = general_exception_vector"
  "em_interrupt (exception_metadata TrapCause e) = False"
  by (simp_all add: exception_metadata_def cause_index_def exception_table_def exception_row_def)

end
