(* ===== verification/Emitted.thy ===== *)
theory Emitted
  imports Lower Cpu_State
begin

text \<open>
  What the C++ code emitted for one IR instruction does to the CPU state
  (\<open>emit_simple_instruction_raw\<close> of \<open>src/codegen/cpp_emitter.cpp\<close>).  Each case of the emitter writes
  a fixed statement list over \<open>cpu\<close>; the equations below are those statements, with the register
  numbers and immediates the emitter prints.
\<close>

definition set_r :: "reg \<Rightarrow> u32 \<Rightarrow> 'a Registers_scheme \<Rightarrow> 'a Registers_scheme" where
  "set_r n v cpu = cpu\<lparr>cpu_r := (cpu_r cpu)(n := v)\<rparr>"

definition bit_of :: "bool \<Rightarrow> 'a::len word" where
  "bit_of b = (if b then 1 else 0)"

subsection \<open>Arithmetic\<close>

text \<open>\<open>value = r & mask; if (value & sign) value |= fill\<close>\<close>

definition emitted_sign_extend :: "u32 \<Rightarrow> u32 \<Rightarrow> u32 \<Rightarrow> u32 \<Rightarrow> u32" where
  "emitted_sign_extend msk sign_bit fill x =
     (let v = x AND msk in if v AND sign_bit \<noteq> 0 then v OR fill else v)"

fun exec_arith ::
    "ArithOp \<Rightarrow> reg \<Rightarrow> reg \<Rightarrow> int \<Rightarrow> 'a Registers_scheme \<Rightarrow> 'a Registers_scheme" where
  "exec_arith ArithOp.MovImmediate n m imm cpu = set_r n (to_u32 imm) cpu"
| "exec_arith ArithOp.Constant32 n m imm cpu = set_r n (to_u32 imm) cpu"
| "exec_arith ArithOp.AddImmediate n m imm cpu = set_r n (cpu_r cpu n + to_u32 imm) cpu"
| "exec_arith ArithOp.MovRegister n m imm cpu = set_r n (cpu_r cpu m) cpu"
| "exec_arith ArithOp.AddRegister n m imm cpu = set_r n (cpu_r cpu n + cpu_r cpu m) cpu"
| "exec_arith ArithOp.SubRegister n m imm cpu = set_r n (cpu_r cpu n - cpu_r cpu m) cpu"
| "exec_arith ArithOp.NegateRegister n m imm cpu = set_r n (0 - cpu_r cpu m) cpu"
| "exec_arith ArithOp.NotRegister n m imm cpu = set_r n (NOT (cpu_r cpu m)) cpu"
| "exec_arith ArithOp.AddWithCarry n m imm cpu =
     (let carry_in = (bit_of (cpu_t cpu) :: u64);
          res = ucast (cpu_r cpu n) + ucast (cpu_r cpu m) + carry_in
      in (set_r n (ucast res) cpu)\<lparr>cpu_t := (res > 0xFFFFFFFF)\<rparr>)"
| "exec_arith ArithOp.AddWithOverflow n m imm cpu =
     (let lhs = cpu_r cpu n; rhs = cpu_r cpu m; res = lhs + rhs
      in (set_r n res cpu)\<lparr>cpu_t :=
           ((NOT (lhs XOR rhs) AND (lhs XOR res)) AND 0x80000000 \<noteq> 0)\<rparr>)"
| "exec_arith ArithOp.SubWithCarry n m imm cpu =
     (let borrow_in = (bit_of (cpu_t cpu) :: u64);
          minuend = (ucast (cpu_r cpu n) :: u64);
          subtrahend = ucast (cpu_r cpu m) + borrow_in
      in (set_r n (ucast (minuend - subtrahend)) cpu)\<lparr>cpu_t := (minuend < subtrahend)\<rparr>)"
| "exec_arith ArithOp.SubWithOverflow n m imm cpu =
     (let lhs = cpu_r cpu n; rhs = cpu_r cpu m; res = lhs - rhs
      in (set_r n res cpu)\<lparr>cpu_t :=
           (((lhs XOR rhs) AND (lhs XOR res)) AND 0x80000000 \<noteq> 0)\<rparr>)"
| "exec_arith ArithOp.NegateWithCarry n m imm cpu =
     (let borrow_in = (bit_of (cpu_t cpu) :: u64);
          subtrahend = ucast (cpu_r cpu m) + borrow_in
      in (set_r n (ucast (0 - subtrahend)) cpu)\<lparr>cpu_t := (subtrahend \<noteq> 0)\<rparr>)"
| "exec_arith ArithOp.ExtendUnsignedByte n m imm cpu = set_r n (cpu_r cpu m AND 0x000000FF) cpu"
| "exec_arith ArithOp.ExtendUnsignedWord n m imm cpu = set_r n (cpu_r cpu m AND 0x0000FFFF) cpu"
| "exec_arith ArithOp.ExtendSignedByte n m imm cpu =
     set_r n (emitted_sign_extend 0x000000FF 0x00000080 0xFFFFFF00 (cpu_r cpu m)) cpu"
| "exec_arith ArithOp.ExtendSignedWord n m imm cpu =
     set_r n (emitted_sign_extend 0x0000FFFF 0x00008000 0xFFFF0000 (cpu_r cpu m)) cpu"
| "exec_arith ArithOp.SwapBytes n m imm cpu =
     (let v = cpu_r cpu m
      in set_r n (((v AND 0xFFFF0000) OR push_bit 8 (v AND 0x000000FF)) OR
                  drop_bit 8 (v AND 0x0000FF00)) cpu)"
| "exec_arith ArithOp.SwapWords n m imm cpu =
     (let v = cpu_r cpu m in set_r n (push_bit 16 v OR drop_bit 16 v) cpu)"
| "exec_arith ArithOp.ExtractMiddle n m imm cpu =
     (let source = cpu_r cpu m; destination = cpu_r cpu n
      in set_r n (push_bit 16 source OR drop_bit 16 destination) cpu)"
| "exec_arith ArithOp.DecrementAndTest n m imm cpu =
     (let res = cpu_r cpu n - 1 in (set_r n res cpu)\<lparr>cpu_t := (res = 0)\<rparr>)"
| "exec_arith ArithOp.MoveT n m imm cpu = set_r n (bit_of (cpu_t cpu)) cpu"

subsection \<open>Shifts and rotates\<close>

definition emitted_logical_dynamic :: "u32 \<Rightarrow> u32 \<Rightarrow> u32" where
  "emitted_logical_dynamic count v =
     (if count AND 0x80000000 = 0 then push_bit (unat (count AND 0x1F)) v
      else let amount = (NOT count AND 0x1F) + 1
           in if amount = 32 then 0 else drop_bit (unat amount) v)"

definition emitted_arithmetic_dynamic :: "u32 \<Rightarrow> u32 \<Rightarrow> u32" where
  "emitted_arithmetic_dynamic count v =
     (if count AND 0x80000000 = 0 then push_bit (unat (count AND 0x1F)) v
      else let amount = (NOT count AND 0x1F) + 1
           in if amount = 32 then (if v AND 0x80000000 \<noteq> 0 then 0xFFFFFFFF else 0)
              else let sign_fill = (if v AND 0x80000000 \<noteq> 0
                                    then push_bit (unat (32 - amount)) 0xFFFFFFFF else 0)
                   in drop_bit (unat amount) v OR sign_fill)"

fun exec_shift ::
    "ShiftOp \<Rightarrow> reg \<Rightarrow> reg \<Rightarrow> 'a Registers_scheme \<Rightarrow> 'a Registers_scheme" where
  "exec_shift ShiftOp.ShiftLogicalLeftOne n m cpu =
     (let v = cpu_r cpu n in set_r n (push_bit 1 v) (cpu\<lparr>cpu_t := (v AND 0x80000000 \<noteq> 0)\<rparr>))"
| "exec_shift ShiftOp.ShiftArithmeticLeftOne n m cpu =
     (let v = cpu_r cpu n in set_r n (push_bit 1 v) (cpu\<lparr>cpu_t := (v AND 0x80000000 \<noteq> 0)\<rparr>))"
| "exec_shift ShiftOp.ShiftLogicalRightOne n m cpu =
     (let v = cpu_r cpu n in set_r n (drop_bit 1 v) (cpu\<lparr>cpu_t := (v AND 0x00000001 \<noteq> 0)\<rparr>))"
| "exec_shift ShiftOp.ShiftArithmeticRightOne n m cpu =
     (let v = cpu_r cpu n
      in set_r n (drop_bit 1 v OR (v AND 0x80000000)) (cpu\<lparr>cpu_t := (v AND 0x00000001 \<noteq> 0)\<rparr>))"
| "exec_shift ShiftOp.ShiftLogicalLeftTwo n m cpu = set_r n (push_bit 2 (cpu_r cpu n)) cpu"
| "exec_shift ShiftOp.ShiftLogicalLeftEight n m cpu = set_r n (push_bit 8 (cpu_r cpu n)) cpu"
| "exec_shift ShiftOp.ShiftLogicalLeftSixteen n m cpu = set_r n (push_bit 16 (cpu_r cpu n)) cpu"
| "exec_shift ShiftOp.ShiftLogicalRightTwo n m cpu = set_r n (drop_bit 2 (cpu_r cpu n)) cpu"
| "exec_shift ShiftOp.ShiftLogicalRightEight n m cpu = set_r n (drop_bit 8 (cpu_r cpu n)) cpu"
| "exec_shift ShiftOp.ShiftLogicalRightSixteen n m cpu = set_r n (drop_bit 16 (cpu_r cpu n)) cpu"
| "exec_shift ShiftOp.RotateLeft n m cpu =
     (let v = cpu_r cpu n
      in set_r n (push_bit 1 v OR drop_bit 31 v) (cpu\<lparr>cpu_t := (v AND 0x80000000 \<noteq> 0)\<rparr>))"
| "exec_shift ShiftOp.RotateRight n m cpu =
     (let v = cpu_r cpu n
      in set_r n (drop_bit 1 v OR push_bit 31 v) (cpu\<lparr>cpu_t := (v AND 0x00000001 \<noteq> 0)\<rparr>))"
| "exec_shift ShiftOp.RotateLeftThroughT n m cpu =
     (let v = cpu_r cpu n; old_t = cpu_t cpu
      in set_r n (push_bit 1 v OR bit_of old_t) (cpu\<lparr>cpu_t := (v AND 0x80000000 \<noteq> 0)\<rparr>))"
| "exec_shift ShiftOp.RotateRightThroughT n m cpu =
     (let v = cpu_r cpu n; old_t = cpu_t cpu
      in set_r n (drop_bit 1 v OR (if old_t then 0x80000000 else 0))
           (cpu\<lparr>cpu_t := (v AND 0x00000001 \<noteq> 0)\<rparr>))"
| "exec_shift ShiftOp.ShiftLogicalDynamic n m cpu =
     set_r n (emitted_logical_dynamic (cpu_r cpu m) (cpu_r cpu n)) cpu"
| "exec_shift ShiftOp.ShiftArithmeticDynamic n m cpu =
     set_r n (emitted_arithmetic_dynamic (cpu_r cpu m) (cpu_r cpu n)) cpu"

subsection \<open>Multiplication and division\<close>

text \<open>\<open>raw & sign ? static_cast<signed>(raw) - 2 * sign : static_cast<signed>(raw)\<close>\<close>

definition emitted_signed_16 :: "u32 \<Rightarrow> int" where
  "emitted_signed_16 raw = (if raw AND 0x00008000 \<noteq> 0 then uint raw - 0x00010000 else uint raw)"

definition emitted_signed_32 :: "u32 \<Rightarrow> int" where
  "emitted_signed_32 raw = (if raw AND 0x80000000 \<noteq> 0 then uint raw - 0x100000000 else uint raw)"

definition exec_divide_step ::
    "reg \<Rightarrow> reg \<Rightarrow> 'a Registers_scheme \<Rightarrow> 'a Registers_scheme" where
  "exec_divide_step n m cpu =
     (let old_q = cpu_q cpu;
          cpu = cpu\<lparr>cpu_q := (cpu_r cpu n AND 0x80000000 \<noteq> 0)\<rparr>;
          divisor = cpu_r cpu m;
          cpu = set_r n (push_bit 1 (cpu_r cpu n) OR bit_of (cpu_t cpu)) cpu;
          shifted = cpu_r cpu n;
          cpu = (if \<not> old_q then
                   (if \<not> cpu_m cpu then
                      let cpu = set_r n (shifted - divisor) cpu; borrow = cpu_r cpu n > shifted
                      in cpu\<lparr>cpu_q := (cpu_q cpu \<noteq> borrow)\<rparr>
                    else
                      let cpu = set_r n (shifted + divisor) cpu; carry = cpu_r cpu n < shifted
                      in cpu\<lparr>cpu_q := ((\<not> cpu_q cpu) \<noteq> carry)\<rparr>)
                 else
                   (if \<not> cpu_m cpu then
                      let cpu = set_r n (shifted + divisor) cpu; carry = cpu_r cpu n < shifted
                      in cpu\<lparr>cpu_q := (cpu_q cpu \<noteq> carry)\<rparr>
                    else
                      let cpu = set_r n (shifted - divisor) cpu; borrow = cpu_r cpu n > shifted
                      in cpu\<lparr>cpu_q := ((\<not> cpu_q cpu) \<noteq> borrow)\<rparr>))
      in cpu\<lparr>cpu_t := (cpu_q cpu = cpu_m cpu)\<rparr>)"

text \<open>The two multiply-accumulate operations read memory and are not part of this function.\<close>

fun exec_muldiv ::
    "MulDivOp \<Rightarrow> reg \<Rightarrow> reg \<Rightarrow> 'a Registers_scheme \<Rightarrow> 'a Registers_scheme option" where
  "exec_muldiv MulDivOp.MultiplyLong n m cpu =
     (let product = (ucast (cpu_r cpu n) :: u64) * ucast (cpu_r cpu m)
      in Some (cpu\<lparr>cpu_macl := ucast product\<rparr>))"
| "exec_muldiv MulDivOp.MultiplySignedWord n m cpu =
     (let source = emitted_signed_16 (cpu_r cpu m AND 0x0000FFFF);
          destination = emitted_signed_16 (cpu_r cpu n AND 0x0000FFFF);
          product = source * destination
      in Some (cpu\<lparr>cpu_macl := to_u32 product\<rparr>))"
| "exec_muldiv MulDivOp.MultiplyUnsignedWord n m cpu =
     Some (cpu\<lparr>cpu_macl := (cpu_r cpu n AND 0x0000FFFF) * (cpu_r cpu m AND 0x0000FFFF)\<rparr>)"
| "exec_muldiv MulDivOp.DoubleMultiplyUnsignedLong n m cpu =
     (let product = (ucast (cpu_r cpu n) :: u64) * ucast (cpu_r cpu m)
      in Some (cpu\<lparr>cpu_mach := ucast (drop_bit 32 product), cpu_macl := ucast product\<rparr>))"
| "exec_muldiv MulDivOp.DoubleMultiplySignedLong n m cpu =
     (let source = emitted_signed_32 (cpu_r cpu m);
          destination = emitted_signed_32 (cpu_r cpu n);
          signed_product = source * destination;
          product = (word_of_int signed_product :: u64)
      in Some (cpu\<lparr>cpu_mach := ucast (drop_bit 32 product), cpu_macl := ucast product\<rparr>))"
| "exec_muldiv MulDivOp.MultiplyAccumulateWord n m cpu = None"
| "exec_muldiv MulDivOp.MultiplyAccumulateLong n m cpu = None"
| "exec_muldiv MulDivOp.DivideInitializeUnsigned n m cpu =
     Some (cpu\<lparr>cpu_q := False, cpu_m := False, cpu_t := False\<rparr>)"
| "exec_muldiv MulDivOp.DivideInitializeSigned n m cpu =
     (let cpu = cpu\<lparr>cpu_q := (cpu_r cpu n AND 0x80000000 \<noteq> 0)\<rparr>;
          cpu = cpu\<lparr>cpu_m := (cpu_r cpu m AND 0x80000000 \<noteq> 0)\<rparr>
      in Some (cpu\<lparr>cpu_t := (cpu_m cpu \<noteq> cpu_q cpu)\<rparr>))"
| "exec_muldiv MulDivOp.DivideStep n m cpu = Some (exec_divide_step n m cpu)"
| "exec_muldiv MulDivOp.ClearMac n m cpu = Some (cpu\<lparr>cpu_mach := 0, cpu_macl := 0\<rparr>)"

subsection \<open>Logic and comparisons\<close>

text \<open>The byte-immediate operations and \<open>tas.b\<close> access memory and are not part of this function.\<close>

fun exec_logic ::
    "LogicOp \<Rightarrow> reg \<Rightarrow> reg \<Rightarrow> int \<Rightarrow> 'a Registers_scheme \<Rightarrow> 'a Registers_scheme option" where
  "exec_logic LogicOp.AndRegister n m imm cpu = Some (set_r n (cpu_r cpu n AND cpu_r cpu m) cpu)"
| "exec_logic LogicOp.OrRegister n m imm cpu = Some (set_r n (cpu_r cpu n OR cpu_r cpu m) cpu)"
| "exec_logic LogicOp.XorRegister n m imm cpu = Some (set_r n (cpu_r cpu n XOR cpu_r cpu m) cpu)"
| "exec_logic LogicOp.AndImmediate n m imm cpu = Some (set_r 0 (cpu_r cpu 0 AND to_u32 imm) cpu)"
| "exec_logic LogicOp.OrImmediate n m imm cpu = Some (set_r 0 (cpu_r cpu 0 OR to_u32 imm) cpu)"
| "exec_logic LogicOp.XorImmediate n m imm cpu = Some (set_r 0 (cpu_r cpu 0 XOR to_u32 imm) cpu)"
| "exec_logic LogicOp.ClearS n m imm cpu = Some (cpu\<lparr>cpu_s := False\<rparr>)"
| "exec_logic LogicOp.SetS n m imm cpu = Some (cpu\<lparr>cpu_s := True\<rparr>)"
| "exec_logic LogicOp.ClearT n m imm cpu = Some (cpu\<lparr>cpu_t := False\<rparr>)"
| "exec_logic LogicOp.SetT n m imm cpu = Some (cpu\<lparr>cpu_t := True\<rparr>)"
| "exec_logic LogicOp.CompareEqualImmediate n m imm cpu =
     Some (cpu\<lparr>cpu_t := (cpu_r cpu 0 = to_u32 imm)\<rparr>)"
| "exec_logic LogicOp.CompareEqualRegister n m imm cpu =
     Some (cpu\<lparr>cpu_t := (cpu_r cpu n = cpu_r cpu m)\<rparr>)"
| "exec_logic LogicOp.CompareHigherOrSame n m imm cpu =
     Some (cpu\<lparr>cpu_t := (cpu_r cpu n \<ge> cpu_r cpu m)\<rparr>)"
| "exec_logic LogicOp.CompareGreaterOrEqual n m imm cpu =
     Some (cpu\<lparr>cpu_t := ((cpu_r cpu n XOR 0x80000000) \<ge> (cpu_r cpu m XOR 0x80000000))\<rparr>)"
| "exec_logic LogicOp.CompareHigher n m imm cpu =
     Some (cpu\<lparr>cpu_t := (cpu_r cpu n > cpu_r cpu m)\<rparr>)"
| "exec_logic LogicOp.CompareGreaterThan n m imm cpu =
     Some (cpu\<lparr>cpu_t := ((cpu_r cpu n XOR 0x80000000) > (cpu_r cpu m XOR 0x80000000))\<rparr>)"
| "exec_logic LogicOp.ComparePositiveOrZero n m imm cpu =
     Some (cpu\<lparr>cpu_t := (cpu_r cpu n AND 0x80000000 = 0)\<rparr>)"
| "exec_logic LogicOp.ComparePositive n m imm cpu =
     Some (cpu\<lparr>cpu_t := (cpu_r cpu n \<noteq> 0 \<and> cpu_r cpu n AND 0x80000000 = 0)\<rparr>)"
| "exec_logic LogicOp.CompareString n m imm cpu =
     Some (cpu\<lparr>cpu_t := ((cpu_r cpu n XOR cpu_r cpu m) AND 0x000000FF = 0 \<or>
                         (cpu_r cpu n XOR cpu_r cpu m) AND 0x0000FF00 = 0 \<or>
                         (cpu_r cpu n XOR cpu_r cpu m) AND 0x00FF0000 = 0 \<or>
                         (cpu_r cpu n XOR cpu_r cpu m) AND 0xFF000000 = 0)\<rparr>)"
| "exec_logic LogicOp.TestImmediate n m imm cpu =
     Some (cpu\<lparr>cpu_t := (cpu_r cpu 0 AND to_u32 imm = 0)\<rparr>)"
| "exec_logic LogicOp.TestRegister n m imm cpu =
     Some (cpu\<lparr>cpu_t := (cpu_r cpu n AND cpu_r cpu m = 0)\<rparr>)"
| "exec_logic LogicOp.TestByteImmediate n m imm cpu = None"
| "exec_logic LogicOp.AndByteImmediate n m imm cpu = None"
| "exec_logic LogicOp.XorByteImmediate n m imm cpu = None"
| "exec_logic LogicOp.OrByteImmediate n m imm cpu = None"
| "exec_logic LogicOp.TestAndSetByte n m imm cpu = None"

text \<open>
  One instruction.  \<open>None\<close> stands for the operations outside this subset (memory, system, FPU and
  control flow).
\<close>

definition exec_operation ::
    "Operation \<Rightarrow> reg \<Rightarrow> reg \<Rightarrow> int \<Rightarrow> 'a Registers_scheme \<Rightarrow> 'a Registers_scheme option" where
  "exec_operation operation n m imm cpu = (case operation of
       Operation.Nop \<Rightarrow> Some cpu
     | O_Arith a \<Rightarrow> Some (exec_arith a n m imm cpu)
     | O_Shift s \<Rightarrow> Some (exec_shift s n m cpu)
     | O_MulDiv d \<Rightarrow> exec_muldiv d n m cpu
     | O_Logic l \<Rightarrow> exec_logic l n m imm cpu
     | _ \<Rightarrow> None)"

definition exec_simple :: "Instruction \<Rightarrow> 'a Registers_scheme \<Rightarrow> 'a Registers_scheme option" where
  "exec_simple i cpu =
     exec_operation (ir_operation i) (ir_destination_register i) (ir_source_register i)
       (ir_immediate i) cpu"

end
