(* ===== verification/Interpreter.thy ===== *)
theory Interpreter
  imports Emitted
begin

text \<open>
  The dynamic interpreter (\<open>execute_one\<close> of \<open>src/runtime/dynamic_interpreter.cpp\<close>) on the same
  instructions, written from its own source, and its agreement with the emitted code.
\<close>

definition write_t :: "bool \<Rightarrow> 'a Registers_scheme \<Rightarrow> 'a Registers_scheme" where
  "write_t b cpu = cpu\<lparr>cpu_t := b\<rparr>"

subsection \<open>Arithmetic\<close>

fun interpret_arith ::
    "ArithKind \<Rightarrow> reg \<Rightarrow> reg \<Rightarrow> int \<Rightarrow> 'a Registers_scheme \<Rightarrow> 'a Registers_scheme" where
  "interpret_arith ArithKind.MovImmediate n m imm cpu = set_r n (to_u32 imm) cpu"
| "interpret_arith ArithKind.AddImmediate n m imm cpu = set_r n (cpu_r cpu n + to_u32 imm) cpu"
| "interpret_arith ArithKind.MovRegister n m imm cpu = set_r n (cpu_r cpu m) cpu"
| "interpret_arith ArithKind.AddRegister n m imm cpu = set_r n (cpu_r cpu n + cpu_r cpu m) cpu"
| "interpret_arith ArithKind.SubRegister n m imm cpu = set_r n (cpu_r cpu n - cpu_r cpu m) cpu"
| "interpret_arith ArithKind.NegateRegister n m imm cpu = set_r n (0 - cpu_r cpu m) cpu"
| "interpret_arith ArithKind.NotRegister n m imm cpu = set_r n (NOT (cpu_r cpu m)) cpu"
| "interpret_arith ArithKind.AddWithCarry n m imm cpu =
     (let old = cpu_r cpu n; total = old + cpu_r cpu m; res = total + bit_of (cpu_t cpu)
      in set_r n res (write_t (total < old \<or> res < total) cpu))"
| "interpret_arith ArithKind.SubWithCarry n m imm cpu =
     (let old = cpu_r cpu n; sub = old - cpu_r cpu m; res = sub - bit_of (cpu_t cpu)
      in set_r n res (write_t (old < cpu_r cpu m \<or> sub < bit_of (cpu_t cpu)) cpu))"
| "interpret_arith ArithKind.AddWithOverflow n m imm cpu =
     (let a = to_i32 (cpu_r cpu n); b = to_i32 (cpu_r cpu m);
          res = cpu_r cpu n + cpu_r cpu m; r = to_i32 res
      in set_r n res (write_t ((a \<ge> 0 \<and> b \<ge> 0 \<and> r < 0) \<or> (a < 0 \<and> b < 0 \<and> r \<ge> 0)) cpu))"
| "interpret_arith ArithKind.SubWithOverflow n m imm cpu =
     (let a = to_i32 (cpu_r cpu n); b = to_i32 (cpu_r cpu m);
          res = cpu_r cpu n - cpu_r cpu m; r = to_i32 res
      in set_r n res (write_t ((a \<ge> 0 \<and> b < 0 \<and> r < 0) \<or> (a < 0 \<and> b \<ge> 0 \<and> r \<ge> 0)) cpu))"
| "interpret_arith ArithKind.NegateWithCarry n m imm cpu =
     (let temporary = 0 - cpu_r cpu m; res = temporary - bit_of (cpu_t cpu)
      in set_r n res (write_t (cpu_r cpu m \<noteq> 0 \<or> res > temporary) cpu))"
| "interpret_arith ArithKind.ExtendUnsignedByte n m imm cpu = set_r n (cpu_r cpu m AND 0xFF) cpu"
| "interpret_arith ArithKind.ExtendUnsignedWord n m imm cpu = set_r n (cpu_r cpu m AND 0xFFFF) cpu"
| "interpret_arith ArithKind.ExtendSignedByte n m imm cpu =
     set_r n (to_u32 (sint (ucast (cpu_r cpu m) :: u8))) cpu"
| "interpret_arith ArithKind.ExtendSignedWord n m imm cpu =
     set_r n (to_u32 (sint (ucast (cpu_r cpu m) :: u16))) cpu"
| "interpret_arith ArithKind.SwapBytes n m imm cpu =
     set_r n (((cpu_r cpu m AND 0xFFFF0000) OR push_bit 8 (cpu_r cpu m AND 0xFF)) OR
              (drop_bit 8 (cpu_r cpu m) AND 0xFF)) cpu"
| "interpret_arith ArithKind.SwapWords n m imm cpu = set_r n (word_rotl 16 (cpu_r cpu m)) cpu"
| "interpret_arith ArithKind.ExtractMiddle n m imm cpu =
     set_r n (drop_bit 16 (cpu_r cpu n) OR push_bit 16 (cpu_r cpu m)) cpu"
| "interpret_arith ArithKind.DecrementAndTest n m imm cpu =
     (let cpu = set_r n (cpu_r cpu n - 1) cpu in write_t (cpu_r cpu n = 0) cpu)"
| "interpret_arith ArithKind.MoveT n m imm cpu = set_r n (bit_of (cpu_t cpu)) cpu"

subsection \<open>Shifts and rotates\<close>

definition interpret_dynamic_shift :: "bool \<Rightarrow> u32 \<Rightarrow> u32 \<Rightarrow> u32" where
  "interpret_dynamic_shift arithmetic count_word v =
     (let count = to_i32 count_word
      in if count \<ge> 0 then
           (if count_word AND 0x1F = 0 then v else push_bit (unat (count_word AND 0x1F)) v)
         else
           let shift = (NOT (to_u32 count) AND 0x1F) + 1
           in if shift = 32 then (if arithmetic \<and> to_i32 v < 0 then 0xFFFFFFFF else 0)
              else if arithmetic then to_u32 (drop_bit (unat shift) (to_i32 v))
              else drop_bit (unat shift) v)"

fun interpret_shift ::
    "ShiftKind \<Rightarrow> reg \<Rightarrow> reg \<Rightarrow> 'a Registers_scheme \<Rightarrow> 'a Registers_scheme" where
  "interpret_shift ShiftKind.ShiftLogicalLeftOne n m cpu =
     (let cpu = write_t (drop_bit 31 (cpu_r cpu n) \<noteq> 0) cpu in set_r n (push_bit 1 (cpu_r cpu n)) cpu)"
| "interpret_shift ShiftKind.ShiftLogicalRightOne n m cpu =
     (let cpu = write_t (cpu_r cpu n AND 1 \<noteq> 0) cpu in set_r n (drop_bit 1 (cpu_r cpu n)) cpu)"
| "interpret_shift ShiftKind.ShiftArithmeticLeftOne n m cpu =
     (let cpu = write_t (drop_bit 31 (cpu_r cpu n) \<noteq> 0) cpu in set_r n (push_bit 1 (cpu_r cpu n)) cpu)"
| "interpret_shift ShiftKind.ShiftArithmeticRightOne n m cpu =
     (let cpu = write_t (cpu_r cpu n AND 1 \<noteq> 0) cpu
      in set_r n (to_u32 (drop_bit 1 (to_i32 (cpu_r cpu n)))) cpu)"
| "interpret_shift ShiftKind.ShiftLogicalLeftTwo n m cpu = set_r n (push_bit 2 (cpu_r cpu n)) cpu"
| "interpret_shift ShiftKind.ShiftLogicalLeftEight n m cpu = set_r n (push_bit 8 (cpu_r cpu n)) cpu"
| "interpret_shift ShiftKind.ShiftLogicalLeftSixteen n m cpu =
     set_r n (push_bit 16 (cpu_r cpu n)) cpu"
| "interpret_shift ShiftKind.ShiftLogicalRightTwo n m cpu = set_r n (drop_bit 2 (cpu_r cpu n)) cpu"
| "interpret_shift ShiftKind.ShiftLogicalRightEight n m cpu = set_r n (drop_bit 8 (cpu_r cpu n)) cpu"
| "interpret_shift ShiftKind.ShiftLogicalRightSixteen n m cpu =
     set_r n (drop_bit 16 (cpu_r cpu n)) cpu"
| "interpret_shift ShiftKind.RotateLeft n m cpu =
     (let b = drop_bit 31 (cpu_r cpu n); cpu = set_r n (push_bit 1 (cpu_r cpu n) OR b) cpu
      in write_t (b \<noteq> 0) cpu)"
| "interpret_shift ShiftKind.RotateRight n m cpu =
     (let b = cpu_r cpu n AND 1; cpu = set_r n (drop_bit 1 (cpu_r cpu n) OR push_bit 31 b) cpu
      in write_t (b \<noteq> 0) cpu)"
| "interpret_shift ShiftKind.RotateLeftThroughT n m cpu =
     (let b = drop_bit 31 (cpu_r cpu n);
          cpu = set_r n (push_bit 1 (cpu_r cpu n) OR bit_of (cpu_t cpu)) cpu
      in write_t (b \<noteq> 0) cpu)"
| "interpret_shift ShiftKind.RotateRightThroughT n m cpu =
     (let b = cpu_r cpu n AND 1;
          cpu = set_r n (drop_bit 1 (cpu_r cpu n) OR (if cpu_t cpu then 0x80000000 else 0)) cpu
      in write_t (b \<noteq> 0) cpu)"
| "interpret_shift ShiftKind.ShiftLogicalDynamic n m cpu =
     set_r n (interpret_dynamic_shift False (cpu_r cpu m) (cpu_r cpu n)) cpu"
| "interpret_shift ShiftKind.ShiftArithmeticDynamic n m cpu =
     set_r n (interpret_dynamic_shift True (cpu_r cpu m) (cpu_r cpu n)) cpu"

subsection \<open>Multiplication and division\<close>

definition interpret_divide_step ::
    "reg \<Rightarrow> reg \<Rightarrow> 'a Registers_scheme \<Rightarrow> 'a Registers_scheme" where
  "interpret_divide_step n m cpu =
     (let old_q = cpu_q cpu;
          cpu = cpu\<lparr>cpu_q := (drop_bit 31 (cpu_r cpu n) \<noteq> 0)\<rparr>;
          divisor = cpu_r cpu m;
          cpu = set_r n (push_bit 1 (cpu_r cpu n) OR bit_of (cpu_t cpu)) cpu;
          shifted = cpu_r cpu n;
          cpu = (if \<not> old_q then
                   (if \<not> cpu_m cpu then
                      let cpu = set_r n (shifted - divisor) cpu; borrow = cpu_r cpu n > shifted
                      in cpu\<lparr>cpu_q := (cpu_q cpu \<noteq> borrow)\<rparr>
                    else
                      let cpu = set_r n (shifted + divisor) cpu; carry = cpu_r cpu n < shifted
                      in cpu\<lparr>cpu_q := ((\<not> cpu_q cpu) \<noteq> carry)\<rparr>)
                 else
                   (if \<not> cpu_m cpu then
                      let cpu = set_r n (shifted + divisor) cpu; carry = cpu_r cpu n < shifted
                      in cpu\<lparr>cpu_q := (cpu_q cpu \<noteq> carry)\<rparr>
                    else
                      let cpu = set_r n (shifted - divisor) cpu; borrow = cpu_r cpu n > shifted
                      in cpu\<lparr>cpu_q := ((\<not> cpu_q cpu) \<noteq> borrow)\<rparr>))
      in cpu\<lparr>cpu_t := (cpu_q cpu = cpu_m cpu)\<rparr>)"

fun interpret_muldiv ::
    "MulDivKind \<Rightarrow> reg \<Rightarrow> reg \<Rightarrow> 'a Registers_scheme \<Rightarrow> 'a Registers_scheme option" where
  "interpret_muldiv MulDivKind.MultiplyLong n m cpu =
     Some (cpu\<lparr>cpu_macl := cpu_r cpu n * cpu_r cpu m\<rparr>)"
| "interpret_muldiv MulDivKind.MultiplySignedWord n m cpu =
     Some (cpu\<lparr>cpu_macl := to_u32 (sint (ucast (cpu_r cpu n) :: u16) *
                                   sint (ucast (cpu_r cpu m) :: u16))\<rparr>)"
| "interpret_muldiv MulDivKind.MultiplyUnsignedWord n m cpu =
     Some (cpu\<lparr>cpu_macl := (cpu_r cpu n AND 0xFFFF) * (cpu_r cpu m AND 0xFFFF)\<rparr>)"
| "interpret_muldiv MulDivKind.DoubleMultiplySignedLong n m cpu =
     (let v = to_i32 (cpu_r cpu n) * to_i32 (cpu_r cpu m)
      in Some (cpu\<lparr>cpu_macl := to_u32 v,
                   cpu_mach := ucast (drop_bit 32 (word_of_int v :: u64))\<rparr>))"
| "interpret_muldiv MulDivKind.DoubleMultiplyUnsignedLong n m cpu =
     (let v = (ucast (cpu_r cpu n) :: u64) * ucast (cpu_r cpu m)
      in Some (cpu\<lparr>cpu_macl := ucast v, cpu_mach := ucast (drop_bit 32 v)\<rparr>))"
| "interpret_muldiv MulDivKind.MultiplyAccumulateWord n m cpu = None"
| "interpret_muldiv MulDivKind.MultiplyAccumulateLong n m cpu = None"
| "interpret_muldiv MulDivKind.ClearMac n m cpu = Some (cpu\<lparr>cpu_mach := 0, cpu_macl := 0\<rparr>)"
| "interpret_muldiv MulDivKind.DivideInitializeUnsigned n m cpu =
     Some (cpu\<lparr>cpu_m := False, cpu_q := False, cpu_t := False\<rparr>)"
| "interpret_muldiv MulDivKind.DivideInitializeSigned n m cpu =
     (let cpu = cpu\<lparr>cpu_q := (drop_bit 31 (cpu_r cpu n) \<noteq> 0)\<rparr>;
          cpu = cpu\<lparr>cpu_m := (drop_bit 31 (cpu_r cpu m) \<noteq> 0)\<rparr>
      in Some (cpu\<lparr>cpu_t := (cpu_q cpu \<noteq> cpu_m cpu)\<rparr>))"
| "interpret_muldiv MulDivKind.DivideStep n m cpu = Some (interpret_divide_step n m cpu)"

subsection \<open>Logic and comparisons\<close>

fun interpret_logic ::
    "LogicKind \<Rightarrow> reg \<Rightarrow> reg \<Rightarrow> int \<Rightarrow> 'a Registers_scheme \<Rightarrow> 'a Registers_scheme option" where
  "interpret_logic LogicKind.AndRegister n m imm cpu =
     Some (set_r n (cpu_r cpu n AND cpu_r cpu m) cpu)"
| "interpret_logic LogicKind.OrRegister n m imm cpu =
     Some (set_r n (cpu_r cpu n OR cpu_r cpu m) cpu)"
| "interpret_logic LogicKind.XorRegister n m imm cpu =
     Some (set_r n (cpu_r cpu n XOR cpu_r cpu m) cpu)"
| "interpret_logic LogicKind.AndImmediate n m imm cpu =
     Some (set_r 0 (cpu_r cpu 0 AND to_u32 imm) cpu)"
| "interpret_logic LogicKind.OrImmediate n m imm cpu =
     Some (set_r 0 (cpu_r cpu 0 OR to_u32 imm) cpu)"
| "interpret_logic LogicKind.XorImmediate n m imm cpu =
     Some (set_r 0 (cpu_r cpu 0 XOR to_u32 imm) cpu)"
| "interpret_logic LogicKind.ClearS n m imm cpu = Some (cpu\<lparr>cpu_s := False\<rparr>)"
| "interpret_logic LogicKind.SetS n m imm cpu = Some (cpu\<lparr>cpu_s := True\<rparr>)"
| "interpret_logic LogicKind.ClearT n m imm cpu = Some (cpu\<lparr>cpu_t := False\<rparr>)"
| "interpret_logic LogicKind.SetT n m imm cpu = Some (cpu\<lparr>cpu_t := True\<rparr>)"
| "interpret_logic LogicKind.CompareEqualImmediate n m imm cpu =
     Some (write_t (cpu_r cpu 0 = to_u32 imm) cpu)"
| "interpret_logic LogicKind.CompareEqualRegister n m imm cpu =
     Some (write_t (cpu_r cpu n = cpu_r cpu m) cpu)"
| "interpret_logic LogicKind.CompareHigherOrSame n m imm cpu =
     Some (write_t (cpu_r cpu n \<ge> cpu_r cpu m) cpu)"
| "interpret_logic LogicKind.CompareGreaterOrEqual n m imm cpu =
     Some (write_t (to_i32 (cpu_r cpu n) \<ge> to_i32 (cpu_r cpu m)) cpu)"
| "interpret_logic LogicKind.CompareHigher n m imm cpu =
     Some (write_t (cpu_r cpu n > cpu_r cpu m) cpu)"
| "interpret_logic LogicKind.CompareGreaterThan n m imm cpu =
     Some (write_t (to_i32 (cpu_r cpu n) > to_i32 (cpu_r cpu m)) cpu)"
| "interpret_logic LogicKind.ComparePositiveOrZero n m imm cpu =
     Some (write_t (to_i32 (cpu_r cpu n) \<ge> 0) cpu)"
| "interpret_logic LogicKind.ComparePositive n m imm cpu =
     Some (write_t (to_i32 (cpu_r cpu n) > 0) cpu)"
| "interpret_logic LogicKind.CompareString n m imm cpu =
     (let v = cpu_r cpu n XOR cpu_r cpu m
      in Some (write_t (v AND 0xFF = 0 \<or> v AND 0xFF00 = 0 \<or> v AND 0xFF0000 = 0 \<or>
                        v AND 0xFF000000 = 0) cpu))"
| "interpret_logic LogicKind.TestImmediate n m imm cpu =
     Some (write_t (cpu_r cpu 0 AND to_u32 imm = 0) cpu)"
| "interpret_logic LogicKind.TestRegister n m imm cpu =
     Some (write_t (cpu_r cpu n AND cpu_r cpu m = 0) cpu)"
| "interpret_logic LogicKind.TestByteImmediate n m imm cpu = None"
| "interpret_logic LogicKind.AndByteImmediate n m imm cpu = None"
| "interpret_logic LogicKind.XorByteImmediate n m imm cpu = None"
| "interpret_logic LogicKind.OrByteImmediate n m imm cpu = None"
| "interpret_logic LogicKind.TestAndSetByte n m imm cpu = None"

definition interpret_simple ::
    "DecodedInstruction \<Rightarrow> 'a Registers_scheme \<Rightarrow> 'a Registers_scheme option" where
  "interpret_simple i cpu =
     (let n = d_destination_register i; m = d_source_register i; imm = d_immediate i
      in case d_kind i of
           InstructionKind.Nop \<Rightarrow> Some cpu
         | K_Arith a \<Rightarrow> Some (interpret_arith a n m imm cpu)
         | K_Shift s \<Rightarrow> Some (interpret_shift s n m cpu)
         | K_MulDiv d \<Rightarrow> interpret_muldiv d n m cpu
         | K_Logic l \<Rightarrow> interpret_logic l n m imm cpu
         | _ \<Rightarrow> None)"



subsection \<open>The two formulations of each operation\<close>

lemma bit_of_eq: "bit_of b = of_bool b"
  by (simp add: bit_of_def)

lemma sign_bit_u32: "(v::u32) AND 0x80000000 \<noteq> 0 \<longleftrightarrow> bit v 31"
proof (rule and_single_bit)
  show "bit (0x80000000 :: u32) n \<longleftrightarrow> n = 31" for n by (rule bit_exp_u32) simp_all
qed simp

lemma sign_bit_u32_eq: "(v::u32) AND 0x80000000 = 0 \<longleftrightarrow> \<not> bit v 31"
  using sign_bit_u32 [of v] by blast

lemma all_less_32:
  "(\<forall>n<32. P n) \<longleftrightarrow>
     P 0 \<and> P 1 \<and> P 2 \<and> P 3 \<and> P 4 \<and> P 5 \<and> P 6 \<and> P 7 \<and>
     P 8 \<and> P 9 \<and> P 10 \<and> P 11 \<and> P 12 \<and> P 13 \<and> P 14 \<and> P 15
     \<and> P 16 \<and> P 17 \<and> P 18 \<and> P 19 \<and> P 20 \<and> P 21 \<and> P 22
     \<and> P 23 \<and> P 24 \<and> P 25 \<and> P 26 \<and> P 27 \<and> P 28 \<and> P 29
     \<and> P 30 \<and> P (31::nat)"
  by (auto simp: eval_nat_numeral All_less_Suc)

lemmas u32_bits = u32_eq_iff all_less_32

lemma bit_u32_out: "32 \<le> n \<Longrightarrow> \<not> bit (v::u32) n"
  using bit_imp_le_length [of v n] by auto

lemma drop_31_u32: "drop_bit 31 (v::u32) \<noteq> 0 \<longleftrightarrow> bit v 31"
proof -
  have "drop_bit 31 v = 0 \<longleftrightarrow> \<not> bit v 31"
    by (simp add: u32_bits bit_drop_bit_eq bit_u32_out)
  then show ?thesis by blast
qed

lemma low_bit_u32: "(v::u32) AND 1 \<noteq> 0 \<longleftrightarrow> bit v 0"
  by (rule and_single_bit) (auto simp: bit_1_iff)

lemma sint_neg_iff: "to_i32 v < 0 \<longleftrightarrow> bit v 31"
  using bit_last_iff [of v] by simp

lemma sint_nonneg_iff: "0 \<le> to_i32 v \<longleftrightarrow> \<not> bit v 31"
  by (simp flip: sint_neg_iff not_less)

lemma narrow_of_int: "ucast (word_of_int x :: u64) = (word_of_int x :: u32)"
  by (rule ucast_down_wi) (simp add: is_down)

lemma uint_wide: "uint (word_of_int x :: u64) = x" if "0 \<le> x" "x < 2 ^ 64"
  using that by (simp add: uint_word_of_int)

lemma uint_add_u32: "uint (a + b :: u32) = (if uint a + uint b < 2 ^ 32 then uint a + uint b
    else uint a + uint b - 2 ^ 32)"
  by (simp add: uint_plus_if')

lemma uint_bounds_u32: "0 \<le> uint (a::u32)" "uint a < 2 ^ 32"
  using uint_lt2p [of a] by simp_all

lemma add_carry_eq:
  fixes a b :: u32 and c :: bool
  defines "w \<equiv> (ucast a + ucast b + of_bool c :: u64)"
  shows "ucast w = a + b + of_bool c"
    and "w > 0xFFFFFFFF \<longleftrightarrow> a + b < a \<or> a + b + of_bool c < a + b"
proof -
  have w: "w = word_of_int (uint a + uint b + of_bool c)" by (simp add: w_def)
  show "ucast w = a + b + of_bool c"
    unfolding w narrow_of_int by simp
  have "uint w = uint a + uint b + of_bool c"
    unfolding w using uint_bounds_u32 [of a] uint_bounds_u32 [of b]
    by (intro uint_wide) (cases c; simp)+
  then have "w > 0xFFFFFFFF \<longleftrightarrow> uint a + uint b + of_bool c > 0xFFFFFFFF"
    by (simp add: word_less_def)
  then show "w > 0xFFFFFFFF \<longleftrightarrow> a + b < a \<or> a + b + of_bool c < a + b"
    using uint_bounds_u32 [of a] uint_bounds_u32 [of b]
    by (cases c) (auto simp: word_less_def uint_add_u32)
qed

lemma uint_sub_u32: "uint (a - b :: u32) = (if uint b \<le> uint a then uint a - uint b
    else uint a - uint b + 2 ^ 32)"
  by (simp add: uint_sub_if')

lemma sub_borrow_eq:
  fixes a b :: u32 and c :: bool
  defines "w \<equiv> (ucast b + of_bool c :: u64)"
  shows "ucast ((ucast a :: u64) - w) = a - b - of_bool c"
    and "(ucast a :: u64) < w \<longleftrightarrow> a < b \<or> a - b < of_bool c"
proof -
  have d: "(ucast a :: u64) - w = word_of_int (uint a - uint b - of_bool c)"
    by (simp add: w_def)
  show "ucast ((ucast a :: u64) - w) = a - b - of_bool c"
    unfolding d narrow_of_int by simp
  have w: "w = word_of_int (uint b + of_bool c)" by (simp add: w_def)
  have "uint w = uint b + of_bool c"
    unfolding w using uint_bounds_u32 [of b] by (intro uint_wide) (cases c; simp)+
  moreover have "uint (ucast a :: u64) = uint a"
    using uint_wide [of "uint a"] uint_bounds_u32 [of a] by simp
  ultimately have "(ucast a :: u64) < w \<longleftrightarrow> uint a < uint b + of_bool c"
    by (simp add: word_less_def)
  then show "(ucast a :: u64) < w \<longleftrightarrow> a < b \<or> a - b < of_bool c"
    using uint_bounds_u32 [of a] uint_bounds_u32 [of b]
    by (cases c) (auto simp: word_less_def uint_sub_u32)
qed

lemma negate_carry_eq:
  fixes b :: u32 and c :: bool
  defines "w \<equiv> (ucast b + of_bool c :: u64)"
  shows "ucast (0 - w) = 0 - b - of_bool c"
    and "w \<noteq> 0 \<longleftrightarrow> b \<noteq> 0 \<or> 0 - b - of_bool c > 0 - b"
proof -
  show "ucast (0 - w) = 0 - b - of_bool c"
    using sub_borrow_eq(1) [of 0 b c] by (simp add: w_def)
  have w: "w = word_of_int (uint b + of_bool c)" by (simp add: w_def)
  have "uint w = uint b + of_bool c"
    unfolding w using uint_bounds_u32 [of b] by (intro uint_wide) (cases c; simp)+
  then have "w \<noteq> 0 \<longleftrightarrow> uint b + of_bool c \<noteq> 0"
    by (auto simp: uint_0_iff)
  then show "w \<noteq> 0 \<longleftrightarrow> b \<noteq> 0 \<or> 0 - b - of_bool c > 0 - b"
    using uint_bounds_u32 [of b]
    by (cases "b = 0"; cases c) (auto simp: uint_0_iff word_gt_0)
qed

lemma add_overflow_eq:
  fixes a b :: u32
  shows "(NOT (a XOR b) AND (a XOR (a + b))) AND 0x80000000 \<noteq> 0 \<longleftrightarrow>
    (to_i32 a \<ge> 0 \<and> to_i32 b \<ge> 0 \<and> to_i32 (a + b) < 0) \<or>
    (to_i32 a < 0 \<and> to_i32 b < 0 \<and> to_i32 (a + b) \<ge> 0)"
  by (auto simp: sign_bit_u32 sint_neg_iff bit_and_iff bit_not_iff bit_xor_iff simp flip: not_less)

lemma sub_overflow_eq:
  fixes a b :: u32
  shows "((a XOR b) AND (a XOR (a - b))) AND 0x80000000 \<noteq> 0 \<longleftrightarrow>
    (to_i32 a \<ge> 0 \<and> to_i32 b < 0 \<and> to_i32 (a - b) < 0) \<or>
    (to_i32 a < 0 \<and> to_i32 b \<ge> 0 \<and> to_i32 (a - b) \<ge> 0)"
  by (auto simp: sign_bit_u32 sint_neg_iff bit_and_iff bit_not_iff bit_xor_iff simp flip: not_less)

lemma sign_extend_byte_eq:
  "emitted_sign_extend 0x000000FF 0x00000080 0xFFFFFF00 x = to_u32 (sint (ucast x :: u8))"
proof -
  have "(x AND 0xFF) AND 0x80 = 0 \<longleftrightarrow> \<not> bit x 7"
    by (simp add: u32_bits bit_and_iff)
  then show ?thesis
    by (simp add: emitted_sign_extend_def Let_def u32_bits bit_signed_iff bit_unsigned_iff
        bit_and_iff bit_or_iff)
qed

lemma sign_extend_word_eq:
  "emitted_sign_extend 0x0000FFFF 0x00008000 0xFFFF0000 x = to_u32 (sint (ucast x :: u16))"
proof -
  have "(x AND 0xFFFF) AND 0x8000 = 0 \<longleftrightarrow> \<not> bit x 15"
    by (simp add: u32_bits bit_and_iff)
  then show ?thesis
    by (simp add: emitted_sign_extend_def Let_def u32_bits bit_signed_iff bit_unsigned_iff
        bit_and_iff bit_or_iff)
qed

lemma swap_bytes_eq: "drop_bit 8 ((v::u32) AND 0x0000FF00) = drop_bit 8 v AND 0xFF"
proof -
  have "drop_bit 8 ((v::u32) AND 0x0000FF00) = drop_bit 8 v AND drop_bit 8 0x0000FF00"
    by (rule drop_bit_and)
  then show ?thesis by simp
qed

lemma swap_words_eq: "push_bit 16 v OR drop_bit 16 v = word_rotl 16 (v::u32)"
  by (simp add: u32_bits bit_word_rotl_iff bit_or_iff bit_push_bit_iff bit_drop_bit_eq bit_u32_out)

lemma bit_shifted_sint:
  assumes "n < 32"
  shows "bit (to_u32 (drop_bit k (to_i32 v))) n \<longleftrightarrow> bit v (min 31 (k + n))"
proof -
  have "bit (to_i32 v) j \<longleftrightarrow> bit v (min 31 j)" for j
    by (simp add: bit_signed_iff)
  then show ?thesis
    using assms by (simp add: bit_word_of_int_iff bit_drop_bit_eq del: min_def)
qed

lemma arith_right_one:
  "drop_bit (Suc 0) v OR (v AND 0x80000000) = to_u32 (drop_bit (Suc 0) (to_i32 (v::u32)))"
  by (simp add: u32_bits bit_shifted_sint bit_or_iff bit_and_iff bit_drop_bit_eq bit_u32_out)


lemma flip_sign_add: "(a::u32) XOR 0x80000000 = a + 0x80000000"
proof (cases "bit a 31")
  case True
  have "(a XOR 0x80000000) + 0x80000000 = (a XOR 0x80000000) OR 0x80000000"
    using True by (intro disjunctive_add_eq_or) (simp add: u32_bits bit_simps)
  also have "\<dots> = a" using True by (simp add: u32_bits bit_or_iff bit_xor_iff)
  finally have "a XOR 0x80000000 = a - 0x80000000" by (simp add: algebra_simps)
  then show ?thesis by simp
next
  case False
  have "a + 0x80000000 = a OR 0x80000000"
    using False by (intro disjunctive_add_eq_or) (simp add: u32_bits bit_simps)
  also have "\<dots> = a XOR 0x80000000"
    using False by (simp add: u32_bits bit_or_iff bit_xor_iff)
  finally show ?thesis by simp
qed

lemma uint_flip_sign: "uint ((a::u32) XOR 0x80000000) = to_i32 a + 2 ^ 31"
proof -
  have "to_i32 a = take_bit 32 (uint a + 2 ^ 31) - 2 ^ 31"
    using signed_take_bit_eq_take_bit_shift [of 31 "uint a"] by (simp add: sint_uint)
  moreover have "uint (a + 0x80000000) = take_bit 32 (uint a + 2 ^ 31)"
    by (simp add: uint_word_ariths take_bit_eq_mod)
  ultimately show ?thesis by (simp add: flip_sign_add)
qed

lemma compare_signed:
  "((a::u32) XOR 0x80000000) \<le> (b XOR 0x80000000) \<longleftrightarrow> to_i32 a \<le> to_i32 b"
  "((a::u32) XOR 0x80000000) < (b XOR 0x80000000) \<longleftrightarrow> to_i32 a < to_i32 b"
  by (simp_all add: word_le_def word_less_def uint_flip_sign)


lemma positive_u32: "v \<noteq> 0 \<and> v AND 0x80000000 = 0 \<longleftrightarrow> to_i32 v > 0"
proof -
  have "to_i32 v = 0 \<longleftrightarrow> v = 0" by (simp add: signed_eq_0_iff)
  then show ?thesis using sint_neg_iff [of v] by (auto simp: sign_bit_u32_eq)
qed

lemma sint_from_uint:
  "sint (w :: 'a::len word) = uint w - 2 ^ LENGTH('a) * of_bool (bit w (LENGTH('a) - 1))"
proof -
  have "sint w = take_bit (Suc (LENGTH('a) - 1)) (uint w) -
      2 ^ Suc (LENGTH('a) - 1) * of_bool (bit (uint w) (LENGTH('a) - 1))"
    using signed_take_bit_eq_take_bit_minus [of "LENGTH('a) - 1" "uint w"]
    by (simp add: sint_uint)
  then show ?thesis by (simp add: bit_uint_iff take_bit_int_eq_self)
qed

lemma signed_16_eq: "emitted_signed_16 (x AND 0x0000FFFF) = sint (ucast x :: u16)"
proof -
  have b: "(x AND 0xFFFF) AND 0x8000 = 0 \<longleftrightarrow> \<not> bit x 15"
    by (simp add: u32_bits bit_and_iff)
  have u: "uint (x AND 0xFFFF) = uint (ucast x :: u16)"
    by (simp add: uint_and unsigned_ucast_eq take_bit_eq_mask mask_eq_exp_minus_1)
  show ?thesis by (simp add: emitted_signed_16_def b u sint_from_uint bit_unsigned_iff)
qed

lemma signed_32_eq: "emitted_signed_32 x = to_i32 x"
  by (simp add: emitted_signed_32_def sign_bit_u32_eq sint_from_uint)

lemma shift_amount:
  fixes c :: u32
  defines "amount \<equiv> (NOT c AND 0x1F) + 1 :: u32"
  shows "amount \<noteq> 32 \<Longrightarrow> 0 < unat amount \<and> unat amount < 32 \<and> unat (32 - amount) = 32 - unat amount"
proof -
  assume ne: "amount \<noteq> 32"
  have "NOT c AND 0x1F \<le> 0x1F" by (rule word_and_le1)
  then have le: "unat (NOT c AND 0x1F) \<le> 31" by (simp add: word_le_nat_alt)
  then have a: "unat amount = unat (NOT c AND 0x1F) + 1"
    unfolding amount_def by (subst unat_plus_if') (simp)
  have "unat amount \<noteq> 32" using ne by (simp add: unat_arith_simps)
  then show "0 < unat amount \<and> unat amount < 32 \<and> unat (32 - amount) = 32 - unat amount"
    using a le by (simp add: unat_sub word_le_nat_alt)
qed

lemma ones_u32: "bit (0xFFFFFFFF::int) n \<longleftrightarrow> n < 32"
proof -
  have "(0xFFFFFFFF::int) = mask 32" by (simp add: mask_eq_exp_minus_1)
  then show ?thesis by (simp only: bit_mask_iff) simp
qed

lemma arith_fill_eq:
  assumes "0 < k" "k < 32"
  shows "drop_bit k v OR (if bit v 31 then push_bit (32 - k) 0xFFFFFFFF else 0) =
    to_u32 (drop_bit k (to_i32 (v::u32)))"
proof -
  have "bit (drop_bit k v OR (if bit v 31 then push_bit (32 - k) 0xFFFFFFFF else 0)) n \<longleftrightarrow>
      bit v (min 31 (k + n))" if "n < 32" for n
  proof (cases "k + n < 32")
    case True
    then have "min 31 (k + n) = k + n" "\<not> 32 - k \<le> n" using assms by auto
    then show ?thesis by (simp add: bit_or_iff bit_drop_bit_eq bit_push_bit_iff)
  next
    case False
    then have "min 31 (k + n) = 31" "32 - k \<le> n" using assms by auto
    then show ?thesis
      using False that assms
      by (auto simp: bit_or_iff bit_drop_bit_eq bit_push_bit_iff bit_u32_out ones_u32)
  qed
  then show ?thesis using assms by (simp add: u32_eq_iff bit_shifted_sint)
qed

lemma logical_dynamic_eq: "emitted_logical_dynamic c v = interpret_dynamic_shift False c v"
  by (simp add: emitted_logical_dynamic_def interpret_dynamic_shift_def Let_def sign_bit_u32_eq
      sint_neg_iff flip: not_less)

lemma arithmetic_dynamic_eq: "emitted_arithmetic_dynamic c v = interpret_dynamic_shift True c v"
proof (cases "bit c 31")
  case True
  define amount where "amount = (NOT c AND 0x1F) + 1"
  have "drop_bit (unat amount) v OR (if bit v 31 then push_bit (unat (32 - amount)) 0xFFFFFFFF else 0)
      = to_u32 (drop_bit (unat amount) (to_i32 v))" if "amount \<noteq> 32"
    using shift_amount [of c, folded amount_def, OF that] arith_fill_eq [of "unat amount" v] by (auto split: if_splits)
  then show ?thesis
    using True unfolding emitted_arithmetic_dynamic_def interpret_dynamic_shift_def
    by (simp add: Let_def sign_bit_u32_eq sint_neg_iff flip: not_less amount_def del: add_diff_cancel_right')
next
  case False
  then show ?thesis
    by (simp add: emitted_arithmetic_dynamic_def interpret_dynamic_shift_def sign_bit_u32_eq
        sint_neg_iff flip: not_less)
qed

lemma rotate_left_eq: "drop_bit 31 (v::u32) = of_bool (bit v 31)"
  by (simp add: u32_bits bit_drop_bit_eq bit_u32_out bit_simps)

lemma rotate_right_eq: "push_bit 31 (v::u32) AND 0x80000000 = push_bit 31 v"
  by (simp add: u32_bits bit_push_bit_iff bit_and_iff)

lemma multiply_long_eq: "ucast ((ucast a :: u64) * ucast b) = (a * b :: u32)"
proof -
  have "(ucast a :: u64) * ucast b = word_of_int (uint a * uint b)" by simp
  then show ?thesis unfolding narrow_of_int by (simp only: narrow_of_int) simp
qed


subsection \<open>Agreement, group by group\<close>

lemmas emitted_eq =
  Let_def write_t_def set_r_def sign_extend_byte_eq sign_extend_word_eq swap_bytes_eq swap_words_eq
  arith_right_one compare_signed signed_16_eq signed_32_eq logical_dynamic_eq arithmetic_dynamic_eq
  rotate_left_eq rotate_right_eq multiply_long_eq narrow_of_int sign_bit_u32 sign_bit_u32_eq
  drop_31_u32 sint_neg_iff sint_nonneg_iff

lemmas carry_eq = add_carry_eq sub_borrow_eq negate_carry_eq

lemmas overflow_eq = add_overflow_eq sub_overflow_eq

lemma carry_agrees:
  "exec_arith ArithOp.AddWithCarry n m imm cpu = interpret_arith ArithKind.AddWithCarry n m imm cpu"
  "exec_arith ArithOp.SubWithCarry n m imm cpu = interpret_arith ArithKind.SubWithCarry n m imm cpu"
  "exec_arith ArithOp.NegateWithCarry n m imm cpu =
     interpret_arith ArithKind.NegateWithCarry n m imm cpu"
  unfolding exec_arith.simps interpret_arith.simps Let_def bit_of_eq carry_eq write_t_def set_r_def
  by simp_all

lemma overflow_agrees:
  "exec_arith ArithOp.AddWithOverflow n m imm cpu =
     interpret_arith ArithKind.AddWithOverflow n m imm cpu"
  "exec_arith ArithOp.SubWithOverflow n m imm cpu =
     interpret_arith ArithKind.SubWithOverflow n m imm cpu"
  unfolding exec_arith.simps interpret_arith.simps Let_def overflow_eq write_t_def set_r_def
  by simp_all

lemma arith_agrees:
  "exec_operation (lower_arith a) n m imm cpu = Some (interpret_arith a n m imm cpu)"
proof (cases "a \<in> {ArithKind.AddWithCarry, ArithKind.SubWithCarry, ArithKind.NegateWithCarry,
    ArithKind.AddWithOverflow, ArithKind.SubWithOverflow}")
  case True
  then show ?thesis
    by (auto simp: exec_operation_def carry_agrees overflow_agrees
        simp del: exec_arith.simps interpret_arith.simps)
next
  case False
  then show ?thesis by (cases a) (simp_all add: exec_operation_def emitted_eq
        or.commute [of "drop_bit 16 (cpu_r cpu n)" "push_bit 16 (cpu_r cpu m)"])
qed

lemma shift_agrees:
  "exec_operation (lower_shift a) n m imm cpu = Some (interpret_shift a n m cpu)"
  by (cases a) (simp_all add: exec_operation_def emitted_eq bit_of_eq)

lemma divide_step_agrees: "exec_divide_step n m cpu = interpret_divide_step n m cpu"
  by (simp add: exec_divide_step_def interpret_divide_step_def emitted_eq)

lemma muldiv_agrees:
  "exec_operation (lower_muldiv a) n m imm cpu = interpret_muldiv a n m cpu"
proof -
  have "(p \<longleftrightarrow> \<not> q) = (q \<longleftrightarrow> \<not> p)" for p q by auto
  then show ?thesis
    by (cases a) (simp_all add: exec_operation_def emitted_eq divide_step_agrees ac_simps)
qed

lemma logic_agrees:
  "exec_operation (lower_logic a) n m imm cpu = interpret_logic a n m imm cpu"
  by (cases a)
    (simp_all add: exec_operation_def emitted_eq positive_u32 [unfolded sign_bit_u32_eq])

lemma other_agrees:
  "exec_operation (lower_move mk) n m imm cpu = None"
  "exec_operation (lower_system sk) n m imm cpu = None"
  "exec_operation (lower_fpu fk) n m imm cpu = None"
  "exec_operation (lower_flow wk) n m imm cpu = None"
  by ((cases mk; simp add: exec_operation_def), (cases sk; simp add: exec_operation_def),
      (cases fk; simp add: exec_operation_def), (cases wk; simp add: exec_operation_def))

lemma interpret_emitted:
  "exec_operation (lower_operation (d_kind d)) (d_destination_register d) (d_source_register d)
     (d_immediate d) cpu = interpret_simple d cpu"
  by (cases "d_kind d")
    (simp_all add: lower_operation_def interpret_simple_def arith_agrees shift_agrees muldiv_agrees
      logic_agrees other_agrees, simp_all add: exec_operation_def)
end
