(* ===== verification/Memory.thy ===== *)
theory Memory
  imports Runtime_Types
begin

text \<open>
  The guest memory (\<open>include/katana/runtime/memory.hpp\<close>, \<open>src/runtime/memory.cpp\<close>): linear devices,
  the region map with its page index, scalar accesses with their observers, the direct alias window
  and the batches of staged stores.

  Devices are heap objects that several regions may share, so the memory holds an explicit store from
  device identities to devices.  A device that is not a \<open>LinearMemoryDevice\<close> (MMIO registers, flash,
  the VRAM views) is reached through the virtual methods in \<open>DeviceOps\<close>, a parameter, over a world of
  its own.  Callbacks (watchpoints, trace handler, write observers, access sink, interrupt sink) are
  entries of a log, in call order.  The performance counters and the crash capsule are left out.
\<close>

subsection \<open>Types\<close>

datatype MemoryRegionAccess = RegionReadOnly | RegionReadWrite

datatype CodeWriteSource = CpuWrite | FpuWrite | DmaWrite | StoreQueueWrite | CopyWrite | FallbackWrite

datatype GuestMemoryAccessOrigin = MemoryOrigin | PvrRender | PvrYuv

datatype MemoryAlignmentPolicy = Strict | Permissive

datatype MemoryLookupMode = Indexed | ReferenceLookup

datatype MemoryWatchpointAccess = WatchRead | WatchWrite | WatchReadWrite

datatype GuestWriteObserverContract = General | StableForPrevalidatedLinearWrites

record GuestMemoryAccessContext =
  gx_virtual_address :: u32
  gx_instruction :: GuestInstructionOrigin
  gx_retired_guest_instructions :: u64
  gx_access_origin :: GuestMemoryAccessOrigin
  gx_attempted_guest_instructions :: u64

record MemoryRegionInfo =
  ri_name :: string
  ri_base_address :: u32
  ri_size :: nat
  ri_access :: MemoryRegionAccess

record MappedRegion =
  mr_info :: MemoryRegionInfo
  mr_device :: nat

record MemoryAccessEvent =
  ev_operation :: MemoryAccessOperation
  ev_address :: u32
  ev_width :: MemoryAccessWidth
  ev_value :: u32
  ev_region_name :: string

record GuestWriteEvent =
  gw_address :: u32
  gw_size :: nat
  gw_source :: CodeWriteSource
  gw_bytes_changed :: bool

text \<open>The fields of \<open>GuestMemoryAccessEvent\<close> without the projection into the backing device.\<close>

record GuestMemoryAccessEvent =
  ge_operation :: MemoryAccessOperation
  ge_physical_address :: u32
  ge_width :: MemoryAccessWidth
  ge_value :: u32
  ge_size :: nat
  ge_write_source :: CodeWriteSource
  ge_bytes_changed :: bool
  ge_context :: GuestMemoryAccessContext

record Watchpoint =
  wp_id :: u64
  wp_address :: u32
  wp_size :: nat
  wp_access :: MemoryWatchpointAccess

datatype notification =
    TraceCall MemoryAccessEvent | WatchpointCall u64 MemoryAccessEvent
  | MmioInterruptDirty | MmioTraceCall MemoryAccessEvent
  | GuestWriteCall GuestWriteEvent | GuestWriteBatchCommit "GuestWriteEvent list"
  | AccessSinkCall GuestMemoryAccessEvent

text \<open>Exceptions: \<open>MemoryAccessError\<close>, and any other \<open>std::exception\<close> by its message.\<close>

datatype guest_error = AccessError MemoryAccessError | OtherException string

definition no_origin :: GuestInstructionOrigin where
  "no_origin = \<lparr>go_source_pc = 0, go_runtime_pc = 0, go_valid = False\<rparr>"

definition access_error ::
    "MemoryAccessErrorReason \<Rightarrow> MemoryAccessOperation \<Rightarrow> u32 \<Rightarrow> MemoryAccessWidth \<Rightarrow> guest_error" where
  "access_error reason operation address width =
     AccessError \<lparr>err_operation = operation, err_reason = reason, err_width = width,
       err_address = address, err_instruction = no_origin\<rparr>"

fun width_bytes :: "MemoryAccessWidth \<Rightarrow> nat" where
  "width_bytes ByteAccess = 1" | "width_bytes HalfwordAccess = 2" | "width_bytes WordAccess = 4"

fun width_mask :: "MemoryAccessWidth \<Rightarrow> u32" where
  "width_mask ByteAccess = 0x000000FF" | "width_mask HalfwordAccess = 0x0000FFFF"
| "width_mask WordAccess = 0xFFFFFFFF"

definition address_space_size :: nat where "address_space_size = 0x100000000"

subsection \<open>Devices\<close>

text \<open>A device that is not linear has a size and may be an \<open>MmioMemoryDevice\<close>.\<close>

datatype MemoryDevice = LinearMemoryDevice "u8 list" | OtherDevice nat bool

fun device_size :: "MemoryDevice \<Rightarrow> nat" where
  "device_size (LinearMemoryDevice bytes) = length bytes"
| "device_size (OtherDevice n mmio) = n"

text \<open>
  The virtual methods of the other devices.  An error is a \<open>MemoryAccessError\<close> (\<open>Some\<close>) or another
  exception (\<open>None\<close>).
\<close>

record 'd DeviceOps =
  dev_read :: "nat \<Rightarrow> MemoryAccessWidth \<Rightarrow> u32 \<Rightarrow> 'd \<Rightarrow> (MemoryAccessError option + u32) \<times> 'd"
  dev_write :: "nat \<Rightarrow> MemoryAccessWidth \<Rightarrow> u32 \<Rightarrow> u32 \<Rightarrow> 'd \<Rightarrow> (MemoryAccessError option + unit) \<times> 'd"
  dev_validate_write :: "nat \<Rightarrow> u32 \<Rightarrow> nat \<Rightarrow> CodeWriteSource \<Rightarrow> 'd \<Rightarrow> MemoryAccessError option option"
  dev_projected_value :: "nat \<Rightarrow> u32 \<Rightarrow> MemoryAccessWidth \<Rightarrow> 'd \<Rightarrow> u32 option"

text \<open>Little-endian values; \<open>std::memcpy\<close> followed by \<open>little_u16\<close> or \<open>little_u32\<close>.\<close>

fun from_little :: "u8 list \<Rightarrow> u32" where
  "from_little [] = 0"
| "from_little (b # bs) = ucast b OR push_bit 8 (from_little bs)"

definition to_little :: "nat \<Rightarrow> u32 \<Rightarrow> u8 list" where
  "to_little n v = map (\<lambda>k. ucast (drop_bit (8 * k) v)) [0..<n]"

text \<open>\<open>require_device_access\<close>; a byte access checks \<open>offset < size\<close>, which is the same condition.\<close>

definition device_access_ok :: "nat \<Rightarrow> u32 \<Rightarrow> MemoryAccessWidth \<Rightarrow> bool" where
  "device_access_ok n offset width \<longleftrightarrow>
     \<not> (width_bytes width > n \<or> unat offset > n - width_bytes width)"

definition linear_read :: "u8 list \<Rightarrow> MemoryAccessWidth \<Rightarrow> u32 \<Rightarrow> u32 option" where
  "linear_read bytes width offset =
     (if device_access_ok (length bytes) offset width
      then Some (from_little (take (width_bytes width) (drop (unat offset) bytes))) else None)"

definition store_bytes :: "u8 list \<Rightarrow> nat \<Rightarrow> u8 list \<Rightarrow> u8 list" where
  "store_bytes bytes at new = take at bytes @ new @ drop (at + length new) bytes"

definition linear_write :: "u8 list \<Rightarrow> MemoryAccessWidth \<Rightarrow> u32 \<Rightarrow> u32 \<Rightarrow> u8 list option" where
  "linear_write bytes width offset v =
     (if device_access_ok (length bytes) offset width
      then Some (store_bytes bytes (unat offset) (to_little (width_bytes width) v)) else None)"

subsection \<open>State\<close>

record 'd Memory =
  mem_devices :: "nat \<rightharpoonup> MemoryDevice"
  mem_regions :: "MappedRegion list"
  mem_page_index :: "nat \<Rightarrow> int"
  mem_alignment_policy :: MemoryAlignmentPolicy
  mem_lookup_mode :: MemoryLookupMode
  mem_watchpoints :: "Watchpoint list"
  mem_next_watchpoint_id :: u64
  mem_trace_handler :: bool
  mem_mmio_trace_handler :: bool
  mem_mmio_access_tracking :: bool
  mem_interrupt_sink :: bool
  mem_access_sink :: bool
  mem_write_observer :: bool
  mem_write_observer_contract :: GuestWriteObserverContract
  mem_write_observer_generation :: u64
  mem_batch_observer :: bool
  mem_mmio_boundary_epoch :: u64
  mem_direct_backing :: "nat option"
  mem_direct_physical_base :: u32
  mem_direct_physical_span :: u32
  mem_direct_backing_mask :: u32
  mem_direct_generation :: u64
  mem_direct_reads_enabled :: bool
  mem_direct_writes_enabled :: bool
  mem_log :: "notification list"
  mem_world :: 'd

definition linear_bytes :: "'d Memory \<Rightarrow> nat \<Rightarrow> u8 list option" where
  "linear_bytes mem d =
     (case mem_devices mem d of Some (LinearMemoryDevice bytes) \<Rightarrow> Some bytes | _ \<Rightarrow> None)"

definition is_mmio :: "'d Memory \<Rightarrow> nat \<Rightarrow> bool" where
  "is_mmio mem d \<longleftrightarrow> (case mem_devices mem d of Some (OtherDevice n mmio) \<Rightarrow> mmio | _ \<Rightarrow> False)"

definition set_linear_bytes :: "nat \<Rightarrow> u8 list \<Rightarrow> 'd Memory \<Rightarrow> 'd Memory" where
  "set_linear_bytes d bytes mem =
     mem\<lparr>mem_devices := (mem_devices mem)(d \<mapsto> LinearMemoryDevice bytes)\<rparr>"

definition add_log :: "notification list \<Rightarrow> 'd Memory \<Rightarrow> 'd Memory" where
  "add_log notes mem = mem\<lparr>mem_log := mem_log mem @ notes\<rparr>"

text \<open>A generation counter skips zero when it wraps.\<close>

definition advance_generation :: "u64 \<Rightarrow> u64" where
  "advance_generation g = (if g + 1 = 0 then g + 1 + 1 else g + 1)"

subsection \<open>Observers and the direct access state\<close>

fun watchpoint_accepts :: "MemoryWatchpointAccess \<Rightarrow> MemoryAccessOperation \<Rightarrow> bool" where
  "watchpoint_accepts WatchRead operation = (operation = ReadAccess)"
| "watchpoint_accepts WatchWrite operation = (operation = WriteAccess)"
| "watchpoint_accepts WatchReadWrite operation = True"

definition ranges_overlap :: "u32 \<Rightarrow> nat \<Rightarrow> u32 \<Rightarrow> nat \<Rightarrow> bool" where
  "ranges_overlap left_address left_size right_address right_size \<longleftrightarrow>
     unat left_address < unat right_address + right_size \<and>
     unat right_address < unat left_address + left_size"

definition allows_prevalidated_linear_writes :: "'d Memory \<Rightarrow> bool" where
  "allows_prevalidated_linear_writes mem \<longleftrightarrow>
     \<not> mem_write_observer mem \<or> mem_write_observer_contract mem = StableForPrevalidatedLinearWrites"

definition observes :: "'d Memory \<Rightarrow> MemoryAccessOperation \<Rightarrow> bool" where
  "observes mem operation \<longleftrightarrow> mem_trace_handler mem \<or>
     list_ex (\<lambda>w. watchpoint_accepts (wp_access w) operation) (mem_watchpoints mem)"

definition refresh_direct_linear_access_state :: "'d Memory \<Rightarrow> 'd Memory" where
  "refresh_direct_linear_access_state mem =
     (let common = (mem_direct_backing mem \<noteq> None \<and> mem_direct_physical_span mem \<noteq> 0 \<and>
            mem_lookup_mode mem = Indexed \<and> \<not> mem_access_sink mem)
      in mem\<lparr>mem_direct_generation := advance_generation (mem_direct_generation mem),
             mem_direct_reads_enabled := (common \<and> \<not> observes mem ReadAccess),
             mem_direct_writes_enabled := (common \<and> \<not> observes mem WriteAccess \<and>
               allows_prevalidated_linear_writes mem)\<rparr>)"

text \<open>\<open>notify_access\<close>: the trace handler, then every watchpoint that accepts and overlaps.\<close>

definition notify_access :: "MemoryAccessEvent \<Rightarrow> 'd Memory \<Rightarrow> 'd Memory" where
  "notify_access event mem =
     add_log ((if mem_trace_handler mem then [TraceCall event] else []) @
       map (\<lambda>w. WatchpointCall (wp_id w) event)
         (filter (\<lambda>w. watchpoint_accepts (wp_access w) (ev_operation event) \<and>
            ranges_overlap (wp_address w) (wp_size w) (ev_address event)
              (width_bytes (ev_width event))) (mem_watchpoints mem))) mem"

definition access_observers_active :: "'d Memory \<Rightarrow> bool" where
  "access_observers_active mem \<longleftrightarrow> mem_trace_handler mem \<or> mem_watchpoints mem \<noteq> []"

definition record_mmio_access ::
    "MappedRegion \<Rightarrow> MemoryAccessEvent \<Rightarrow> 'd Memory \<Rightarrow> 'd Memory" where
  "record_mmio_access mapped event mem =
     (if \<not> is_mmio mem (mr_device mapped) then mem
      else add_log ((if mem_interrupt_sink mem then [MmioInterruptDirty] else []) @
             (if mem_mmio_trace_handler mem then [MmioTraceCall event] else []))
             (mem\<lparr>mem_mmio_boundary_epoch := advance_generation (mem_mmio_boundary_epoch mem)\<rparr>))"

definition notify_guest_write :: "GuestWriteEvent \<Rightarrow> 'd Memory \<Rightarrow> 'd Memory" where
  "notify_guest_write event mem =
     (if mem_write_observer mem then add_log [GuestWriteCall event] mem else mem)"

definition notify_guest_memory_access :: "GuestMemoryAccessEvent \<Rightarrow> 'd Memory \<Rightarrow> 'd Memory" where
  "notify_guest_memory_access event mem =
     (if mem_access_sink mem then add_log [AccessSinkCall event] mem else mem)"

subsection \<open>Regions\<close>

abbreviation region_start :: "MappedRegion \<Rightarrow> nat" where
  "region_start mapped \<equiv> unat (ri_base_address (mr_info mapped))"

abbreviation region_end :: "MappedRegion \<Rightarrow> nat" where
  "region_end mapped \<equiv> region_start mapped + ri_size (mr_info mapped)"

definition region_offset :: "MappedRegion \<Rightarrow> u32 \<Rightarrow> u32" where
  "region_offset mapped address = address - ri_base_address (mr_info mapped)"

definition unmapped_region :: int where "unmapped_region = -1"

definition ambiguous_region :: int where "ambiguous_region = -2"

definition region_page :: "nat \<Rightarrow> nat" where
  "region_page address = address div 65536"

definition mark_page :: "nat \<Rightarrow> nat \<Rightarrow> (nat \<Rightarrow> int) \<Rightarrow> nat \<Rightarrow> int" where
  "mark_page index page slots =
     slots(page := (if slots page = unmapped_region then int index
                    else if slots page \<noteq> int index then ambiguous_region else slots page))"

definition mark_region :: "nat \<times> MappedRegion \<Rightarrow> (nat \<Rightarrow> int) \<Rightarrow> nat \<Rightarrow> int" where
  "mark_region entry slots =
     (let (index, mapped) = entry
      in fold (mark_page index)
           [region_page (region_start mapped)..<Suc (region_page (region_end mapped - 1))] slots)"

definition build_region_index :: "MappedRegion list \<Rightarrow> nat \<Rightarrow> int" where
  "build_region_index regions = fold mark_region (enumerate 0 regions) (\<lambda>_. unmapped_region)"

definition rebuild_region_index :: "'d Memory \<Rightarrow> 'd Memory" where
  "rebuild_region_index mem = mem\<lparr>mem_page_index := build_region_index (mem_regions mem)\<rparr>"

text \<open>The message of a failed operation (\<open>std::invalid_argument\<close>).\<close>

definition map_region ::
    "string \<Rightarrow> u32 \<Rightarrow> nat \<Rightarrow> MemoryRegionAccess \<Rightarrow> 'd Memory \<Rightarrow> string + 'd Memory" where
  "map_region name base d access mem =
     (if name = [] then Inl ''Eine Speicherregion braucht einen Namen.''
      else case mem_devices mem d of
        None \<Rightarrow> Inl ''Eine Speicherregion braucht ein Speichergeraet.''
      | Some device \<Rightarrow>
          if device_size device = 0 then Inl ''Eine Speicherregion darf nicht leer sein.''
          else if device_size device > address_space_size - unat base then
            Inl ''Eine Speicherregion ueberschreitet den 32-Bit-Adressraum.''
          else if list_ex (\<lambda>existing. unat base < region_end existing \<and>
                 region_start existing < unat base + device_size device) (mem_regions mem) then
            Inl ''Speicherregionen duerfen sich nicht ueberlappen.''
          else
            let mapped = \<lparr>mr_info = \<lparr>ri_name = name, ri_base_address = base,
                  ri_size = device_size device, ri_access = access\<rparr>, mr_device = d\<rparr>;
                mem = mem\<lparr>mem_regions := sort_key region_start (mem_regions mem @ [mapped])\<rparr>
            in Inr (refresh_direct_linear_access_state (rebuild_region_index mem)))"

definition memory_size :: "'d Memory \<Rightarrow> nat" where
  "memory_size mem = sum_list (map (\<lambda>mapped. ri_size (mr_info mapped)) (mem_regions mem))"

definition indexed_region :: "'d Memory \<Rightarrow> u32 \<Rightarrow> nat \<Rightarrow> MappedRegion option" where
  "indexed_region mem address width =
     (if mem_lookup_mode mem \<noteq> Indexed \<or> width = 0 then None
      else if unat address + width > address_space_size then None
      else let slot = mem_page_index mem (region_page (unat address))
           in if slot < 0 then None
              else let mapped = mem_regions mem ! nat slot
                   in if unat address < region_start mapped \<or> unat address + width > region_end mapped
                      then None else Some mapped)"

abbreviation covers :: "nat \<Rightarrow> nat \<Rightarrow> MappedRegion \<Rightarrow> bool" where
  "covers start stop mapped \<equiv> region_start mapped \<le> start \<and> stop \<le> region_end mapped"

text \<open>The index, then the linear search over the regions, shared by the range queries.\<close>

definition lookup_region :: "'d Memory \<Rightarrow> u32 \<Rightarrow> nat \<Rightarrow> MappedRegion option" where
  "lookup_region mem address width =
     (case indexed_region mem address width of
        Some mapped \<Rightarrow> Some mapped
      | None \<Rightarrow> find (covers (unat address) (unat address + width)) (mem_regions mem))"

definition contains_range :: "'d Memory \<Rightarrow> u32 \<Rightarrow> nat \<Rightarrow> bool" where
  "contains_range mem address width \<longleftrightarrow> width \<noteq> 0 \<and> \<not> width > address_space_size - unat address \<and>
     lookup_region mem address width \<noteq> None"

definition maps_device :: "'d Memory \<Rightarrow> u32 \<Rightarrow> nat \<Rightarrow> nat option \<Rightarrow> bool" where
  "maps_device mem address width device \<longleftrightarrow> device \<noteq> None \<and> width \<noteq> 0 \<and>
     \<not> width > address_space_size - unat address \<and>
     (case lookup_region mem address width of None \<Rightarrow> False
      | Some mapped \<Rightarrow> Some (mr_device mapped) = device)"

definition is_writable_linear_range :: "'d Memory \<Rightarrow> u32 \<Rightarrow> nat \<Rightarrow> bool" where
  "is_writable_linear_range mem address width \<longleftrightarrow>
     \<not> (width = 0 \<or> width > address_space_size - unat address) \<and>
     (case lookup_region mem address width of None \<Rightarrow> False
      | Some mapped \<Rightarrow> ri_access (mr_info mapped) = RegionReadWrite \<and>
          linear_bytes mem (mr_device mapped) \<noteq> None)"

definition is_readable_linear_range :: "'d Memory \<Rightarrow> u32 \<Rightarrow> nat \<Rightarrow> bool" where
  "is_readable_linear_range mem address width \<longleftrightarrow>
     \<not> (width = 0 \<or> width > address_space_size - unat address) \<and>
     (case lookup_region mem address width of None \<Rightarrow> False
      | Some mapped \<Rightarrow> linear_bytes mem (mr_device mapped) \<noteq> None)"

text \<open>The linear search of \<open>resolve\<close>, which also finds accesses that leave their region.\<close>

fun search_regions ::
    "MappedRegion list \<Rightarrow> nat \<Rightarrow> nat \<Rightarrow> MemoryAccessErrorReason + MappedRegion" where
  "search_regions [] start stop = Inl ReasonUnmapped"
| "search_regions (mapped # rest) start stop =
     (if covers start stop mapped then Inr mapped
      else if region_start mapped \<le> start \<and> start < region_end mapped then Inl ReasonCrossRegion
      else search_regions rest start stop)"

definition misaligned :: "'d Memory \<Rightarrow> u32 \<Rightarrow> MemoryAccessWidth \<Rightarrow> bool" where
  "misaligned mem address width \<longleftrightarrow>
     mem_alignment_policy mem \<noteq> Permissive \<and> unat address mod width_bytes width \<noteq> 0"

definition resolve ::
    "'d Memory \<Rightarrow> u32 \<Rightarrow> MemoryAccessWidth \<Rightarrow> MemoryAccessOperation \<Rightarrow> guest_error + MappedRegion" where
  "resolve mem address width operation =
     (let fail = (\<lambda>reason. Inl (access_error reason operation address width));
          access_size = width_bytes width
      in if misaligned mem address width then fail ReasonMisaligned
         else if access_size > address_space_size - unat address then fail ReasonAddressOverflow
         else case indexed_region mem address access_size of
                Some mapped \<Rightarrow> Inr mapped
              | None \<Rightarrow> (case search_regions (mem_regions mem) (unat address)
                           (unat address + access_size) of
                          Inl reason \<Rightarrow> fail reason | Inr mapped \<Rightarrow> Inr mapped))"

definition resolve_writable ::
    "'d Memory \<Rightarrow> u32 \<Rightarrow> MemoryAccessWidth \<Rightarrow> guest_error + MappedRegion" where
  "resolve_writable mem address width =
     (case resolve mem address width WriteAccess of Inl e \<Rightarrow> Inl e
      | Inr mapped \<Rightarrow> if ri_access (mr_info mapped) \<noteq> RegionReadWrite
          then Inl (access_error ReasonReadOnly WriteAccess address width) else Inr mapped)"

subsection \<open>Scalar accesses\<close>

text \<open>
  An access returns its result or the exception, with the memory after it.  The three widths of
  \<open>read_u8_at\<close>, \<open>read_u16_at\<close> and \<open>read_u32_at\<close> differ in the width alone.
\<close>

definition mmio_boundary ::
    "MemoryAccessOperation \<Rightarrow> u32 \<Rightarrow> MemoryAccessWidth \<Rightarrow> (MemoryAccessError option + 'a) \<Rightarrow>
     guest_error + 'a" where
  "mmio_boundary operation address width result = (case result of
       Inr v \<Rightarrow> Inr v
     | Inl (Some e) \<Rightarrow> Inl (AccessError e)
     | Inl None \<Rightarrow> Inl (access_error ReasonDeviceRejected operation address width))"

definition out_of_region :: guest_error where
  "out_of_region = OtherException ''Speichergeraetezugriff ausserhalb der Region.''"

definition read_mapped ::
    "'d DeviceOps \<Rightarrow> MappedRegion \<Rightarrow> MemoryAccessWidth \<Rightarrow> u32 \<Rightarrow> 'd Memory \<Rightarrow>
     (guest_error + u32) \<times> 'd Memory" where
  "read_mapped ops mapped width address mem =
     (let offset = region_offset mapped address
      in case linear_bytes mem (mr_device mapped) of
           Some bytes \<Rightarrow> (case linear_read bytes width offset of
                            Some v \<Rightarrow> Inr v | None \<Rightarrow> Inl out_of_region, mem)
         | None \<Rightarrow>
             let (result, world) = dev_read ops (mr_device mapped) width offset (mem_world mem)
             in (map_sum id (\<lambda>v. v AND width_mask width)
                   (mmio_boundary ReadAccess address width result),
                 mem\<lparr>mem_world := world\<rparr>))"

definition access_event ::
    "MappedRegion \<Rightarrow> MemoryAccessOperation \<Rightarrow> u32 \<Rightarrow> MemoryAccessWidth \<Rightarrow> u32 \<Rightarrow> MemoryAccessEvent" where
  "access_event mapped operation address width v =
     \<lparr>ev_operation = operation, ev_address = address, ev_width = width, ev_value = v,
      ev_region_name = ri_name (mr_info mapped)\<rparr>"

definition observe_access :: "MappedRegion \<Rightarrow> MemoryAccessEvent \<Rightarrow> 'd Memory \<Rightarrow> 'd Memory" where
  "observe_access mapped event mem =
     (let mem = record_mmio_access mapped event mem
      in if access_observers_active mem then notify_access event mem else mem)"

definition read_at ::
    "'d DeviceOps \<Rightarrow> MemoryAccessWidth \<Rightarrow> u32 \<Rightarrow> GuestMemoryAccessContext \<Rightarrow> 'd Memory \<Rightarrow>
     (guest_error + u32) \<times> 'd Memory" where
  "read_at ops width address context mem =
     (case resolve mem address width ReadAccess of
        Inl e \<Rightarrow> (Inl e, mem)
      | Inr mapped \<Rightarrow>
          (case read_mapped ops mapped width address mem of
             (Inl e, mem) \<Rightarrow> (Inl e, mem)
           | (Inr v, mem) \<Rightarrow>
               (Inr v, notify_guest_memory_access
                  \<lparr>ge_operation = ReadAccess, ge_physical_address = address, ge_width = width,
                   ge_value = v, ge_size = width_bytes width, ge_write_source = CpuWrite,
                   ge_bytes_changed = False, ge_context = context\<rparr>
                  (observe_access mapped (access_event mapped ReadAccess address width v) mem))))"

text \<open>\<open>{observer_changed, sink_changed}\<close>: whether the bytes of a store differ from the stored ones.\<close>

definition store_changes ::
    "'d DeviceOps \<Rightarrow> MappedRegion \<Rightarrow> MemoryAccessWidth \<Rightarrow> u32 \<Rightarrow> u32 \<Rightarrow> 'd Memory \<Rightarrow> bool \<times> bool" where
  "store_changes ops mapped width offset v mem =
     (case linear_bytes mem (mr_device mapped) of
        Some bytes \<Rightarrow>
          if mem_write_observer mem \<or> mem_access_sink mem
          then let changed = (linear_read bytes width offset \<noteq> Some v) in (changed, changed)
          else (True, True)
      | None \<Rightarrow>
          (True, mem_access_sink mem \<longrightarrow>
             dev_projected_value ops (mr_device mapped) offset width (mem_world mem) \<noteq> Some v))"

definition write_mapped ::
    "'d DeviceOps \<Rightarrow> MappedRegion \<Rightarrow> MemoryAccessWidth \<Rightarrow> u32 \<Rightarrow> u32 \<Rightarrow> 'd Memory \<Rightarrow>
     (guest_error + unit) \<times> 'd Memory" where
  "write_mapped ops mapped width address v mem =
     (let offset = region_offset mapped address; d = mr_device mapped
      in case linear_bytes mem d of
           Some bytes \<Rightarrow> (case linear_write bytes width offset v of
                            Some bytes \<Rightarrow> (Inr (), set_linear_bytes d bytes mem)
                          | None \<Rightarrow> (Inl out_of_region, mem))
         | None \<Rightarrow>
             let (result, world) = dev_write ops d width offset v (mem_world mem)
             in (mmio_boundary WriteAccess address width result, mem\<lparr>mem_world := world\<rparr>))"

definition validate_store ::
    "'d DeviceOps \<Rightarrow> MappedRegion \<Rightarrow> MemoryAccessWidth \<Rightarrow> u32 \<Rightarrow> CodeWriteSource \<Rightarrow> 'd Memory \<Rightarrow>
     guest_error + unit" where
  "validate_store ops mapped width address source mem =
     (if linear_bytes mem (mr_device mapped) \<noteq> None then Inr ()
      else mmio_boundary WriteAccess address width
             (case dev_validate_write ops (mr_device mapped) (region_offset mapped address)
                     (width_bytes width) source (mem_world mem) of
                None \<Rightarrow> Inr () | Some e \<Rightarrow> Inl e))"

definition write_at ::
    "'d DeviceOps \<Rightarrow> MemoryAccessWidth \<Rightarrow> u32 \<Rightarrow> u32 \<Rightarrow> GuestMemoryAccessContext \<Rightarrow> CodeWriteSource \<Rightarrow>
     'd Memory \<Rightarrow> (guest_error + unit) \<times> 'd Memory" where
  "write_at ops width address v context source mem =
     (case resolve_writable mem address width of
        Inl e \<Rightarrow> (Inl e, mem)
      | Inr mapped \<Rightarrow>
          (case validate_store ops mapped width address source mem of
             Inl e \<Rightarrow> (Inl e, mem)
           | Inr _ \<Rightarrow>
               let (observer_changed, sink_changed) =
                     store_changes ops mapped width (region_offset mapped address) v mem
               in case write_mapped ops mapped width address v mem of
                    (Inl e, mem) \<Rightarrow> (Inl e, mem)
                  | (Inr _, mem) \<Rightarrow>
                      let mem = observe_access mapped
                            (access_event mapped WriteAccess address width v) mem;
                          mem = notify_guest_write \<lparr>gw_address = address,
                            gw_size = width_bytes width, gw_source = source,
                            gw_bytes_changed = observer_changed\<rparr> mem
                      in (Inr (), notify_guest_memory_access
                            \<lparr>ge_operation = WriteAccess, ge_physical_address = address,
                             ge_width = width, ge_value = v, ge_size = width_bytes width,
                             ge_write_source = source, ge_bytes_changed = sink_changed,
                             ge_context = context\<rparr> mem)))"

text \<open>The typed entry points.\<close>

definition plain_context :: "u32 \<Rightarrow> GuestMemoryAccessContext" where
  "plain_context address = \<lparr>gx_virtual_address = address, gx_instruction = no_origin,
     gx_retired_guest_instructions = 0, gx_access_origin = MemoryOrigin,
     gx_attempted_guest_instructions = 0\<rparr>"

definition read_u8_at ::
    "'d DeviceOps \<Rightarrow> u32 \<Rightarrow> GuestMemoryAccessContext \<Rightarrow> 'd Memory \<Rightarrow> (guest_error + u8) \<times> 'd Memory" where
  "read_u8_at ops address context mem =
     map_prod (map_sum id ucast) id (read_at ops ByteAccess address context mem)"

definition read_u16_at ::
    "'d DeviceOps \<Rightarrow> u32 \<Rightarrow> GuestMemoryAccessContext \<Rightarrow> 'd Memory \<Rightarrow> (guest_error + u16) \<times> 'd Memory" where
  "read_u16_at ops address context mem =
     map_prod (map_sum id ucast) id (read_at ops HalfwordAccess address context mem)"

definition read_u32_at ::
    "'d DeviceOps \<Rightarrow> u32 \<Rightarrow> GuestMemoryAccessContext \<Rightarrow> 'd Memory \<Rightarrow> (guest_error + u32) \<times> 'd Memory" where
  "read_u32_at ops address context mem = read_at ops WordAccess address context mem"

definition write_u8_at ::
    "'d DeviceOps \<Rightarrow> u32 \<Rightarrow> u8 \<Rightarrow> GuestMemoryAccessContext \<Rightarrow> CodeWriteSource \<Rightarrow> 'd Memory \<Rightarrow>
     (guest_error + unit) \<times> 'd Memory" where
  "write_u8_at ops address v context source mem =
     write_at ops ByteAccess address (ucast v) context source mem"

definition write_u16_at ::
    "'d DeviceOps \<Rightarrow> u32 \<Rightarrow> u16 \<Rightarrow> GuestMemoryAccessContext \<Rightarrow> CodeWriteSource \<Rightarrow> 'd Memory \<Rightarrow>
     (guest_error + unit) \<times> 'd Memory" where
  "write_u16_at ops address v context source mem =
     write_at ops HalfwordAccess address (ucast v) context source mem"

definition write_u32_at ::
    "'d DeviceOps \<Rightarrow> u32 \<Rightarrow> u32 \<Rightarrow> GuestMemoryAccessContext \<Rightarrow> CodeWriteSource \<Rightarrow> 'd Memory \<Rightarrow>
     (guest_error + unit) \<times> 'd Memory" where
  "write_u32_at ops address v context source mem =
     write_at ops WordAccess address v context source mem"

definition read_s8 :: "'d DeviceOps \<Rightarrow> u32 \<Rightarrow> 'd Memory \<Rightarrow> (guest_error + u32) \<times> 'd Memory" where
  "read_s8 ops address mem =
     map_prod (map_sum id (\<lambda>v. if v AND 0x80 \<noteq> 0 then 0xFFFFFF00 OR ucast v else ucast v)) id
       (read_u8_at ops address (plain_context address) mem)"

definition read_s16 :: "'d DeviceOps \<Rightarrow> u32 \<Rightarrow> 'd Memory \<Rightarrow> (guest_error + u32) \<times> 'd Memory" where
  "read_s16 ops address mem =
     map_prod (map_sum id (\<lambda>v. if v AND 0x8000 \<noteq> 0 then 0xFFFF0000 OR ucast v else ucast v)) id
       (read_u16_at ops address (plain_context address) mem)"

subsection \<open>Policies, watchpoints and observers\<close>

definition set_alignment_policy :: "MemoryAlignmentPolicy \<Rightarrow> 'd Memory \<Rightarrow> 'd Memory" where
  "set_alignment_policy policy mem = mem\<lparr>mem_alignment_policy := policy\<rparr>"

definition set_lookup_mode :: "MemoryLookupMode \<Rightarrow> 'd Memory \<Rightarrow> 'd Memory" where
  "set_lookup_mode mode mem =
     refresh_direct_linear_access_state (mem\<lparr>mem_lookup_mode := mode\<rparr>)"

definition add_watchpoint ::
    "u32 \<Rightarrow> nat \<Rightarrow> MemoryWatchpointAccess \<Rightarrow> bool \<Rightarrow> 'd Memory \<Rightarrow> string + u64 \<times> 'd Memory" where
  "add_watchpoint address byte_size access observer mem =
     (if byte_size = 0 then Inl ''Ein Watchpoint braucht eine positive Groesse.''
      else if byte_size > address_space_size - unat address then
        Inl ''Ein Watchpoint ueberschreitet den 32-Bit-Adressraum.''
      else if \<not> observer then Inl ''Ein Watchpoint braucht einen Observer.''
      else if mem_next_watchpoint_id mem = - 1 then
        Inl ''Es koennen keine weiteren Watchpoints registriert werden.''
      else let i = mem_next_watchpoint_id mem;
               mem = mem\<lparr>mem_next_watchpoint_id := i + 1,
                 mem_watchpoints := mem_watchpoints mem @ [\<lparr>wp_id = i, wp_address = address,
                   wp_size = byte_size, wp_access = access\<rparr>]\<rparr>
           in Inr (i, refresh_direct_linear_access_state mem))"

fun remove_first :: "('a \<Rightarrow> bool) \<Rightarrow> 'a list \<Rightarrow> 'a list" where
  "remove_first p [] = []"
| "remove_first p (x # xs) = (if p x then xs else x # remove_first p xs)"

definition remove_watchpoint :: "u64 \<Rightarrow> 'd Memory \<Rightarrow> bool \<times> 'd Memory" where
  "remove_watchpoint i mem =
     (if \<not> list_ex (\<lambda>w. wp_id w = i) (mem_watchpoints mem) then (False, mem)
      else (True, refresh_direct_linear_access_state
              (mem\<lparr>mem_watchpoints := remove_first (\<lambda>w. wp_id w = i) (mem_watchpoints mem)\<rparr>)))"

definition clear_watchpoints :: "'d Memory \<Rightarrow> 'd Memory" where
  "clear_watchpoints mem = refresh_direct_linear_access_state (mem\<lparr>mem_watchpoints := []\<rparr>)"

definition set_trace_handler :: "bool \<Rightarrow> 'd Memory \<Rightarrow> 'd Memory" where
  "set_trace_handler present mem =
     refresh_direct_linear_access_state (mem\<lparr>mem_trace_handler := present\<rparr>)"

definition set_mmio_access_tracking :: "bool \<Rightarrow> 'd Memory \<Rightarrow> 'd Memory" where
  "set_mmio_access_tracking enabled mem = mem\<lparr>mem_mmio_access_tracking := enabled\<rparr>"

definition set_mmio_trace_handler :: "bool \<Rightarrow> 'd Memory \<Rightarrow> 'd Memory" where
  "set_mmio_trace_handler present mem = mem\<lparr>mem_mmio_trace_handler := present\<rparr>"

definition set_mmio_interrupt_state_sink :: "bool \<Rightarrow> 'd Memory \<Rightarrow> 'd Memory" where
  "set_mmio_interrupt_state_sink present mem = mem\<lparr>mem_interrupt_sink := present\<rparr>"

definition bump_observer_generation :: "'d Memory \<Rightarrow> 'd Memory" where
  "bump_observer_generation mem = refresh_direct_linear_access_state
     (mem\<lparr>mem_write_observer_generation := advance_generation (mem_write_observer_generation mem)\<rparr>)"

definition set_guest_write_observer ::
    "bool \<Rightarrow> GuestWriteObserverContract \<Rightarrow> 'd Memory \<Rightarrow> 'd Memory" where
  "set_guest_write_observer present contract mem =
     bump_observer_generation (mem\<lparr>mem_batch_observer := False, mem_write_observer := present,
       mem_write_observer_contract := (if present then contract else General)\<rparr>)"

definition clear_guest_write_observer :: "'d Memory \<Rightarrow> 'd Memory" where
  "clear_guest_write_observer mem =
     bump_observer_generation (mem\<lparr>mem_batch_observer := False, mem_write_observer := False,
       mem_write_observer_contract := General\<rparr>)"

definition set_guest_write_batch_observer :: "bool \<Rightarrow> 'd Memory \<Rightarrow> 'd Memory" where
  "set_guest_write_batch_observer present mem =
     bump_observer_generation (mem\<lparr>mem_batch_observer := present\<rparr>)"

definition set_guest_memory_access_sink :: "bool \<Rightarrow> 'd Memory \<Rightarrow> 'd Memory" where
  "set_guest_memory_access_sink present mem =
     refresh_direct_linear_access_state (mem\<lparr>mem_access_sink := present\<rparr>)"

subsection \<open>The direct alias window\<close>

text \<open>\<open>std::has_single_bit\<close> of a 64-bit size.\<close>

definition single_bit :: "nat \<Rightarrow> bool" where
  "single_bit n \<longleftrightarrow> list_ex (\<lambda>k. n = 2 ^ k) [0..<64]"

definition window_aliases :: "u32 \<Rightarrow> u32 \<Rightarrow> nat \<Rightarrow> nat list" where
  "window_aliases base span n = map (\<lambda>k. unat base + k * n) [0..<unat span div n]"

definition alias_mapped :: "'d Memory \<Rightarrow> nat \<Rightarrow> nat \<Rightarrow> nat \<Rightarrow> bool" where
  "alias_mapped mem d n alias = (case find (covers alias (alias + n)) (mem_regions mem) of
       None \<Rightarrow> False
     | Some mapped \<Rightarrow> mr_device mapped = d \<and> ri_access (mr_info mapped) = RegionReadWrite)"

text \<open>The backing is a \<open>LinearMemoryDevice\<close> by its C++ type.\<close>

definition bind_direct_linear_alias_window ::
    "u32 \<Rightarrow> u32 \<Rightarrow> nat \<Rightarrow> 'd Memory \<Rightarrow> string + 'd Memory" where
  "bind_direct_linear_alias_window base span d mem =
     (case linear_bytes mem d of
        None \<Rightarrow> Inl ''LinearMemoryDevice''
      | Some bytes \<Rightarrow>
          let n = length bytes
          in if n = 0 \<or> n > 0xFFFFFFFF \<or> \<not> single_bit n then
               Inl ''Das direkte lineare Aliasfenster braucht ein Zweierpotenz-Backing.''
             else if span = 0 \<or> unat span mod n \<noteq> 0 \<or> unat base + unat span > address_space_size then
               Inl ''Das direkte lineare Aliasfenster besitzt eine ungueltige Ausdehnung.''
             else if \<not> list_all (alias_mapped mem d n) (window_aliases base span n) then
               Inl ''Das direkte lineare Aliasfenster ist nicht vollstaendig auf dasselbe schreibbare Backing abgebildet.''
             else Inr (refresh_direct_linear_access_state
               (mem\<lparr>mem_direct_backing := Some d, mem_direct_physical_base := base,
                    mem_direct_physical_span := span,
                    mem_direct_backing_mask := of_nat (n - 1)\<rparr>)))"

definition clear_direct_linear_alias_window :: "'d Memory \<Rightarrow> 'd Memory" where
  "clear_direct_linear_alias_window mem = refresh_direct_linear_access_state
     (mem\<lparr>mem_direct_backing := None, mem_direct_physical_base := 0,
          mem_direct_physical_span := 0, mem_direct_backing_mask := 0\<rparr>)"

text \<open>The bytes of the bound backing (\<open>direct_linear_bytes_\<close>).\<close>

definition direct_bytes :: "'d Memory \<Rightarrow> u8 list option" where
  "direct_bytes mem = Option.bind (mem_direct_backing mem) (linear_bytes mem)"

definition direct_linear_offset :: "'d Memory \<Rightarrow> u32 \<Rightarrow> nat \<Rightarrow> u32 option" where
  "direct_linear_offset mem address width =
     (case direct_bytes mem of
        None \<Rightarrow> None
      | Some bytes \<Rightarrow>
          if width = 0 \<or> width > length bytes \<or> address AND of_nat (width - 1) \<noteq> 0 then None
          else if address < mem_direct_physical_base mem then None
          else let relative = address - mem_direct_physical_base mem
               in if relative \<ge> mem_direct_physical_span mem \<or>
                     width > unat (mem_direct_physical_span mem - relative) then None
                  else let offset = relative AND mem_direct_backing_mask mem
                       in if width \<le> length bytes - unat offset then Some offset else None)"

definition try_read_direct_linear :: "'d Memory \<Rightarrow> MemoryAccessWidth \<Rightarrow> u32 \<Rightarrow> u32 option" where
  "try_read_direct_linear mem width address =
     (if \<not> mem_direct_reads_enabled mem then None
      else map_option (\<lambda>offset. from_little (take (width_bytes width)
               (drop (unat offset) (the (direct_bytes mem)))))
             (direct_linear_offset mem address (width_bytes width)))"

definition store_direct :: "nat \<Rightarrow> nat \<Rightarrow> u32 \<Rightarrow> 'd Memory \<Rightarrow> 'd Memory" where
  "store_direct width offset v mem =
     set_linear_bytes (the (mem_direct_backing mem))
       (store_bytes (the (direct_bytes mem)) offset (to_little width v)) mem"

definition try_write_direct_linear ::
    "MemoryAccessWidth \<Rightarrow> u32 \<Rightarrow> u32 \<Rightarrow> CodeWriteSource \<Rightarrow> 'd Memory \<Rightarrow> 'd Memory option" where
  "try_write_direct_linear width address v source mem =
     (if \<not> mem_direct_writes_enabled mem then None
      else case direct_linear_offset mem address (width_bytes width) of
             None \<Rightarrow> None
           | Some offset \<Rightarrow>
               let previous = from_little (take (width_bytes width)
                     (drop (unat offset) (the (direct_bytes mem))))
               in Some (notify_guest_write \<lparr>gw_address = address, gw_size = width_bytes width,
                    gw_source = source, gw_bytes_changed = (previous \<noteq> v)\<rparr>
                    (store_direct (width_bytes width) (unat offset) v mem)))"

subsection \<open>Staged stores\<close>

record BatchEntry =
  be_physical_address :: u32
  be_backing_offset :: u32
  be_value :: u32
  be_width :: MemoryAccessWidth
  be_source :: CodeWriteSource
  be_bytes_changed :: bool

text \<open>\<open>wb_owned\<close> stands for the owner pointer, which is the one memory of the model.\<close>

record DirectLinearWriteBatch =
  wb_owned :: bool
  wb_entries :: "BatchEntry list"
  wb_direct_generation :: u64
  wb_observer_generation :: u64

definition direct_linear_write_batch_capacity :: nat where
  "direct_linear_write_batch_capacity = 32"

definition empty_batch :: DirectLinearWriteBatch where
  "empty_batch = \<lparr>wb_owned = False, wb_entries = [], wb_direct_generation = 0,
     wb_observer_generation = 0\<rparr>"

definition begin_direct_linear_write_batch :: "'d Memory \<Rightarrow> DirectLinearWriteBatch" where
  "begin_direct_linear_write_batch mem =
     (if \<not> mem_direct_writes_enabled mem \<or> mem_mmio_access_tracking mem \<or>
         mem_mmio_trace_handler mem \<or> mem_write_observer mem \<noteq> mem_batch_observer mem
      then empty_batch
      else \<lparr>wb_owned = True, wb_entries = [], wb_direct_generation = mem_direct_generation mem,
            wb_observer_generation = mem_write_observer_generation mem\<rparr>)"

definition direct_linear_write_batch_current :: "'d Memory \<Rightarrow> DirectLinearWriteBatch \<Rightarrow> bool" where
  "direct_linear_write_batch_current mem batch \<longleftrightarrow>
     wb_owned batch \<and> wb_direct_generation batch = mem_direct_generation mem \<and>
     wb_observer_generation batch = mem_write_observer_generation mem \<and>
     mem_direct_writes_enabled mem \<and> \<not> mem_mmio_access_tracking mem \<and>
     \<not> mem_mmio_trace_handler mem \<and> mem_write_observer mem = mem_batch_observer mem"

text \<open>The byte a later load would see: the backing byte, overwritten by the staged entries in order.\<close>

definition entry_covers :: "BatchEntry \<Rightarrow> nat \<Rightarrow> bool" where
  "entry_covers staged position \<longleftrightarrow> unat (be_backing_offset staged) \<le> position \<and>
     position < unat (be_backing_offset staged) + width_bytes (be_width staged)"

definition staged_byte :: "BatchEntry list \<Rightarrow> u8 list \<Rightarrow> nat \<Rightarrow> u8" where
  "staged_byte entries bytes position =
     fold (\<lambda>staged previous. if entry_covers staged position
             then ucast (drop_bit (8 * (position - unat (be_backing_offset staged)))
                           (be_value staged)) else previous)
       entries (bytes ! position)"

definition staged_changes :: "BatchEntry list \<Rightarrow> u8 list \<Rightarrow> nat \<Rightarrow> u32 \<Rightarrow> nat \<Rightarrow> bool" where
  "staged_changes entries bytes offset v width =
     list_ex (\<lambda>byte. staged_byte entries bytes (offset + byte) \<noteq> ucast (drop_bit (8 * byte) v))
       [0..<width]"

definition try_stage ::
    "'d Memory \<Rightarrow> MemoryAccessWidth \<Rightarrow> u32 \<Rightarrow> u32 \<Rightarrow> CodeWriteSource \<Rightarrow> DirectLinearWriteBatch \<Rightarrow>
     DirectLinearWriteBatch option" where
  "try_stage mem width address v source batch =
     (if \<not> wb_owned batch \<or> length (wb_entries batch) = direct_linear_write_batch_capacity \<or>
         \<not> direct_linear_write_batch_current mem batch then None
      else case direct_linear_offset mem address (width_bytes width) of
             None \<Rightarrow> None
           | Some offset \<Rightarrow>
               Some (batch\<lparr>wb_entries := wb_entries batch @
                 [\<lparr>be_physical_address = address, be_backing_offset = offset, be_value = v,
                   be_width = width, be_source = source,
                   be_bytes_changed = staged_changes (wb_entries batch) (the (direct_bytes mem))
                     (unat offset) v (width_bytes width)\<rparr>]\<rparr>))"

definition entry_event :: "BatchEntry \<Rightarrow> GuestWriteEvent" where
  "entry_event staged = \<lparr>gw_address = be_physical_address staged,
     gw_size = width_bytes (be_width staged), gw_source = be_source staged,
     gw_bytes_changed = be_bytes_changed staged\<rparr>"

definition commit_entry :: "BatchEntry \<Rightarrow> 'd Memory \<Rightarrow> 'd Memory" where
  "commit_entry staged mem =
     store_direct (width_bytes (be_width staged)) (unat (be_backing_offset staged))
       (be_value staged) mem"

text \<open>One replayed store; \<open>None\<close> is \<open>std::terminate\<close> after an exception.\<close>

definition replay_entry :: "'d DeviceOps \<Rightarrow> BatchEntry \<Rightarrow> 'd Memory \<Rightarrow> 'd Memory option" where
  "replay_entry ops staged mem =
     (case try_write_direct_linear (be_width staged) (be_physical_address staged)
             (be_value staged) (be_source staged) mem of
        Some mem \<Rightarrow> Some mem
      | None \<Rightarrow>
          (case write_at ops (be_width staged) (be_physical_address staged) (be_value staged)
                  (plain_context (be_physical_address staged)) (be_source staged) mem of
             (Inl e, mem) \<Rightarrow> None | (Inr _, mem) \<Rightarrow> Some mem))"

fun replay_entries :: "'d DeviceOps \<Rightarrow> BatchEntry list \<Rightarrow> 'd Memory \<Rightarrow> 'd Memory option" where
  "replay_entries ops [] mem = Some mem"
| "replay_entries ops (staged # rest) mem =
     Option.bind (replay_entry ops staged mem) (replay_entries ops rest)"

text \<open>\<open>admit\<close> is the admission callback of the batch observer.\<close>

definition flush_direct_linear_write_batch ::
    "'d DeviceOps \<Rightarrow> (GuestWriteEvent list \<Rightarrow> bool) \<Rightarrow> DirectLinearWriteBatch \<Rightarrow> 'd Memory \<Rightarrow>
     'd Memory option" where
  "flush_direct_linear_write_batch ops admit batch mem =
     (if wb_entries batch = [] then Some mem
      else let events = map entry_event (wb_entries batch)
           in if direct_linear_write_batch_current mem batch \<and>
                 (\<not> mem_batch_observer mem \<or> admit events)
              then let mem = fold commit_entry (wb_entries batch) mem
                   in Some (if mem_batch_observer mem
                            then add_log [GuestWriteBatchCommit events] mem else mem)
              else replay_entries ops (wb_entries batch) mem)"

definition flush_batch ::
    "'d DeviceOps \<Rightarrow> (GuestWriteEvent list \<Rightarrow> bool) \<Rightarrow> DirectLinearWriteBatch \<Rightarrow> 'd Memory \<Rightarrow>
     (DirectLinearWriteBatch \<times> 'd Memory) option" where
  "flush_batch ops admit batch mem =
     (if \<not> wb_owned batch then Some (batch, mem)
      else map_option (\<lambda>mem. (batch\<lparr>wb_owned := False, wb_entries := []\<rparr>, mem))
             (flush_direct_linear_write_batch ops admit batch mem))"

text \<open>An empty memory (the constructor without a legacy region) over a heap of devices.\<close>

definition empty_memory :: "MemoryAlignmentPolicy \<Rightarrow> (nat \<rightharpoonup> MemoryDevice) \<Rightarrow> 'd \<Rightarrow> 'd Memory" where
  "empty_memory policy devices world =
     \<lparr>mem_devices = devices, mem_regions = [], mem_page_index = (\<lambda>_. unmapped_region),
      mem_alignment_policy = policy, mem_lookup_mode = Indexed, mem_watchpoints = [],
      mem_next_watchpoint_id = 1, mem_trace_handler = False, mem_mmio_trace_handler = False,
      mem_mmio_access_tracking = False, mem_interrupt_sink = False, mem_access_sink = False,
      mem_write_observer = False, mem_write_observer_contract = General,
      mem_write_observer_generation = 1, mem_batch_observer = False,
      mem_mmio_boundary_epoch = 1, mem_direct_backing = None, mem_direct_physical_base = 0,
      mem_direct_physical_span = 0, mem_direct_backing_mask = 0, mem_direct_generation = 1,
      mem_direct_reads_enabled = False, mem_direct_writes_enabled = False, mem_log = [],
      mem_world = world\<rparr>"

end
