(* ===== verification/Memory_Correct.thy ===== *)
theory Memory_Correct
  imports Memory
begin

text \<open>
  The invariant of the guest memory and what follows from it: the page index never changes which
  region an access resolves to, the direct alias window reads and writes what the region map would,
  and a store is visible at every alias of its bytes and nowhere else.
\<close>

subsection \<open>Invariant\<close>

definition regions_ok :: "'d Memory \<Rightarrow> bool" where
  "regions_ok mem \<longleftrightarrow>
     sorted_wrt (\<lambda>a b. region_end a \<le> region_start b) (mem_regions mem) \<and>
     (\<forall>m \<in> set (mem_regions mem). 0 < ri_size (mr_info m) \<and> region_end m \<le> address_space_size \<and>
        map_option device_size (mem_devices mem (mr_device m)) = Some (ri_size (mr_info m)))"

definition window_ok :: "'d Memory \<Rightarrow> bool" where
  "window_ok mem \<longleftrightarrow> (\<forall>d. mem_direct_backing mem = Some d \<longrightarrow> (\<exists>bytes k.
     linear_bytes mem d = Some bytes \<and> length bytes = 2 ^ k \<and> k < 32 \<and>
     mem_direct_backing_mask mem = of_nat (length bytes - 1) \<and>
     unat (mem_direct_physical_span mem) mod length bytes = 0 \<and>
     unat (mem_direct_physical_base mem) + unat (mem_direct_physical_span mem) \<le> address_space_size \<and>
     (\<forall>alias \<in> set (window_aliases (mem_direct_physical_base mem)
          (mem_direct_physical_span mem) (length bytes)).
        \<exists>m \<in> set (mem_regions mem). covers alias (alias + length bytes) m \<and> mr_device m = d \<and>
          ri_access (mr_info m) = RegionReadWrite)))"

definition direct_flags_ok :: "'d Memory \<Rightarrow> bool" where
  "direct_flags_ok mem \<longleftrightarrow>
     (mem_direct_reads_enabled mem \<or> mem_direct_writes_enabled mem \<longrightarrow>
        mem_direct_backing mem \<noteq> None \<and> mem_lookup_mode mem = Indexed \<and> \<not> mem_access_sink mem) \<and>
     (mem_direct_reads_enabled mem \<longrightarrow> \<not> observes mem ReadAccess) \<and>
     (mem_direct_writes_enabled mem \<longrightarrow> \<not> observes mem WriteAccess)"

definition memory_ok :: "'d Memory \<Rightarrow> bool" where
  "memory_ok mem \<longleftrightarrow> regions_ok mem \<and> window_ok mem \<and> direct_flags_ok mem \<and>
     mem_page_index mem = build_region_index (mem_regions mem)"

subsection \<open>The page index\<close>

lemma mark_page_bound:
  assumes "\<And>p. slots p < int n" "index < n"
  shows "mark_page index page slots p < int n"
  using assms by (simp add: mark_page_def ambiguous_region_def)

lemma fold_mark_page_bound:
  "(\<And>p. slots p < int n) \<Longrightarrow> index < n \<Longrightarrow> fold (mark_page index) pages slots p < int n"
  by (induction pages arbitrary: slots) (auto intro: mark_page_bound)

lemma mark_region_bound:
  "(\<And>p. slots p < int n) \<Longrightarrow> fst e < n \<Longrightarrow> mark_region e slots p < int n"
  unfolding mark_region_def Let_def case_prod_beta by (rule fold_mark_page_bound)

lemma fold_mark_region_bound:
  "(\<And>p. slots p < int n) \<Longrightarrow> (\<forall>e \<in> set entries. fst e < n) \<Longrightarrow>
     fold mark_region entries slots p < int n"
  by (induction entries arbitrary: slots) (simp_all add: mark_region_bound)

lemma build_region_index_bound:
  assumes "0 \<le> build_region_index regions p"
  shows "nat (build_region_index regions p) < length regions"
proof -
  have "build_region_index regions p < int (length regions)" if "regions \<noteq> []"
    unfolding build_region_index_def using that
    by (intro fold_mark_region_bound) (auto simp: unmapped_region_def enumerate_eq_zip
        in_set_zip)
  moreover have "build_region_index [] p = -1"
    by (simp add: build_region_index_def unmapped_region_def)
  ultimately show ?thesis using assms by (cases "regions = []") auto
qed

lemma indexed_region_covers:
  assumes "mem_page_index mem = build_region_index (mem_regions mem)"
    "indexed_region mem address width = Some m"
  shows "m \<in> set (mem_regions mem)" "covers (unat address) (unat address + width) m" "0 < width"
  using assms build_region_index_bound [of "mem_regions mem" "region_page (unat address)"]
  by (auto simp: indexed_region_def Let_def split: if_splits)

subsection \<open>Regions do not overlap\<close>

lemma sorted_wrt_in_two:
  "sorted_wrt P xs \<Longrightarrow> x \<in> set xs \<Longrightarrow> y \<in> set xs \<Longrightarrow> x = y \<or> P x y \<or> P y x"
  by (induction xs) auto

lemma region_unique:
  assumes "regions_ok mem" "m \<in> set (mem_regions mem)" "m' \<in> set (mem_regions mem)"
    "region_start m \<le> x" "x < region_end m" "region_start m' \<le> x" "x < region_end m'"
  shows "m = m'"
  using sorted_wrt_in_two [of _ "mem_regions mem" m m'] assms unfolding regions_ok_def by fastforce

lemma search_regions_covers:
  assumes "sorted_wrt (\<lambda>a b. region_end a \<le> region_start b) regions"
    "m \<in> set regions" "covers start stop m" "start < stop"
  shows "search_regions regions start stop = Inr m"
  using assms by (induction regions) fastforce+

lemma search_regions_result:
  "search_regions regions start stop = Inr m \<Longrightarrow> m \<in> set regions \<and> covers start stop m"
  by (induction regions) (auto split: if_splits)

text \<open>The reference lookup: the same memory with the linear search only.\<close>

definition reference_mode :: "'d Memory \<Rightarrow> 'd Memory" where
  "reference_mode mem = mem\<lparr>mem_lookup_mode := ReferenceLookup\<rparr>"

lemma width_bytes_pos [simp]: "0 < width_bytes w"
  by (cases w) auto

lemma resolve_index_free:
  assumes "memory_ok mem"
  shows "resolve mem address width operation = resolve (reference_mode mem) address width operation"
proof (cases "indexed_region mem address (width_bytes width)")
  case None
  then show ?thesis
    by (simp add: resolve_def reference_mode_def misaligned_def Let_def indexed_region_def)
next
  case (Some m)
  have "search_regions (mem_regions mem) (unat address) (unat address + width_bytes width) = Inr m"
    using indexed_region_covers [OF _ Some] assms
    by (intro search_regions_covers) (auto simp: memory_ok_def regions_ok_def)
  then show ?thesis
    using Some by (simp add: resolve_def reference_mode_def misaligned_def Let_def indexed_region_def
        split: if_splits)
qed

lemma resolve_covers:
  assumes "memory_ok mem" "resolve mem address width operation = Inr m"
  shows "m \<in> set (mem_regions mem)" "covers (unat address) (unat address + width_bytes width) m"
  using assms search_regions_result [of "mem_regions mem"]
    indexed_region_covers [of mem address "width_bytes width" m]
  by (auto simp: resolve_def Let_def memory_ok_def split: if_splits option.splits sum.splits)

lemma resolve_found:
  assumes "memory_ok mem" "m \<in> set (mem_regions mem)"
    "covers (unat address) (unat address + width_bytes width) m" "\<not> misaligned mem address width"
  shows "resolve mem address width operation = Inr m"
proof -
  have "region_end m \<le> address_space_size" using assms by (auto simp: memory_ok_def regions_ok_def)
  then have "\<not> width_bytes width > address_space_size - unat address" using assms(3) by linarith
  moreover have "search_regions (mem_regions mem) (unat address)
      (unat address + width_bytes width) = Inr m"
    using assms by (intro search_regions_covers) (auto simp: memory_ok_def regions_ok_def)
  ultimately show ?thesis
    using assms(4) unfolding resolve_index_free [OF assms(1)]
    by (simp add: resolve_def reference_mode_def misaligned_def Let_def indexed_region_def)
qed

subsection \<open>The direct alias window\<close>

lemma unat_and_mask:
  assumes "n = 2 ^ k" "k < 32"
  shows "unat ((w::u32) AND of_nat (n - 1)) = unat w mod n"
proof -
  have "(of_nat (n - 1) :: u32) = mask k"
    using assms by (simp add: mask_eq_exp_minus_1 of_nat_diff)
  then have "unat (w AND of_nat (n - 1)) = unat (take_bit k w)" by (simp add: take_bit_eq_mask)
  also have "\<dots> = take_bit k (unat w)" using assms(2) by (simp only: unsigned_take_bit_eq)
  finally show ?thesis by (simp only: take_bit_eq_mod assms(1))
qed

lemma linear_device_size:
  assumes "regions_ok mem" "m \<in> set (mem_regions mem)" "linear_bytes mem (mr_device m) = Some bytes"
  shows "ri_size (mr_info m) = length bytes"
  using assms unfolding regions_ok_def linear_bytes_def
  by (auto split: option.splits MemoryDevice.splits)

text \<open>A direct offset is the offset in the one region that covers the access.\<close>

lemma direct_linear_offset_region:
  assumes "memory_ok mem" "direct_linear_offset mem address width = Some offset"
  obtains d bytes m where "mem_direct_backing mem = Some d" "linear_bytes mem d = Some bytes"
    "direct_bytes mem = Some bytes" "m \<in> set (mem_regions mem)" "mr_device m = d"
    "ri_access (mr_info m) = RegionReadWrite" "covers (unat address) (unat address + width) m"
    "region_offset m address = offset" "unat offset + width \<le> length bytes" "0 < width"
    "address AND of_nat (width - 1) = 0"
proof -
  obtain bytes where bytes: "direct_bytes mem = Some bytes"
    using assms(2) by (auto simp: direct_linear_offset_def split: option.splits)
  then obtain d where d: "mem_direct_backing mem = Some d" "linear_bytes mem d = Some bytes"
    by (auto simp: direct_bytes_def bind_eq_Some_conv)
  let ?n = "length bytes" and ?base = "mem_direct_physical_base mem"
    and ?span = "mem_direct_physical_span mem"
  define relative where "relative = address - ?base"
  from assms(2) bytes have w: "0 < width" "width \<le> ?n" "address AND of_nat (width - 1) = 0"
    and lo: "?base \<le> address" and hi: "relative < ?span" "width \<le> unat (?span - relative)"
    and off: "offset = relative AND mem_direct_backing_mask mem" "width \<le> ?n - unat offset"
    by (auto simp: direct_linear_offset_def Let_def relative_def not_less not_le split: if_splits)
  obtain k where k: "?n = 2 ^ k" "k < 32" "mem_direct_backing_mask mem = of_nat (?n - 1)"
    "unat ?span mod ?n = 0" and
    aliases: "\<forall>alias \<in> set (window_aliases ?base ?span ?n). \<exists>m \<in> set (mem_regions mem).
      covers alias (alias + ?n) m \<and> mr_device m = d \<and> ri_access (mr_info m) = RegionReadWrite"
    using assms(1) d unfolding memory_ok_def window_ok_def by auto
  have rel: "unat relative = unat address - unat ?base"
    using lo by (simp add: relative_def unat_sub)
  have offset: "unat offset = unat relative mod ?n" using off(1) k unat_and_mask by simp
  have "unat relative div ?n < unat ?span div ?n"
    using hi(1) k(1,4) div_less_iff_less_mult [of ?n "unat relative" "unat ?span div ?n"]
    by (simp add: word_less_nat_alt mod_0_imp_dvd)
  then have "unat ?base + unat relative div ?n * ?n \<in> set (window_aliases ?base ?span ?n)"
    by (auto simp: window_aliases_def)
  then obtain m where m: "m \<in> set (mem_regions mem)" "mr_device m = d"
    "ri_access (mr_info m) = RegionReadWrite"
    "region_start m \<le> unat ?base + unat relative div ?n * ?n"
    "unat ?base + unat relative div ?n * ?n + ?n \<le> region_end m"
    using aliases by blast
  have "ri_size (mr_info m) = ?n"
    using assms(1) m(1,2) d(2) linear_device_size by (fastforce simp: memory_ok_def)
  then have start: "region_start m = unat ?base + unat relative div ?n * ?n"
    and stop: "region_end m = region_start m + ?n" using m(4,5) by linarith+
  have split: "unat relative = unat relative div ?n * ?n + unat offset"
    unfolding offset by (rule div_mult_mod_eq [symmetric])
  have at: "unat address = region_start m + unat offset"
    using start split rel lo by (simp add: word_le_nat_alt)
  have fits: "unat offset + width \<le> ?n" using off(2) w(1) by linarith
  have "region_offset m address = offset"
    using at by (subst word_unat_eq_iff) (simp add: region_offset_def unat_sub word_le_nat_alt)
  then show thesis using that d bytes m(1-3) at stop fits w(1,3) by simp
qed

lemma and_width_zero:
  "(address::u32) AND of_nat (width_bytes width - 1) = 0 \<longleftrightarrow> unat address mod width_bytes width = 0"
proof -
  obtain k where "width_bytes width = 2 ^ k" "k < 32"
    by (cases width) (auto intro: that [of 0] that [of 1] that [of 2])
  from unat_and_mask [OF this, of address] show ?thesis by (metis unat_eq_zero)
qed

text \<open>What an access leaves alone when nothing observes it.\<close>

lemma linear_not_mmio: "linear_bytes mem d \<noteq> None \<Longrightarrow> \<not> is_mmio mem d"
  by (auto simp: linear_bytes_def is_mmio_def split: option.splits MemoryDevice.splits)

lemma set_linear_bytes_same [simp]: "linear_bytes (set_linear_bytes d bytes mem) d = Some bytes"
  by (simp add: linear_bytes_def set_linear_bytes_def)

lemma set_linear_bytes_fields [simp]:
  "observes (set_linear_bytes d bytes mem) = observes mem"
  "mem_access_sink (set_linear_bytes d bytes mem) = mem_access_sink mem"
  "mem_write_observer (set_linear_bytes d bytes mem) = mem_write_observer mem"
  by (simp_all add: set_linear_bytes_def observes_def fun_eq_iff)

lemma add_log_sink [simp]: "mem_access_sink (add_log notes mem) = mem_access_sink mem"
  by (simp add: add_log_def)

lemma observe_access_silent:
  assumes "\<not> is_mmio mem (mr_device m)" "\<not> observes mem (ev_operation event)"
  shows "observe_access m event mem = mem"
proof -
  have "filter (\<lambda>w. watchpoint_accepts (wp_access w) (ev_operation event) \<and>
      ranges_overlap (wp_address w) (wp_size w) (ev_address event)
        (width_bytes (ev_width event))) (mem_watchpoints mem) = []"
    using assms(2) by (auto simp: observes_def list_ex_iff filter_empty_conv)
  then show ?thesis
    using assms by (simp add: observe_access_def record_mmio_access_def notify_access_def
        observes_def add_log_def Let_def)
qed

lemma try_read_direct_linear_read_at:
  assumes "memory_ok mem" "try_read_direct_linear mem width address = Some v"
  shows "read_at ops width address context mem = (Inr v, mem)"
proof -
  obtain offset where offset: "direct_linear_offset mem address (width_bytes width) = Some offset"
    and enabled: "mem_direct_reads_enabled mem"
    and v: "v = from_little (take (width_bytes width) (drop (unat offset) (the (direct_bytes mem))))"
    using assms(2) by (auto simp: try_read_direct_linear_def split: if_splits)
  obtain d bytes m where m: "linear_bytes mem d = Some bytes" "direct_bytes mem = Some bytes"
    "m \<in> set (mem_regions mem)" "mr_device m = d"
    "covers (unat address) (unat address + width_bytes width) m" "region_offset m address = offset"
    "unat offset + width_bytes width \<le> length bytes" "address AND of_nat (width_bytes width - 1) = 0"
    using direct_linear_offset_region [OF assms(1) offset] by metis
  have quiet: "\<not> observes mem ReadAccess" "\<not> mem_access_sink mem"
    using assms(1) enabled by (auto simp: memory_ok_def direct_flags_ok_def)
  have "\<not> misaligned mem address width" using m(8) [unfolded and_width_zero] by (simp add: misaligned_def)
  then have "resolve mem address width ReadAccess = Inr m" using resolve_found assms(1) m by blast
  moreover have "read_mapped ops m width address mem = (Inr v, mem)"
    using m v by (simp add: read_mapped_def linear_read_def device_access_ok_def Let_def)
  moreover have "observe_access m (access_event m ReadAccess address width v) mem = mem"
    using m quiet by (intro observe_access_silent) (auto simp: access_event_def linear_not_mmio)
  ultimately show ?thesis using quiet by (simp add: read_at_def notify_guest_memory_access_def)
qed

lemma try_write_direct_linear_write_at:
  assumes "memory_ok mem" "try_write_direct_linear width address v source mem = Some mem'"
  shows "write_at ops width address v context source mem = (Inr (), mem')"
proof -
  obtain offset where offset: "direct_linear_offset mem address (width_bytes width) = Some offset"
    and enabled: "mem_direct_writes_enabled mem"
    using assms(2) by (auto simp: try_write_direct_linear_def split: if_splits option.splits)
  obtain d bytes m where m: "linear_bytes mem d = Some bytes" "direct_bytes mem = Some bytes"
    "mem_direct_backing mem = Some d"
    "m \<in> set (mem_regions mem)" "mr_device m = d" "ri_access (mr_info m) = RegionReadWrite"
    "covers (unat address) (unat address + width_bytes width) m" "region_offset m address = offset"
    "unat offset + width_bytes width \<le> length bytes" "address AND of_nat (width_bytes width - 1) = 0"
    using direct_linear_offset_region [OF assms(1) offset] by metis
  have quiet: "\<not> observes mem WriteAccess" "\<not> mem_access_sink mem"
    using assms(1) enabled by (auto simp: memory_ok_def direct_flags_ok_def)
  let ?new = "store_bytes bytes (unat offset) (to_little (width_bytes width) v)"
  let ?stored = "set_linear_bytes d ?new mem"
  have "\<not> misaligned mem address width" using m(10) [unfolded and_width_zero] by (simp add: misaligned_def)
  then have "resolve_writable mem address width = Inr m"
    using resolve_found [OF assms(1) m(4,7)] m(6) by (simp add: resolve_writable_def)
  moreover have ok: "device_access_ok (length bytes) offset width"
    using m(9) by (simp add: device_access_ok_def)
  moreover from this have "write_mapped ops m width address v mem = (Inr (), ?stored)"
    using m by (simp add: write_mapped_def linear_write_def Let_def)
  moreover have "observe_access m (access_event m WriteAccess address width v) ?stored = ?stored"
    using m quiet by (intro observe_access_silent) (auto simp: access_event_def linear_not_mmio)
  moreover have "mem' = notify_guest_write \<lparr>gw_address = address, gw_size = width_bytes width,
      gw_source = source, gw_bytes_changed = (linear_read bytes width offset \<noteq> Some v)\<rparr> ?stored"
    using assms(2) enabled offset m ok
    by (auto simp: try_write_direct_linear_def store_direct_def linear_read_def)
  ultimately show ?thesis
    using m quiet by (auto simp: write_at_def validate_store_def store_changes_def Let_def
        notify_guest_memory_access_def notify_guest_write_def)
qed

subsection \<open>Every operation keeps the invariant\<close>

text \<open>Accesses change the contents of devices, the log, the epoch and the world of the other devices.\<close>

definition same_layout :: "'d Memory \<Rightarrow> 'd Memory \<Rightarrow> bool" where
  "same_layout mem mem' \<longleftrightarrow>
     (\<forall>d. map_option device_size (mem_devices mem' d) = map_option device_size (mem_devices mem d) \<and>
        map_option length (linear_bytes mem' d) = map_option length (linear_bytes mem d)) \<and>
     mem_regions mem' = mem_regions mem \<and> mem_page_index mem' = mem_page_index mem \<and>
     mem_lookup_mode mem' = mem_lookup_mode mem \<and> mem_watchpoints mem' = mem_watchpoints mem \<and>
     mem_trace_handler mem' = mem_trace_handler mem \<and> mem_access_sink mem' = mem_access_sink mem \<and>
     mem_direct_backing mem' = mem_direct_backing mem \<and>
     mem_direct_physical_base mem' = mem_direct_physical_base mem \<and>
     mem_direct_physical_span mem' = mem_direct_physical_span mem \<and>
     mem_direct_backing_mask mem' = mem_direct_backing_mask mem \<and>
     mem_direct_reads_enabled mem' = mem_direct_reads_enabled mem \<and>
     mem_direct_writes_enabled mem' = mem_direct_writes_enabled mem"

lemma same_layout_refl [simp]: "same_layout mem mem"
  by (simp add: same_layout_def)

lemma same_layout_trans: "same_layout a b \<Longrightarrow> same_layout b c \<Longrightarrow> same_layout a c"
  by (simp add: same_layout_def)

lemma same_layout_ok:
  assumes "same_layout mem mem'" "memory_ok mem"
  shows "memory_ok mem'"
proof -
  have "\<exists>bytes'. linear_bytes mem' d = Some bytes' \<and> length bytes' = length bytes"
    if "linear_bytes mem d = Some bytes" for d bytes
    using assms(1) that unfolding same_layout_def by (metis map_option_eq_Some)
  then have "window_ok mem'"
    using assms unfolding memory_ok_def window_ok_def same_layout_def by metis
  then show ?thesis
    using assms unfolding memory_ok_def regions_ok_def direct_flags_ok_def same_layout_def
    by (simp add: observes_def)
qed

lemma same_layout_simple [simp]:
  "same_layout mem (add_log notes mem)"
  "same_layout mem (mem\<lparr>mem_world := world\<rparr>)"
  "same_layout mem (mem\<lparr>mem_mmio_boundary_epoch := epoch\<rparr>)"
  by (simp_all add: same_layout_def add_log_def linear_bytes_def)

lemma same_layout_observe [simp]: "same_layout mem (observe_access m event mem)"
proof -
  have "same_layout mem (record_mmio_access m event mem)"
    unfolding record_mmio_access_def
    by (simp add: same_layout_trans [OF same_layout_simple(3) same_layout_simple(1)])
  then show ?thesis
    by (auto simp: observe_access_def notify_access_def Let_def intro: same_layout_trans)
qed

lemma same_layout_notify [simp]:
  "same_layout mem (notify_guest_write e mem)"
  "same_layout mem (notify_guest_memory_access g mem)"
  by (simp_all add: notify_guest_write_def notify_guest_memory_access_def)

lemma same_layout_set_linear:
  "linear_bytes mem d = Some bytes \<Longrightarrow> length new = length bytes \<Longrightarrow>
     same_layout mem (set_linear_bytes d new mem)"
  by (auto simp: same_layout_def set_linear_bytes_def linear_bytes_def
      split: option.splits MemoryDevice.splits)

lemma length_to_little [simp]: "length (to_little n v) = n"
  by (simp add: to_little_def)

lemma length_store_bytes:
  "at + length new \<le> length bytes \<Longrightarrow> length (store_bytes bytes at new) = length bytes"
  by (simp add: store_bytes_def)

lemma linear_write_length:
  "linear_write bytes width offset v = Some new \<Longrightarrow> length new = length bytes"
  using length_store_bytes [of "unat offset" "to_little (width_bytes width) v" bytes]
  by (auto simp: linear_write_def device_access_ok_def split: if_splits)

lemma read_at_layout: "same_layout mem (snd (read_at ops width address context mem))"
proof (cases "resolve mem address width ReadAccess")
  case (Inr m)
  obtain r mem' where read: "read_mapped ops m width address mem = (r, mem')" by fastforce
  then have "same_layout mem mem'"
    by (auto simp: read_mapped_def Let_def split: option.splits prod.splits)
  then show ?thesis
    using Inr read same_layout_trans [OF _ same_layout_trans [OF same_layout_observe
          same_layout_notify(2)]]
    by (auto simp: read_at_def split: sum.splits)
qed (simp add: read_at_def)

lemma write_mapped_layout: "same_layout mem (snd (write_mapped ops m width address v mem))"
  by (auto simp: write_mapped_def Let_def intro: same_layout_set_linear linear_write_length
      split: option.splits prod.splits)

lemma write_at_layout: "same_layout mem (snd (write_at ops width address v context source mem))"
proof (cases "resolve_writable mem address width")
  case (Inr m)
  obtain r mem' where wrote: "write_mapped ops m width address v mem = (r, mem')" by fastforce
  then have "same_layout mem mem'" using write_mapped_layout by (metis snd_conv)
  then have "same_layout mem (notify_guest_memory_access g (notify_guest_write e
      (observe_access m event mem')))" for g e event
    using same_layout_trans same_layout_notify same_layout_observe by meson
  then show ?thesis
    using Inr wrote \<open>same_layout mem mem'\<close>
    by (auto simp: write_at_def Let_def split: sum.splits prod.splits)
qed (simp add: write_at_def)

lemma store_direct_layout:
  assumes "direct_linear_offset mem address width = Some offset"
  shows "same_layout mem (store_direct width (unat offset) v mem)"
proof -
  obtain d bytes where "mem_direct_backing mem = Some d" "linear_bytes mem d = Some bytes"
    "direct_bytes mem = Some bytes" "unat offset + width \<le> length bytes"
    using assms by (auto simp: direct_linear_offset_def direct_bytes_def Let_def bind_eq_Some_conv
        split: option.splits if_splits)
  then show ?thesis
    by (auto simp: store_direct_def length_store_bytes intro: same_layout_set_linear)
qed

lemma try_write_layout:
  "try_write_direct_linear width address v source mem = Some mem' \<Longrightarrow> same_layout mem mem'"
  using same_layout_trans [OF store_direct_layout same_layout_notify(1)]
  by (auto simp: try_write_direct_linear_def Let_def split: if_splits option.splits)

lemma refresh_ok:
  assumes "regions_ok mem" "window_ok mem" "mem_page_index mem = build_region_index (mem_regions mem)"
  shows "memory_ok (refresh_direct_linear_access_state mem)"
  using assms
  by (auto simp: memory_ok_def regions_ok_def window_ok_def direct_flags_ok_def observes_def
      refresh_direct_linear_access_state_def linear_bytes_def Let_def)

text \<open>A new region is sorted into its place.\<close>

lemma sorted_wrt_disjoint:
  fixes start stop :: "'r \<Rightarrow> nat"
  assumes "sorted (map start xs)" "distinct xs" "\<forall>x \<in> set xs. start x < stop x"
    "\<forall>x \<in> set xs. \<forall>y \<in> set xs. x \<noteq> y \<longrightarrow> stop x \<le> start y \<or> stop y \<le> start x"
  shows "sorted_wrt (\<lambda>x y. stop x \<le> start y) xs"
  using assms
proof (induction xs)
  case (Cons x xs)
  have "stop x \<le> start y" if "y \<in> set xs" for y
  proof -
    have "start x \<le> start y" "x \<noteq> y" "start y < stop y" using Cons.prems that by auto
    moreover have "stop x \<le> start y \<or> stop y \<le> start x"
      using Cons.prems(4) that \<open>x \<noteq> y\<close> by (meson list.set_intros)
    ultimately show ?thesis by linarith
  qed
  then show ?case using Cons by simp
qed simp

lemma sorted_wrt_distinct:
  "sorted_wrt P xs \<Longrightarrow> \<forall>x \<in> set xs. \<not> P x x \<Longrightarrow> distinct xs"
  by (induction xs) auto

lemma regions_insert:
  fixes regions :: "MappedRegion list"
  assumes "sorted_wrt (\<lambda>a b. region_end a \<le> region_start b) regions"
    "\<forall>r \<in> set regions. 0 < ri_size (mr_info r)" "0 < ri_size (mr_info m)"
    "\<forall>r \<in> set regions. \<not> (region_start m < region_end r \<and> region_start r < region_end m)"
  shows "sorted_wrt (\<lambda>a b. region_end a \<le> region_start b) (sort_key region_start (regions @ [m]))"
proof (rule sorted_wrt_disjoint)
  have "m \<notin> set regions" using assms(3,4) by auto
  moreover have "distinct regions"
    using sorted_wrt_distinct [OF assms(1)] assms(2) by fastforce
  ultimately show "distinct (sort_key region_start (regions @ [m]))" by simp
  have "region_end x \<le> region_start y \<or> region_end y \<le> region_start x"
    if "x \<in> set (regions @ [m])" "y \<in> set (regions @ [m])" "x \<noteq> y" for x y
    using that sorted_wrt_in_two [OF assms(1), of x y] assms(4) by (auto simp: not_less)
  then show "\<forall>x \<in> set (sort_key region_start (regions @ [m])).
      \<forall>y \<in> set (sort_key region_start (regions @ [m])).
        x \<noteq> y \<longrightarrow> region_end x \<le> region_start y \<or> region_end y \<le> region_start x"
    by simp
qed (use assms in auto)

lemma map_region_ok:
  assumes "memory_ok mem" "map_region name base d access mem = Inr mem'"
  shows "memory_ok mem'"
proof -
  obtain device where dev: "mem_devices mem d = Some device" "device_size device \<noteq> 0"
    "\<not> device_size device > address_space_size - unat base"
    "\<not> list_ex (\<lambda>existing. unat base < region_end existing \<and>
       region_start existing < unat base + device_size device) (mem_regions mem)"
    using assms(2) by (auto simp: map_region_def Let_def split: option.splits if_splits)
  define m where "m = \<lparr>mr_info = \<lparr>ri_name = name, ri_base_address = base,
    ri_size = device_size device, ri_access = access\<rparr>, mr_device = d\<rparr>"
  define mem1 where "mem1 = mem\<lparr>mem_regions := sort_key region_start (mem_regions mem @ [m])\<rparr>"
  have mem': "mem' = refresh_direct_linear_access_state (rebuild_region_index mem1)"
    using assms(2) dev by (auto simp: map_region_def mem1_def m_def Let_def split: if_splits)
  have "unat base < address_space_size"
    using unsigned_less [of base] by (simp add: address_space_size_def)
  then have "sorted_wrt (\<lambda>a b. region_end a \<le> region_start b)
      (sort_key region_start (mem_regions mem @ [m]))"
    using assms(1) dev by (intro regions_insert) (auto simp: memory_ok_def regions_ok_def m_def
        list_ex_iff)
  then have "regions_ok (rebuild_region_index mem1)"
    using assms(1) dev \<open>unat base < address_space_size\<close>
    by (auto simp: regions_ok_def memory_ok_def rebuild_region_index_def mem1_def m_def)
  moreover have "window_ok (rebuild_region_index mem1)"
    using assms(1) unfolding memory_ok_def window_ok_def
    by (fastforce simp: rebuild_region_index_def mem1_def linear_bytes_def)
  ultimately show ?thesis
    unfolding mem' by (intro refresh_ok) (simp_all add: rebuild_region_index_def)
qed

lemma bind_window_ok:
  assumes "memory_ok mem" "bind_direct_linear_alias_window base span d mem = Inr mem'"
  shows "memory_ok mem'"
proof -
  let ?mem = "\<lambda>bytes. mem\<lparr>mem_direct_backing := Some d, mem_direct_physical_base := base,
    mem_direct_physical_span := span, mem_direct_backing_mask := of_nat (length bytes - 1)\<rparr>"
  obtain bytes where b: "linear_bytes mem d = Some bytes" "length bytes \<le> 0xFFFFFFFF"
    "single_bit (length bytes)" "unat span mod length bytes = 0"
    "unat base + unat span \<le> address_space_size"
    "list_all (alias_mapped mem d (length bytes)) (window_aliases base span (length bytes))"
    and mem': "mem' = refresh_direct_linear_access_state (?mem bytes)"
    using assms(2) by (auto simp: bind_direct_linear_alias_window_def Let_def
        split: option.splits if_splits)
  obtain k where k: "length bytes = 2 ^ k" using b(3) by (auto simp: single_bit_def list_ex_iff)
  have "k < 32"
  proof (rule ccontr)
    assume "\<not> k < 32"
    then have "(2::nat) ^ 32 \<le> 2 ^ k" by (intro power_increasing) auto
    then show False using b(2) k by simp
  qed
  have "\<exists>m \<in> set (mem_regions mem). covers mirror (mirror + length bytes) m \<and> mr_device m = d \<and>
      ri_access (mr_info m) = RegionReadWrite"
    if "mirror \<in> set (window_aliases base span (length bytes))" for mirror
    using b(6) that
    by (auto simp: list_all_iff alias_mapped_def find_Some_iff split: option.splits) force
  then have "window_ok (?mem bytes)"
    using b k \<open>k < 32\<close> by (auto simp: window_ok_def linear_bytes_def intro!: exI [of _ k])
  then show ?thesis
    unfolding mem' using assms(1)
    by (intro refresh_ok) (auto simp: memory_ok_def regions_ok_def)
qed

lemma refresh_fields_ok:
  assumes "memory_ok mem" "mem_devices mem' = mem_devices mem" "mem_regions mem' = mem_regions mem"
    "mem_page_index mem' = mem_page_index mem" "mem_direct_backing mem' = mem_direct_backing mem"
    "mem_direct_physical_base mem' = mem_direct_physical_base mem"
    "mem_direct_physical_span mem' = mem_direct_physical_span mem"
    "mem_direct_backing_mask mem' = mem_direct_backing_mask mem"
  shows "memory_ok (refresh_direct_linear_access_state mem')"
proof -
  have "linear_bytes mem' = linear_bytes mem" using assms(2) by (simp add: linear_bytes_def fun_eq_iff)
  then show ?thesis
    using assms by (intro refresh_ok) (simp_all add: memory_ok_def regions_ok_def window_ok_def)
qed

text \<open>One operation on the memory, and the memories the runtime can reach.\<close>

inductive memory_step :: "'d DeviceOps \<Rightarrow> 'd Memory \<Rightarrow> 'd Memory \<Rightarrow> bool" for ops where
  step_map: "map_region name base d access mem = Inr mem' \<Longrightarrow> memory_step ops mem mem'"
| step_bind: "bind_direct_linear_alias_window base span d mem = Inr mem' \<Longrightarrow> memory_step ops mem mem'"
| step_clear_window: "memory_step ops mem (clear_direct_linear_alias_window mem)"
| step_read: "memory_step ops mem (snd (read_at ops width address context mem))"
| step_write: "memory_step ops mem (snd (write_at ops width address v context source mem))"
| step_direct_write:
    "try_write_direct_linear width address v source mem = Some mem' \<Longrightarrow> memory_step ops mem mem'"
| step_alignment: "memory_step ops mem (set_alignment_policy policy mem)"
| step_lookup: "memory_step ops mem (set_lookup_mode mode mem)"
| step_watch: "add_watchpoint address n access observer mem = Inr (i, mem') \<Longrightarrow> memory_step ops mem mem'"
| step_unwatch: "memory_step ops mem (snd (remove_watchpoint i mem))"
| step_clear_watch: "memory_step ops mem (clear_watchpoints mem)"
| step_trace: "memory_step ops mem (set_trace_handler present mem)"
| step_mmio_tracking: "memory_step ops mem (set_mmio_access_tracking enabled mem)"
| step_mmio_trace: "memory_step ops mem (set_mmio_trace_handler present mem)"
| step_interrupt_sink: "memory_step ops mem (set_mmio_interrupt_state_sink present mem)"
| step_write_observer: "memory_step ops mem (set_guest_write_observer present contract mem)"
| step_clear_observer: "memory_step ops mem (clear_guest_write_observer mem)"
| step_batch_observer: "memory_step ops mem (set_guest_write_batch_observer present mem)"
| step_access_sink: "memory_step ops mem (set_guest_memory_access_sink present mem)"

inductive reachable_memory :: "'d DeviceOps \<Rightarrow> 'd Memory \<Rightarrow> bool" for ops where
  reachable_empty: "reachable_memory ops (empty_memory policy devices world)"
| reachable_step: "reachable_memory ops mem \<Longrightarrow> memory_step ops mem mem' \<Longrightarrow> reachable_memory ops mem'"

lemma empty_memory_ok: "memory_ok (empty_memory policy devices world)"
  by (simp add: memory_ok_def regions_ok_def window_ok_def direct_flags_ok_def empty_memory_def
      build_region_index_def)

lemma memory_step_ok: "memory_step ops mem mem' \<Longrightarrow> memory_ok mem \<Longrightarrow> memory_ok mem'"
proof (induction rule: memory_step.induct)
  case (step_clear_window mem)
  then show ?case
    unfolding clear_direct_linear_alias_window_def
    by (intro refresh_ok) (auto simp: memory_ok_def regions_ok_def window_ok_def)
next
  case (step_watch address n access observer mem i mem')
  then have "mem' = refresh_direct_linear_access_state (mem\<lparr>mem_next_watchpoint_id := i + 1,
      mem_watchpoints := mem_watchpoints mem @ [\<lparr>wp_id = i, wp_address = address, wp_size = n,
        wp_access = access\<rparr>]\<rparr>)"
    by (auto simp: add_watchpoint_def Let_def split: if_splits)
  then show ?case using step_watch.prems by (auto intro: refresh_fields_ok)
next
  case (step_alignment mem policy)
  then show ?case
    by (auto intro: same_layout_ok [of mem] simp: set_alignment_policy_def same_layout_def
        linear_bytes_def)
next
  case (step_mmio_tracking mem enabled)
  then show ?case
    by (auto intro: same_layout_ok [of mem] simp: set_mmio_access_tracking_def same_layout_def
        linear_bytes_def)
next
  case (step_mmio_trace mem present)
  then show ?case
    by (auto intro: same_layout_ok [of mem] simp: set_mmio_trace_handler_def same_layout_def
        linear_bytes_def)
next
  case (step_interrupt_sink mem present)
  then show ?case
    by (auto intro: same_layout_ok [of mem] simp: set_mmio_interrupt_state_sink_def same_layout_def
        linear_bytes_def)
qed (auto intro: map_region_ok bind_window_ok same_layout_ok read_at_layout write_at_layout
      try_write_layout refresh_fields_ok
    simp: set_lookup_mode_def remove_watchpoint_def clear_watchpoints_def set_trace_handler_def
      set_guest_write_observer_def clear_guest_write_observer_def bump_observer_generation_def
      set_guest_write_batch_observer_def set_guest_memory_access_sink_def)

lemma reachable_memory_ok: "reachable_memory ops mem \<Longrightarrow> memory_ok mem"
  by (induction rule: reachable_memory.induct) (auto intro: empty_memory_ok memory_step_ok)

end
