(* ===== verification/Guest_Memory.thy ===== *)
theory Guest_Memory
  imports Cpu_State Memory_Correct
begin

text \<open>
  The guest accessors (\<open>src/runtime/runtime.cpp\<close>): virtual alignment, translation through the address
  space of the CPU, the direct path for untranslated main RAM, and the rewriting of access errors.
  The CPU state of the model has no memory, so an accessor runs on the pair of the two.
\<close>

type_synonym 'd machine = "CpuState \<times> 'd Memory"

type_synonym ('d, 'a) outcome = "(guest_error + 'a) \<times> 'd machine"

text \<open>Sequencing: an exception ends an access and keeps the state.\<close>

definition then_guest ::
    "('d, 'a) outcome \<Rightarrow> ('a \<Rightarrow> 'd machine \<Rightarrow> ('d, 'b) outcome) \<Rightarrow> ('d, 'b) outcome" where
  "then_guest result f = (case result of (Inl e, s) \<Rightarrow> (Inl e, s) | (Inr v, s) \<Rightarrow> f v s)"

lemma then_guest_simps [simp]:
  "then_guest (Inl e, s) f = (Inl e, s)" "then_guest (Inr v, s) f = f v s"
  by (simp_all add: then_guest_def)

subsection \<open>Translation\<close>

fun translation_reason :: "ExceptionCause \<Rightarrow> MemoryAccessErrorReason" where
  "translation_reason TlbMissRead = ReasonTlbMiss"
| "translation_reason TlbMissWrite = ReasonTlbMiss"
| "translation_reason TlbMultipleHit = ReasonTlbMultipleHit"
| "translation_reason InitialPageWrite = ReasonInitialPageWrite"
| "translation_reason TlbProtectionRead = ReasonTlbProtection"
| "translation_reason TlbProtectionWrite = ReasonTlbProtection"
| "translation_reason _ = ReasonUnmapped"

definition validate_virtual_alignment ::
    "u32 \<Rightarrow> MemoryAccessOperation \<Rightarrow> MemoryAccessWidth \<Rightarrow> bool \<Rightarrow> guest_error option" where
  "validate_virtual_alignment address operation width instruction =
     (let alignment = (if instruction then 2 else of_nat (width_bytes width))
      in if address AND (alignment - 1) = 0 then None
         else Some (access_error ReasonMisaligned operation address width))"

definition note_translation :: "TranslationResult \<Rightarrow> CpuState \<Rightarrow> CpuState" where
  "note_translation translated cpu =
     (if tr_utlb_slot translated \<noteq> 0xFF then advance_utlb_access_counter 1 cpu else cpu)"

text \<open>
  A \<open>TranslationError\<close> becomes a \<open>MemoryAccessError\<close>; any other exception passes.  The translation
  may refill the ITLB before it fails, so the address space is kept in both cases.
\<close>

definition translation_fault ::
    "MemoryAccessOperation \<Rightarrow> u32 \<Rightarrow> MemoryAccessWidth \<Rightarrow> address_error \<Rightarrow> guest_error" where
  "translation_fault operation address width e = (case e of
       Translation t \<Rightarrow> access_error (translation_reason (te_cause t)) operation address width
     | InvalidArgumentError message \<Rightarrow> OtherException message)"

definition translate_guest_address ::
    "u32 \<Rightarrow> MemoryAccessOperation \<Rightarrow> MemoryAccessWidth \<Rightarrow> bool \<Rightarrow> CpuState \<Rightarrow>
     (guest_error + u32) \<times> CpuState" where
  "translate_guest_address address operation width instruction cpu =
     (case validate_virtual_alignment address operation width instruction of
        Some e \<Rightarrow> (Inl e, cpu)
      | None \<Rightarrow>
          (case cpu_address_space cpu of
             None \<Rightarrow>
               if \<not> privileged_mode cpu \<and> address \<ge> 0x80000000 then
                 (Inl (access_error ReasonUnmapped operation address width), cpu)
               else if instruction \<and> drop_bit 29 address \<ge> 7 then
                 (Inl (access_error ReasonUnmapped operation address width), cpu)
               else (Inr (canonical_physical_address address), cpu)
           | Some space \<Rightarrow>
               let access = (if instruction then InstructionFetch
                             else if operation = WriteAccess then DataWrite else DataRead);
                   (result, space) = translate space address access (privileged_mode cpu);
                   cpu = cpu\<lparr>cpu_address_space := Some space\<rparr>
               in case result of
                    Inl e \<Rightarrow> (Inl (translation_fault operation address width e), cpu)
                  | Inr translated \<Rightarrow>
                      (Inr (tr_physical_address translated), note_translation translated cpu)))"

text \<open>
  Untranslated main RAM: aligned, in P1 or P2 for a privileged CPU, or in any segment below P4 without
  the MMU; the physical address must lie in the RAM window.
\<close>

definition main_ram_base :: u32 where "main_ram_base = 0x0C000000"

definition main_ram_end :: u32 where "main_ram_end = 0x0C000000 + 0x01000000 * 4"

definition direct_untranslated_data_physical ::
    "CpuState \<Rightarrow> u32 \<Rightarrow> MemoryAccessWidth \<Rightarrow> u32 option" where
  "direct_untranslated_data_physical cpu address width =
     (let in_ram = (\<lambda>physical. if main_ram_base \<le> physical \<and> physical < main_ram_end
                               then Some physical else None)
      in if address AND (of_nat (width_bytes width) - 1) \<noteq> 0 then None
         else if drop_bit 29 address = 4 \<or> drop_bit 29 address = 5 then
           (if \<not> privileged_mode cpu then None else in_ram (canonical_physical_address address))
         else
           let no_mmu = (case cpu_address_space cpu of None \<Rightarrow> True
                         | Some space \<Rightarrow> as_mode space = NoMmu)
           in if \<not> no_mmu \<or> drop_bit 29 address \<ge> 7 \<or>
                 (\<not> privileged_mode cpu \<and> address \<ge> 0x80000000) then None
              else in_ram (canonical_physical_address address))"

subsection \<open>Access errors\<close>

text \<open>An access error carries the virtual address and, when it has none, the instruction.\<close>

definition with_guest_virtual_address :: "u32 \<Rightarrow> ('d, 'a) outcome \<Rightarrow> ('d, 'a) outcome" where
  "with_guest_virtual_address virtual_address result = (case result of
       (Inl (AccessError e), s) \<Rightarrow>
         (Inl (AccessError (if err_address e = virtual_address then e
                            else e\<lparr>err_address := virtual_address\<rparr>)), s)
     | _ \<Rightarrow> result)"

definition with_guest_instruction_origin ::
    "u32 \<Rightarrow> GuestInstructionOrigin \<Rightarrow> ('d, 'a) outcome \<Rightarrow> ('d, 'a) outcome" where
  "with_guest_instruction_origin virtual_address origin result =
     (case with_guest_virtual_address virtual_address result of
       (Inl (AccessError e), s) \<Rightarrow>
         (Inl (AccessError (if go_valid (err_instruction e) then e
                            else e\<lparr>err_instruction := origin\<rparr>)), s)
     | _ \<Rightarrow> with_guest_virtual_address virtual_address result)"

subsection \<open>Accessors\<close>

definition on_cpu :: "(guest_error + 'a) \<times> CpuState \<Rightarrow> 'd Memory \<Rightarrow> ('d, 'a) outcome" where
  "on_cpu result mem = (fst result, (snd result, mem))"

definition on_memory :: "CpuState \<Rightarrow> (guest_error + 'a) \<times> 'd Memory \<Rightarrow> ('d, 'a) outcome" where
  "on_memory cpu result = (fst result, (cpu, snd result))"

definition guest_context ::
    "GuestInstructionOrigin \<Rightarrow> u32 \<Rightarrow> CpuState \<Rightarrow> GuestMemoryAccessContext" where
  "guest_context origin virtual_address cpu = \<lparr>gx_virtual_address = virtual_address,
     gx_instruction = origin,
     gx_retired_guest_instructions = cpu_retired_guest_instructions cpu,
     gx_access_origin = MemoryOrigin,
     gx_attempted_guest_instructions = cpu_attempted_guest_instructions cpu\<rparr>"

definition translated_read ::
    "'d DeviceOps \<Rightarrow> MemoryAccessWidth \<Rightarrow> GuestInstructionOrigin \<Rightarrow> u32 \<Rightarrow> 'd machine \<Rightarrow>
     ('d, u32) outcome" where
  "translated_read ops width origin virtual_address s =
     then_guest (on_cpu (translate_guest_address virtual_address ReadAccess width False (fst s)) (snd s))
       (\<lambda>physical (cpu, mem).
          on_memory cpu (read_at ops width physical (guest_context origin virtual_address cpu) mem))"

definition translated_write ::
    "'d DeviceOps \<Rightarrow> MemoryAccessWidth \<Rightarrow> GuestInstructionOrigin \<Rightarrow> u32 \<Rightarrow> u32 \<Rightarrow> CodeWriteSource \<Rightarrow>
     'd machine \<Rightarrow> ('d, unit) outcome" where
  "translated_write ops width origin virtual_address v source s =
     then_guest (on_cpu (translate_guest_address virtual_address WriteAccess width False (fst s)) (snd s))
       (\<lambda>physical (cpu, mem).
          on_memory cpu (write_at ops width physical v (guest_context origin virtual_address cpu)
            source mem))"

text \<open>The three widths of each accessor differ in the width alone.\<close>

definition guest_read_at ::
    "'d DeviceOps \<Rightarrow> MemoryAccessWidth \<Rightarrow> GuestInstructionOrigin \<Rightarrow> u32 \<Rightarrow> 'd machine \<Rightarrow>
     ('d, u32) outcome" where
  "guest_read_at ops width origin virtual_address s =
     with_guest_instruction_origin virtual_address origin
       (case Option.bind (direct_untranslated_data_physical (fst s) virtual_address width)
               (try_read_direct_linear (snd s) width) of
          Some v \<Rightarrow> (Inr v, s)
        | None \<Rightarrow> translated_read ops width origin virtual_address s)"

definition guest_write_at ::
    "'d DeviceOps \<Rightarrow> MemoryAccessWidth \<Rightarrow> GuestInstructionOrigin \<Rightarrow> u32 \<Rightarrow> u32 \<Rightarrow> CodeWriteSource \<Rightarrow>
     'd machine \<Rightarrow> ('d, unit) outcome" where
  "guest_write_at ops width origin virtual_address v source s =
     with_guest_instruction_origin virtual_address origin
       (case Option.bind (direct_untranslated_data_physical (fst s) virtual_address width)
               (\<lambda>physical. try_write_direct_linear width physical v source (snd s)) of
          Some mem \<Rightarrow> (Inr (), (fst s, mem))
        | None \<Rightarrow> translated_write ops width origin virtual_address v source s)"

definition guest_read_u8_at ::
    "'d DeviceOps \<Rightarrow> GuestInstructionOrigin \<Rightarrow> u32 \<Rightarrow> 'd machine \<Rightarrow> ('d, u8) outcome" where
  "guest_read_u8_at ops origin address s =
     map_prod (map_sum id ucast) id (guest_read_at ops ByteAccess origin address s)"

definition guest_read_u16_at ::
    "'d DeviceOps \<Rightarrow> GuestInstructionOrigin \<Rightarrow> u32 \<Rightarrow> 'd machine \<Rightarrow> ('d, u16) outcome" where
  "guest_read_u16_at ops origin address s =
     map_prod (map_sum id ucast) id (guest_read_at ops HalfwordAccess origin address s)"

definition guest_read_u32_at ::
    "'d DeviceOps \<Rightarrow> GuestInstructionOrigin \<Rightarrow> u32 \<Rightarrow> 'd machine \<Rightarrow> ('d, u32) outcome" where
  "guest_read_u32_at ops origin address s = guest_read_at ops WordAccess origin address s"

definition guest_read_s8_at ::
    "'d DeviceOps \<Rightarrow> GuestInstructionOrigin \<Rightarrow> u32 \<Rightarrow> 'd machine \<Rightarrow> ('d, int) outcome" where
  "guest_read_s8_at ops origin address s =
     map_prod (map_sum id sint) id (guest_read_u8_at ops origin address s)"

definition guest_read_s16_at ::
    "'d DeviceOps \<Rightarrow> GuestInstructionOrigin \<Rightarrow> u32 \<Rightarrow> 'd machine \<Rightarrow> ('d, int) outcome" where
  "guest_read_s16_at ops origin address s =
     map_prod (map_sum id sint) id (guest_read_u16_at ops origin address s)"

definition guest_write_u8_at ::
    "'d DeviceOps \<Rightarrow> GuestInstructionOrigin \<Rightarrow> u32 \<Rightarrow> u8 \<Rightarrow> CodeWriteSource \<Rightarrow> 'd machine \<Rightarrow>
     ('d, unit) outcome" where
  "guest_write_u8_at ops origin address v source s =
     guest_write_at ops ByteAccess origin address (ucast v) source s"

definition guest_write_u16_at ::
    "'d DeviceOps \<Rightarrow> GuestInstructionOrigin \<Rightarrow> u32 \<Rightarrow> u16 \<Rightarrow> CodeWriteSource \<Rightarrow> 'd machine \<Rightarrow>
     ('d, unit) outcome" where
  "guest_write_u16_at ops origin address v source s =
     guest_write_at ops HalfwordAccess origin address (ucast v) source s"

definition guest_write_u32_at ::
    "'d DeviceOps \<Rightarrow> GuestInstructionOrigin \<Rightarrow> u32 \<Rightarrow> u32 \<Rightarrow> CodeWriteSource \<Rightarrow> 'd machine \<Rightarrow>
     ('d, unit) outcome" where
  "guest_write_u32_at ops origin address v source s =
     guest_write_at ops WordAccess origin address v source s"

definition guest_fetch_u16 :: "'d DeviceOps \<Rightarrow> u32 \<Rightarrow> 'd machine \<Rightarrow> ('d, u16) outcome" where
  "guest_fetch_u16 ops address s =
     then_guest (on_cpu (translate_guest_address address ReadAccess HalfwordAccess True (fst s)) (snd s))
       (\<lambda>physical (cpu, mem).
          let cpu = cpu\<lparr>cpu_active_instruction_physical_pc := physical\<rparr>
          in with_guest_virtual_address address
               (on_memory cpu (read_u16_at ops physical (plain_context physical) mem)))"

subsection \<open>The direct path is the translated path\<close>

lemma canonical_on_chip_outside:
  "address AND 0xFC000000 = 0x7C000000 \<Longrightarrow>
     \<not> (main_ram_base \<le> canonical_physical_address address \<and>
        canonical_physical_address address < main_ram_end)"
proof -
  assume on_chip: "address AND 0xFC000000 = 0x7C000000"
  have "address AND 0xFC000000 \<le> address" by (rule word_and_le2)
  then have "(0x7C000000 :: u32) \<le> address" using on_chip by simp
  then have "(0x10000000 :: u32) \<le> address" by (rule order_trans [rotated]) simp
  then show ?thesis
    using on_chip by (simp add: canonical_physical_address_def main_ram_end_def not_less)
qed

lemma direct_is_translated:
  assumes "direct_untranslated_data_physical cpu address width = Some physical"
  shows "translate_guest_address address operation width False cpu = (Inr physical, cpu)"
proof -
  have aligned: "validate_virtual_alignment address operation width False = None"
    using assms by (simp add: direct_untranslated_data_physical_def validate_virtual_alignment_def
        Let_def split: if_splits)
  have p: "physical = canonical_physical_address address"
    and ram: "main_ram_base \<le> physical" "physical < main_ram_end"
    using assms by (auto simp: direct_untranslated_data_physical_def Let_def
        split: if_splits option.splits)
  have on_chip: "address AND 0xFC000000 \<noteq> 0x7C000000" using canonical_on_chip_outside p ram by blast
  have seg: "segment address = drop_bit 29 address" by (simp add: segment_def)
  have user: "privileged_mode cpu \<or> \<not> address \<ge> 0x80000000"
  proof (cases "drop_bit 29 address = 4 \<or> drop_bit 29 address = 5")
    case True
    then show ?thesis using assms
      by (auto simp: direct_untranslated_data_physical_def Let_def split: if_splits)
  next
    case False
    then show ?thesis using assms
      by (auto simp: direct_untranslated_data_physical_def Let_def split: if_splits option.splits)
  qed
  show ?thesis
  proof (cases "cpu_address_space cpu")
    case None
    then show ?thesis using aligned user p by (auto simp: translate_guest_address_def)
  next
    case (Some space)
    have "translate space address access (privileged_mode cpu) =
        (Inr (direct_result space address physical), space)" if "access \<noteq> InstructionFetch" for access
      using assms Some that user on_chip p
      by (auto simp: translate_def translate_impl_def direct_untranslated_data_physical_def Let_def
          seg sh4_on_chip_ram_address_def split: if_splits)
    moreover have "cpu\<lparr>cpu_address_space := Some space\<rparr> = cpu" using Some by simp
    ultimately show ?thesis
      using Some aligned by (cases operation)
        (simp_all add: translate_guest_address_def Let_def note_translation_def direct_result_def)
  qed
qed

lemma guest_read_translated:
  assumes "memory_ok (snd s)"
  shows "guest_read_at ops width origin address s =
    with_guest_instruction_origin address origin (translated_read ops width origin address s)"
proof (cases "Option.bind (direct_untranslated_data_physical (fst s) address width)
    (try_read_direct_linear (snd s) width)")
  case (Some v)
  then obtain physical where "direct_untranslated_data_physical (fst s) address width = Some physical"
    and "try_read_direct_linear (snd s) width physical = Some v"
    by (auto simp: bind_eq_Some_conv)
  then have "translated_read ops width origin address s = (Inr v, s)"
    using try_read_direct_linear_read_at [OF assms] direct_is_translated
    by (cases s) (simp add: translated_read_def on_cpu_def on_memory_def)
  then show ?thesis using Some by (simp add: guest_read_at_def)
qed (simp add: guest_read_at_def)

lemma guest_write_translated:
  assumes "memory_ok (snd s)"
  shows "guest_write_at ops width origin address v source s =
    with_guest_instruction_origin address origin
      (translated_write ops width origin address v source s)"
proof (cases "Option.bind (direct_untranslated_data_physical (fst s) address width)
    (\<lambda>physical. try_write_direct_linear width physical v source (snd s))")
  case (Some mem)
  then obtain physical where "direct_untranslated_data_physical (fst s) address width = Some physical"
    and "try_write_direct_linear width physical v source (snd s) = Some mem"
    by (auto simp: bind_eq_Some_conv)
  then have "translated_write ops width origin address v source s = (Inr (), (fst s, mem))"
    using try_write_direct_linear_write_at [OF assms] direct_is_translated
    by (cases s) (simp add: translated_write_def on_cpu_def on_memory_def)
  then show ?thesis using Some by (simp add: guest_write_at_def)
qed (simp add: guest_write_at_def)

end
