(* ===== verification/Memory_Instructions.thy ===== *)
theory Memory_Instructions
  imports Interpreter Guest_Memory
begin

text \<open>
  The instructions that access memory or special registers: the statements the emitter prints
  (\<open>emit_simple_instruction_raw\<close>, \<open>special_register_read_expression\<close> and
  \<open>emit_special_register_write\<close> of \<open>src/codegen/cpp_emitter.cpp\<close>), the cases of the dynamic interpreter
  (\<open>execute_one\<close>, \<open>special_read\<close> and \<open>special_write\<close> of \<open>src/runtime/dynamic_interpreter.cpp\<close>), and
  their agreement.

  Both sides access memory through a read and a write function.  For the interpreter these are the
  guest accessors of the runtime.  The emitted code calls the same accessors, or a helper that tries
  the direct window first and falls back to them.
\<close>

type_synonym 'd reader = "MemoryAccessWidth \<Rightarrow> u32 \<Rightarrow> 'd machine \<Rightarrow> ('d, u32) outcome"

type_synonym 'd writer =
  "MemoryAccessWidth \<Rightarrow> u32 \<Rightarrow> u32 \<Rightarrow> CodeWriteSource \<Rightarrow> 'd machine \<Rightarrow> ('d, unit) outcome"

definition on_registers :: "(CpuState \<Rightarrow> CpuState) \<Rightarrow> 'd machine \<Rightarrow> ('d, unit) outcome" where
  "on_registers f s = (Inr (), (f (fst s), snd s))"

definition signed_byte :: "u32 \<Rightarrow> u32" where
  "signed_byte v = to_u32 (sint (ucast v :: u8))"

definition signed_word :: "u32 \<Rightarrow> u32" where
  "signed_word v = to_u32 (sint (ucast v :: u16))"

text \<open>\<open>cpu.r[n] = convert(read(address))\<close>\<close>

definition load_register ::
    "'d reader \<Rightarrow> MemoryAccessWidth \<Rightarrow> (u32 \<Rightarrow> u32) \<Rightarrow> reg \<Rightarrow> u32 \<Rightarrow> 'd machine \<Rightarrow> ('d, unit) outcome" where
  "load_register rd width convert n address s =
     then_guest (rd width address s) (\<lambda>v. on_registers (set_r n (convert v)))"

subsection \<open>Special registers\<close>

definition special_register_read_expression :: "IrSpecialRegister \<Rightarrow> CpuState \<Rightarrow> guest_error + u32" where
  "special_register_read_expression r cpu = (case r of
       IrSpecialRegister.Mach \<Rightarrow> Inr (cpu_mach cpu) | IrSpecialRegister.Macl \<Rightarrow> Inr (cpu_macl cpu)
     | IrSpecialRegister.Pr \<Rightarrow> Inr (cpu_pr cpu) | IrSpecialRegister.Fpul \<Rightarrow> Inr (cpu_fpul cpu)
     | IrSpecialRegister.Fpscr \<Rightarrow> Inr (cpu_fpscr cpu) | IrSpecialRegister.Sr \<Rightarrow> Inr (read_sr cpu)
     | IrSpecialRegister.Gbr \<Rightarrow> Inr (cpu_gbr cpu) | IrSpecialRegister.Vbr \<Rightarrow> Inr (cpu_vbr cpu)
     | IrSpecialRegister.Ssr \<Rightarrow> Inr (cpu_ssr cpu) | IrSpecialRegister.Spc \<Rightarrow> Inr (cpu_spc cpu)
     | IrSpecialRegister.Sgr \<Rightarrow> Inr (cpu_sgr cpu) | IrSpecialRegister.Dbr \<Rightarrow> Inr (cpu_dbr cpu)
     | IrSpecialRegister.Bank0 \<Rightarrow> Inr (cpu_r_bank cpu 0) | IrSpecialRegister.Bank1 \<Rightarrow> Inr (cpu_r_bank cpu 1)
     | IrSpecialRegister.Bank2 \<Rightarrow> Inr (cpu_r_bank cpu 2) | IrSpecialRegister.Bank3 \<Rightarrow> Inr (cpu_r_bank cpu 3)
     | IrSpecialRegister.Bank4 \<Rightarrow> Inr (cpu_r_bank cpu 4) | IrSpecialRegister.Bank5 \<Rightarrow> Inr (cpu_r_bank cpu 5)
     | IrSpecialRegister.Bank6 \<Rightarrow> Inr (cpu_r_bank cpu 6) | IrSpecialRegister.Bank7 \<Rightarrow> Inr (cpu_r_bank cpu 7)
     | NoneRegister \<Rightarrow> Inl (OtherException ''IR-Transfer ohne Spezialregister.''))"

definition set_bank :: "nat \<Rightarrow> u32 \<Rightarrow> CpuState \<Rightarrow> CpuState" where
  "set_bank k v cpu = cpu\<lparr>cpu_r_bank := (cpu_r_bank cpu)(k := v)\<rparr>"

text \<open>A register without a load instruction stops the emitter.\<close>

definition emit_special_register_write ::
    "IrSpecialRegister \<Rightarrow> u32 \<Rightarrow> 'd machine \<Rightarrow> ('d, unit) outcome" where
  "emit_special_register_write r v s = (case r of
       IrSpecialRegister.Mach \<Rightarrow> on_registers (cpu_mach_update (\<lambda>_. v)) s
     | IrSpecialRegister.Macl \<Rightarrow> on_registers (cpu_macl_update (\<lambda>_. v)) s
     | IrSpecialRegister.Pr \<Rightarrow> on_registers (cpu_pr_update (\<lambda>_. v)) s
     | IrSpecialRegister.Fpul \<Rightarrow> on_registers (cpu_fpul_update (\<lambda>_. v)) s
     | IrSpecialRegister.Fpscr \<Rightarrow> on_registers (write_fpscr v) s
     | IrSpecialRegister.Sr \<Rightarrow> on_registers (write_sr v) s
     | IrSpecialRegister.Gbr \<Rightarrow> on_registers (cpu_gbr_update (\<lambda>_. v)) s
     | IrSpecialRegister.Vbr \<Rightarrow> on_registers (cpu_vbr_update (\<lambda>_. v)) s
     | IrSpecialRegister.Ssr \<Rightarrow> on_registers (cpu_ssr_update (\<lambda>_. v)) s
     | IrSpecialRegister.Spc \<Rightarrow> on_registers (cpu_spc_update (\<lambda>_. v)) s
     | IrSpecialRegister.Sgr \<Rightarrow> (Inl (OtherException ''SGR kann nicht mit LDC geladen werden.''), s)
     | IrSpecialRegister.Dbr \<Rightarrow> on_registers (cpu_dbr_update (\<lambda>_. v)) s
     | IrSpecialRegister.Bank0 \<Rightarrow> on_registers (set_bank 0 v) s
     | IrSpecialRegister.Bank1 \<Rightarrow> on_registers (set_bank 1 v) s
     | IrSpecialRegister.Bank2 \<Rightarrow> on_registers (set_bank 2 v) s
     | IrSpecialRegister.Bank3 \<Rightarrow> on_registers (set_bank 3 v) s
     | IrSpecialRegister.Bank4 \<Rightarrow> on_registers (set_bank 4 v) s
     | IrSpecialRegister.Bank5 \<Rightarrow> on_registers (set_bank 5 v) s
     | IrSpecialRegister.Bank6 \<Rightarrow> on_registers (set_bank 6 v) s
     | IrSpecialRegister.Bank7 \<Rightarrow> on_registers (set_bank 7 v) s
     | NoneRegister \<Rightarrow> (Inl (OtherException ''IR-Transfer ohne Spezialregister.''), s))"

text \<open>The interpreter: the bank registers by their distance from \<open>Bank0\<close>.\<close>

fun bank_distance :: "SpecialRegister \<Rightarrow> nat option" where
  "bank_distance SpecialRegister.Bank0 = Some 0" | "bank_distance SpecialRegister.Bank1 = Some 1"
| "bank_distance SpecialRegister.Bank2 = Some 2" | "bank_distance SpecialRegister.Bank3 = Some 3"
| "bank_distance SpecialRegister.Bank4 = Some 4" | "bank_distance SpecialRegister.Bank5 = Some 5"
| "bank_distance SpecialRegister.Bank6 = Some 6" | "bank_distance SpecialRegister.Bank7 = Some 7"
| "bank_distance _ = None"

definition special_read :: "SpecialRegister \<Rightarrow> CpuState \<Rightarrow> guest_error + u32" where
  "special_read r cpu = (case r of
       SpecialRegister.Mach \<Rightarrow> Inr (cpu_mach cpu) | SpecialRegister.Macl \<Rightarrow> Inr (cpu_macl cpu)
     | SpecialRegister.Pr \<Rightarrow> Inr (cpu_pr cpu) | SpecialRegister.Fpul \<Rightarrow> Inr (cpu_fpul cpu)
     | SpecialRegister.Fpscr \<Rightarrow> Inr (read_fpscr cpu) | SpecialRegister.Sr \<Rightarrow> Inr (read_sr cpu)
     | SpecialRegister.Gbr \<Rightarrow> Inr (cpu_gbr cpu) | SpecialRegister.Vbr \<Rightarrow> Inr (cpu_vbr cpu)
     | SpecialRegister.Ssr \<Rightarrow> Inr (cpu_ssr cpu) | SpecialRegister.Spc \<Rightarrow> Inr (cpu_spc cpu)
     | SpecialRegister.Sgr \<Rightarrow> Inr (cpu_sgr cpu) | SpecialRegister.Dbr \<Rightarrow> Inr (cpu_dbr cpu)
     | _ \<Rightarrow> (case bank_distance r of Some k \<Rightarrow> Inr (cpu_r_bank cpu k)
             | None \<Rightarrow> Inl (OtherException
                 ''Dynamischer SH-4-Pfad liest ein unbekanntes Spezialregister.'')))"

definition special_write :: "SpecialRegister \<Rightarrow> u32 \<Rightarrow> 'd machine \<Rightarrow> ('d, unit) outcome" where
  "special_write r v s = (case r of
       SpecialRegister.Mach \<Rightarrow> on_registers (cpu_mach_update (\<lambda>_. v)) s
     | SpecialRegister.Macl \<Rightarrow> on_registers (cpu_macl_update (\<lambda>_. v)) s
     | SpecialRegister.Pr \<Rightarrow> on_registers (cpu_pr_update (\<lambda>_. v)) s
     | SpecialRegister.Fpul \<Rightarrow> on_registers (cpu_fpul_update (\<lambda>_. v)) s
     | SpecialRegister.Fpscr \<Rightarrow> on_registers (write_fpscr v) s
     | SpecialRegister.Sr \<Rightarrow> on_registers (write_sr v) s
     | SpecialRegister.Gbr \<Rightarrow> on_registers (cpu_gbr_update (\<lambda>_. v)) s
     | SpecialRegister.Vbr \<Rightarrow> on_registers (cpu_vbr_update (\<lambda>_. v)) s
     | SpecialRegister.Ssr \<Rightarrow> on_registers (cpu_ssr_update (\<lambda>_. v)) s
     | SpecialRegister.Spc \<Rightarrow> on_registers (cpu_spc_update (\<lambda>_. v)) s
     | SpecialRegister.Sgr \<Rightarrow> on_registers (cpu_sgr_update (\<lambda>_. v)) s
     | SpecialRegister.Dbr \<Rightarrow> on_registers (cpu_dbr_update (\<lambda>_. v)) s
     | _ \<Rightarrow> (case bank_distance r of Some k \<Rightarrow> on_registers (set_bank k v) s
             | None \<Rightarrow> (Inl (OtherException
                 ''Dynamischer SH-4-Pfad schreibt ein unbekanntes Spezialregister.''), s)))"

subsection \<open>Emitted code\<close>

text \<open>\<open>value - 1\<close>, \<open>- 2\<close>, \<open>- 4\<close>: the store happens before the register changes.\<close>

definition emitted_store_predecrement ::
    "'d writer \<Rightarrow> MemoryAccessWidth \<Rightarrow> (u32 \<Rightarrow> u32) \<Rightarrow> reg \<Rightarrow> reg \<Rightarrow> 'd machine \<Rightarrow> ('d, unit) outcome" where
  "emitted_store_predecrement wr width narrow n m s =
     (let v = cpu_r (fst s) m; address = cpu_r (fst s) n - of_nat (width_bytes width)
      in then_guest (wr width address (narrow v) CpuWrite s) (\<lambda>_. on_registers (set_r n address)))"

definition emitted_load_postincrement ::
    "'d reader \<Rightarrow> MemoryAccessWidth \<Rightarrow> (u32 \<Rightarrow> u32) \<Rightarrow> reg \<Rightarrow> reg \<Rightarrow> 'd machine \<Rightarrow> ('d, unit) outcome" where
  "emitted_load_postincrement rd width convert n m s =
     (let address = cpu_r (fst s) m
      in then_guest (rd width address s) (\<lambda>v. on_registers (\<lambda>cpu.
           let cpu = set_r n (convert v) cpu
           in if m = n then cpu else set_r m (address + of_nat (width_bytes width)) cpu)))"

definition narrow_byte :: "u32 \<Rightarrow> u32" where "narrow_byte v = ucast (ucast v :: u8)"

definition narrow_word :: "u32 \<Rightarrow> u32" where "narrow_word v = ucast (ucast v :: u16)"

definition pc_relative_missing :: "'d machine \<Rightarrow> ('d, 'a) outcome" where
  "pc_relative_missing s = (Inl (OtherException ''effektive Adresse''), s)"

fun exec_memory ::
    "(u32 \<Rightarrow> u32) \<Rightarrow> 'd reader \<Rightarrow> 'd writer \<Rightarrow> MemoryOp \<Rightarrow> Instruction \<Rightarrow> 'd machine \<Rightarrow>
     ('d, unit) outcome" where
  "exec_memory relocate rd wr MemoryOp.LoadByteSigned i s =
     load_register rd ByteAccess signed_byte (ir_destination_register i)
       (cpu_r (fst s) (ir_source_register i)) s"
| "exec_memory relocate rd wr MemoryOp.LoadWordSigned i s =
     load_register rd HalfwordAccess signed_word (ir_destination_register i)
       (cpu_r (fst s) (ir_source_register i)) s"
| "exec_memory relocate rd wr MemoryOp.LoadLong i s =
     (case ir_forwarded_value_register i of
        Some forwarded \<Rightarrow>
          let forwarded_value = cpu_r (fst s) forwarded
          in then_guest (rd WordAccess (cpu_r (fst s) (ir_source_register i)) s)
               (\<lambda>_. on_registers (set_r (ir_destination_register i) forwarded_value))
      | None \<Rightarrow>
          load_register rd WordAccess id (ir_destination_register i)
            (cpu_r (fst s) (ir_source_register i)) s)"
| "exec_memory relocate rd wr MemoryOp.StoreByte i s =
     wr ByteAccess (cpu_r (fst s) (ir_destination_register i))
       (narrow_byte (cpu_r (fst s) (ir_source_register i))) CpuWrite s"
| "exec_memory relocate rd wr MemoryOp.StoreWord i s =
     wr HalfwordAccess (cpu_r (fst s) (ir_destination_register i))
       (narrow_word (cpu_r (fst s) (ir_source_register i))) CpuWrite s"
| "exec_memory relocate rd wr MemoryOp.StoreLong i s =
     wr WordAccess (cpu_r (fst s) (ir_destination_register i))
       (cpu_r (fst s) (ir_source_register i)) CpuWrite s"
| "exec_memory relocate rd wr MemoryOp.StoreByteDisplacement i s =
     wr ByteAccess (cpu_r (fst s) (ir_destination_register i) + to_u32 (ir_displacement i))
       (narrow_byte (cpu_r (fst s) (ir_source_register i))) CpuWrite s"
| "exec_memory relocate rd wr MemoryOp.StoreWordDisplacement i s =
     wr HalfwordAccess (cpu_r (fst s) (ir_destination_register i) + to_u32 (ir_displacement i))
       (narrow_word (cpu_r (fst s) (ir_source_register i))) CpuWrite s"
| "exec_memory relocate rd wr MemoryOp.StoreLongDisplacement i s =
     wr WordAccess (cpu_r (fst s) (ir_destination_register i) + to_u32 (ir_displacement i))
       (cpu_r (fst s) (ir_source_register i)) CpuWrite s"
| "exec_memory relocate rd wr MemoryOp.LoadByteSignedDisplacement i s =
     load_register rd ByteAccess signed_byte (ir_destination_register i)
       (cpu_r (fst s) (ir_source_register i) + to_u32 (ir_displacement i)) s"
| "exec_memory relocate rd wr MemoryOp.LoadWordSignedDisplacement i s =
     load_register rd HalfwordAccess signed_word (ir_destination_register i)
       (cpu_r (fst s) (ir_source_register i) + to_u32 (ir_displacement i)) s"
| "exec_memory relocate rd wr MemoryOp.LoadLongDisplacement i s =
     load_register rd WordAccess id (ir_destination_register i)
       (cpu_r (fst s) (ir_source_register i) + to_u32 (ir_displacement i)) s"
| "exec_memory relocate rd wr MemoryOp.StoreByteR0Indexed i s =
     wr ByteAccess (cpu_r (fst s) 0 + cpu_r (fst s) (ir_destination_register i))
       (narrow_byte (cpu_r (fst s) (ir_source_register i))) CpuWrite s"
| "exec_memory relocate rd wr MemoryOp.StoreWordR0Indexed i s =
     wr HalfwordAccess (cpu_r (fst s) 0 + cpu_r (fst s) (ir_destination_register i))
       (narrow_word (cpu_r (fst s) (ir_source_register i))) CpuWrite s"
| "exec_memory relocate rd wr MemoryOp.StoreLongR0Indexed i s =
     wr WordAccess (cpu_r (fst s) 0 + cpu_r (fst s) (ir_destination_register i))
       (cpu_r (fst s) (ir_source_register i)) CpuWrite s"
| "exec_memory relocate rd wr MemoryOp.LoadByteSignedR0Indexed i s =
     load_register rd ByteAccess signed_byte (ir_destination_register i)
       (cpu_r (fst s) 0 + cpu_r (fst s) (ir_source_register i)) s"
| "exec_memory relocate rd wr MemoryOp.LoadWordSignedR0Indexed i s =
     load_register rd HalfwordAccess signed_word (ir_destination_register i)
       (cpu_r (fst s) 0 + cpu_r (fst s) (ir_source_register i)) s"
| "exec_memory relocate rd wr MemoryOp.LoadLongR0Indexed i s =
     load_register rd WordAccess id (ir_destination_register i)
       (cpu_r (fst s) 0 + cpu_r (fst s) (ir_source_register i)) s"
| "exec_memory relocate rd wr MemoryOp.StoreByteGbrDisplacement i s =
     wr ByteAccess (cpu_gbr (fst s) + to_u32 (ir_displacement i))
       (narrow_byte (cpu_r (fst s) 0)) CpuWrite s"
| "exec_memory relocate rd wr MemoryOp.StoreWordGbrDisplacement i s =
     wr HalfwordAccess (cpu_gbr (fst s) + to_u32 (ir_displacement i))
       (narrow_word (cpu_r (fst s) 0)) CpuWrite s"
| "exec_memory relocate rd wr MemoryOp.StoreLongGbrDisplacement i s =
     wr WordAccess (cpu_gbr (fst s) + to_u32 (ir_displacement i)) (cpu_r (fst s) 0) CpuWrite s"
| "exec_memory relocate rd wr MemoryOp.LoadByteSignedGbrDisplacement i s =
     load_register rd ByteAccess signed_byte 0 (cpu_gbr (fst s) + to_u32 (ir_displacement i)) s"
| "exec_memory relocate rd wr MemoryOp.LoadWordSignedGbrDisplacement i s =
     load_register rd HalfwordAccess signed_word 0 (cpu_gbr (fst s) + to_u32 (ir_displacement i)) s"
| "exec_memory relocate rd wr MemoryOp.LoadLongGbrDisplacement i s =
     load_register rd WordAccess id 0 (cpu_gbr (fst s) + to_u32 (ir_displacement i)) s"
| "exec_memory relocate rd wr MemoryOp.LoadWordSignedPcRelative i s =
     (case ir_effective_address i of None \<Rightarrow> pc_relative_missing s
      | Some address \<Rightarrow> load_register rd HalfwordAccess signed_word (ir_destination_register i)
          (relocate address) s)"
| "exec_memory relocate rd wr MemoryOp.LoadLongPcRelative i s =
     (case ir_effective_address i of None \<Rightarrow> pc_relative_missing s
      | Some address \<Rightarrow> load_register rd WordAccess id (ir_destination_register i)
          (relocate address) s)"
| "exec_memory relocate rd wr MemoryOp.MoveAddressPcRelative i s =
     (case ir_effective_address i of None \<Rightarrow> pc_relative_missing s
      | Some address \<Rightarrow> on_registers (set_r 0 (relocate address)) s)"
| "exec_memory relocate rd wr MemoryOp.StoreBytePreDecrement i s =
     emitted_store_predecrement wr ByteAccess narrow_byte (ir_destination_register i)
       (ir_source_register i) s"
| "exec_memory relocate rd wr MemoryOp.StoreWordPreDecrement i s =
     emitted_store_predecrement wr HalfwordAccess narrow_word (ir_destination_register i)
       (ir_source_register i) s"
| "exec_memory relocate rd wr MemoryOp.StoreLongPreDecrement i s =
     emitted_store_predecrement wr WordAccess id (ir_destination_register i)
       (ir_source_register i) s"
| "exec_memory relocate rd wr MemoryOp.LoadByteSignedPostIncrement i s =
     emitted_load_postincrement rd ByteAccess signed_byte (ir_destination_register i)
       (ir_source_register i) s"
| "exec_memory relocate rd wr MemoryOp.LoadWordSignedPostIncrement i s =
     emitted_load_postincrement rd HalfwordAccess signed_word (ir_destination_register i)
       (ir_source_register i) s"
| "exec_memory relocate rd wr MemoryOp.LoadLongPostIncrement i s =
     emitted_load_postincrement rd WordAccess id (ir_destination_register i)
       (ir_source_register i) s"

subsection \<open>Emitted read-modify-write and multiply-accumulate\<close>

text \<open>The four byte operations at \<open>gbr + r0\<close>; the immediate is cut to eight bits.\<close>

definition emitted_byte_update ::
    "'d reader \<Rightarrow> 'd writer \<Rightarrow> (u8 \<Rightarrow> u8 \<Rightarrow> u8) \<Rightarrow> int \<Rightarrow> 'd machine \<Rightarrow> ('d, unit) outcome" where
  "emitted_byte_update rd wr combine imm s =
     (let address = cpu_gbr (fst s) + cpu_r (fst s) 0
      in then_guest (rd ByteAccess address s)
           (\<lambda>v. wr ByteAccess address (ucast (combine (ucast v) (word_of_int imm))) CpuWrite))"

definition emitted_byte_test :: "'d reader \<Rightarrow> int \<Rightarrow> 'd machine \<Rightarrow> ('d, unit) outcome" where
  "emitted_byte_test rd imm s =
     (let address = cpu_gbr (fst s) + cpu_r (fst s) 0
      in then_guest (rd ByteAccess address s)
           (\<lambda>v. on_registers (cpu_t_update (\<lambda>_. (ucast v :: u8) AND word_of_int imm = 0))))"

definition emitted_test_and_set ::
    "'d reader \<Rightarrow> 'd writer \<Rightarrow> reg \<Rightarrow> 'd machine \<Rightarrow> ('d, unit) outcome" where
  "emitted_test_and_set rd wr m s =
     (let address = cpu_r (fst s) m
      in then_guest (rd ByteAccess address s)
           (\<lambda>v s. let v = (ucast v :: u8)
                  in then_guest (wr ByteAccess address (ucast (v OR 0x80)) CpuWrite s)
                       (\<lambda>_. on_registers (cpu_t_update (\<lambda>_. v = 0)))))"

definition bump :: "reg \<Rightarrow> u32 \<Rightarrow> CpuState \<Rightarrow> CpuState" where
  "bump n step cpu = set_r n (cpu_r cpu n + step) cpu"

definition wide_accumulator :: "u32 \<Rightarrow> u32 \<Rightarrow> u64" where
  "wide_accumulator high low = push_bit 32 (ucast high) OR ucast low"

definition emitted_accumulate_wide :: "int \<Rightarrow> CpuState \<Rightarrow> CpuState" where
  "emitted_accumulate_wide product cpu =
     (let result = wide_accumulator (cpu_mach cpu) (cpu_macl cpu) + word_of_int product
      in cpu\<lparr>cpu_mach := ucast (drop_bit 32 result), cpu_macl := ucast result\<rparr>)"

definition emitted_accumulate_word :: "int \<Rightarrow> CpuState \<Rightarrow> CpuState" where
  "emitted_accumulate_word product cpu =
     (if cpu_s cpu then
        let result = emitted_signed_32 (cpu_macl cpu) + product;
            result = (if result > 0x7FFFFFFF then 0x7FFFFFFF
                      else if result < - 0x80000000 then - 0x80000000 else result)
        in cpu\<lparr>cpu_macl := to_u32 result\<rparr>
      else emitted_accumulate_wide product cpu)"

definition emitted_accumulate_long :: "int \<Rightarrow> CpuState \<Rightarrow> CpuState" where
  "emitted_accumulate_long product cpu =
     (if cpu_s cpu then
        let raw = wide_accumulator (cpu_mach cpu AND 0x0000FFFF) (cpu_macl cpu);
            accumulator = (if raw AND 0x0000800000000000 \<noteq> 0 then sint raw - 0x0001000000000000
                           else sint raw);
            result = accumulator + product;
            result = (if result > 0x00007FFFFFFFFFFF then 0x00007FFFFFFFFFFF
                      else if result < - 0x0000800000000000 then - 0x0000800000000000 else result);
            result_bits = (word_of_int result :: u64) AND 0x0000FFFFFFFFFFFF
        in cpu\<lparr>cpu_mach := ucast (drop_bit 32 result_bits AND 0x0000FFFF),
               cpu_macl := ucast result_bits\<rparr>
      else emitted_accumulate_wide product cpu)"

definition emitted_mac_word ::
    "'d reader \<Rightarrow> reg \<Rightarrow> reg \<Rightarrow> 'd machine \<Rightarrow> ('d, unit) outcome" where
  "emitted_mac_word rd n m s =
     (let destination_address = cpu_r (fst s) n;
          source_address = cpu_r (fst s) m + (if m = n then 2 else 0)
      in then_guest (rd HalfwordAccess destination_address s)
           (\<lambda>destination_raw s. then_guest (rd HalfwordAccess source_address s)
              (\<lambda>source_raw.
                 let destination = emitted_signed_16 (narrow_word destination_raw);
                     source = emitted_signed_16 (narrow_word source_raw);
                     product = source * destination
                 in on_registers (\<lambda>cpu. emitted_accumulate_word product (bump m 2 (bump n 2 cpu))))))"

definition emitted_mac_long ::
    "'d reader \<Rightarrow> reg \<Rightarrow> reg \<Rightarrow> 'd machine \<Rightarrow> ('d, unit) outcome" where
  "emitted_mac_long rd n m s =
     (let destination_address = cpu_r (fst s) n;
          source_address = cpu_r (fst s) m + (if m = n then 4 else 0)
      in then_guest (rd WordAccess destination_address s)
           (\<lambda>destination_raw s. then_guest (rd WordAccess source_address s)
              (\<lambda>source_raw.
                 let destination = emitted_signed_32 destination_raw;
                     source = emitted_signed_32 source_raw;
                     product = source * destination
                 in on_registers (\<lambda>cpu. emitted_accumulate_long product (bump m 4 (bump n 4 cpu))))))"

subsection \<open>Emitted special-register transfers\<close>

definition emitted_store_special ::
    "IrSpecialRegister \<Rightarrow> reg \<Rightarrow> 'd machine \<Rightarrow> ('d, unit) outcome" where
  "emitted_store_special special n s =
     then_guest (special_register_read_expression special (fst s), s) (\<lambda>v. on_registers (set_r n v))"

definition emitted_store_special_predecrement ::
    "'d writer \<Rightarrow> IrSpecialRegister \<Rightarrow> reg \<Rightarrow> 'd machine \<Rightarrow> ('d, unit) outcome" where
  "emitted_store_special_predecrement wr special n s =
     then_guest (special_register_read_expression special (fst s), s)
       (\<lambda>v s. let address = cpu_r (fst s) n - 4
              in then_guest (wr WordAccess address v CpuWrite s) (\<lambda>_. on_registers (set_r n address)))"

definition emitted_load_special_postincrement ::
    "'d reader \<Rightarrow> IrSpecialRegister \<Rightarrow> reg \<Rightarrow> 'd machine \<Rightarrow> ('d, unit) outcome" where
  "emitted_load_special_postincrement rd special m s =
     (let address = cpu_r (fst s) m
      in then_guest (rd WordAccess address s)
           (\<lambda>v s. then_guest (on_registers (set_r m (address + 4)) s)
                    (\<lambda>_. emit_special_register_write special v)))"

text \<open>
  The statements of one instruction.  The operand-cache operations call a function without effect;
  the prefetch, the FPU and the control flow are not part of this group.
\<close>

definition exec_access ::
    "(u32 \<Rightarrow> u32) \<Rightarrow> 'd reader \<Rightarrow> 'd writer \<Rightarrow> Instruction \<Rightarrow> 'd machine \<Rightarrow>
     ('d, unit) outcome option" where
  "exec_access relocate rd wr i s =
     (let n = ir_destination_register i; m = ir_source_register i; imm = ir_immediate i;
          special = ir_special_register i
      in case ir_operation i of
           O_Memory a \<Rightarrow> Some (exec_memory relocate rd wr a i s)
         | O_Logic LogicOp.TestByteImmediate \<Rightarrow> Some (emitted_byte_test rd imm s)
         | O_Logic LogicOp.AndByteImmediate \<Rightarrow> Some (emitted_byte_update rd wr (AND) imm s)
         | O_Logic LogicOp.XorByteImmediate \<Rightarrow> Some (emitted_byte_update rd wr (XOR) imm s)
         | O_Logic LogicOp.OrByteImmediate \<Rightarrow> Some (emitted_byte_update rd wr (OR) imm s)
         | O_Logic LogicOp.TestAndSetByte \<Rightarrow> Some (emitted_test_and_set rd wr m s)
         | O_MulDiv MulDivOp.MultiplyAccumulateWord \<Rightarrow> Some (emitted_mac_word rd n m s)
         | O_MulDiv MulDivOp.MultiplyAccumulateLong \<Rightarrow> Some (emitted_mac_long rd n m s)
         | O_System SystemOp.StoreSpecialRegister \<Rightarrow> Some (emitted_store_special special n s)
         | O_System SystemOp.StoreSpecialRegisterPreDecrement \<Rightarrow>
             Some (emitted_store_special_predecrement wr special n s)
         | O_System SystemOp.LoadSpecialRegister \<Rightarrow>
             Some (emit_special_register_write special (cpu_r (fst s) m) s)
         | O_System SystemOp.LoadSpecialRegisterPostIncrement \<Rightarrow>
             Some (emitted_load_special_postincrement rd special m s)
         | O_System SystemOp.LoadTlb \<Rightarrow> Some (on_registers load_tlb s)
         | O_System SystemOp.Ocbi \<Rightarrow> Some (Inr (), s)
         | O_System SystemOp.Ocbp \<Rightarrow> Some (Inr (), s)
         | O_System SystemOp.Ocbwb \<Rightarrow> Some (Inr (), s)
         | O_System SystemOp.MovcaLong \<Rightarrow>
             Some (wr WordAccess (cpu_r (fst s) n) (cpu_r (fst s) 0) StoreQueueWrite s)
         | _ \<Rightarrow> map_option (\<lambda>cpu. (Inr (), (cpu, snd s))) (exec_simple i (fst s)))"

end
