(* ===== verification/Interpreter_Access.thy ===== *)
theory Interpreter_Access
  imports Memory_Instructions
begin

text \<open>
  The cases of \<open>execute_one\<close> (\<open>src/runtime/dynamic_interpreter.cpp\<close>) that access memory or special
  registers, written over the guest accessors they call, and their agreement with the emitted
  statements of \<open>Memory_Instructions\<close>.
\<close>

definition add_displacement :: "u32 \<Rightarrow> int \<Rightarrow> u32" where
  "add_displacement base displacement = base + to_u32 displacement"

definition clamp :: "int \<Rightarrow> int \<Rightarrow> int \<Rightarrow> int" where
  "clamp v lo hi = (if v < lo then lo else if hi < v then hi else v)"

text \<open>\<open>cpu.r[n] = static_cast<std::uint32_t>(read)\<close> for the signed and the unsigned accessors\<close>

definition into_register :: "reg \<Rightarrow> ('a \<Rightarrow> u32) \<Rightarrow> ('d, 'a) outcome \<Rightarrow> ('d, unit) outcome" where
  "into_register n convert result = then_guest result (\<lambda>v. on_registers (set_r n (convert v)))"

subsection \<open>Moves\<close>

fun interpret_move ::
    "'d DeviceOps \<Rightarrow> GuestInstructionOrigin \<Rightarrow> u32 \<Rightarrow> MoveKind \<Rightarrow> reg \<Rightarrow> reg \<Rightarrow> int \<Rightarrow> 'd machine \<Rightarrow>
     ('d, unit) outcome" where
  "interpret_move ops origin pc MoveKind.MovByteStore n m disp s =
     guest_write_u8_at ops origin (cpu_r (fst s) n) (ucast (cpu_r (fst s) m)) CpuWrite s"
| "interpret_move ops origin pc MoveKind.MovWordStore n m disp s =
     guest_write_u16_at ops origin (cpu_r (fst s) n) (ucast (cpu_r (fst s) m)) CpuWrite s"
| "interpret_move ops origin pc MoveKind.MovLongStore n m disp s =
     guest_write_u32_at ops origin (cpu_r (fst s) n) (cpu_r (fst s) m) CpuWrite s"
| "interpret_move ops origin pc MoveKind.MovByteLoad n m disp s =
     into_register n to_u32 (guest_read_s8_at ops origin (cpu_r (fst s) m) s)"
| "interpret_move ops origin pc MoveKind.MovWordLoad n m disp s =
     into_register n to_u32 (guest_read_s16_at ops origin (cpu_r (fst s) m) s)"
| "interpret_move ops origin pc MoveKind.MovLongLoad n m disp s =
     into_register n id (guest_read_u32_at ops origin (cpu_r (fst s) m) s)"
| "interpret_move ops origin pc MoveKind.MovByteStorePreDecrement n m disp s =
     (let v = ucast (cpu_r (fst s) m); address = cpu_r (fst s) n - 1
      in then_guest (guest_write_u8_at ops origin address v CpuWrite s)
           (\<lambda>_. on_registers (set_r n address)))"
| "interpret_move ops origin pc MoveKind.MovWordStorePreDecrement n m disp s =
     (let v = ucast (cpu_r (fst s) m); address = cpu_r (fst s) n - 2
      in then_guest (guest_write_u16_at ops origin address v CpuWrite s)
           (\<lambda>_. on_registers (set_r n address)))"
| "interpret_move ops origin pc MoveKind.MovLongStorePreDecrement n m disp s =
     (let v = cpu_r (fst s) m; address = cpu_r (fst s) n - 4
      in then_guest (guest_write_u32_at ops origin address v CpuWrite s)
           (\<lambda>_. on_registers (set_r n address)))"
| "interpret_move ops origin pc MoveKind.MovByteLoadPostIncrement n m disp s =
     then_guest (into_register n to_u32 (guest_read_s8_at ops origin (cpu_r (fst s) m) s))
       (\<lambda>_. on_registers (\<lambda>cpu. if n \<noteq> m then bump m 1 cpu else cpu))"
| "interpret_move ops origin pc MoveKind.MovWordLoadPostIncrement n m disp s =
     then_guest (into_register n to_u32 (guest_read_s16_at ops origin (cpu_r (fst s) m) s))
       (\<lambda>_. on_registers (\<lambda>cpu. if n \<noteq> m then bump m 2 cpu else cpu))"
| "interpret_move ops origin pc MoveKind.MovLongLoadPostIncrement n m disp s =
     then_guest (into_register n id (guest_read_u32_at ops origin (cpu_r (fst s) m) s))
       (\<lambda>_. on_registers (\<lambda>cpu. if n \<noteq> m then bump m 4 cpu else cpu))"
| "interpret_move ops origin pc MoveKind.MovByteStoreDisplacement n m disp s =
     guest_write_u8_at ops origin (add_displacement (cpu_r (fst s) n) disp)
       (ucast (cpu_r (fst s) m)) CpuWrite s"
| "interpret_move ops origin pc MoveKind.MovWordStoreDisplacement n m disp s =
     guest_write_u16_at ops origin (add_displacement (cpu_r (fst s) n) disp)
       (ucast (cpu_r (fst s) m)) CpuWrite s"
| "interpret_move ops origin pc MoveKind.MovLongStoreDisplacement n m disp s =
     guest_write_u32_at ops origin (add_displacement (cpu_r (fst s) n) disp)
       (cpu_r (fst s) m) CpuWrite s"
| "interpret_move ops origin pc MoveKind.MovByteLoadDisplacement n m disp s =
     into_register n to_u32
       (guest_read_s8_at ops origin (add_displacement (cpu_r (fst s) m) disp) s)"
| "interpret_move ops origin pc MoveKind.MovWordLoadDisplacement n m disp s =
     into_register n to_u32
       (guest_read_s16_at ops origin (add_displacement (cpu_r (fst s) m) disp) s)"
| "interpret_move ops origin pc MoveKind.MovLongLoadDisplacement n m disp s =
     into_register n id
       (guest_read_u32_at ops origin (add_displacement (cpu_r (fst s) m) disp) s)"
| "interpret_move ops origin pc MoveKind.MovByteStoreR0Indexed n m disp s =
     guest_write_u8_at ops origin (cpu_r (fst s) n + cpu_r (fst s) 0)
       (ucast (cpu_r (fst s) m)) CpuWrite s"
| "interpret_move ops origin pc MoveKind.MovWordStoreR0Indexed n m disp s =
     guest_write_u16_at ops origin (cpu_r (fst s) n + cpu_r (fst s) 0)
       (ucast (cpu_r (fst s) m)) CpuWrite s"
| "interpret_move ops origin pc MoveKind.MovLongStoreR0Indexed n m disp s =
     guest_write_u32_at ops origin (cpu_r (fst s) n + cpu_r (fst s) 0) (cpu_r (fst s) m) CpuWrite s"
| "interpret_move ops origin pc MoveKind.MovByteLoadR0Indexed n m disp s =
     into_register n to_u32 (guest_read_s8_at ops origin (cpu_r (fst s) m + cpu_r (fst s) 0) s)"
| "interpret_move ops origin pc MoveKind.MovWordLoadR0Indexed n m disp s =
     into_register n to_u32 (guest_read_s16_at ops origin (cpu_r (fst s) m + cpu_r (fst s) 0) s)"
| "interpret_move ops origin pc MoveKind.MovLongLoadR0Indexed n m disp s =
     into_register n id (guest_read_u32_at ops origin (cpu_r (fst s) m + cpu_r (fst s) 0) s)"
| "interpret_move ops origin pc MoveKind.MovByteStoreGbrDisplacement n m disp s =
     guest_write_u8_at ops origin (add_displacement (cpu_gbr (fst s)) disp)
       (ucast (cpu_r (fst s) 0)) CpuWrite s"
| "interpret_move ops origin pc MoveKind.MovWordStoreGbrDisplacement n m disp s =
     guest_write_u16_at ops origin (add_displacement (cpu_gbr (fst s)) disp)
       (ucast (cpu_r (fst s) 0)) CpuWrite s"
| "interpret_move ops origin pc MoveKind.MovLongStoreGbrDisplacement n m disp s =
     guest_write_u32_at ops origin (add_displacement (cpu_gbr (fst s)) disp)
       (cpu_r (fst s) 0) CpuWrite s"
| "interpret_move ops origin pc MoveKind.MovByteLoadGbrDisplacement n m disp s =
     into_register 0 to_u32
       (guest_read_s8_at ops origin (add_displacement (cpu_gbr (fst s)) disp) s)"
| "interpret_move ops origin pc MoveKind.MovWordLoadGbrDisplacement n m disp s =
     into_register 0 to_u32
       (guest_read_s16_at ops origin (add_displacement (cpu_gbr (fst s)) disp) s)"
| "interpret_move ops origin pc MoveKind.MovLongLoadGbrDisplacement n m disp s =
     into_register 0 id
       (guest_read_u32_at ops origin (add_displacement (cpu_gbr (fst s)) disp) s)"
| "interpret_move ops origin pc MoveKind.MovWordLoadPcRelative n m disp s =
     into_register n to_u32 (guest_read_s16_at ops origin (add_displacement (pc + 4) disp) s)"
| "interpret_move ops origin pc MoveKind.MovLongLoadPcRelative n m disp s =
     into_register n id
       (guest_read_u32_at ops origin (add_displacement ((pc + 4) AND NOT 3) disp) s)"
| "interpret_move ops origin pc MoveKind.MoveAddressPcRelative n m disp s =
     on_registers (set_r 0 (add_displacement ((pc + 4) AND NOT 3) disp)) s"

subsection \<open>Read-modify-write and multiply-accumulate\<close>

text \<open>The byte is promoted to \<open>int\<close>, combined with the immediate and cut to eight bits.\<close>

definition interpret_byte_update ::
    "'d DeviceOps \<Rightarrow> GuestInstructionOrigin \<Rightarrow> (int \<Rightarrow> int \<Rightarrow> int) \<Rightarrow> int \<Rightarrow> 'd machine \<Rightarrow>
     ('d, unit) outcome" where
  "interpret_byte_update ops origin combine imm s =
     (let address = cpu_gbr (fst s) + cpu_r (fst s) 0
      in then_guest (guest_read_u8_at ops origin address s)
           (\<lambda>v. guest_write_u8_at ops origin address (word_of_int (combine (uint v) imm)) CpuWrite))"

definition interpret_byte_test ::
    "'d DeviceOps \<Rightarrow> GuestInstructionOrigin \<Rightarrow> int \<Rightarrow> 'd machine \<Rightarrow> ('d, unit) outcome" where
  "interpret_byte_test ops origin imm s =
     (let address = cpu_gbr (fst s) + cpu_r (fst s) 0
      in then_guest (guest_read_u8_at ops origin address s)
           (\<lambda>v. on_registers (write_t (v AND word_of_int imm = 0))))"

definition interpret_test_and_set ::
    "'d DeviceOps \<Rightarrow> GuestInstructionOrigin \<Rightarrow> reg \<Rightarrow> 'd machine \<Rightarrow> ('d, unit) outcome" where
  "interpret_test_and_set ops origin m s =
     then_guest (guest_read_u8_at ops origin (cpu_r (fst s) m) s)
       (\<lambda>v s. then_guest (guest_write_u8_at ops origin (cpu_r (fst s) m) (v OR 0x80) CpuWrite s)
                (\<lambda>_. on_registers (write_t (v = 0))))"

definition interpret_accumulate :: "bool \<Rightarrow> int \<Rightarrow> CpuState \<Rightarrow> CpuState" where
  "interpret_accumulate is_word product cpu =
     (if cpu_s cpu \<and> is_word then
        let accumulator = to_i32 (cpu_macl cpu);
            v = clamp (accumulator + product) (- 0x80000000) 0x7FFFFFFF
        in cpu\<lparr>cpu_macl := to_u32 v\<rparr>
      else if cpu_s cpu then
        let raw = push_bit 32 (ucast (cpu_mach cpu AND 0xFFFF) :: u64) OR ucast (cpu_macl cpu);
            accumulator = (if raw AND 0x0000800000000000 \<noteq> 0 then sint raw - 0x0001000000000000
                           else sint raw);
            v = clamp (accumulator + product) (- 0x0000800000000000) 0x00007FFFFFFFFFFF;
            bits = (word_of_int v :: u64) AND 0x0000FFFFFFFFFFFF
        in cpu\<lparr>cpu_mach := ucast (drop_bit 32 bits AND 0xFFFF), cpu_macl := ucast bits\<rparr>
      else
        let accumulator = push_bit 32 (ucast (cpu_mach cpu) :: u64) OR ucast (cpu_macl cpu);
            v = accumulator + word_of_int product
        in cpu\<lparr>cpu_mach := ucast (drop_bit 32 v), cpu_macl := ucast v\<rparr>)"

definition interpret_mac_read ::
    "'d DeviceOps \<Rightarrow> GuestInstructionOrigin \<Rightarrow> bool \<Rightarrow> u32 \<Rightarrow> 'd machine \<Rightarrow> ('d, int) outcome" where
  "interpret_mac_read ops origin is_word address s =
     (if is_word then guest_read_s16_at ops origin address s
      else map_prod (map_sum id to_i32) id (guest_read_u32_at ops origin address s))"

definition interpret_mac ::
    "'d DeviceOps \<Rightarrow> GuestInstructionOrigin \<Rightarrow> bool \<Rightarrow> reg \<Rightarrow> reg \<Rightarrow> 'd machine \<Rightarrow>
     ('d, unit) outcome" where
  "interpret_mac ops origin is_word n m s =
     (let bytes = (if is_word then 2 else 4);
          destination_address = cpu_r (fst s) n;
          source_address = cpu_r (fst s) m + (if m = n then bytes else 0)
      in then_guest (interpret_mac_read ops origin is_word destination_address s)
           (\<lambda>destination s. then_guest (interpret_mac_read ops origin is_word source_address s)
              (\<lambda>source. on_registers (\<lambda>cpu.
                 let cpu = bump m bytes (bump n bytes cpu)
                 in interpret_accumulate is_word (source * destination) cpu))))"

subsection \<open>Special registers and the whole group\<close>

definition interpret_store_special_predecrement ::
    "'d DeviceOps \<Rightarrow> GuestInstructionOrigin \<Rightarrow> SpecialRegister \<Rightarrow> reg \<Rightarrow> 'd machine \<Rightarrow>
     ('d, unit) outcome" where
  "interpret_store_special_predecrement ops origin special n s =
     then_guest (special_read special (fst s), s)
       (\<lambda>v s. let address = cpu_r (fst s) n - 4
              in then_guest (guest_write_u32_at ops origin address v CpuWrite s)
                   (\<lambda>_. on_registers (set_r n address)))"

definition interpret_load_special_postincrement ::
    "'d DeviceOps \<Rightarrow> GuestInstructionOrigin \<Rightarrow> SpecialRegister \<Rightarrow> reg \<Rightarrow> 'd machine \<Rightarrow>
     ('d, unit) outcome" where
  "interpret_load_special_postincrement ops origin special m s =
     then_guest (guest_read_u32_at ops origin (cpu_r (fst s) m) s)
       (\<lambda>v s. then_guest (on_registers (bump m 4) s) (\<lambda>_. special_write special v))"

definition interpret_access ::
    "'d DeviceOps \<Rightarrow> GuestInstructionOrigin \<Rightarrow> u32 \<Rightarrow> DecodedInstruction \<Rightarrow> 'd machine \<Rightarrow>
     ('d, unit) outcome option" where
  "interpret_access ops origin pc i s =
     (let n = d_destination_register i; m = d_source_register i; imm = d_immediate i;
          special = d_special_register i
      in case d_kind i of
           K_Move a \<Rightarrow> Some (interpret_move ops origin pc a n m (d_displacement i) s)
         | K_Logic LogicKind.TestByteImmediate \<Rightarrow> Some (interpret_byte_test ops origin imm s)
         | K_Logic LogicKind.AndByteImmediate \<Rightarrow> Some (interpret_byte_update ops origin (AND) imm s)
         | K_Logic LogicKind.XorByteImmediate \<Rightarrow> Some (interpret_byte_update ops origin (XOR) imm s)
         | K_Logic LogicKind.OrByteImmediate \<Rightarrow> Some (interpret_byte_update ops origin (OR) imm s)
         | K_Logic LogicKind.TestAndSetByte \<Rightarrow> Some (interpret_test_and_set ops origin m s)
         | K_MulDiv MulDivKind.MultiplyAccumulateWord \<Rightarrow> Some (interpret_mac ops origin True n m s)
         | K_MulDiv MulDivKind.MultiplyAccumulateLong \<Rightarrow> Some (interpret_mac ops origin False n m s)
         | K_System SystemKind.StoreSpecialRegister \<Rightarrow>
             Some (into_register n id (special_read special (fst s), s))
         | K_System SystemKind.StoreSpecialRegisterPreDecrement \<Rightarrow>
             Some (interpret_store_special_predecrement ops origin special n s)
         | K_System SystemKind.LoadSpecialRegister \<Rightarrow>
             Some (special_write special (cpu_r (fst s) m) s)
         | K_System SystemKind.LoadSpecialRegisterPostIncrement \<Rightarrow>
             Some (interpret_load_special_postincrement ops origin special m s)
         | K_System SystemKind.LoadTlb \<Rightarrow> Some (on_registers load_tlb s)
         | K_System SystemKind.Ocbi \<Rightarrow> Some (Inr (), s)
         | K_System SystemKind.Ocbp \<Rightarrow> Some (Inr (), s)
         | K_System SystemKind.Ocbwb \<Rightarrow> Some (Inr (), s)
         | K_System SystemKind.MovcaLong \<Rightarrow>
             Some (guest_write_u32_at ops origin (cpu_r (fst s) n) (cpu_r (fst s) 0) StoreQueueWrite s)
         | _ \<Rightarrow> map_option (\<lambda>cpu. (Inr (), (cpu, snd s))) (interpret_simple i (fst s)))"

subsection \<open>Accessors leave the registers\<close>

text \<open>
  The emitted code keeps addresses in locals where the interpreter reads the register again after an
  access.  The two agree because an access that returns leaves the general registers.
\<close>

locale register_preserving =
  fixes rd :: "'d reader" and wr :: "'d writer"
  assumes read_keeps: "rd width address s = (Inr v, s') \<Longrightarrow> cpu_r (fst s') = cpu_r (fst s)"
    and write_keeps: "wr width address x source s = (Inr (), s') \<Longrightarrow> cpu_r (fst s') = cpu_r (fst s)"
begin

lemma then_guest_read:
  assumes "\<And>v s'. cpu_r (fst s') = cpu_r (fst s) \<Longrightarrow> f v s' = g v s'"
  shows "then_guest (rd width address s) f = then_guest (rd width address s) g"
  using read_keeps [of width address s] assms
  by (auto simp: then_guest_def split: prod.split sum.split)

lemma load_postincrement:
  "emitted_load_postincrement rd width convert n m s =
     then_guest (load_register rd width convert n (cpu_r (fst s) m) s)
       (\<lambda>_. on_registers (\<lambda>cpu. if n \<noteq> m then bump m (of_nat (width_bytes width)) cpu else cpu))"
proof -
  have "then_guest (rd width (cpu_r (fst s) m) s) (\<lambda>v. on_registers (\<lambda>cpu.
           let cpu = set_r n (convert v) cpu
           in if m = n then cpu else set_r m (cpu_r (fst s) m + of_nat (width_bytes width)) cpu)) =
        then_guest (rd width (cpu_r (fst s) m) s) (\<lambda>v s. then_guest (on_registers (set_r n (convert v)) s)
          (\<lambda>_. on_registers (\<lambda>cpu. if n \<noteq> m then bump m (of_nat (width_bytes width)) cpu else cpu)))"
    by (rule then_guest_read) (auto simp: on_registers_def bump_def set_r_def Let_def)
  then show ?thesis
    by (simp add: emitted_load_postincrement_def load_register_def then_guest_def Let_def
        split: prod.split sum.split)
qed

lemma test_and_set_reread:
  "emitted_test_and_set rd wr m s =
     then_guest (rd ByteAccess (cpu_r (fst s) m) s)
       (\<lambda>v s. let v = (ucast v :: u8)
              in then_guest (wr ByteAccess (cpu_r (fst s) m) (ucast (v OR 0x80)) CpuWrite s)
                   (\<lambda>_. on_registers (cpu_t_update (\<lambda>_. v = 0))))"
  unfolding emitted_test_and_set_def Let_def by (rule then_guest_read) simp

lemma load_special_reread:
  "emitted_load_special_postincrement rd special m s =
     then_guest (rd WordAccess (cpu_r (fst s) m) s)
       (\<lambda>v s. then_guest (on_registers (bump m 4) s) (\<lambda>_. emit_special_register_write special v))"
  unfolding emitted_load_special_postincrement_def Let_def
  by (rule then_guest_read) (simp add: on_registers_def bump_def)

end

lemma advance_utlb_keeps_r [simp]: "cpu_r (advance_utlb_access_counter k cpu) = cpu_r cpu"
  by (simp add: advance_utlb_access_counter_def with_address_space_def Let_def split: option.split)

lemma translate_keeps_r:
  "cpu_r (snd (translate_guest_address address operation width instruction cpu)) = cpu_r cpu"
proof (cases "validate_virtual_alignment address operation width instruction")
  case None
  note unaligned = None
  show ?thesis
  proof (cases "cpu_address_space cpu")
    case None
    then show ?thesis using unaligned by (simp add: translate_guest_address_def)
  next
    case (Some space)
    then show ?thesis using unaligned
      by (auto simp: translate_guest_address_def note_translation_def Let_def
          split: prod.split sum.split)
  qed
qed (simp add: translate_guest_address_def)

lemma origin_Inr:
  "with_guest_instruction_origin address origin result = (Inr v, s) \<longleftrightarrow> result = (Inr v, s)"
  by (auto simp: with_guest_instruction_origin_def with_guest_virtual_address_def
      split: prod.splits sum.splits guest_error.splits)

lemma guest_read_keeps_r:
  "guest_read_at ops width origin address s = (Inr v, s') \<Longrightarrow> cpu_r (fst s') = cpu_r (fst s)"
  by (auto simp: guest_read_at_def origin_Inr translated_read_def on_cpu_def on_memory_def then_guest_def
      translate_keeps_r split: option.splits prod.splits sum.splits)

lemma guest_write_keeps_r:
  "guest_write_at ops width origin address x source s = (Inr (), s') \<Longrightarrow>
     cpu_r (fst s') = cpu_r (fst s)"
  by (auto simp: guest_write_at_def origin_Inr translated_write_def on_cpu_def on_memory_def
      then_guest_def translate_keeps_r split: option.splits prod.splits sum.splits)

definition guest_reader :: "'d DeviceOps \<Rightarrow> GuestInstructionOrigin \<Rightarrow> 'd reader" where
  "guest_reader ops origin width address s = guest_read_at ops width origin address s"

definition guest_writer :: "'d DeviceOps \<Rightarrow> GuestInstructionOrigin \<Rightarrow> 'd writer" where
  "guest_writer ops origin width address v source s =
     guest_write_at ops width origin address v source s"

interpretation guest: register_preserving "guest_reader ops origin" "guest_writer ops origin"
  for ops :: "'d DeviceOps" and origin
  by unfold_locales
    (simp_all add: guest_reader_def guest_writer_def guest_read_keeps_r guest_write_keeps_r)

subsection \<open>Agreement with the emitted code\<close>

lemma map_outcome_then:
  "then_guest (map_prod (map_sum id f) id result) g = then_guest result (\<lambda>v. g (f v))"
  by (cases result; cases "fst result") (auto simp: then_guest_def)

lemmas guest_accessors = guest_read_u8_at_def guest_read_u16_at_def guest_read_u32_at_def
  guest_read_s8_at_def guest_read_s16_at_def guest_write_u8_at_def guest_write_u16_at_def
  guest_write_u32_at_def guest_reader_def guest_writer_def

lemma signed_loads:
  "into_register n to_u32 (guest_read_s8_at ops origin address s) =
     load_register (guest_reader ops origin) ByteAccess signed_byte n address s"
  "into_register n to_u32 (guest_read_s16_at ops origin address s) =
     load_register (guest_reader ops origin) HalfwordAccess signed_word n address s"
  "into_register n id (guest_read_u32_at ops origin address s) =
     load_register (guest_reader ops origin) WordAccess id n address s"
  by (simp_all add: into_register_def load_register_def map_outcome_then guest_accessors
      signed_byte_def signed_word_def)

lemma narrow_stores:
  "guest_write_u8_at ops origin address (ucast v) source s =
     guest_writer ops origin ByteAccess address (narrow_byte v) source s"
  "guest_write_u16_at ops origin address (ucast v) source s =
     guest_writer ops origin HalfwordAccess address (narrow_word v) source s"
  "guest_write_u32_at ops origin address v source s =
     guest_writer ops origin WordAccess address v source s"
  by (simp_all add: guest_accessors narrow_byte_def narrow_word_def)

lemma uint_low_bits: "uint ((x::u32) AND 3) = uint x mod 4"
proof -
  have "uint (x AND 3) = uint x AND 3" by (simp add: uint_and)
  also have "\<dots> = uint x AND mask 2" by (simp add: mask_eq_exp_minus_1)
  also have "\<dots> = take_bit 2 (uint x)" by (simp only: take_bit_eq_mask)
  finally show ?thesis by (simp add: take_bit_eq_mod)
qed

lemma low_bits_add:
  fixes x y :: u32
  assumes "y AND 3 = 0"
  shows "(x + y) AND 3 = x AND 3"
proof -
  have y: "uint y mod 4 = 0" using assms uint_low_bits [of y] by simp
  have "uint (x + y) mod 4 = (uint x + uint y) mod 2 ^ 32 mod 4" by (simp add: uint_word_ariths)
  also have "\<dots> = (uint x + uint y) mod 4" by (rule mod_mod_cancel) simp
  also have "\<dots> = uint x mod 4" using y by presburger
  finally have "uint ((x + y) AND 3) = uint (x AND 3)" by (simp add: uint_low_bits)
  then show ?thesis by (simp only: word_uint_eq_iff)
qed

lemma and_not_minus: "z AND NOT w = z - (z AND w)" for z w :: u32
proof -
  have "(z AND NOT w) AND (z AND w) = 0"
    by (rule bit_word_eqI) (auto simp: bit_and_iff bit_not_iff)
  then have "(z AND NOT w) + (z AND w) = (z AND NOT w) OR (z AND w)"
    by (rule disjunctive_add_eq_or)
  also have "\<dots> = z" by (rule bit_word_eqI) (auto simp: bit_and_iff bit_or_iff bit_not_iff)
  finally show ?thesis by (simp add: algebra_simps)
qed

lemma aligned_shift:
  fixes x y :: u32
  assumes "y AND 3 = 0"
  shows "(x + y) AND NOT 3 = (x AND NOT 3) + y"
  unfolding and_not_minus low_bits_add [OF assms] by simp

text \<open>
  A line may run at another address than the one it was lowered from: \<open>relocate\<close> moves its effective
  address by \<open>delta\<close>, which keeps the alignment, and the interpreter runs at the moved address.
\<close>

definition relocated_by :: "u32 \<Rightarrow> (u32 \<Rightarrow> u32) \<Rightarrow> DisassemblyLine \<Rightarrow> bool" where
  "relocated_by delta relocate line \<longleftrightarrow> delta AND 3 = 0 \<and>
     (case ir_effective_address (lower_instruction line) of
        None \<Rightarrow> True | Some address \<Rightarrow> relocate address = address + delta)"

lemma moved_base:
  fixes a delta :: u32
  assumes "delta AND 3 = 0"
  shows "(a + delta + 4) AND NOT 3 = (a AND 0xFFFFFFFC) + 4 + delta"
proof -
  have "(0xFFFFFFFC :: u32) + 4 = 0" by simp
  then have mask: "(0xFFFFFFFC :: u32) = NOT 3"
    unfolding eq_neg_iff_add_eq_0 [symmetric] by simp
  have "(4 + delta) AND 3 = 4 AND 3" by (rule low_bits_add) (rule assms)
  then show ?thesis using aligned_shift [of "4 + delta" a] by (simp add: mask ac_simps)
qed

lemma lowered_fields [simp]:
  "ir_operation (lower_instruction line) = lower_operation (d_kind (dl_instruction line))"
  "ir_destination_register (lower_instruction line) = d_destination_register (dl_instruction line)"
  "ir_source_register (lower_instruction line) = d_source_register (dl_instruction line)"
  "ir_immediate (lower_instruction line) = d_immediate (dl_instruction line)"
  "ir_displacement (lower_instruction line) = d_displacement (dl_instruction line)"
  "ir_special_register (lower_instruction line) =
     lower_special_register (d_special_register (dl_instruction line))"
  "ir_effective_address (lower_instruction line) =
     lowered_effective_address (lower_operation (d_kind (dl_instruction line))) (dl_address line)
       (to_u32 (d_displacement (dl_instruction line)))"
  "ir_forwarded_value_register (lower_instruction line) = None"
  by (simp_all add: lower_instruction_def empty_instruction_def Let_def)

lemma pc_relative_moved:
  assumes "relocated_by delta relocate line"
  shows "d_kind (dl_instruction line) = K_Move MoveKind.MovWordLoadPcRelative \<Longrightarrow>
      relocate (dl_address line + 4 + to_u32 (d_displacement (dl_instruction line))) =
        add_displacement (dl_address line + delta + 4) (d_displacement (dl_instruction line))"
    and "d_kind (dl_instruction line) \<in> {K_Move MoveKind.MovLongLoadPcRelative,
        K_Move MoveKind.MoveAddressPcRelative} \<Longrightarrow>
      relocate ((dl_address line AND 0xFFFFFFFC) + 4 + to_u32 (d_displacement (dl_instruction line))) =
        add_displacement ((dl_address line + delta + 4) AND NOT 3) (d_displacement (dl_instruction line))"
  using assms moved_base [of delta "dl_address line"]
  by (auto simp: relocated_by_def lower_operation_def lowered_effective_address_def
      add_displacement_def ac_simps)

lemma move_agrees:
  assumes "relocated_by delta relocate line" and "d_kind (dl_instruction line) = K_Move a"
  shows "exec_access relocate (guest_reader ops origin) (guest_writer ops origin)
      (lower_instruction line) s =
    Some (interpret_move ops origin (dl_address line + delta) a (d_destination_register (dl_instruction line))
      (d_source_register (dl_instruction line)) (d_displacement (dl_instruction line)) s)"
  using assms(2) pc_relative_moved [OF assms(1)]
  by (cases a)
    (simp_all add: exec_access_def lower_operation_def Let_def signed_loads narrow_stores
      add_displacement_def emitted_store_predecrement_def guest.load_postincrement
      lowered_effective_address_def add.commute [of "cpu_r (fst s) 0"]
      cong: if_cong)

lemma cut_combination:
  "(word_of_int (uint v AND imm) :: u8) = v AND word_of_int imm"
  "(word_of_int (uint v XOR imm) :: u8) = v XOR word_of_int imm"
  "(word_of_int (uint v OR imm) :: u8) = v OR word_of_int imm"
  by (rule bit_word_eqI; simp add: bit_word_of_int_iff bit_and_iff bit_or_iff bit_xor_iff
      bit_uint_iff)+

lemma byte_update_agrees:
  "emitted_byte_update (guest_reader ops origin) (guest_writer ops origin) (AND) imm s =
     interpret_byte_update ops origin (AND) imm s"
  "emitted_byte_update (guest_reader ops origin) (guest_writer ops origin) (XOR) imm s =
     interpret_byte_update ops origin (XOR) imm s"
  "emitted_byte_update (guest_reader ops origin) (guest_writer ops origin) (OR) imm s =
     interpret_byte_update ops origin (OR) imm s"
  by (simp_all add: emitted_byte_update_def interpret_byte_update_def map_outcome_then Let_def
      guest_accessors guest_write_u8_at_def [abs_def] guest_writer_def [abs_def] cut_combination)

lemma byte_test_agrees:
  "emitted_byte_test (guest_reader ops origin) imm s = interpret_byte_test ops origin imm s"
  by (simp add: emitted_byte_test_def interpret_byte_test_def map_outcome_then Let_def
      guest_accessors write_t_def [abs_def])

lemma test_and_set_agrees:
  "emitted_test_and_set (guest_reader ops origin) (guest_writer ops origin) m s =
     interpret_test_and_set ops origin m s"
  unfolding guest.test_and_set_reread
  by (simp add: interpret_test_and_set_def map_outcome_then Let_def guest_accessors
      write_t_def [abs_def])

lemma clamp_eq:
  "(if v > hi then hi else if v < lo then lo else v) = clamp v lo hi" if "lo \<le> hi"
  using that by (simp add: clamp_def)

lemma accumulate_agrees:
  "emitted_accumulate_word product cpu = interpret_accumulate True product cpu"
  "emitted_accumulate_long product cpu = interpret_accumulate False product cpu"
  by (simp_all add: emitted_accumulate_word_def emitted_accumulate_long_def
      emitted_accumulate_wide_def interpret_accumulate_def wide_accumulator_def clamp_eq
      signed_32_eq Let_def)

lemma narrow_signed: "emitted_signed_16 (narrow_word v) = sint (ucast v :: u16)"
proof -
  have "narrow_word v = v AND 0x0000FFFF"
    by (simp add: narrow_word_def u32_bits bit_unsigned_iff bit_and_iff)
  then show ?thesis by (simp add: signed_16_eq)
qed

lemma mac_agrees:
  "emitted_mac_word (guest_reader ops origin) n m s = interpret_mac ops origin True n m s"
  "emitted_mac_long (guest_reader ops origin) n m s = interpret_mac ops origin False n m s"
  by (simp_all add: emitted_mac_word_def emitted_mac_long_def interpret_mac_def
      interpret_mac_read_def map_outcome_then guest_accessors accumulate_agrees narrow_signed
      signed_32_eq Let_def)

lemma special_read_agrees:
  "special_register_read_expression (lower_special_register r) cpu = special_read r cpu"
  if "r \<noteq> SpecialRegister.NoneRegister"
  using that by (cases r)
    (simp_all add: special_register_read_expression_def special_read_def read_fpscr_def)

lemma special_write_agrees:
  "emit_special_register_write (lower_special_register r) = special_write r"
  if "r \<noteq> SpecialRegister.NoneRegister" and "r \<noteq> SpecialRegister.Sgr"
  using that by (cases r) (simp_all add: fun_eq_iff emit_special_register_write_def special_write_def)

text \<open>The decoder never yields a transfer without a register, nor a load of SGR.\<close>

definition transfer_kinds :: "InstructionKind set" where
  "transfer_kinds = {K_System SystemKind.StoreSpecialRegister,
     K_System SystemKind.StoreSpecialRegisterPreDecrement, K_System SystemKind.LoadSpecialRegister,
     K_System SystemKind.LoadSpecialRegisterPostIncrement}"

lemma plain_row_kind: "m \<in> set instruction_metadata \<Longrightarrow> md_kind m \<notin> transfer_kinds"
proof -
  have "list_all (\<lambda>m. md_kind m \<notin> transfer_kinds) instruction_metadata"
    by (simp add: instruction_rows transfer_kinds_def)
  then show "m \<in> set instruction_metadata \<Longrightarrow> md_kind m \<notin> transfer_kinds"
    by (simp add: list_all_iff)
qed

lemma special_row_loadable:
  assumes "e \<in> set special_register_encoding_metadata"
    and "sm_kind e \<in> {K_System SystemKind.LoadSpecialRegister,
      K_System SystemKind.LoadSpecialRegisterPostIncrement}"
  shows "sm_special_register e \<noteq> SpecialRegister.Sgr"
proof -
  have "list_all (\<lambda>e. sm_kind e \<in> {K_System SystemKind.LoadSpecialRegister,
      K_System SystemKind.LoadSpecialRegisterPostIncrement} \<longrightarrow>
      sm_special_register e \<noteq> SpecialRegister.Sgr) special_register_encoding_metadata"
    by (simp add: special_rows)
  then show ?thesis using assms by (auto simp: list_all_iff)
qed

lemma decoded_transfer:
  assumes "d_kind (decode opcode) \<in> transfer_kinds"
  shows "d_special_register (decode opcode) \<noteq> SpecialRegister.NoneRegister"
    and "d_kind (decode opcode) \<in> {K_System SystemKind.LoadSpecialRegister,
      K_System SystemKind.LoadSpecialRegisterPostIncrement} \<Longrightarrow>
      d_special_register (decode opcode) \<noteq> SpecialRegister.Sgr"
proof -
  have "is_known (decode opcode)" using assms by (auto simp: is_known_def transfer_kinds_def)
  moreover have "\<not> (\<exists>m\<in>set instruction_metadata. matches m opcode)"
    using assms row_decodes plain_row_kind by (fastforce simp: decodes_as_def)
  ultimately obtain e where "e \<in> set special_register_encoding_metadata" "special_matches e opcode"
    by (auto simp: decode_known_iff)
  then show "d_special_register (decode opcode) \<noteq> SpecialRegister.NoneRegister"
    and "d_kind (decode opcode) \<in> {K_System SystemKind.LoadSpecialRegister,
      K_System SystemKind.LoadSpecialRegisterPostIncrement} \<Longrightarrow>
      d_special_register (decode opcode) \<noteq> SpecialRegister.Sgr"
    using special_row_decodes special_row_kind(2) special_row_loadable by auto
qed

lemma system_agrees:
  assumes "dl_instruction line = decode opcode" and "d_kind (decode opcode) = K_System k"
  shows "exec_access relocate (guest_reader ops origin) (guest_writer ops origin)
      (lower_instruction line) s = interpret_access ops origin pc (dl_instruction line) s"
proof (cases "K_System k \<in> transfer_kinds")
  case True
  note facts = decoded_transfer [of opcode, unfolded assms(2), OF True]
  show ?thesis
    using True assms facts
    by (auto simp: special_read_agrees special_write_agrees transfer_kinds_def exec_access_def interpret_access_def lower_operation_def Let_def
        emitted_store_special_def into_register_def emitted_store_special_predecrement_def
        interpret_store_special_predecrement_def interpret_load_special_postincrement_def
        guest.load_special_reread guest_accessors guest_writer_def [abs_def])
next
  case False
  then show ?thesis using assms
    by (cases k) (simp_all add: transfer_kinds_def exec_access_def interpret_access_def
      lower_operation_def Let_def narrow_stores exec_simple_def exec_operation_def interpret_simple_def)
qed

lemma simple_agrees:
  "exec_simple (lower_instruction line) cpu = interpret_simple (dl_instruction line) cpu"
  by (simp add: exec_simple_def interpret_emitted)

lemma access_agrees:
  assumes "relocated_by delta relocate line" and "dl_instruction line = decode opcode"
  shows "exec_access relocate (guest_reader ops origin) (guest_writer ops origin)
      (lower_instruction line) s =
    interpret_access ops origin (dl_address line + delta) (dl_instruction line) s"
proof (cases "d_kind (dl_instruction line)")
  case (K_System k)
  then show ?thesis using system_agrees assms(2) by simp
next
  case (K_Move a)
  then show ?thesis using move_agrees [OF assms(1) K_Move] by (simp add: interpret_access_def)
next
  case (K_Logic a)
  then show ?thesis using simple_agrees [of line "fst s"]
    by (cases a) (simp_all add: exec_access_def interpret_access_def lower_operation_def Let_def
      byte_test_agrees byte_update_agrees test_and_set_agrees)
next
  case (K_MulDiv a)
  then show ?thesis using simple_agrees [of line "fst s"]
    by (cases a) (simp_all add: exec_access_def interpret_access_def lower_operation_def Let_def
      mac_agrees)
next
  case (K_Arith a)
  then show ?thesis using simple_agrees [of line "fst s"]
    by (cases a) (simp_all add: exec_access_def interpret_access_def lower_operation_def Let_def)
next
  case (K_Shift a)
  then show ?thesis using simple_agrees [of line "fst s"]
    by (cases a) (simp_all add: exec_access_def interpret_access_def lower_operation_def Let_def)
next
  case (K_Fpu a)
  then show ?thesis using simple_agrees [of line "fst s"]
    by (cases a) (simp_all add: exec_access_def interpret_access_def lower_operation_def Let_def)
next
  case (K_Flow a)
  then show ?thesis using simple_agrees [of line "fst s"]
    by (cases a) (simp_all add: exec_access_def interpret_access_def lower_operation_def Let_def)
qed (use simple_agrees [of line "fst s"] in
  \<open>simp_all add: exec_access_def interpret_access_def lower_operation_def Let_def\<close>)

end
