(* ===== verification/Register_Liveness.thy ===== *)
theory Register_Liveness
  imports Ir_Effects
begin

text \<open>
  Register use/def sets and the backwards liveness analysis that plans which scalar registers a
  compiled function keeps in host locals (\<open>include/katana/ir/register_liveness.hpp\<close>,
  \<open>src/ir/register_liveness.cpp\<close>).
\<close>

subsection \<open>Register masks\<close>

datatype TrackedRegister =
    R0 | R1 | R2 | R3 | R4 | R5 | R6 | R7 | R8 | R9 | R10 | R11 | R12 | R13 | R14 | R15
  | RegT | RegPr | RegGbr | RegMach | RegMacl | RegFpul

text \<open>\<open>static_cast<std::uint8_t>(value)\<close>\<close>

fun tracked_index :: "TrackedRegister \<Rightarrow> nat" where
  "tracked_index R0 = 0" | "tracked_index R1 = 1" | "tracked_index R2 = 2" | "tracked_index R3 = 3"
| "tracked_index R4 = 4" | "tracked_index R5 = 5" | "tracked_index R6 = 6" | "tracked_index R7 = 7"
| "tracked_index R8 = 8" | "tracked_index R9 = 9" | "tracked_index R10 = 10"
| "tracked_index R11 = 11" | "tracked_index R12 = 12" | "tracked_index R13 = 13"
| "tracked_index R14 = 14" | "tracked_index R15 = 15" | "tracked_index RegT = 16"
| "tracked_index RegPr = 17" | "tracked_index RegGbr = 18" | "tracked_index RegMach = 19"
| "tracked_index RegMacl = 20" | "tracked_index RegFpul = 21"

type_synonym RegisterMask = u32

definition register_bit :: "TrackedRegister \<Rightarrow> RegisterMask" where
  "register_bit r = push_bit (tracked_index r) 1"

definition gpr_register_bit :: "reg \<Rightarrow> RegisterMask" where
  "gpr_register_bit index = (if index < 16 then push_bit index 1 else 0)"

definition general_register_mask :: RegisterMask where
  "general_register_mask = push_bit 16 1 - 1"

definition scalar_register_mask :: RegisterMask where
  "scalar_register_mask =
     ((((register_bit RegT OR register_bit RegPr) OR register_bit RegGbr) OR register_bit RegMach)
       OR register_bit RegMacl) OR register_bit RegFpul"

definition tracked_register_mask :: RegisterMask where
  "tracked_register_mask = general_register_mask OR scalar_register_mask"

definition register_mask_contains :: "RegisterMask \<Rightarrow> TrackedRegister \<Rightarrow> bool" where
  "register_mask_contains msk r \<longleftrightarrow> msk AND register_bit r \<noteq> 0"

definition general_register_subset :: "RegisterMask \<Rightarrow> u16" where
  "general_register_subset msk = ucast (msk AND general_register_mask)"

definition scalar_register_subset :: "RegisterMask \<Rightarrow> u8" where
  "scalar_register_subset msk = ucast (drop_bit 16 (msk AND scalar_register_mask))"

subsection \<open>Use and definition of one instruction\<close>

record InstructionRegisterUseDef =
  ud_uses :: RegisterMask
  ud_defs :: RegisterMask

definition no_use_def :: InstructionRegisterUseDef where
  "no_use_def = \<lparr>ud_uses = 0, ud_defs = 0\<rparr>"

definition add_uses :: "RegisterMask \<Rightarrow> InstructionRegisterUseDef \<Rightarrow> InstructionRegisterUseDef" where
  "add_uses msk ud = ud\<lparr>ud_uses := ud_uses ud OR msk\<rparr>"

definition add_defs :: "RegisterMask \<Rightarrow> InstructionRegisterUseDef \<Rightarrow> InstructionRegisterUseDef" where
  "add_defs msk ud = ud\<lparr>ud_defs := ud_defs ud OR msk\<rparr>"

definition use_gpr :: "reg \<Rightarrow> InstructionRegisterUseDef \<Rightarrow> InstructionRegisterUseDef" where
  "use_gpr index ud = add_uses (gpr_register_bit index) ud"

definition def_gpr :: "reg \<Rightarrow> InstructionRegisterUseDef \<Rightarrow> InstructionRegisterUseDef" where
  "def_gpr index ud = add_defs (gpr_register_bit index) ud"

definition use_destination ::
    "Instruction \<Rightarrow> InstructionRegisterUseDef \<Rightarrow> InstructionRegisterUseDef" where
  "use_destination i ud = use_gpr (ir_destination_register i) ud"

definition def_destination ::
    "Instruction \<Rightarrow> InstructionRegisterUseDef \<Rightarrow> InstructionRegisterUseDef" where
  "def_destination i ud = def_gpr (ir_destination_register i) ud"

definition use_source ::
    "Instruction \<Rightarrow> InstructionRegisterUseDef \<Rightarrow> InstructionRegisterUseDef" where
  "use_source i ud = use_gpr (ir_source_register i) ud"

definition use_binary_and_def_destination ::
    "Instruction \<Rightarrow> InstructionRegisterUseDef \<Rightarrow> InstructionRegisterUseDef" where
  "use_binary_and_def_destination i ud =
     def_destination i (use_source i (use_destination i ud))"

definition use_unary_and_def_destination ::
    "Instruction \<Rightarrow> InstructionRegisterUseDef \<Rightarrow> InstructionRegisterUseDef" where
  "use_unary_and_def_destination i ud = def_destination i (use_source i ud)"

definition special_register_bit :: "IrSpecialRegister \<Rightarrow> RegisterMask" where
  "special_register_bit special_register = (case special_register of
       Pr \<Rightarrow> register_bit RegPr | Gbr \<Rightarrow> register_bit RegGbr | Mach \<Rightarrow> register_bit RegMach
     | Macl \<Rightarrow> register_bit RegMacl | Fpul \<Rightarrow> register_bit RegFpul | _ \<Rightarrow> 0)"

definition add_status_effects ::
    "StatusRegisterEffects \<Rightarrow> InstructionRegisterUseDef \<Rightarrow> InstructionRegisterUseDef" where
  "add_status_effects effects ud =
     (let ud = (if contains_status_bit (se_reads effects) status_T
                then add_uses (register_bit RegT) ud else ud)
      in if contains_status_bit (se_writes effects) status_T
         then add_defs (register_bit RegT) ud else ud)"

definition add_accumulator_effects ::
    "AccumulatorEffects \<Rightarrow> InstructionRegisterUseDef \<Rightarrow> InstructionRegisterUseDef" where
  "add_accumulator_effects effects ud =
     (let reads = ae_reads_if_s_clear effects OR ae_reads_if_s_set effects;
          writes = ae_writes_if_s_clear effects OR ae_writes_if_s_set effects;
          ud = (if contains_accumulator_register reads accumulator_Mach
                then add_uses (register_bit RegMach) ud else ud);
          ud = (if contains_accumulator_register reads accumulator_Macl
                then add_uses (register_bit RegMacl) ud else ud);
          ud = (if contains_accumulator_register writes accumulator_Mach
                then add_defs (register_bit RegMach) ud else ud)
      in if contains_accumulator_register writes accumulator_Macl
         then add_defs (register_bit RegMacl) ud else ud)"

definition add_canonical_scalar_effects ::
    "Instruction \<Rightarrow> InstructionRegisterUseDef \<Rightarrow> InstructionRegisterUseDef" where
  "add_canonical_scalar_effects i ud =
     add_accumulator_effects
       (operation_accumulator_effects (ir_operation i) (ir_special_register i))
       (add_accumulator_effects (ir_accumulator_effects i)
         (add_status_effects (instruction_status_effects (ir_operation i) (ir_special_register i))
           (add_status_effects (ir_status_effects i) ud)))"

text \<open>The operand cases, in the order of the \<open>switch\<close>; the default result is the empty one.\<close>

definition operand_use_def :: "Instruction \<Rightarrow> InstructionRegisterUseDef" where
  "operand_use_def i =
   (let operation = ir_operation i; result = no_use_def in
    if operation = Unknown then
      \<lparr>ud_uses = tracked_register_mask, ud_defs = tracked_register_mask\<rparr>
    else if operation \<in> {Nop, O_Logic ClearS, O_Logic SetS, O_Logic ClearT, O_Logic SetT,
        O_MulDiv ClearMac, O_MulDiv DivideInitializeUnsigned, O_System LoadTlb, O_System Sleep,
        O_System ReturnFromException, O_System TrapAlways, O_Flow Branch, O_Fpu FmovRegister,
        O_Fpu Fldi0, O_Fpu Fldi1, O_Fpu Fabs, O_Fpu Fadd, O_Fpu FcmpEqual, O_Fpu FcmpGreater,
        O_Fpu Fdiv, O_Fpu Fmac, O_Fpu Fmul, O_Fpu Fneg, O_Fpu Fsqrt, O_Fpu Fsrra, O_Fpu Fipr,
        O_Fpu Ftrv, O_Fpu Fsub, O_Fpu Frchg, O_Fpu Fschg} then
      result
    else if operation \<in> {O_Arith MovImmediate, O_Arith Constant32,
        O_Memory LoadWordSignedPcRelative, O_Memory LoadLongPcRelative} then
      def_destination i result
    else if operation = O_Memory MoveAddressPcRelative then
      def_gpr 0 result
    else if operation \<in> {O_Arith AddImmediate, O_Arith DecrementAndTest,
        O_Shift ShiftLogicalLeftOne, O_Shift ShiftLogicalRightOne, O_Shift ShiftArithmeticLeftOne,
        O_Shift ShiftArithmeticRightOne, O_Shift ShiftLogicalLeftTwo,
        O_Shift ShiftLogicalLeftEight, O_Shift ShiftLogicalLeftSixteen,
        O_Shift ShiftLogicalRightTwo, O_Shift ShiftLogicalRightEight,
        O_Shift ShiftLogicalRightSixteen, O_Shift RotateLeft, O_Shift RotateRight,
        O_Shift RotateLeftThroughT, O_Shift RotateRightThroughT} then
      def_destination i (use_destination i result)
    else if operation \<in> {O_Arith MovRegister, O_Arith NegateRegister, O_Arith NotRegister,
        O_Arith NegateWithCarry, O_Arith ExtendUnsignedByte, O_Arith ExtendUnsignedWord,
        O_Arith ExtendSignedByte, O_Arith ExtendSignedWord, O_Arith SwapBytes,
        O_Arith SwapWords} then
      use_unary_and_def_destination i result
    else if operation \<in> {O_Arith AddRegister, O_Arith SubRegister, O_Arith AddWithCarry,
        O_Arith AddWithOverflow, O_Arith SubWithCarry, O_Arith SubWithOverflow,
        O_Arith ExtractMiddle, O_Shift ShiftArithmeticDynamic, O_Shift ShiftLogicalDynamic,
        O_MulDiv DivideStep, O_Logic AndRegister, O_Logic OrRegister, O_Logic XorRegister} then
      use_binary_and_def_destination i result
    else if operation \<in> {O_MulDiv MultiplyLong, O_MulDiv MultiplySignedWord,
        O_MulDiv MultiplyUnsignedWord, O_MulDiv DoubleMultiplySignedLong,
        O_MulDiv DoubleMultiplyUnsignedLong, O_MulDiv DivideInitializeSigned,
        O_Logic CompareEqualRegister, O_Logic CompareHigherOrSame, O_Logic CompareGreaterOrEqual,
        O_Logic CompareHigher, O_Logic CompareGreaterThan, O_Logic CompareString,
        O_Logic TestRegister} then
      use_source i (use_destination i result)
    else if operation \<in> {O_MulDiv MultiplyAccumulateWord, O_MulDiv MultiplyAccumulateLong} then
      def_gpr (ir_source_register i) (use_binary_and_def_destination i result)
    else if operation \<in> {O_Logic AndImmediate, O_Logic OrImmediate, O_Logic XorImmediate} then
      def_gpr 0 (use_gpr 0 result)
    else if operation \<in> {O_Logic CompareEqualImmediate, O_Logic TestImmediate} then
      use_gpr 0 result
    else if operation \<in> {O_Logic ComparePositiveOrZero, O_Logic ComparePositive} then
      use_destination i result
    else if operation = O_Arith MoveT then
      def_destination i result
    else if operation \<in> {O_Logic TestByteImmediate, O_Logic AndByteImmediate,
        O_Logic XorByteImmediate, O_Logic OrByteImmediate} then
      add_uses (register_bit RegGbr) (use_gpr 0 result)
    else if operation \<in> {O_Logic TestAndSetByte, O_System Prefetch, O_System Ocbi, O_System Ocbp,
        O_System Ocbwb} then
      use_source i result
    else if operation \<in> {O_Memory LoadByteSigned, O_Memory LoadWordSigned, O_Memory LoadLong,
        O_Memory LoadByteSignedDisplacement, O_Memory LoadWordSignedDisplacement,
        O_Memory LoadLongDisplacement} then
      (let result = use_source i result;
           result = (case ir_forwarded_value_register i of None \<Rightarrow> result
                     | Some forwarded \<Rightarrow> use_gpr forwarded result)
       in def_destination i result)
    else if operation \<in> {O_Memory StoreByte, O_Memory StoreWord, O_Memory StoreLong,
        O_Memory StoreByteDisplacement, O_Memory StoreWordDisplacement,
        O_Memory StoreLongDisplacement} then
      use_source i (use_destination i result)
    else if operation \<in> {O_Memory StoreBytePreDecrement, O_Memory StoreWordPreDecrement,
        O_Memory StoreLongPreDecrement} then
      def_destination i (use_source i (use_destination i result))
    else if operation \<in> {O_Memory LoadByteSignedPostIncrement,
        O_Memory LoadWordSignedPostIncrement, O_Memory LoadLongPostIncrement} then
      def_destination i (def_gpr (ir_source_register i) (use_source i result))
    else if operation \<in> {O_Memory StoreByteR0Indexed, O_Memory StoreWordR0Indexed,
        O_Memory StoreLongR0Indexed} then
      use_source i (use_destination i (use_gpr 0 result))
    else if operation \<in> {O_Memory LoadByteSignedR0Indexed, O_Memory LoadWordSignedR0Indexed,
        O_Memory LoadLongR0Indexed} then
      def_destination i (use_source i (use_gpr 0 result))
    else if operation \<in> {O_Memory StoreByteGbrDisplacement, O_Memory StoreWordGbrDisplacement,
        O_Memory StoreLongGbrDisplacement} then
      add_uses (register_bit RegGbr) (use_gpr 0 result)
    else if operation \<in> {O_Memory LoadByteSignedGbrDisplacement,
        O_Memory LoadWordSignedGbrDisplacement, O_Memory LoadLongGbrDisplacement} then
      def_gpr 0 (add_uses (register_bit RegGbr) result)
    else if operation = O_System StoreSpecialRegister then
      def_destination i (add_uses (special_register_bit (ir_special_register i)) result)
    else if operation = O_System StoreSpecialRegisterPreDecrement then
      def_destination i (use_destination i
        (add_uses (special_register_bit (ir_special_register i)) result))
    else if operation = O_System LoadSpecialRegister then
      add_defs (special_register_bit (ir_special_register i)) (use_source i result)
    else if operation = O_System LoadSpecialRegisterPostIncrement then
      add_defs (special_register_bit (ir_special_register i))
        (def_gpr (ir_source_register i) (use_source i result))
    else if operation = O_System MovcaLong then
      use_destination i (use_gpr 0 result)
    else if operation = O_Fpu FmovLoad then
      use_source i result
    else if operation = O_Fpu FmovLoadPostIncrement then
      def_gpr (ir_source_register i) (use_source i result)
    else if operation = O_Fpu FmovLoadR0Indexed then
      use_source i (use_gpr 0 result)
    else if operation = O_Fpu FmovStore then
      use_destination i result
    else if operation = O_Fpu FmovStorePreDecrement then
      def_destination i (use_destination i result)
    else if operation = O_Fpu FmovStoreR0Indexed then
      use_destination i (use_gpr 0 result)
    else if operation \<in> {O_Fpu Flds, O_Fpu Ftrc, O_Fpu FcnvDoubleToSingle} then
      add_defs (register_bit RegFpul) result
    else if operation \<in> {O_Fpu Fsts, O_Fpu FloatFromFpul, O_Fpu Fsca, O_Fpu FcnvSingleToDouble} then
      add_uses (register_bit RegFpul) result
    else if operation = O_Flow Call then
      add_defs (register_bit RegPr) result
    else if operation \<in> {O_Flow BranchIfTrue, O_Flow BranchIfFalse} then
      result
    else if operation = O_Flow JumpRegister then
      use_gpr (ir_branch_register i) result
    else if operation = O_Flow CallRegister then
      add_defs (register_bit RegPr) (use_gpr (ir_branch_register i) result)
    else if operation = O_Flow Return then
      add_uses (register_bit RegPr) result
    else result)"

definition instruction_register_use_def :: "Instruction \<Rightarrow> InstructionRegisterUseDef" where
  "instruction_register_use_def i =
     (let result = add_canonical_scalar_effects i (operand_use_def i)
      in \<lparr>ud_uses = ud_uses result AND tracked_register_mask,
          ud_defs = ud_defs result AND tracked_register_mask\<rparr>)"

subsection \<open>The localization plan\<close>

record BlockRegisterLiveness =
  bl_start_address :: u32
  bl_uses_before_def :: RegisterMask
  bl_defs :: RegisterMask
  bl_live_in :: RegisterMask
  bl_live_out :: RegisterMask
  bl_has_open_successor :: bool

record RegisterLocalizationPlan =
  rp_blocks :: "BlockRegisterLiveness list"
  rp_referenced_registers :: RegisterMask
  rp_candidate_registers :: RegisterMask
  rp_closed_control_flow :: bool

definition find_block :: "RegisterLocalizationPlan \<Rightarrow> u32 \<Rightarrow> BlockRegisterLiveness option" where
  "find_block plan start = find (\<lambda>b. bl_start_address b = start) (rp_blocks plan)"

definition general_register_candidates :: "RegisterLocalizationPlan \<Rightarrow> u16" where
  "general_register_candidates plan = general_register_subset (rp_candidate_registers plan)"

definition scalar_register_candidates :: "RegisterLocalizationPlan \<Rightarrow> u8" where
  "scalar_register_candidates plan = scalar_register_subset (rp_candidate_registers plan)"

text \<open>The only exception of the planner (\<open>std::invalid_argument\<close>).\<close>

datatype PlanError = DuplicateBlockStart

text \<open>Block-local sets: the scan of one block, with the set of registers referenced so far.\<close>

definition scan_instruction ::
    "Instruction \<Rightarrow> BlockRegisterLiveness \<times> RegisterMask \<Rightarrow> BlockRegisterLiveness \<times> RegisterMask"
  where
  "scan_instruction i st =
     (let (b, referenced) = st; ud = instruction_register_use_def i;
          b = b\<lparr>bl_uses_before_def := bl_uses_before_def b OR (ud_uses ud AND NOT (bl_defs b))\<rparr>;
          b = b\<lparr>bl_defs := bl_defs b OR ud_defs ud\<rparr>
      in (b, referenced OR (ud_uses ud OR ud_defs ud)))"

definition scan_block :: "BasicBlock \<Rightarrow> RegisterMask \<Rightarrow> BlockRegisterLiveness \<times> RegisterMask" where
  "scan_block block referenced =
     fold scan_instruction (bb_instructions block)
       (\<lparr>bl_start_address = bb_start_address block, bl_uses_before_def = 0, bl_defs = 0,
         bl_live_in = 0, bl_live_out = 0, bl_has_open_successor = False\<rparr>, referenced)"

text \<open>The first loop: indexes, block-local sets, and the duplicate check.\<close>

fun scan_blocks ::
    "BasicBlock list \<Rightarrow> (u32 \<rightharpoonup> nat) \<Rightarrow> BlockRegisterLiveness list \<Rightarrow> RegisterMask \<Rightarrow>
     PlanError + ((u32 \<rightharpoonup> nat) \<times> BlockRegisterLiveness list \<times> RegisterMask)" where
  "scan_blocks [] indexes out referenced = Inr (indexes, out, referenced)"
| "scan_blocks (block # blocks) indexes out referenced =
     (if indexes (bb_start_address block) \<noteq> None then Inl DuplicateBlockStart
      else let (b, referenced) = scan_block block referenced
           in scan_blocks blocks (indexes(bb_start_address block \<mapsto> length out)) (out @ [b])
                referenced)"

text \<open>The second loop: successors inside the function, and the open ones.\<close>

fun classify_successors ::
    "(u32 \<rightharpoonup> nat) \<Rightarrow> u32 list \<Rightarrow> bool \<times> nat list \<Rightarrow> bool \<times> nat list" where
  "classify_successors indexes [] st = st"
| "classify_successors indexes (successor # rest) (opened, internal) =
     classify_successors indexes rest
       (case indexes successor of None \<Rightarrow> (True, internal)
        | Some index \<Rightarrow> (opened, internal @ [index]))"

definition block_successors :: "(u32 \<rightharpoonup> nat) \<Rightarrow> BasicBlock \<Rightarrow> bool \<times> nat list" where
  "block_successors indexes block =
     classify_successors indexes (bb_successors block) (bb_has_indirect_successor block, [])"

definition open_block ::
    "(u32 \<rightharpoonup> nat) \<Rightarrow> BasicBlock \<Rightarrow> BlockRegisterLiveness \<Rightarrow> BlockRegisterLiveness" where
  "open_block indexes block b = b\<lparr>bl_has_open_successor := fst (block_successors indexes block)\<rparr>"

text \<open>The fixed-point loop: one sweep visits the blocks from the last to the first in place.\<close>

definition live_out_of ::
    "nat list list \<Rightarrow> BlockRegisterLiveness list \<Rightarrow> nat \<Rightarrow> RegisterMask" where
  "live_out_of succs blocks index =
     fold (\<lambda>successor live_out. live_out OR bl_live_in (blocks ! successor)) (succs ! index)
       (if bl_has_open_successor (blocks ! index) then tracked_register_mask else 0)"

definition live_in_of :: "BlockRegisterLiveness \<Rightarrow> RegisterMask \<Rightarrow> RegisterMask" where
  "live_in_of b live_out = bl_uses_before_def b OR (live_out AND NOT (bl_defs b))"

definition sweep_block ::
    "nat list list \<Rightarrow> nat \<Rightarrow> BlockRegisterLiveness list \<times> bool \<Rightarrow>
     BlockRegisterLiveness list \<times> bool" where
  "sweep_block succs index st =
     (let (blocks, changed) = st; b = blocks ! index; live_out = live_out_of succs blocks index;
          live_in = live_in_of b live_out
      in if live_out \<noteq> bl_live_out b \<or> live_in \<noteq> bl_live_in b
         then (blocks[index := b\<lparr>bl_live_out := live_out, bl_live_in := live_in\<rparr>], True)
         else (blocks, changed))"

primrec sweep_down ::
    "nat list list \<Rightarrow> nat \<Rightarrow> BlockRegisterLiveness list \<times> bool \<Rightarrow>
     BlockRegisterLiveness list \<times> bool" where
  "sweep_down succs 0 st = st"
| "sweep_down succs (Suc index) st = sweep_down succs index (sweep_block succs index st)"

partial_function (option) solve_liveness ::
    "nat list list \<Rightarrow> BlockRegisterLiveness list \<Rightarrow> BlockRegisterLiveness list option" where
  "solve_liveness succs blocks =
     (let (swept, changed) = sweep_down succs (length blocks) (blocks, False)
      in if changed then solve_liveness succs swept else Some swept)"

declare solve_liveness.simps [code]

text \<open>The candidate pass walks each block backwards from its live-out set.\<close>

definition candidate_instruction ::
    "Instruction \<Rightarrow> RegisterMask \<times> RegisterMask \<Rightarrow> RegisterMask \<times> RegisterMask" where
  "candidate_instruction i st =
     (let (candidates, live_after) = st; ud = instruction_register_use_def i
      in (candidates OR ((ud_defs ud AND live_after) OR (ud_uses ud AND live_after)),
          ud_uses ud OR (live_after AND NOT (ud_defs ud))))"

definition candidate_block ::
    "BasicBlock \<times> BlockRegisterLiveness \<Rightarrow> RegisterMask \<Rightarrow> RegisterMask" where
  "candidate_block block candidates =
     fst (fold candidate_instruction (rev (bb_instructions (fst block)))
            (candidates, bl_live_out (snd block)))"

definition make_register_localization_plan ::
    "Function \<Rightarrow> (PlanError + RegisterLocalizationPlan) option" where
  "make_register_localization_plan fn =
     (case scan_blocks (fn_blocks fn) (\<lambda>_. None) [] 0 of
        Inl e \<Rightarrow> Some (Inl e)
      | Inr (indexes, scanned, referenced) \<Rightarrow>
          let succs = map (\<lambda>block. snd (block_successors indexes block)) (fn_blocks fn);
              opened = map2 (open_block indexes) (fn_blocks fn) scanned;
              closed = list_all (\<lambda>b. \<not> bl_has_open_successor b) opened
          in map_option (\<lambda>blocks. Inr \<lparr>rp_blocks = blocks, rp_referenced_registers = referenced,
                 rp_candidate_registers =
                   fold candidate_block (zip (fn_blocks fn) blocks) 0 AND tracked_register_mask,
                 rp_closed_control_flow = closed\<rparr>)
               (solve_liveness succs opened))"

end
