(* ===== verification/Liveness_Fixpoint.thy ===== *)
theory Liveness_Fixpoint
  imports Register_Liveness
begin

text \<open>
  The sweep loop of the register localization planner ends and computes the least solution of the
  backwards liveness equations, stated independently of the loop over the instructions and the
  successor addresses of a function.
\<close>

subsection \<open>The sweep computes the least solution\<close>

text \<open>Inclusion of register sets.\<close>

definition mask_le :: "RegisterMask \<Rightarrow> RegisterMask \<Rightarrow> bool" where
  "mask_le a b \<longleftrightarrow> a OR b = b"

lemma mask_le_iff: "mask_le a b \<longleftrightarrow> (\<forall>n. bit a n \<longrightarrow> bit b n)"
proof
  assume "mask_le a b"
  then have "b = a OR b" by (simp add: mask_le_def)
  then show "\<forall>n. bit a n \<longrightarrow> bit b n" by (metis bit_or_iff)
next
  assume "\<forall>n. bit a n \<longrightarrow> bit b n"
  then show "mask_le a b" unfolding mask_le_def by (intro bit_eqI) (auto simp: bit_or_iff)
qed

lemma mask_le_refl [simp]: "mask_le a a" and mask_le_zero [simp]: "mask_le 0 a"
  by (simp_all add: mask_le_iff)

lemma mask_le_trans: "mask_le a b \<Longrightarrow> mask_le b c \<Longrightarrow> mask_le a c"
  by (simp add: mask_le_iff)

lemma mask_le_antisym: "mask_le a b \<Longrightarrow> mask_le b a \<Longrightarrow> a = b"
  by (metis mask_le_def or.commute)

lemma mask_le_or: "mask_le a b \<Longrightarrow> mask_le c d \<Longrightarrow> mask_le (a OR c) (b OR d)"
  by (auto simp: mask_le_iff bit_or_iff)

text \<open>What a sweep leaves of a block, and the dataflow equations.\<close>

definition block_shape :: "BlockRegisterLiveness \<Rightarrow> u32 \<times> RegisterMask \<times> RegisterMask \<times> bool" where
  "block_shape b =
     (bl_start_address b, bl_uses_before_def b, bl_defs b, bl_has_open_successor b)"

definition liveness_solution :: "nat list list \<Rightarrow> BlockRegisterLiveness list \<Rightarrow> bool" where
  "liveness_solution succs blocks \<longleftrightarrow> (\<forall>i<length blocks.
     bl_live_out (blocks ! i) = live_out_of succs blocks i \<and>
     bl_live_in (blocks ! i) = live_in_of (blocks ! i) (live_out_of succs blocks i))"

definition internal_edges :: "nat list list \<Rightarrow> nat \<Rightarrow> bool" where
  "internal_edges succs n \<longleftrightarrow> length succs = n \<and> (\<forall>js \<in> set succs. \<forall>j \<in> set js. j < n)"

definition block_below :: "BlockRegisterLiveness \<Rightarrow> BlockRegisterLiveness \<Rightarrow> bool" where
  "block_below b c \<longleftrightarrow> block_shape b = block_shape c \<and> mask_le (bl_live_in b) (bl_live_in c) \<and>
     mask_le (bl_live_out b) (bl_live_out c)"

definition live_below :: "BlockRegisterLiveness list \<Rightarrow> BlockRegisterLiveness list \<Rightarrow> bool" where
  "live_below = list_all2 block_below"

definition live_growing :: "nat list list \<Rightarrow> BlockRegisterLiveness list \<Rightarrow> bool" where
  "live_growing succs blocks \<longleftrightarrow> (\<forall>i<length blocks.
     mask_le (bl_live_out (blocks ! i)) (live_out_of succs blocks i) \<and>
     mask_le (bl_live_in (blocks ! i)) (live_in_of (blocks ! i) (live_out_of succs blocks i)))"

lemma block_below_refl [simp]: "block_below b b"
  by (simp add: block_below_def)

lemma block_below_trans: "block_below a b \<Longrightarrow> block_below b c \<Longrightarrow> block_below a c"
  unfolding block_below_def using mask_le_trans by metis

lemma live_below_length: "live_below xs ys \<Longrightarrow> length xs = length ys"
  by (simp add: live_below_def list_all2_lengthD)

lemma live_below_refl [simp]: "live_below xs xs"
  by (simp add: live_below_def list_all2_refl)

lemma live_below_trans: "live_below xs ys \<Longrightarrow> live_below ys zs \<Longrightarrow> live_below xs zs"
  unfolding live_below_def by (rule list_all2_trans [OF block_below_trans])

lemma block_below_antisym: "block_below b c \<Longrightarrow> block_below c b \<Longrightarrow> b = c"
  by (rule BlockRegisterLiveness.equality)
    (auto simp: block_below_def block_shape_def intro: mask_le_antisym)

lemma live_below_antisym: "live_below xs ys \<Longrightarrow> live_below ys xs \<Longrightarrow> xs = ys"
  unfolding live_below_def
  by (rule list_all2_antisym [where P = block_below]) (auto intro: block_below_antisym)

lemma live_below_nth: "live_below xs ys \<Longrightarrow> i < length xs \<Longrightarrow> block_below (xs ! i) (ys ! i)"
  by (simp add: live_below_def list_all2_nthD)

lemma live_below_shape:
  "live_below xs ys \<Longrightarrow> i < length xs \<Longrightarrow> block_shape (xs ! i) = block_shape (ys ! i)"
  using live_below_nth block_below_def by blast

lemma fold_or_mono:
  "(\<And>j. j \<in> set js \<Longrightarrow> mask_le (f j) (g j)) \<Longrightarrow> mask_le a b \<Longrightarrow>
    mask_le (fold (\<lambda>j acc. acc OR f j) js a) (fold (\<lambda>j acc. acc OR g j) js b)"
  by (induction js arbitrary: a b) (auto intro: mask_le_or)

lemma internal_edgesD: "internal_edges succs n \<Longrightarrow> i < n \<Longrightarrow> j \<in> set (succs ! i) \<Longrightarrow> j < n"
  unfolding internal_edges_def by (metis nth_mem)

lemma live_out_of_mono:
  assumes "live_below xs ys" "internal_edges succs (length xs)" "i < length xs"
  shows "mask_le (live_out_of succs xs i) (live_out_of succs ys i)"
proof -
  have "bl_has_open_successor (xs ! i) = bl_has_open_successor (ys ! i)"
    using live_below_shape [OF assms(1,3)] by (simp add: block_shape_def)
  moreover have "mask_le (bl_live_in (xs ! j)) (bl_live_in (ys ! j))" if "j \<in> set (succs ! i)" for j
    using live_below_nth [OF assms(1) internal_edgesD [OF assms(2,3) that]]
    by (simp add: block_below_def)
  ultimately show ?thesis
    unfolding live_out_of_def by (intro fold_or_mono) simp_all
qed

lemma live_in_of_mono:
  "block_shape b = block_shape c \<Longrightarrow> mask_le x y \<Longrightarrow> mask_le (live_in_of b x) (live_in_of c y)"
  by (auto simp: live_in_of_def block_shape_def mask_le_iff bit_or_iff bit_and_iff)

text \<open>One step of a sweep: what it writes, and when it reports a change.\<close>

lemma sweep_block_cases:
  obtains (same) "sweep_block succs i (xs, changed) = (xs, changed)"
      "bl_live_out (xs ! i) = live_out_of succs xs i"
      "bl_live_in (xs ! i) = live_in_of (xs ! i) (live_out_of succs xs i)"
  | (new) b where "sweep_block succs i (xs, changed) = (xs[i := b], True)"
      "b \<noteq> xs ! i" "block_shape b = block_shape (xs ! i)"
      "bl_live_out b = live_out_of succs xs i"
      "bl_live_in b = live_in_of (xs ! i) (live_out_of succs xs i)"
proof (cases "live_out_of succs xs i \<noteq> bl_live_out (xs ! i) \<or>
    live_in_of (xs ! i) (live_out_of succs xs i) \<noteq> bl_live_in (xs ! i)")
  case True
  let ?b = "(xs ! i)\<lparr>bl_live_out := live_out_of succs xs i,
    bl_live_in := live_in_of (xs ! i) (live_out_of succs xs i)\<rparr>"
  have "?b \<noteq> xs ! i" using True by (cases "xs ! i") auto
  with True show ?thesis
    by (intro new [of ?b]) (simp_all add: sweep_block_def Let_def block_shape_def)
next
  case False
  then show ?thesis by (intro same) (simp_all add: sweep_block_def Let_def)
qed

lemma live_below_update:
  "live_below xs ys \<Longrightarrow> i < length xs \<Longrightarrow> block_below b (ys ! i) \<Longrightarrow> live_below (xs[i := b]) ys"
  "live_below xs ys \<Longrightarrow> i < length xs \<Longrightarrow> block_below (xs ! i) c \<Longrightarrow> live_below xs (ys[i := c])"
  unfolding live_below_def
  by (metis list_all2_update_cong list_update_id)+

lemma sweep_block_grows:
  assumes "live_growing succs xs" "internal_edges succs (length xs)" "i < length xs"
    "sweep_block succs i (xs, changed) = (ys, changed')"
  shows "live_below xs ys" "live_growing succs ys" "ys \<noteq> xs \<longrightarrow> changed'"
    "changed' \<longrightarrow> changed \<or> ys \<noteq> xs"
    "\<not> changed' \<longrightarrow> \<not> changed \<and> bl_live_out (xs ! i) = live_out_of succs xs i \<and>
       bl_live_in (xs ! i) = live_in_of (xs ! i) (live_out_of succs xs i)"
proof -
  have *: "live_below xs ys \<and> live_growing succs ys \<and> (ys \<noteq> xs \<longrightarrow> changed') \<and>
    (changed' \<longrightarrow> changed \<or> ys \<noteq> xs) \<and>
    (\<not> changed' \<longrightarrow> \<not> changed \<and> bl_live_out (xs ! i) = live_out_of succs xs i \<and>
       bl_live_in (xs ! i) = live_in_of (xs ! i) (live_out_of succs xs i))"
  proof (cases rule: sweep_block_cases [of succs i xs changed])
    case same
    then show ?thesis using assms by simp
  next
    case (new b)
    then have ys: "ys = xs[i := b]" and "changed'" using assms by simp_all
    have below: "live_below xs ys"
      unfolding ys using new assms
      by (intro live_below_update(2)) (simp_all add: live_growing_def block_below_def)
    have "mask_le (bl_live_out (ys ! j)) (live_out_of succs xs j) \<and>
      mask_le (bl_live_in (ys ! j)) (live_in_of (xs ! j) (live_out_of succs xs j))"
      if "j < length xs" for j
      using that new assms by (cases "j = i") (simp_all add: ys live_growing_def)
    then have "live_growing succs ys"
      unfolding live_growing_def live_below_length [OF below, symmetric]
      using live_out_of_mono [OF below assms(2)] live_in_of_mono [OF live_below_shape [OF below]]
      by (meson mask_le_trans)
    moreover have "ys \<noteq> xs" unfolding ys using new(2) assms(3) by (metis nth_list_update_eq)
    ultimately show ?thesis using below \<open>changed'\<close> by blast
  qed
  then show "live_below xs ys" "live_growing succs ys" "ys \<noteq> xs \<longrightarrow> changed'"
    "changed' \<longrightarrow> changed \<or> ys \<noteq> xs"
    "\<not> changed' \<longrightarrow> \<not> changed \<and> bl_live_out (xs ! i) = live_out_of succs xs i \<and>
       bl_live_in (xs ! i) = live_in_of (xs ! i) (live_out_of succs xs i)"
    by blast+
qed

lemma sweep_block_below_solution:
  assumes "live_below xs sol" "liveness_solution succs sol" "internal_edges succs (length xs)"
    "i < length xs"
  shows "live_below (fst (sweep_block succs i (xs, changed))) sol"
proof (cases rule: sweep_block_cases [of succs i xs changed])
  case same
  then show ?thesis using assms by simp
next
  case (new b)
  have "i < length sol" using assms live_below_length by auto
  then have "block_below b (sol ! i)"
    using live_out_of_mono [OF assms(1,3,4)] new(3-5) live_below_shape [OF assms(1,4)]
      live_in_of_mono [OF live_below_shape [OF assms(1,4)] live_out_of_mono [OF assms(1,3,4)]]
      assms(2)
    by (simp add: block_below_def liveness_solution_def)
  then show ?thesis using live_below_update(1) [OF assms(1,4)] new(1) by simp
qed

text \<open>A whole sweep.\<close>

lemma sweep_down_grows:
  assumes "live_growing succs xs" "internal_edges succs (length xs)" "n \<le> length xs"
    "sweep_down succs n (xs, changed) = (ys, changed')"
  shows "live_below xs ys \<and> live_growing succs ys \<and> (changed' \<longrightarrow> changed \<or> ys \<noteq> xs) \<and>
    (\<not> changed' \<longrightarrow> ys = xs \<and> \<not> changed \<and> (\<forall>i<n. bl_live_out (xs ! i) = live_out_of succs xs i \<and>
       bl_live_in (xs ! i) = live_in_of (xs ! i) (live_out_of succs xs i)))"
  using assms
proof (induction n arbitrary: xs changed)
  case (Suc n)
  obtain zs ch where step: "sweep_block succs n (xs, changed) = (zs, ch)" by fastforce
  note grows = sweep_block_grows [OF Suc.prems(1,2) _ step]
  have len: "length zs = length xs" using live_below_length grows(1) Suc.prems(3) by force
  have rest: "sweep_down succs n (zs, ch) = (ys, changed')" using Suc.prems(4) step by simp
  have ih: "live_below zs ys \<and> live_growing succs ys \<and> (changed' \<longrightarrow> ch \<or> ys \<noteq> zs) \<and>
    (\<not> changed' \<longrightarrow> ys = zs \<and> \<not> ch \<and> (\<forall>i<n. bl_live_out (zs ! i) = live_out_of succs zs i \<and>
       bl_live_in (zs ! i) = live_in_of (zs ! i) (live_out_of succs zs i)))"
    using grows Suc.prems(2,3) len by (intro Suc.IH [OF _ _ _ rest]) simp_all
  have "ys \<noteq> xs" if "zs \<noteq> xs \<or> ys \<noteq> zs"
  proof
    assume "ys = xs"
    then have "live_below xs zs" "live_below zs xs" using ih grows(1) Suc.prems(3) by simp_all
    then have "zs = xs" using live_below_antisym by blast
    then show False using that \<open>ys = xs\<close> by simp
  qed
  then show ?case using ih grows Suc.prems(3) live_below_trans
    by (auto simp: less_Suc_eq)
qed simp

lemma sweep_down_below_solution:
  assumes "live_below xs sol" "liveness_solution succs sol" "internal_edges succs (length xs)"
    "n \<le> length xs"
  shows "live_below (fst (sweep_down succs n (xs, changed))) sol"
  using assms
proof (induction n arbitrary: xs changed)
  case (Suc n)
  obtain zs ch where step: "sweep_block succs n (xs, changed) = (zs, ch)" by fastforce
  have "live_below zs sol"
    using sweep_block_below_solution [OF Suc.prems(1-3), of n changed] step Suc.prems(4) by simp
  moreover from this have "length zs = length xs"
    using live_below_length Suc.prems(1) by metis
  ultimately show ?case using Suc step by simp
qed simp

text \<open>Every change adds a bit, of which there are finitely many.\<close>

definition live_bits :: "BlockRegisterLiveness list \<Rightarrow> (nat \<times> nat \<times> bool) set" where
  "live_bits xs = {(i, k, outgoing). i < length xs \<and>
     bit (if outgoing then bl_live_out (xs ! i) else bl_live_in (xs ! i)) k}"

lemma live_bits_bound: "live_bits xs \<subseteq> {..<length xs} \<times> {..<32} \<times> UNIV"
  by (auto simp: live_bits_def dest!: bit_imp_le_length split: if_splits)

lemma live_bits_mono:
  assumes "live_below xs ys" "xs \<noteq> ys"
  shows "live_bits xs \<subset> live_bits ys"
proof -
  note len = live_below_length [OF assms(1)]
  have le: "live_bits xs \<subseteq> live_bits ys"
    using live_below_nth [OF assms(1)] len
    by (auto simp: live_bits_def block_below_def mask_le_iff split: if_splits)
  moreover have "live_bits xs \<noteq> live_bits ys"
  proof
    assume eq: "live_bits xs = live_bits ys"
    have "block_below (ys ! i) (xs ! i)" if "i < length xs" for i
      using eq that live_below_shape [OF assms(1) that] len
      by (auto simp: live_bits_def block_below_def mask_le_iff set_eq_iff all_bool_eq)
    then have "live_below ys xs" using len by (simp add: live_below_def list_all2_conv_all_nth)
    then show False using live_below_antisym assms by blast
  qed
  ultimately show ?thesis by blast
qed

lemma solve_liveness_least:
  assumes "live_growing succs xs" "internal_edges succs (length xs)"
  shows "\<exists>ys. solve_liveness succs xs = Some ys \<and> live_below xs ys \<and> liveness_solution succs ys \<and>
    (\<forall>sol. liveness_solution succs sol \<longrightarrow> live_below xs sol \<longrightarrow> live_below ys sol)"
  using assms
proof (induction "length xs * 64 - card (live_bits xs)" arbitrary: xs rule: less_induct)
  case less
  obtain ys ch where sweep: "sweep_down succs (length xs) (xs, False) = (ys, ch)" by fastforce
  note grows = sweep_down_grows [OF less.prems order.refl sweep]
  have sol: "live_below ys sol" if "liveness_solution succs sol" "live_below xs sol" for sol
    using sweep_down_below_solution [OF that(2,1) less.prems(2) order.refl, of False] sweep by simp
  show ?case
  proof (cases ch)
    case False
    then have "solve_liveness succs xs = Some xs" "liveness_solution succs xs"
      using grows sweep by (subst solve_liveness.simps, simp) (use False grows in
          \<open>simp add: liveness_solution_def\<close>)
    then show ?thesis by auto
  next
    case True
    then have "xs \<noteq> ys" using grows by blast
    have len: "length ys = length xs" using grows live_below_length by metis
    have "finite (live_bits ys)" "card (live_bits ys) \<le> length xs * 64"
      using card_mono [OF _ live_bits_bound [of ys]] finite_subset [OF live_bits_bound [of ys]] len
      by (simp_all add: card_cartesian_product)
    then have "length ys * 64 - card (live_bits ys) < length xs * 64 - card (live_bits xs)"
      using psubset_card_mono [OF _ live_bits_mono [OF _ \<open>xs \<noteq> ys\<close>]] grows len by fastforce
    from less.hyps [OF this] obtain zs where zs: "solve_liveness succs ys = Some zs"
      "live_below ys zs" "liveness_solution succs zs"
      "\<forall>sol. liveness_solution succs sol \<longrightarrow> live_below ys sol \<longrightarrow> live_below zs sol"
      using grows less.prems(2) len by auto
    moreover have "solve_liveness succs xs = Some zs"
      using zs(1) sweep True by (subst solve_liveness.simps) simp
    ultimately show ?thesis using live_below_trans grows sol by meson
  qed
qed

subsection \<open>The plan against the dataflow equations\<close>

text \<open>
  The specification: the block-local sets in terms of the instructions, and the backwards liveness
  equations over the successors of a function, bit by bit.
\<close>

definition used_before_def :: "Instruction list \<Rightarrow> nat \<Rightarrow> bool" where
  "used_before_def is k \<longleftrightarrow> (\<exists>m<length is. bit (ud_uses (instruction_register_use_def (is ! m))) k \<and>
     (\<forall>l<m. \<not> bit (ud_defs (instruction_register_use_def (is ! l))) k))"

definition defined_in :: "Instruction list \<Rightarrow> nat \<Rightarrow> bool" where
  "defined_in is k \<longleftrightarrow> (\<exists>i \<in> set is. bit (ud_defs (instruction_register_use_def i)) k)"

definition block_starts :: "Function \<Rightarrow> u32 list" where
  "block_starts fn = map bb_start_address (fn_blocks fn)"

definition block_equations ::
    "Function \<Rightarrow> BlockRegisterLiveness list \<Rightarrow> BasicBlock \<Rightarrow> BlockRegisterLiveness \<Rightarrow> bool" where
  "block_equations fn blocks block b \<longleftrightarrow>
     bl_start_address b = bb_start_address block \<and>
     (\<forall>k. bit (bl_uses_before_def b) k \<longleftrightarrow> used_before_def (bb_instructions block) k) \<and>
     (\<forall>k. bit (bl_defs b) k \<longleftrightarrow> defined_in (bb_instructions block) k) \<and>
     (bl_has_open_successor b \<longleftrightarrow>
        bb_has_indirect_successor block \<or> \<not> set (bb_successors block) \<subseteq> set (block_starts fn)) \<and>
     (\<forall>k. bit (bl_live_out b) k \<longleftrightarrow>
        bl_has_open_successor b \<and> bit tracked_register_mask k \<or>
        (\<exists>j<length blocks. block_starts fn ! j \<in> set (bb_successors block) \<and>
           bit (bl_live_in (blocks ! j)) k)) \<and>
     (\<forall>k. bit (bl_live_in b) k \<longleftrightarrow>
        bit (bl_uses_before_def b) k \<or> bit (bl_live_out b) k \<and> \<not> bit (bl_defs b) k)"

definition liveness_equations :: "Function \<Rightarrow> BlockRegisterLiveness list \<Rightarrow> bool" where
  "liveness_equations fn blocks \<longleftrightarrow> list_all2 (block_equations fn blocks) (fn_blocks fn) blocks"

text \<open>The block-local scan.\<close>

lemma used_before_def_snoc:
  "used_before_def (is @ [i]) k \<longleftrightarrow> used_before_def is k \<or>
     bit (ud_uses (instruction_register_use_def i)) k \<and> \<not> defined_in is k"
proof -
  have "(\<forall>l<length is. \<not> bit (ud_defs (instruction_register_use_def ((is @ [i]) ! l))) k) \<longleftrightarrow>
      \<not> defined_in is k"
    unfolding defined_in_def by (metis in_set_conv_nth nth_append)
  moreover have "(\<exists>m<length is. bit (ud_uses (instruction_register_use_def ((is @ [i]) ! m))) k \<and>
      (\<forall>l<m. \<not> bit (ud_defs (instruction_register_use_def ((is @ [i]) ! l))) k)) \<longleftrightarrow>
      used_before_def is k"
    unfolding used_before_def_def by (intro ex_cong1 conj_cong refl) (auto simp: nth_append)
  ultimately show ?thesis
    unfolding used_before_def_def [of "is @ [i]"] by (simp only: length_append_singleton less_Suc_eq)
      (auto simp: nth_append_length)
qed

lemma scan_instruction_eq:
  "fst (scan_instruction i st) = (fst st)\<lparr>bl_uses_before_def := bl_uses_before_def (fst st) OR
       (ud_uses (instruction_register_use_def i) AND NOT (bl_defs (fst st))),
     bl_defs := bl_defs (fst st) OR ud_defs (instruction_register_use_def i)\<rparr>"
  by (simp add: scan_instruction_def Let_def split: prod.split)

lemma scan_block_sets:
  fixes block :: BasicBlock and referenced :: RegisterMask
  defines "b \<equiv> fst (scan_block block referenced)"
  shows "bl_start_address b = bb_start_address block" "bl_live_in b = 0" "bl_live_out b = 0"
    "\<not> bl_has_open_successor b"
    "bit (bl_uses_before_def b) k \<longleftrightarrow> used_before_def (bb_instructions block) k"
    "bit (bl_defs b) k \<longleftrightarrow> defined_in (bb_instructions block) k"
proof -
  let ?start = "(\<lparr>bl_start_address = bb_start_address block, bl_uses_before_def = 0, bl_defs = 0,
    bl_live_in = 0, bl_live_out = 0, bl_has_open_successor = False\<rparr>, referenced)"
  have "let b = fst (fold scan_instruction is ?start) in
      bl_start_address b = bb_start_address block \<and> bl_live_in b = 0 \<and> bl_live_out b = 0 \<and>
      \<not> bl_has_open_successor b \<and> (bit (bl_uses_before_def b) k \<longleftrightarrow> used_before_def is k) \<and>
      (bit (bl_defs b) k \<longleftrightarrow> defined_in is k)" for "is"
  proof (induction "is" rule: rev_induct)
    case Nil
    show ?case by (simp add: used_before_def_def defined_in_def)
  next
    case (snoc i "is")
    then show ?case
      by (simp add: scan_instruction_eq Let_def used_before_def_snoc bit_or_iff bit_and_iff
          bit_not_iff) (auto simp: defined_in_def dest: bit_imp_le_length)
  qed
  from this [of "bb_instructions block"]
  show "bl_start_address b = bb_start_address block" "bl_live_in b = 0" "bl_live_out b = 0"
    "\<not> bl_has_open_successor b"
    "bit (bl_uses_before_def b) k \<longleftrightarrow> used_before_def (bb_instructions block) k"
    "bit (bl_defs b) k \<longleftrightarrow> defined_in (bb_instructions block) k"
    by (simp_all add: b_def scan_block_def Let_def)
qed

text \<open>The first loop: it fails exactly on a repeated start address.\<close>

definition index_map :: "u32 list \<Rightarrow> u32 \<rightharpoonup> nat" where
  "index_map starts = map_of (zip starts [0..<length starts])"

lemma index_map_snoc:
  assumes "s \<notin> set starts"
  shows "index_map (starts @ [s]) = (index_map starts)(s \<mapsto> length starts)"
proof -
  let ?m = "map_of (zip starts [0..<length starts])"
  have "?m s = None" using assms by (subst map_of_zip_is_None) simp_all
  moreover have "m s = None \<Longrightarrow> map_of [(s, v)] ++ m = m(s \<mapsto> v)" for m :: "u32 \<rightharpoonup> nat" and v
    by (rule ext) (auto simp: map_add_def split: option.split)
  ultimately have "map_of [(s, length starts)] ++ ?m = ?m(s \<mapsto> length starts)" by blast
  then show ?thesis by (simp add: index_map_def)
qed

lemma index_map_None: "index_map starts s = None \<longleftrightarrow> s \<notin> set starts"
  by (simp add: index_map_def map_of_zip_is_None)

lemma index_map_Some:
  "distinct starts \<Longrightarrow> index_map starts s = Some j \<longleftrightarrow> j < length starts \<and> starts ! j = s"
  by (auto simp: index_map_def map_of_eq_Some_iff in_set_zip)

lemma scan_blocks_result:
  assumes "indexes = index_map (map bl_start_address out)" "distinct (map bl_start_address out)"
  shows "scan_blocks blocks indexes out referenced = Inl DuplicateBlockStart \<and>
      \<not> distinct (map bl_start_address out @ map bb_start_address blocks) \<or>
    (\<exists>scanned referenced'. scan_blocks blocks indexes out referenced =
        Inr (index_map (map bl_start_address out @ map bb_start_address blocks), out @ scanned,
          referenced') \<and>
      distinct (map bl_start_address out @ map bb_start_address blocks) \<and>
      list_all2 (\<lambda>block b. \<exists>r. b = fst (scan_block block r)) blocks scanned)"
  using assms
proof (induction blocks arbitrary: indexes out referenced)
  case (Cons block blocks)
  show ?case
  proof (cases "indexes (bb_start_address block) = None")
    case False
    then show ?thesis using Cons.prems by (auto simp: index_map_None)
  next
    case True
    obtain b r where b: "scan_block block referenced = (b, r)" by fastforce
    then have start: "bl_start_address b = bb_start_address block"
      using scan_block_sets(1) [of block referenced] by simp
    then have new: "bl_start_address b \<notin> set (map bl_start_address out)"
      using True Cons.prems(1) start by (metis index_map_None)
    have "indexes(bb_start_address block \<mapsto> length out) = index_map (map bl_start_address (out @ [b]))"
      using index_map_snoc [OF new] Cons.prems(1) start by simp
    note ih = Cons.IH [OF this, of r]
    have scan: "scan_blocks (block # blocks) indexes out referenced =
        scan_blocks blocks (indexes(bb_start_address block \<mapsto> length out)) (out @ [b]) r"
      using True b by simp
    have one: "\<exists>q. b = fst (scan_block block q)" using b by (metis fst_conv)
    have starts: "map bl_start_address (out @ [b]) @ map bb_start_address blocks =
        map bl_start_address out @ map bb_start_address (block # blocks)"
      using start by simp
    have "distinct (map bl_start_address (out @ [b]))" using new Cons.prems(2) by simp
    from ih [OF this, unfolded starts] show ?thesis
      unfolding scan append_assoc append_Cons append_Nil using one by blast
  qed
qed simp

lemma classify_successors_result:
  "classify_successors indexes ss (opened, internal) =
     (opened \<or> (\<exists>s \<in> set ss. indexes s = None), internal @ List.map_filter indexes ss)"
  by (induction ss arbitrary: opened internal) (auto simp: List.map_filter_simps split: option.split)

lemma mask_eq_iff: "(a::u32) = b \<longleftrightarrow> (\<forall>k. bit a k \<longleftrightarrow> bit b k)"
  by (auto intro: bit_eqI)

lemma bit_and_not_u32: "bit (a AND NOT b :: u32) k \<longleftrightarrow> bit a k \<and> \<not> bit b k"
  by (auto simp: bit_and_iff bit_not_iff dest: bit_imp_le_length)

lemma fold_or_bit:
  "bit (fold (\<lambda>j acc. acc OR f j) js a) k \<longleftrightarrow> bit a k \<or> (\<exists>j \<in> set js. bit (f j :: u32) k)"
  by (induction js arbitrary: a) (auto simp: bit_or_iff)

lemma map_filter_index_map:
  "distinct starts \<Longrightarrow> set (List.map_filter (index_map starts) ss) =
     {j. j < length starts \<and> starts ! j \<in> set ss}"
proof -
  assume "distinct starts"
  then have "set (List.map_filter (index_map starts) ss) = {j. \<exists>s \<in> set ss. index_map starts s = Some j}"
    by (auto simp: List.map_filter_def) force
  then show ?thesis using \<open>distinct starts\<close> by (auto simp: index_map_Some)
qed

lemma opened_equations:
  fixes fn :: Function
  defines "starts \<equiv> block_starts fn"
  assumes "distinct starts"
    "list_all2 (\<lambda>block b. \<exists>r. b = fst (scan_block block r)) (fn_blocks fn) scanned"
  defines "opened \<equiv> map2 (open_block (index_map starts)) (fn_blocks fn) scanned"
    and "succs \<equiv> map (\<lambda>block. snd (block_successors (index_map starts) block)) (fn_blocks fn)"
  shows "liveness_equations fn blocks \<longleftrightarrow>
      map block_shape blocks = map block_shape opened \<and> liveness_solution succs blocks" (is ?equiv)
    and "internal_edges succs (length opened)" (is ?edges)
    and "\<forall>b \<in> set opened. bl_live_in b = 0 \<and> bl_live_out b = 0" (is ?zero)
    and "length opened = length (fn_blocks fn)"
proof -
  note scan = assms(3) [unfolded list_all2_conv_all_nth]
  have len: "length opened = length (fn_blocks fn)" "length succs = length (fn_blocks fn)"
    "length starts = length (fn_blocks fn)"
    using scan by (simp_all add: opened_def succs_def starts_def block_starts_def)
  have opens: "fst (block_successors (index_map starts) block) \<longleftrightarrow>
      bb_has_indirect_successor block \<or> \<not> set (bb_successors block) \<subseteq> set starts"
    and inner: "set (snd (block_successors (index_map starts) block)) =
      {j. j < length starts \<and> starts ! j \<in> set (bb_successors block)}" for block
    using map_filter_index_map [OF assms(2)]
    by (auto simp: block_successors_def classify_successors_result index_map_None)
  have nth: "opened ! i = open_block (index_map starts) (fn_blocks fn ! i) (scanned ! i)"
    "succs ! i = snd (block_successors (index_map starts) (fn_blocks fn ! i))"
    if "i < length (fn_blocks fn)" for i
    using that scan by (simp_all add: opened_def succs_def)
  show "length opened = length (fn_blocks fn)" by (fact len)
  show ?edges using inner len by (auto simp: internal_edges_def succs_def)
  show ?zero
    using scan nth(1) len scan_block_sets(2,3)
    by (auto simp: in_set_conv_nth open_block_def) metis+
  have shape: "block_shape b = block_shape (opened ! i) \<longleftrightarrow>
      bl_start_address b = bb_start_address (fn_blocks fn ! i) \<and>
      (\<forall>k. bit (bl_uses_before_def b) k \<longleftrightarrow> used_before_def (bb_instructions (fn_blocks fn ! i)) k) \<and>
      (\<forall>k. bit (bl_defs b) k \<longleftrightarrow> defined_in (bb_instructions (fn_blocks fn ! i)) k) \<and>
      (bl_has_open_successor b \<longleftrightarrow> bb_has_indirect_successor (fn_blocks fn ! i) \<or>
         \<not> set (bb_successors (fn_blocks fn ! i)) \<subseteq> set starts)"
    if lt: "i < length (fn_blocks fn)" for i b
  proof -
    obtain r where "scanned ! i = fst (scan_block (fn_blocks fn ! i) r)" using scan lt by blast
    then show ?thesis
      using scan_block_sets [of "fn_blocks fn ! i" r] opens
      by (simp add: nth(1) [OF lt] open_block_def block_shape_def mask_eq_iff)
  qed
  have outs: "bl_live_out (blocks ! i) = live_out_of succs blocks i \<longleftrightarrow>
      (\<forall>k. bit (bl_live_out (blocks ! i)) k \<longleftrightarrow>
        bl_has_open_successor (blocks ! i) \<and> bit tracked_register_mask k \<or>
        (\<exists>j<length blocks. starts ! j \<in> set (bb_successors (fn_blocks fn ! i)) \<and>
           bit (bl_live_in (blocks ! j)) k))"
    if "i < length (fn_blocks fn)" "length blocks = length (fn_blocks fn)" for i
    unfolding mask_eq_iff using that len inner [of "fn_blocks fn ! i"]
    by (simp add: live_out_of_def fold_or_bit nth conj_ac)
  have ins: "bl_live_in b = live_in_of b m \<longleftrightarrow> (\<forall>k. bit (bl_live_in b) k \<longleftrightarrow>
      bit (bl_uses_before_def b) k \<or> bit m k \<and> \<not> bit (bl_defs b) k)" for b m
    unfolding mask_eq_iff live_in_of_def bit_or_iff bit_and_not_u32 by (rule refl)
  have shapes: "map block_shape blocks = map block_shape opened \<longleftrightarrow> length blocks = length opened \<and>
      (\<forall>i<length (fn_blocks fn). block_shape (blocks ! i) = block_shape (opened ! i))"
    using len by (auto simp: list_eq_iff_nth_eq)
  have one: "block_equations fn blocks (fn_blocks fn ! i) (blocks ! i) \<longleftrightarrow>
      block_shape (blocks ! i) = block_shape (opened ! i) \<and>
      bl_live_out (blocks ! i) = live_out_of succs blocks i \<and>
      bl_live_in (blocks ! i) = live_in_of (blocks ! i) (bl_live_out (blocks ! i))"
    if "i < length (fn_blocks fn)" "length blocks = length (fn_blocks fn)" for i
    unfolding block_equations_def shape [OF that(1)] outs [OF that] ins starts_def [symmetric]
    by (simp only: conj_assoc)
  show ?equiv
  proof (cases "length blocks = length (fn_blocks fn)")
    case True
    have "(\<forall>i<length (fn_blocks fn). block_equations fn blocks (fn_blocks fn ! i) (blocks ! i)) \<longleftrightarrow>
        (\<forall>i<length (fn_blocks fn). block_shape (blocks ! i) = block_shape (opened ! i)) \<and>
        (\<forall>i<length (fn_blocks fn). bl_live_out (blocks ! i) = live_out_of succs blocks i \<and>
           bl_live_in (blocks ! i) = live_in_of (blocks ! i) (live_out_of succs blocks i))"
      using one [OF _ True] by metis
    then show ?thesis
      unfolding liveness_equations_def list_all2_conv_all_nth shapes liveness_solution_def
      using True len by simp
  next
    case False
    then show ?thesis using len by (simp add: liveness_equations_def shapes list_all2_conv_all_nth)
  qed
qed

lemma zero_grows: "\<forall>b \<in> set xs. bl_live_in b = 0 \<and> bl_live_out b = 0 \<Longrightarrow> live_growing succs xs"
  by (simp add: live_growing_def)

lemma zero_below:
  assumes "\<forall>b \<in> set xs. bl_live_in b = 0 \<and> bl_live_out b = 0"
  shows "live_below xs ys \<longleftrightarrow> map block_shape ys = map block_shape xs"
proof
  assume "live_below xs ys"
  then show "map block_shape ys = map block_shape xs"
    using live_below_length live_below_shape by (intro nth_equalityI) (force, metis length_map nth_map)
next
  assume "map block_shape ys = map block_shape xs"
  then show "live_below xs ys"
    using assms unfolding live_below_def
    by (simp add: list_eq_iff_nth_eq list_all2_conv_all_nth block_below_def)
qed

lemma plan_duplicate:
  assumes "\<not> distinct (block_starts fn)"
  shows "make_register_localization_plan fn = Some (Inl DuplicateBlockStart)"
  using scan_blocks_result [of "\<lambda>_. None" "[]" "fn_blocks fn" 0] assms
  by (auto simp: make_register_localization_plan_def block_starts_def index_map_def)

lemma plan_least:
  assumes "distinct (block_starts fn)"
  obtains plan where "make_register_localization_plan fn = Some (Inr plan)"
    "liveness_equations fn (rp_blocks plan)"
    "\<And>sol. liveness_equations fn sol \<Longrightarrow> live_below (rp_blocks plan) sol"
    "rp_closed_control_flow plan \<longleftrightarrow> (\<forall>b \<in> set (rp_blocks plan). \<not> bl_has_open_successor b)"
proof -
  obtain scanned referenced where
    scan: "scan_blocks (fn_blocks fn) (\<lambda>_. None) [] 0 =
      Inr (index_map (block_starts fn), scanned, referenced)" and
    all: "list_all2 (\<lambda>block b. \<exists>r. b = fst (scan_block block r)) (fn_blocks fn) scanned"
    using scan_blocks_result [of "\<lambda>_. None" "[]" "fn_blocks fn" 0] assms
    by (auto simp: block_starts_def index_map_def)
  define opened where "opened = map2 (open_block (index_map (block_starts fn))) (fn_blocks fn) scanned"
  define succs where
    "succs = map (\<lambda>block. snd (block_successors (index_map (block_starts fn)) block)) (fn_blocks fn)"
  note eqs = opened_equations [OF assms all, folded opened_def succs_def]
  note below = zero_below [OF eqs(3)]
  obtain ys where ys: "solve_liveness succs opened = Some ys" "live_below opened ys"
    "liveness_solution succs ys"
    "\<forall>sol. liveness_solution succs sol \<longrightarrow> live_below opened sol \<longrightarrow> live_below ys sol"
    using solve_liveness_least [OF zero_grows [OF eqs(3)] eqs(2)] by blast
  let ?plan = "\<lparr>rp_blocks = ys, rp_referenced_registers = referenced,
    rp_candidate_registers = fold candidate_block (zip (fn_blocks fn) ys) 0 AND tracked_register_mask,
    rp_closed_control_flow = list_all (\<lambda>b. \<not> bl_has_open_successor b) opened\<rparr>"
  have shapes: "map block_shape ys = map block_shape opened" using ys(2) below by blast
  have "list_all (\<lambda>b. \<not> bl_has_open_successor b) xs \<longleftrightarrow>
      list_all (\<lambda>(_, _, _, opened). \<not> opened) (map block_shape xs)" for xs
    by (simp add: block_shape_def list_all_iff)
  with shapes have "list_all (\<lambda>b. \<not> bl_has_open_successor b) opened \<longleftrightarrow>
      list_all (\<lambda>b. \<not> bl_has_open_successor b) ys" by metis
  moreover have "make_register_localization_plan fn = Some (Inr ?plan)"
    by (simp add: make_register_localization_plan_def scan Let_def ys(1) flip: opened_def succs_def)
  ultimately show thesis
    using that [of ?plan] ys eqs(1) below shapes by (simp add: list_all_iff)
qed

end
