(* ===== verification/Liveness_Sound.thy ===== *)
theory Liveness_Sound
  imports Interpreter_Access Liveness_Fixpoint
begin

text \<open>
  The definition sets of \<open>instruction_register_use_def\<close> against the code the emitter prints: an
  instruction changes no tracked register outside its definition set.  The one exception is a load of
  the status register, which exchanges the banks of R0 to R7.  For the instructions without memory
  access the use sets are sound as well, so that the live registers of a plan decide what a block
  computes.
\<close>

subsection \<open>Frames\<close>

text \<open>\<open>cpu'\<close> differs from \<open>cpu\<close>, of the tracked registers, only in those of the mask.\<close>

definition frame :: "RegisterMask \<Rightarrow> 'a Registers_scheme \<Rightarrow> 'a Registers_scheme \<Rightarrow> bool" where
  "frame msk cpu cpu' \<longleftrightarrow>
     (\<forall>k<16. \<not> bit msk k \<longrightarrow> cpu_r cpu' k = cpu_r cpu k) \<and>
     (\<not> bit msk 16 \<longrightarrow> cpu_t cpu' = cpu_t cpu) \<and> (\<not> bit msk 17 \<longrightarrow> cpu_pr cpu' = cpu_pr cpu) \<and>
     (\<not> bit msk 18 \<longrightarrow> cpu_gbr cpu' = cpu_gbr cpu) \<and> (\<not> bit msk 19 \<longrightarrow> cpu_mach cpu' = cpu_mach cpu) \<and>
     (\<not> bit msk 20 \<longrightarrow> cpu_macl cpu' = cpu_macl cpu) \<and> (\<not> bit msk 21 \<longrightarrow> cpu_fpul cpu' = cpu_fpul cpu)"

named_theorems framed

lemma frame_refl [framed, simp]: "frame msk cpu cpu"
  by (simp add: frame_def)

lemma frame_trans: "frame msk a b \<Longrightarrow> frame msk b c \<Longrightarrow> frame msk a c"
  by (simp add: frame_def)

lemma frame_zero: "frame 0 a b \<Longrightarrow> frame msk a b"
  by (simp add: frame_def)

lemma frame_updates [framed]:
  "n < 16 \<longrightarrow> bit msk n \<Longrightarrow> frame msk a b \<Longrightarrow> frame msk a (set_r n v b)"
  "bit msk 16 \<Longrightarrow> frame msk a b \<Longrightarrow> frame msk a (b\<lparr>cpu_t := t\<rparr>)"
  "bit msk 17 \<Longrightarrow> frame msk a b \<Longrightarrow> frame msk a (b\<lparr>cpu_pr := w\<rparr>)"
  "bit msk 18 \<Longrightarrow> frame msk a b \<Longrightarrow> frame msk a (b\<lparr>cpu_gbr := w\<rparr>)"
  "bit msk 19 \<Longrightarrow> frame msk a b \<Longrightarrow> frame msk a (b\<lparr>cpu_mach := w\<rparr>)"
  "bit msk 20 \<Longrightarrow> frame msk a b \<Longrightarrow> frame msk a (b\<lparr>cpu_macl := w\<rparr>)"
  "bit msk 21 \<Longrightarrow> frame msk a b \<Longrightarrow> frame msk a (b\<lparr>cpu_fpul := w\<rparr>)"
  by (auto simp: frame_def set_r_def)

lemma frame_untracked [framed]:
  "frame msk a b \<Longrightarrow> frame msk a (b\<lparr>cpu_s := x\<rparr>)" "frame msk a b \<Longrightarrow> frame msk a (b\<lparr>cpu_q := x\<rparr>)"
  "frame msk a b \<Longrightarrow> frame msk a (b\<lparr>cpu_m := x\<rparr>)" "frame msk a b \<Longrightarrow> frame msk a (b\<lparr>cpu_vbr := w\<rparr>)"
  "frame msk a b \<Longrightarrow> frame msk a (b\<lparr>cpu_ssr := w\<rparr>)" "frame msk a b \<Longrightarrow> frame msk a (b\<lparr>cpu_spc := w\<rparr>)"
  "frame msk a b \<Longrightarrow> frame msk a (b\<lparr>cpu_dbr := w\<rparr>)"
  "frame msk a b \<Longrightarrow> frame msk a (b\<lparr>cpu_r_bank := f\<rparr>)"
  by (simp_all add: frame_def)

definition frame_outcome :: "RegisterMask \<Rightarrow> 'd machine \<Rightarrow> ('d, 'a) outcome \<Rightarrow> bool" where
  "frame_outcome msk s result \<longleftrightarrow> frame msk (fst s) (fst (snd result))"

lemma frame_then_guest:
  assumes "frame_outcome msk s result" and "\<And>v s'. frame_outcome msk s' (f v s')"
  shows "frame_outcome msk s (then_guest result f)"
proof (cases "fst result")
  case (Inl e)
  then have "then_guest result f = (Inl e, snd result)" by (cases result) simp
  then show ?thesis using assms(1) by (simp add: frame_outcome_def)
next
  case (Inr v)
  then have "then_guest result f = f v (snd result)" by (cases result) simp
  then show ?thesis
    using assms(1) assms(2) [of "snd result" v] by (auto simp: frame_outcome_def intro: frame_trans)
qed

lemma frame_on_registers: "(\<And>cpu. frame msk cpu (g cpu)) \<Longrightarrow> frame_outcome msk s (on_registers g s)"
  by (simp add: frame_outcome_def on_registers_def)

lemma frame_stay [framed, simp]: "frame_outcome msk s (r, s)"
  by (simp add: frame_outcome_def)

subsection \<open>Definition sets\<close>

definition defs :: "Instruction \<Rightarrow> RegisterMask" where
  "defs i = ud_defs (instruction_register_use_def i)"

lemma tracked_bits: "bit tracked_register_mask k \<longleftrightarrow> k < 22"
proof -
  have "tracked_register_mask = mask 22"
    by (simp add: mask_eq_exp_minus_1 tracked_register_mask_def general_register_mask_def
        scalar_register_mask_def register_bit_def)
  then have "bit tracked_register_mask k = bit (mask 22 :: u32) k" by (rule arg_cong)
  then show ?thesis unfolding bit_mask_iff by (auto simp: possible_bit_word)
qed

lemma bit_register_bit: "bit (register_bit r) k \<longleftrightarrow> k = tracked_index r"
proof -
  have "tracked_index r < 32" by (cases r) simp_all
  then show ?thesis by (auto simp: register_bit_def bit_exp_iff)
qed

lemma status_effects_defs:
  "bit (ud_defs (add_status_effects e ud)) k \<longleftrightarrow> bit (ud_defs ud) k \<or>
     k = 16 \<and> contains_status_bit (se_writes e) status_T"
  by (cases "contains_status_bit (se_writes e) status_T")
    (auto simp: add_status_effects_def add_uses_def add_defs_def bit_register_bit bit_or_iff Let_def)

definition writes_accumulator :: "AccumulatorEffects \<Rightarrow> AccumulatorRegister \<Rightarrow> bool" where
  "writes_accumulator e r =
     contains_accumulator_register (ae_writes_if_s_clear e OR ae_writes_if_s_set e) r"

lemma accumulator_effects_defs:
  "bit (ud_defs (add_accumulator_effects e ud)) k \<longleftrightarrow> bit (ud_defs ud) k \<or>
     k = 19 \<and> writes_accumulator e accumulator_Mach \<or>
     k = 20 \<and> writes_accumulator e accumulator_Macl"
  by (cases "writes_accumulator e accumulator_Mach"; cases "writes_accumulator e accumulator_Macl")
    (auto simp: add_accumulator_effects_def writes_accumulator_def add_uses_def add_defs_def
      bit_register_bit bit_or_iff Let_def)

lemmas scalar_effects_defs = add_canonical_scalar_effects_def accumulator_effects_defs
  status_effects_defs

lemma defs_iff:
  "bit (defs i) k \<longleftrightarrow> k < 22 \<and> bit (ud_defs (add_canonical_scalar_effects i (operand_use_def i))) k"
  by (auto simp: defs_def instruction_register_use_def_def bit_and_iff tracked_bits Let_def)

lemma defs_operand: "k < 22 \<Longrightarrow> bit (ud_defs (operand_use_def i)) k \<Longrightarrow> bit (defs i) k"
  by (simp add: defs_iff scalar_effects_defs)

lemma defs_status:
  "contains_status_bit (se_writes (instruction_status_effects (ir_operation i)
     (ir_special_register i))) status_T \<Longrightarrow> bit (defs i) 16"
  by (simp add: defs_iff scalar_effects_defs)

lemma defs_accumulator:
  "writes_accumulator (operation_accumulator_effects (ir_operation i) (ir_special_register i))
     accumulator_Mach \<Longrightarrow> bit (defs i) 19"
  "writes_accumulator (operation_accumulator_effects (ir_operation i) (ir_special_register i))
     accumulator_Macl \<Longrightarrow> bit (defs i) 20"
  by (simp_all add: defs_iff scalar_effects_defs)

lemma bit_gpr: "k < 16 \<Longrightarrow> bit (gpr_register_bit n) k \<longleftrightarrow> n = k"
  by (auto simp: gpr_register_bit_def bit_exp_iff)

lemmas use_def_helpers = use_gpr_def def_gpr_def use_destination_def def_destination_def
  use_source_def use_binary_and_def_destination_def use_unary_and_def_destination_def add_uses_def
  add_defs_def no_use_def_def

lemmas status_eval = instruction_status_effects_def contains_status_bit_def status_effects_def
  no_status_def status_TQM_def status_None_def status_T_def status_S_def status_Q_def status_M_def
  status_Full_def

text \<open>The destination of an operation that writes it\<close>

lemma defs_destination:
  assumes "ud_defs (operand_use_def i) = gpr_register_bit n \<or>
    ud_defs (operand_use_def i) = gpr_register_bit n OR gpr_register_bit m \<or>
    ud_defs (operand_use_def i) = gpr_register_bit m OR gpr_register_bit n"
  shows "n < 16 \<longrightarrow> bit (defs i) n"
  using assms by (auto intro!: defs_operand simp: bit_gpr bit_or_iff)

lemma arith_defs:
  assumes "ir_operation i = O_Arith a"
  shows "ud_defs (operand_use_def i) = gpr_register_bit (ir_destination_register i)"
  using assms by (cases a) (simp_all add: operand_use_def_def use_def_helpers)

lemma frame_arith:
  assumes "ir_operation i = O_Arith a"
  shows "frame (defs i) cpu (exec_arith a (ir_destination_register i) m imm cpu)"
proof -
  note dest = defs_destination [of i "ir_destination_register i"]
  have "a \<in> {AddWithCarry, AddWithOverflow, SubWithCarry, SubWithOverflow, NegateWithCarry,
      DecrementAndTest} \<Longrightarrow> bit (defs i) 16"
    using assms by (auto intro!: defs_status simp: status_eval)
  then show ?thesis
    using dest arith_defs [OF assms] by (cases a) (auto simp: Let_def intro!: framed)
qed

lemma frame_shift:
  assumes "ir_operation i = O_Shift a"
  shows "frame (defs i) cpu (exec_shift a (ir_destination_register i) m cpu)"
proof -
  have "ud_defs (operand_use_def i) = gpr_register_bit (ir_destination_register i)"
    using assms by (cases a) (simp_all add: operand_use_def_def use_def_helpers)
  note dest = defs_destination [of i "ir_destination_register i", OF disjI1 [OF this]]
  have "a \<notin> {ShiftLogicalLeftTwo, ShiftLogicalLeftEight, ShiftLogicalLeftSixteen,
      ShiftLogicalRightTwo, ShiftLogicalRightEight, ShiftLogicalRightSixteen, ShiftLogicalDynamic,
      ShiftArithmeticDynamic} \<Longrightarrow> bit (defs i) 16"
    using assms by (cases a) (auto intro!: defs_status simp: status_eval)
  then show ?thesis using dest by (cases a) (auto simp: Let_def intro!: framed)
qed

lemmas accumulator_eval = operation_accumulator_effects_def writes_accumulator_def
  contains_accumulator_register_def accumulator_None_def accumulator_Mach_def accumulator_Macl_def
  accumulator_effects_def accumulator_both_def no_accumulator_def

lemma frame_divide_step:
  assumes "n < 16 \<longrightarrow> bit msk n" and "bit msk 16"
  shows "frame msk cpu (exec_divide_step n m cpu)"
  using assms by (auto simp: exec_divide_step_def Let_def intro!: framed)

lemma muldiv_defs:
  assumes "ir_operation i = O_MulDiv a"
  shows "a \<in> {DivideStep, MultiplyAccumulateWord, MultiplyAccumulateLong} \<Longrightarrow>
      ir_destination_register i < 16 \<longrightarrow> bit (defs i) (ir_destination_register i)"
    and "a \<in> {MultiplyAccumulateWord, MultiplyAccumulateLong} \<Longrightarrow>
      ir_source_register i < 16 \<longrightarrow> bit (defs i) (ir_source_register i)"
    and "a \<in> {DivideStep, DivideInitializeSigned, DivideInitializeUnsigned} \<Longrightarrow> bit (defs i) 16"
    and "a \<in> {DoubleMultiplySignedLong, DoubleMultiplyUnsignedLong, MultiplyAccumulateWord,
      MultiplyAccumulateLong, ClearMac} \<Longrightarrow> bit (defs i) 19"
    and "a \<in> {MultiplyLong, MultiplySignedWord, MultiplyUnsignedWord, DoubleMultiplySignedLong,
      DoubleMultiplyUnsignedLong, MultiplyAccumulateWord, MultiplyAccumulateLong, ClearMac} \<Longrightarrow>
      bit (defs i) 20"
  using assms
  by (auto intro!: defs_destination defs_status defs_accumulator
      simp: operand_use_def_def use_def_helpers status_eval accumulator_eval)

lemma frame_muldiv:
  assumes "ir_operation i = O_MulDiv a" and "exec_muldiv a (ir_destination_register i) m cpu = Some cpu'"
  shows "frame (defs i) cpu cpu'"
  using assms(2) muldiv_defs [OF assms(1)]
  by (cases a) (auto simp: Let_def intro!: framed frame_divide_step)

lemma logic_defs:
  assumes "ir_operation i = O_Logic a"
  shows "a \<in> {AndRegister, OrRegister, XorRegister} \<Longrightarrow>
      ir_destination_register i < 16 \<longrightarrow> bit (defs i) (ir_destination_register i)"
    and "a \<in> {AndImmediate, OrImmediate, XorImmediate} \<Longrightarrow> bit (defs i) 0"
    and "a \<notin> {AndRegister, OrRegister, XorRegister, AndImmediate, OrImmediate, XorImmediate, ClearS,
      SetS, AndByteImmediate, OrByteImmediate, XorByteImmediate} \<Longrightarrow> bit (defs i) 16"
proof -
  show "a \<in> {AndRegister, OrRegister, XorRegister} \<Longrightarrow>
      ir_destination_register i < 16 \<longrightarrow> bit (defs i) (ir_destination_register i)"
    using assms by (intro defs_destination) (auto simp: operand_use_def_def use_def_helpers)
  show "a \<in> {AndImmediate, OrImmediate, XorImmediate} \<Longrightarrow> bit (defs i) 0"
    using assms by (intro defs_operand) (auto simp: operand_use_def_def use_def_helpers bit_gpr)
  show "a \<notin> {AndRegister, OrRegister, XorRegister, AndImmediate, OrImmediate, XorImmediate, ClearS,
      SetS, AndByteImmediate, OrByteImmediate, XorByteImmediate} \<Longrightarrow> bit (defs i) 16"
    using assms by (cases a) (auto intro!: defs_status simp: status_eval)
qed

lemma frame_logic:
  assumes "ir_operation i = O_Logic a" and "exec_logic a (ir_destination_register i) m imm cpu = Some cpu'"
  shows "frame (defs i) cpu cpu'"
  using assms(2) logic_defs [OF assms(1)] by (cases a) (auto intro!: framed)

lemma frame_simple:
  assumes "exec_simple i cpu = Some cpu'"
  shows "frame (defs i) cpu cpu'"
  using assms frame_arith [of i _ cpu] frame_shift [of i _ cpu] frame_muldiv [of i _ _ cpu]
    frame_logic [of i _ _ _ cpu]
  by (auto simp: exec_simple_def exec_operation_def split: Operation.splits)

subsection \<open>Instructions that access memory\<close>

lemma frame_bump: "n < 16 \<longrightarrow> bit msk n \<Longrightarrow> frame msk a b \<Longrightarrow> frame msk a (bump n step b)"
  by (simp add: bump_def frame_updates)

lemma frame_accumulate:
  assumes "bit msk 19" "bit msk 20" "frame msk a b"
  shows "frame msk a (emitted_accumulate_word p b)" "frame msk a (emitted_accumulate_long p b)"
  using assms by (auto simp: emitted_accumulate_word_def emitted_accumulate_long_def
      emitted_accumulate_wide_def Let_def intro!: framed)

text \<open>A register that \<open>LDC\<close> and \<open>LDS\<close> write; the status register is the exception.\<close>

lemma write_fpscr_frame: "frame msk cpu (write_fpscr v cpu)"
  by (simp add: write_fpscr_def frame_def Let_def)

lemma frame_special_write:
  assumes "ir_operation i \<in> {O_System LoadSpecialRegister, O_System LoadSpecialRegisterPostIncrement}"
    and "ir_special_register i \<noteq> IrSpecialRegister.Sr"
  shows "frame_outcome (defs i) s (emit_special_register_write (ir_special_register i) v s)"
proof -
  have "bit (defs i) k" if "k < 22" "bit (special_register_bit (ir_special_register i)) k" for k
    using assms(1) that by (intro defs_operand)
      (auto simp: operand_use_def_def use_def_helpers bit_or_iff)
  then have "ir_special_register i = IrSpecialRegister.Pr \<Longrightarrow> bit (defs i) 17"
    "ir_special_register i = IrSpecialRegister.Gbr \<Longrightarrow> bit (defs i) 18"
    "ir_special_register i = IrSpecialRegister.Mach \<Longrightarrow> bit (defs i) 19"
    "ir_special_register i = IrSpecialRegister.Macl \<Longrightarrow> bit (defs i) 20"
    "ir_special_register i = IrSpecialRegister.Fpul \<Longrightarrow> bit (defs i) 21"
    by (simp_all add: special_register_bit_def bit_register_bit)
  then show ?thesis
    using assms(2) by (cases "ir_special_register i")
      (auto simp: emit_special_register_write_def set_bank_def
        intro!: frame_on_registers framed write_fpscr_frame)
qed

text \<open>What the accessors promise: whether they return or throw, they leave the tracked registers.\<close>

locale tracked_accessors =
  fixes rd :: "'d reader" and wr :: "'d writer"
  assumes read_frame: "frame_outcome 0 s (rd width address s)"
    and write_frame: "frame_outcome 0 s (wr width address x source s)"
begin

lemma read_any: "frame_outcome msk s (rd width address s)"
  using read_frame [of s width address] frame_zero by (simp add: frame_outcome_def)

lemma write_any: "frame_outcome msk s (wr width address x source s)"
  using write_frame [of s width address x source] frame_zero by (simp add: frame_outcome_def)

lemmas access_frames = frame_then_guest read_any write_any frame_on_registers

lemma frame_load_register:
  "n < 16 \<longrightarrow> bit msk n \<Longrightarrow> frame_outcome msk s (load_register rd width convert n address s)"
  by (auto simp: load_register_def intro!: access_frames framed)

lemma frame_predecrement:
  "n < 16 \<longrightarrow> bit msk n \<Longrightarrow> frame_outcome msk s (emitted_store_predecrement wr width narrow n m s)"
  by (auto simp: emitted_store_predecrement_def Let_def intro!: access_frames framed)

lemma frame_postincrement:
  "n < 16 \<longrightarrow> bit msk n \<Longrightarrow> m < 16 \<longrightarrow> bit msk m \<Longrightarrow>
     frame_outcome msk s (emitted_load_postincrement rd width convert n m s)"
  by (auto simp: emitted_load_postincrement_def Let_def intro!: access_frames framed)

lemma frame_memory:
  assumes "ir_operation i = O_Memory a"
  shows "frame_outcome (defs i) s (exec_memory relocate rd wr a i s)"
proof -
  have stores: "frame_outcome (defs i) s (exec_memory relocate rd wr a i s)"
    if "a \<in> {StoreByte, StoreWord, StoreLong, StoreByteDisplacement, StoreWordDisplacement,
      StoreLongDisplacement, StoreByteR0Indexed, StoreWordR0Indexed, StoreLongR0Indexed,
      StoreByteGbrDisplacement, StoreWordGbrDisplacement, StoreLongGbrDisplacement}"
    using that by (auto intro: write_any)
  have zero: "(0::nat) < 16 \<longrightarrow> bit (defs i) 0"
    if "a \<in> {LoadByteSignedGbrDisplacement, LoadWordSignedGbrDisplacement, LoadLongGbrDisplacement,
      MoveAddressPcRelative}"
    using that assms by (intro defs_destination) (auto simp: operand_use_def_def use_def_helpers)
  have source: "ir_source_register i < 16 \<longrightarrow> bit (defs i) (ir_source_register i)"
    if "a \<in> {LoadByteSignedPostIncrement, LoadWordSignedPostIncrement, LoadLongPostIncrement}"
    using that assms by (intro defs_destination [where m = "ir_destination_register i"])
      (auto simp: operand_use_def_def use_def_helpers)
  have dest: "ir_destination_register i < 16 \<longrightarrow> bit (defs i) (ir_destination_register i)"
    if "a \<notin> {StoreByte, StoreWord, StoreLong, StoreByteDisplacement, StoreWordDisplacement,
      StoreLongDisplacement, StoreByteR0Indexed, StoreWordR0Indexed, StoreLongR0Indexed,
      StoreByteGbrDisplacement, StoreWordGbrDisplacement, StoreLongGbrDisplacement,
      LoadByteSignedGbrDisplacement, LoadWordSignedGbrDisplacement, LoadLongGbrDisplacement,
      MoveAddressPcRelative}"
    using that assms
    by (intro defs_destination [where m = "ir_source_register i"], cases a,
        cases "ir_forwarded_value_register i")
      (auto simp: operand_use_def_def use_def_helpers Let_def split: option.split)
  show ?thesis
    using stores zero source dest
    by (cases a) (auto simp: pc_relative_missing_def Let_def split: option.split
        intro!: frame_load_register frame_predecrement frame_postincrement access_frames framed)
qed

lemma frame_read_modify_write:
  "frame_outcome msk s (emitted_byte_update rd wr combine imm s)"
  "bit msk 16 \<Longrightarrow> frame_outcome msk s (emitted_byte_test rd imm s)"
  "bit msk 16 \<Longrightarrow> frame_outcome msk s (emitted_test_and_set rd wr m s)"
  by (auto simp: emitted_byte_update_def emitted_byte_test_def emitted_test_and_set_def Let_def
      intro!: access_frames framed)

lemma frame_mac:
  assumes "n < 16 \<longrightarrow> bit msk n" "m < 16 \<longrightarrow> bit msk m" "bit msk 19" "bit msk 20"
  shows "frame_outcome msk s (emitted_mac_word rd n m s)"
    and "frame_outcome msk s (emitted_mac_long rd n m s)"
  using assms by (auto simp: emitted_mac_word_def emitted_mac_long_def Let_def
      intro!: access_frames frame_accumulate frame_bump)

lemma frame_transfers:
  "n < 16 \<longrightarrow> bit msk n \<Longrightarrow> frame_outcome msk s (emitted_store_special special n s)"
  "n < 16 \<longrightarrow> bit msk n \<Longrightarrow> frame_outcome msk s (emitted_store_special_predecrement wr special n s)"
  by (auto simp: emitted_store_special_def emitted_store_special_predecrement_def Let_def
      intro!: access_frames framed)

lemma frame_system:
  assumes "ir_operation i = O_System a" "exec_access relocate rd wr i s = Some result"
    "ir_special_register i \<noteq> IrSpecialRegister.Sr \<or>
       a \<notin> {LoadSpecialRegister, LoadSpecialRegisterPostIncrement}"
  shows "frame_outcome (defs i) s result"
proof -
  have dest: "ir_destination_register i < 16 \<longrightarrow> bit (defs i) (ir_destination_register i)"
    if "a \<in> {StoreSpecialRegister, StoreSpecialRegisterPreDecrement}"
    using that assms(1) by (intro defs_destination) (auto simp: operand_use_def_def use_def_helpers)
  have source: "ir_source_register i < 16 \<longrightarrow> bit (defs i) (ir_source_register i)"
    if "a = LoadSpecialRegisterPostIncrement"
    using that assms(1) by (auto intro!: defs_operand
        simp: operand_use_def_def use_def_helpers bit_or_iff bit_gpr)
  have tlb: "frame msk cpu (load_tlb cpu)" for msk and cpu :: CpuState
    by (simp add: load_tlb_def frame_def with_address_space_def Let_def split: option.split)
  show ?thesis
    using assms dest source
    by (cases a) (auto simp: exec_access_def exec_simple_def exec_operation_def Let_def
        emitted_load_special_postincrement_def
        intro!: access_frames frame_transfers framed tlb frame_special_write)
qed

lemma exec_access_frame:
  assumes "exec_access relocate rd wr i s = Some result"
    and "ir_special_register i \<noteq> IrSpecialRegister.Sr \<or> ir_operation i \<notin>
      {O_System LoadSpecialRegister, O_System LoadSpecialRegisterPostIncrement}"
  shows "frame_outcome (defs i) s result"
proof (cases "ir_operation i")
  case (O_System a)
  then show ?thesis using frame_system assms by auto
next
  case (O_Memory a)
  then show ?thesis using assms(1) by (auto simp: exec_access_def Let_def intro!: frame_memory)
next
  case (O_Logic a)
  then show ?thesis
    using assms(1) logic_defs [OF O_Logic] frame_simple [of i "fst s"]
    by (cases a) (auto simp: exec_access_def Let_def frame_outcome_def [of _ _ "(Inr (), _)"]
        intro!: frame_read_modify_write)
next
  case (O_MulDiv a)
  then show ?thesis
    using assms(1) muldiv_defs [OF O_MulDiv] frame_simple [of i "fst s"]
    by (cases a) (auto simp: exec_access_def Let_def frame_outcome_def [of _ _ "(Inr (), _)"]
        intro!: frame_mac)
qed (use assms(1) frame_simple [of i "fst s"] in
  \<open>auto simp: exec_access_def Let_def frame_outcome_def\<close>)

end

subsection \<open>The guest accessors\<close>

lemma advance_utlb_frame: "frame msk cpu (advance_utlb_access_counter k cpu)"
  by (simp add: advance_utlb_access_counter_def with_address_space_def frame_def Let_def
      split: option.split)

lemma translate_frame:
  "frame msk cpu (snd (translate_guest_address address operation width instruction cpu))"
proof (cases "validate_virtual_alignment address operation width instruction")
  case None
  note aligned = None
  show ?thesis
  proof (cases "cpu_address_space cpu")
    case None
    then show ?thesis using aligned by (simp add: translate_guest_address_def)
  next
    case (Some space)
    have keep: "frame msk cpu (cpu\<lparr>cpu_address_space := x\<rparr>)" for x by (simp add: frame_def)
    show ?thesis using Some aligned keep frame_trans [OF keep advance_utlb_frame]
      by (auto simp: translate_guest_address_def note_translation_def Let_def
          split: prod.split sum.split)
  qed
qed (simp add: translate_guest_address_def)

lemma origin_state [simp]:
  "snd (with_guest_instruction_origin address origin result) = snd result"
  by (auto simp: with_guest_instruction_origin_def with_guest_virtual_address_def
      split: prod.splits sum.splits guest_error.splits)

lemma guest_read_frame: "frame_outcome msk s (guest_read_at ops width origin address s)"
  using translate_frame by (auto simp: frame_outcome_def guest_read_at_def translated_read_def
      on_cpu_def on_memory_def then_guest_def split: option.split prod.split sum.split)

lemma guest_write_frame: "frame_outcome msk s (guest_write_at ops width origin address x source s)"
  using translate_frame by (auto simp: frame_outcome_def guest_write_at_def translated_write_def
      on_cpu_def on_memory_def then_guest_def split: option.split prod.split sum.split)

interpretation guest_tracked: tracked_accessors "guest_reader ops origin" "guest_writer ops origin"
  for ops :: "'d DeviceOps" and origin
  by unfold_locales (simp_all add: guest_reader_def [abs_def] guest_writer_def [abs_def]
      guest_read_frame guest_write_frame)

subsection \<open>Use sets\<close>

text \<open>Two states with the same values in the registers of the mask and the same S, Q and M.\<close>

definition agree :: "RegisterMask \<Rightarrow> 'a Registers_scheme \<Rightarrow> 'a Registers_scheme \<Rightarrow> bool" where
  "agree msk a b \<longleftrightarrow>
     (\<forall>k<16. bit msk k \<longrightarrow> cpu_r a k = cpu_r b k) \<and>
     (bit msk 16 \<longrightarrow> cpu_t a = cpu_t b) \<and> (bit msk 17 \<longrightarrow> cpu_pr a = cpu_pr b) \<and>
     (bit msk 18 \<longrightarrow> cpu_gbr a = cpu_gbr b) \<and> (bit msk 19 \<longrightarrow> cpu_mach a = cpu_mach b) \<and>
     (bit msk 20 \<longrightarrow> cpu_macl a = cpu_macl b) \<and> (bit msk 21 \<longrightarrow> cpu_fpul a = cpu_fpul b) \<and>
     cpu_s a = cpu_s b \<and> cpu_q a = cpu_q b \<and> cpu_m a = cpu_m b"

definition uses :: "Instruction \<Rightarrow> RegisterMask" where
  "uses i = ud_uses (instruction_register_use_def i)"

text \<open>The effects an instruction carries are those of the tables, which the verifier demands.\<close>

definition canonical_effects :: "Instruction \<Rightarrow> bool" where
  "canonical_effects i \<longleftrightarrow>
     ir_status_effects i = instruction_status_effects (ir_operation i) (ir_special_register i) \<and>
     ir_accumulator_effects i = operation_accumulator_effects (ir_operation i) (ir_special_register i)"

lemma status_effects_uses:
  "bit (ud_uses (add_status_effects e ud)) k \<longleftrightarrow> bit (ud_uses ud) k \<or>
     k = 16 \<and> contains_status_bit (se_reads e) status_T"
  by (cases "contains_status_bit (se_reads e) status_T")
    (auto simp: add_status_effects_def add_uses_def add_defs_def bit_register_bit bit_or_iff Let_def)

lemma uses_operand: "k < 22 \<Longrightarrow> bit (ud_uses (operand_use_def i)) k \<Longrightarrow> bit (uses i) k"
proof -
  have keep: "bit (ud_uses ud) k \<Longrightarrow> bit (ud_uses (add_accumulator_effects e ud)) k" for e ud
    by (simp add: add_accumulator_effects_def add_uses_def add_defs_def bit_or_iff Let_def)
  show "k < 22 \<Longrightarrow> bit (ud_uses (operand_use_def i)) k \<Longrightarrow> bit (uses i) k"
    by (simp add: uses_def instruction_register_use_def_def bit_and_iff tracked_bits Let_def
        add_canonical_scalar_effects_def keep status_effects_uses)
qed

lemma uses_status:
  "contains_status_bit (se_reads (instruction_status_effects (ir_operation i)
     (ir_special_register i))) status_T \<Longrightarrow> bit (uses i) 16"
proof -
  have keep: "bit (ud_uses ud) k \<Longrightarrow> bit (ud_uses (add_accumulator_effects e ud)) k" for e ud k
    by (simp add: add_accumulator_effects_def add_uses_def add_defs_def bit_or_iff Let_def)
  show "contains_status_bit (se_reads (instruction_status_effects (ir_operation i)
     (ir_special_register i))) status_T \<Longrightarrow> bit (uses i) 16"
    by (simp add: uses_def instruction_register_use_def_def bit_and_iff tracked_bits Let_def
        add_canonical_scalar_effects_def keep status_effects_uses)
qed

lemma defs_canonical:
  assumes "canonical_effects i"
  shows "bit (defs i) k \<longleftrightarrow> k < 22 \<and> (bit (ud_defs (operand_use_def i)) k \<or>
     k = 16 \<and> contains_status_bit (se_writes (instruction_status_effects (ir_operation i)
       (ir_special_register i))) status_T \<or>
     k = 19 \<and> writes_accumulator (operation_accumulator_effects (ir_operation i)
       (ir_special_register i)) accumulator_Mach \<or>
     k = 20 \<and> writes_accumulator (operation_accumulator_effects (ir_operation i)
       (ir_special_register i)) accumulator_Macl)"
  using assms by (auto simp: defs_iff scalar_effects_defs canonical_effects_def)

lemma bit_gpr_high: "16 \<le> k \<Longrightarrow> \<not> bit (gpr_register_bit n) k"
  by (auto simp: gpr_register_bit_def bit_exp_iff)

text \<open>
  Each group of operations: what it reads agrees in both states, and what its definition set holds is
  what it writes.
\<close>

lemma agree_reads:
  assumes "agree (uses i) a b"
  shows "k < 16 \<Longrightarrow> bit (ud_uses (operand_use_def i)) k \<Longrightarrow> cpu_r a k = cpu_r b k"
    and "contains_status_bit (se_reads (instruction_status_effects (ir_operation i)
      (ir_special_register i))) status_T \<Longrightarrow> cpu_t a = cpu_t b"
    and "cpu_s a = cpu_s b" "cpu_q a = cpu_q b" "cpu_m a = cpu_m b"
  using assms uses_operand [of k i] uses_status [of i] by (simp_all add: agree_def)

lemma defs_one_register:
  assumes "canonical_effects i" "ud_defs (operand_use_def i) = gpr_register_bit n"
    "operation_accumulator_effects (ir_operation i) (ir_special_register i) = no_accumulator"
  shows "bit (defs i) k \<longleftrightarrow> k < 16 \<and> k = n \<or> k = 16 \<and>
    contains_status_bit (se_writes (instruction_status_effects (ir_operation i)
      (ir_special_register i))) status_T"
proof (cases "k < 16")
  case True
  then show ?thesis using assms by (auto simp: defs_canonical bit_gpr)
next
  case False
  then show ?thesis using assms bit_gpr_high [of k n]
    by (auto simp: defs_canonical writes_accumulator_def no_accumulator_def accumulator_None_def
        contains_accumulator_register_def accumulator_Mach_def accumulator_Macl_def)
qed

text \<open>Writing the destination alone, or with T\<close>

lemma agree_write:
  assumes "\<And>k. bit msk k \<Longrightarrow> k < 16 \<and> k = n \<or> k = 16"
    "cpu_s a = cpu_s b \<and> cpu_q a = cpu_q b \<and> cpu_m a = cpu_m b" "v = w"
  shows "\<not> bit msk 16 \<Longrightarrow> agree msk (set_r n v a) (set_r n w b)"
    and "t = u \<Longrightarrow> agree msk ((set_r n v a)\<lparr>cpu_t := t\<rparr>) ((set_r n w b)\<lparr>cpu_t := u\<rparr>)"
    and "t = u \<Longrightarrow> agree msk (set_r n v (a\<lparr>cpu_t := t\<rparr>)) (set_r n w (b\<lparr>cpu_t := u\<rparr>))"
  using assms by (force simp: agree_def set_r_def)+

lemma agree_arith:
  assumes op: "ir_operation i = O_Arith op" and canonical: "canonical_effects i"
    and same: "agree (uses i) a b"
    and regs: "ir_destination_register i < 16" "ir_source_register i < 16"
  shows "agree (defs i) (exec_arith op (ir_destination_register i) (ir_source_register i) imm a)
    (exec_arith op (ir_destination_register i) (ir_source_register i) imm b)"
proof -
  let ?n = "ir_destination_register i" and ?m = "ir_source_register i"
  note reads = agree_reads [OF same]
  have n: "op \<in> {AddImmediate, AddRegister, SubRegister, AddWithCarry, AddWithOverflow, SubWithCarry,
      SubWithOverflow, ExtractMiddle, DecrementAndTest} \<Longrightarrow> cpu_r a ?n = cpu_r b ?n"
    using op regs by (intro reads(1)) (auto simp: operand_use_def_def use_def_helpers bit_or_iff bit_gpr)
  have m: "op \<notin> {MovImmediate, Constant32, AddImmediate, DecrementAndTest, MoveT} \<Longrightarrow>
      cpu_r a ?m = cpu_r b ?m"
    using op regs by (intro reads(1), simp, cases op)
      (auto simp: operand_use_def_def use_def_helpers bit_or_iff bit_gpr)
  have t: "op \<in> {AddWithCarry, SubWithCarry, NegateWithCarry, MoveT} \<Longrightarrow> cpu_t a = cpu_t b"
    using op by (intro reads(2)) (auto simp: status_eval)
  have "operation_accumulator_effects (ir_operation i) (ir_special_register i) = no_accumulator"
    using op by (simp add: operation_accumulator_effects_def)
  note d = defs_one_register [OF canonical arith_defs [OF op] this]
  have quiet: "op \<notin> {AddWithCarry, AddWithOverflow, SubWithCarry, SubWithOverflow, NegateWithCarry,
      DecrementAndTest} \<Longrightarrow> \<not> bit (defs i) 16"
    using op by (cases op) (simp_all add: d status_eval)
  have only: "\<And>k. bit (defs i) k \<Longrightarrow> k < 16 \<and> k = ?n \<or> k = 16" using d by blast
  have sqm: "cpu_s a = cpu_s b \<and> cpu_q a = cpu_q b \<and> cpu_m a = cpu_m b" using reads(3-5) by simp
  note written = agree_write [OF only sqm]
  show ?thesis
    by (cases op; simp only: exec_arith.simps Let_def; rule written; (simp add: n m t quiet)?)
qed

lemma agree_shift:
  assumes op: "ir_operation i = O_Shift op" and canonical: "canonical_effects i"
    and same: "agree (uses i) a b"
    and regs: "ir_destination_register i < 16" "ir_source_register i < 16"
  shows "agree (defs i) (exec_shift op (ir_destination_register i) (ir_source_register i) a)
    (exec_shift op (ir_destination_register i) (ir_source_register i) b)"
proof -
  let ?n = "ir_destination_register i" and ?m = "ir_source_register i"
  note reads = agree_reads [OF same]
  have n: "cpu_r a ?n = cpu_r b ?n"
    using op regs by (intro reads(1), simp, cases op)
      (auto simp: operand_use_def_def use_def_helpers bit_or_iff bit_gpr)
  have m: "op \<in> {ShiftLogicalDynamic, ShiftArithmeticDynamic} \<Longrightarrow> cpu_r a ?m = cpu_r b ?m"
    using op regs by (intro reads(1)) (auto simp: operand_use_def_def use_def_helpers bit_or_iff bit_gpr)
  have t: "op \<in> {RotateLeftThroughT, RotateRightThroughT} \<Longrightarrow> cpu_t a = cpu_t b"
    using op by (intro reads(2)) (auto simp: status_eval)
  have "ud_defs (operand_use_def i) = gpr_register_bit ?n"
    using op by (cases op) (simp_all add: operand_use_def_def use_def_helpers)
  moreover have "operation_accumulator_effects (ir_operation i) (ir_special_register i) = no_accumulator"
    using op by (simp add: operation_accumulator_effects_def)
  ultimately have d: "bit (defs i) k \<longleftrightarrow> k < 16 \<and> k = ?n \<or> k = 16 \<and>
      contains_status_bit (se_writes (instruction_status_effects (ir_operation i)
        (ir_special_register i))) status_T" for k
    by (rule defs_one_register [OF canonical])
  have quiet: "op \<in> {ShiftLogicalLeftTwo, ShiftLogicalLeftEight, ShiftLogicalLeftSixteen,
      ShiftLogicalRightTwo, ShiftLogicalRightEight, ShiftLogicalRightSixteen, ShiftLogicalDynamic,
      ShiftArithmeticDynamic} \<Longrightarrow> \<not> bit (defs i) 16"
    using op by (cases op) (simp_all add: d status_eval)
  have only: "\<And>k. bit (defs i) k \<Longrightarrow> k < 16 \<and> k = ?n \<or> k = 16" using d by blast
  have sqm: "cpu_s a = cpu_s b \<and> cpu_q a = cpu_q b \<and> cpu_m a = cpu_m b" using reads(3-5) by simp
  note written = agree_write [OF only sqm]
  show ?thesis
    by (cases op; simp only: exec_shift.simps Let_def; rule written; (simp add: n m t quiet)?)
qed

text \<open>Operations that write no general register\<close>

lemma defs_no_register:
  assumes "canonical_effects i" "ud_defs (operand_use_def i) = 0"
  shows "bit (defs i) k \<longleftrightarrow>
     k = 16 \<and> contains_status_bit (se_writes (instruction_status_effects (ir_operation i)
       (ir_special_register i))) status_T \<or>
     k = 19 \<and> writes_accumulator (operation_accumulator_effects (ir_operation i)
       (ir_special_register i)) accumulator_Mach \<or>
     k = 20 \<and> writes_accumulator (operation_accumulator_effects (ir_operation i)
       (ir_special_register i)) accumulator_Macl"
  using assms by (auto simp: defs_canonical)

lemma agree_scalars:
  assumes "\<And>k. bit msk k \<Longrightarrow> k = 16 \<or> k = 19 \<or> k = 20"
    "cpu_s a = cpu_s b" "cpu_q a = cpu_q b" "cpu_m a = cpu_m b"
    "bit msk 16 \<Longrightarrow> cpu_t a = cpu_t b" "bit msk 19 \<Longrightarrow> cpu_mach a = cpu_mach b"
    "bit msk 20 \<Longrightarrow> cpu_macl a = cpu_macl b"
  shows "agree msk a b"
proof -
  have "\<not> bit msk k" if "k \<notin> {16, 19, 20}" for k using assms(1) that by blast
  then show ?thesis using assms(2-) by (simp add: agree_def)
qed

lemma agree_muldiv:
  assumes op: "ir_operation i = O_MulDiv op" and canonical: "canonical_effects i"
    and same: "agree (uses i) a b"
    and regs: "ir_destination_register i < 16" "ir_source_register i < 16"
    and runs: "exec_muldiv op (ir_destination_register i) (ir_source_register i) a = Some a'"
      "exec_muldiv op (ir_destination_register i) (ir_source_register i) b = Some b'"
  shows "agree (defs i) a' b'"
proof -
  let ?n = "ir_destination_register i" and ?m = "ir_source_register i"
  note reads = agree_reads [OF same]
  have n: "op \<notin> {DivideInitializeUnsigned, ClearMac} \<Longrightarrow> cpu_r a ?n = cpu_r b ?n"
    and m: "op \<notin> {DivideInitializeUnsigned, ClearMac} \<Longrightarrow> cpu_r a ?m = cpu_r b ?m"
    using op regs by (intro reads(1); cases op;
      simp add: operand_use_def_def use_def_helpers bit_or_iff bit_gpr)+
  show ?thesis
  proof (cases "op = DivideStep")
    case True
    have t: "cpu_t a = cpu_t b" using op True by (intro reads(2)) (simp add: status_eval)
    have "ud_defs (operand_use_def i) = gpr_register_bit ?n"
      using op True by (simp add: operand_use_def_def use_def_helpers)
    moreover have "operation_accumulator_effects (ir_operation i) (ir_special_register i) =
        no_accumulator"
      using op True by (simp add: operation_accumulator_effects_def)
    ultimately have only: "bit (defs i) k \<Longrightarrow> k < 16 \<and> k = ?n \<or> k = 16" for k
      using defs_one_register [OF canonical] by blast
    have step: "a' = exec_divide_step ?n ?m a" "b' = exec_divide_step ?n ?m b"
      using runs True by simp_all
    have "cpu_r a' ?n = cpu_r b' ?n" "cpu_t a' = cpu_t b'" "cpu_s a' = cpu_s b'"
      "cpu_q a' = cpu_q b'" "cpu_m a' = cpu_m b'"
      using n m t reads(3-5) True by (simp_all add: step exec_divide_step_def set_r_def Let_def)
    then show ?thesis using only by (force simp: agree_def)
  next
    case False
    moreover have simple: "op \<notin> {MultiplyAccumulateWord, MultiplyAccumulateLong}"
      using runs by auto
    ultimately have none: "ud_defs (operand_use_def i) = 0"
      using op by (cases op) (simp_all add: operand_use_def_def use_def_helpers)
    have only: "bit (defs i) k \<Longrightarrow> k = 16 \<or> k = 19 \<or> k = 20" for k
      using defs_no_register [OF canonical none] by blast
    have d: "bit (defs i) 16 \<Longrightarrow> op \<in> {DivideInitializeSigned, DivideInitializeUnsigned}"
      "bit (defs i) 19 \<Longrightarrow> op \<in> {DoubleMultiplySignedLong, DoubleMultiplyUnsignedLong, ClearMac}"
      "bit (defs i) 20 \<Longrightarrow> op \<in> {MultiplyLong, MultiplySignedWord, MultiplyUnsignedWord,
        DoubleMultiplySignedLong, DoubleMultiplyUnsignedLong, ClearMac}"
      using op False simple
      by (cases op; simp add: defs_no_register [OF canonical none] status_eval accumulator_eval)+
    have "cpu_s a' = cpu_s b'" "cpu_q a' = cpu_q b'" "cpu_m a' = cpu_m b'"
      using runs n m reads(3-5) False by (cases op; auto simp: Let_def)+
    moreover have "bit (defs i) 16 \<Longrightarrow> cpu_t a' = cpu_t b'" using d(1) runs n m by (auto simp: Let_def)
    moreover have "bit (defs i) 19 \<Longrightarrow> cpu_mach a' = cpu_mach b'" using d(2) runs n m by (auto simp: Let_def)
    moreover have "bit (defs i) 20 \<Longrightarrow> cpu_macl a' = cpu_macl b'" using d(3) runs n m by (auto simp: Let_def)
    ultimately show ?thesis by (intro agree_scalars [OF only]) simp_all
  qed
qed

lemma agree_logic:
  assumes op: "ir_operation i = O_Logic op" and canonical: "canonical_effects i"
    and same: "agree (uses i) a b"
    and regs: "ir_destination_register i < 16" "ir_source_register i < 16"
    and runs: "exec_logic op (ir_destination_register i) (ir_source_register i) imm a = Some a'"
      "exec_logic op (ir_destination_register i) (ir_source_register i) imm b = Some b'"
  shows "agree (defs i) a' b'"
proof -
  let ?n = "ir_destination_register i" and ?m = "ir_source_register i"
  note reads = agree_reads [OF same]
  have zero: "op \<in> {AndImmediate, OrImmediate, XorImmediate, CompareEqualImmediate, TestImmediate} \<Longrightarrow>
      cpu_r a 0 = cpu_r b 0"
    using op by (intro reads(1)) (auto simp: operand_use_def_def use_def_helpers bit_or_iff bit_gpr)
  have both: "op \<in> {AndRegister, OrRegister, XorRegister, CompareEqualRegister, CompareHigherOrSame,
      CompareGreaterOrEqual, CompareHigher, CompareGreaterThan, CompareString, TestRegister} \<Longrightarrow>
      cpu_r a ?n = cpu_r b ?n \<and> cpu_r a ?m = cpu_r b ?m"
    using op regs by (intro conjI reads(1))
      (auto simp: operand_use_def_def use_def_helpers bit_or_iff bit_gpr)
  have n: "op \<in> {ComparePositiveOrZero, ComparePositive} \<Longrightarrow> cpu_r a ?n = cpu_r b ?n"
    using op regs by (intro reads(1)) (auto simp: operand_use_def_def use_def_helpers bit_or_iff bit_gpr)
  have acc: "operation_accumulator_effects (ir_operation i) (ir_special_register i) = no_accumulator"
    using op by (simp add: operation_accumulator_effects_def)
  have sqm: "cpu_s a = cpu_s b \<and> cpu_q a = cpu_q b \<and> cpu_m a = cpu_m b" using reads(3-5) by simp
  show ?thesis
  proof (cases "op \<in> {AndRegister, OrRegister, XorRegister, AndImmediate, OrImmediate, XorImmediate}")
    case True
    define k where "k = (if op \<in> {AndRegister, OrRegister, XorRegister} then ?n else 0)"
    have "ud_defs (operand_use_def i) = gpr_register_bit k"
      using op True by (auto simp: k_def operand_use_def_def use_def_helpers)
    note d = defs_one_register [OF canonical this acc]
    have quiet: "\<not> bit (defs i) 16" using op True by (auto simp: d status_eval)
    have only: "\<And>j. bit (defs i) j \<Longrightarrow> j < 16 \<and> j = k \<or> j = 16" using d by blast
    note written = agree_write(1) [OF only sqm _ quiet]
    obtain v where "a' = set_r k v a" "b' = set_r k v b" using True runs zero both
      by (auto simp: k_def)
    then show ?thesis using written by simp
  next
    case False
    then have none: "ud_defs (operand_use_def i) = 0"
      using op by (cases op) (simp_all add: operand_use_def_def use_def_helpers)
    have only: "bit (defs i) k \<Longrightarrow> k = 16 \<or> k = 19 \<or> k = 20"
      "\<not> bit (defs i) 19" "\<not> bit (defs i) 20" for k
      using acc by (auto simp: defs_no_register [OF canonical none] writes_accumulator_def
          no_accumulator_def accumulator_eval)
    have quiet: "op \<in> {ClearS, SetS} \<Longrightarrow> \<not> bit (defs i) 16"
      using op by (auto simp: defs_no_register [OF canonical none] status_eval)
    have "cpu_s a' = cpu_s b'" "cpu_q a' = cpu_q b'" "cpu_m a' = cpu_m b'"
      using False runs sqm by (cases op; auto)+
    moreover have "bit (defs i) 16 \<Longrightarrow> cpu_t a' = cpu_t b'"
      using False runs zero both n quiet by (cases op; auto)
    ultimately show ?thesis using only(2,3) by (intro agree_scalars [OF only(1)]) simp_all
  qed
qed

lemma agree_simple:
  assumes "exec_simple i a = Some a'" "exec_simple i b = Some b'" "agree (uses i) a b"
    "canonical_effects i" "ir_destination_register i < 16" "ir_source_register i < 16"
  shows "agree (defs i) a' b'"
proof (cases "ir_operation i")
  case Nop
  then have "ud_defs (operand_use_def i) = 0" by (simp add: operand_use_def_def no_use_def_def)
  then have "\<not> bit (defs i) k" for k
    using Nop by (simp add: defs_no_register [OF assms(4)] status_eval accumulator_eval)
  then show ?thesis using assms(1-3) Nop
    by (simp add: exec_simple_def exec_operation_def agree_def)
next
  case (O_Arith op)
  then show ?thesis using agree_arith [OF O_Arith assms(4,3,5,6)] assms(1,2)
    by (auto simp: exec_simple_def exec_operation_def)
next
  case (O_Shift op)
  then show ?thesis using agree_shift [OF O_Shift assms(4,3,5,6)] assms(1,2)
    by (simp add: exec_simple_def exec_operation_def)
next
  case (O_MulDiv op)
  then show ?thesis using agree_muldiv [OF O_MulDiv assms(4,3,5,6)] assms(1,2)
    by (simp add: exec_simple_def exec_operation_def)
next
  case (O_Logic op)
  then show ?thesis using agree_logic [OF O_Logic assms(4,3,5,6)] assms(1,2)
    by (simp add: exec_simple_def exec_operation_def)
qed (use assms(1) in \<open>simp_all add: exec_simple_def exec_operation_def\<close>)

text \<open>What agrees on the registers an instruction defines and on those it keeps agrees after it.\<close>

lemma agree_combine:
  assumes "agree d a' b'" "frame d a a'" "frame d b b'" "agree (live AND NOT d) a b"
  shows "agree live a' b'"
proof -
  have kept: "bit (live AND NOT d) k \<longleftrightarrow> bit live k \<and> \<not> bit d k" if "k < 32" for k
    using that by (simp add: bit_and_iff bit_not_iff)
  have "cpu_r a' k = cpu_r b' k" if "k < 16" "bit live k" for k
    using that assms kept [of k] by (cases "bit d k") (simp_all add: agree_def frame_def)
  moreover have "bit live 16 \<longrightarrow> cpu_t a' = cpu_t b'"
    using assms kept [of 16] by (cases "bit d 16") (simp_all add: agree_def frame_def)
  moreover have "bit live 17 \<longrightarrow> cpu_pr a' = cpu_pr b'"
    using assms kept [of 17] by (cases "bit d 17") (simp_all add: agree_def frame_def)
  moreover have "bit live 18 \<longrightarrow> cpu_gbr a' = cpu_gbr b'"
    using assms kept [of 18] by (cases "bit d 18") (simp_all add: agree_def frame_def)
  moreover have "bit live 19 \<longrightarrow> cpu_mach a' = cpu_mach b'"
    using assms kept [of 19] by (cases "bit d 19") (simp_all add: agree_def frame_def)
  moreover have "bit live 20 \<longrightarrow> cpu_macl a' = cpu_macl b'"
    using assms kept [of 20] by (cases "bit d 20") (simp_all add: agree_def frame_def)
  moreover have "bit live 21 \<longrightarrow> cpu_fpul a' = cpu_fpul b'"
    using assms kept [of 21] by (cases "bit d 21") (simp_all add: agree_def frame_def)
  ultimately show ?thesis using assms(1) by (simp add: agree_def)
qed

text \<open>
  The transfer function of the analysis is sound: states that agree on what is live before the
  instruction agree afterwards on what is live after it.
\<close>

lemma transfer_sound:
  assumes "exec_simple i a = Some a'" "exec_simple i b = Some b'" "canonical_effects i"
    "ir_destination_register i < 16" "ir_source_register i < 16"
    and before: "agree (uses i OR (live AND NOT (defs i))) a b"
  shows "agree live a' b'"
proof -
  have "agree (uses i) a b" using before by (simp add: agree_def bit_or_iff)
  note changed = agree_simple [OF assms(1,2) this assms(3-5)]
  note kept = frame_simple [OF assms(1)] frame_simple [OF assms(2)]
  have "agree (live AND NOT (defs i)) a b" using before by (simp add: agree_def bit_or_iff)
  then show ?thesis by (rule agree_combine [OF changed kept])
qed

subsection \<open>Blocks\<close>

fun run_simple :: "Instruction list \<Rightarrow> 'a Registers_scheme \<Rightarrow> 'a Registers_scheme option" where
  "run_simple [] cpu = Some cpu"
| "run_simple (i # is) cpu = Option.bind (exec_simple i cpu) (run_simple is)"

fun live_before :: "Instruction list \<Rightarrow> RegisterMask \<Rightarrow> RegisterMask" where
  "live_before [] live = live"
| "live_before (i # is) live = uses i OR (live_before is live AND NOT (defs i))"

definition plain_operands :: "Instruction \<Rightarrow> bool" where
  "plain_operands i \<longleftrightarrow> canonical_effects i \<and> ir_destination_register i < 16 \<and> ir_source_register i < 16"

lemma run_simple_sound:
  assumes "run_simple is a = Some a'" "run_simple is b = Some b'" "list_all plain_operands is"
    "agree (live_before is live) a b"
  shows "agree live a' b'"
  using assms
proof (induction "is" arbitrary: a b)
  case (Cons i "is")
  obtain a1 b1 where "exec_simple i a = Some a1" "run_simple is a1 = Some a'"
    "exec_simple i b = Some b1" "run_simple is b1 = Some b'"
    using Cons.prems(1,2) by (auto simp: bind_eq_Some_conv)
  moreover from this have "agree (live_before is live) a1 b1"
    using Cons.prems(3,4) transfer_sound [of i a a1 b b1] by (simp add: plain_operands_def)
  ultimately show ?case using Cons.IH Cons.prems(3) by simp
qed simp

lemma used_before_def_Cons:
  "used_before_def (i # is) k \<longleftrightarrow> bit (uses i) k \<or> \<not> bit (defs i) k \<and> used_before_def is k"
  unfolding used_before_def_def uses_def defs_def by (auto simp: Ex_less_Suc2 All_less_Suc2)

lemma defined_in_Cons: "defined_in (i # is) k \<longleftrightarrow> bit (defs i) k \<or> defined_in is k"
  by (simp add: defined_in_def defs_def)

lemma live_before_bits:
  "k < 32 \<Longrightarrow> bit (live_before is live) k \<longleftrightarrow> used_before_def is k \<or> bit live k \<and> \<not> defined_in is k"
proof (induction "is")
  case Nil
  then show ?case by (simp add: used_before_def_def defined_in_def)
next
  case (Cons i "is")
  then show ?case
    by (auto simp: used_before_def_Cons defined_in_Cons bit_or_iff bit_and_iff bit_not_iff)
qed

lemma live_in_before:
  assumes "block_equations fn blocks block b"
  shows "bl_live_in b = live_before (bb_instructions block) (bl_live_out b)"
  by (rule bit_word_eqI) (use assms in \<open>simp add: block_equations_def live_before_bits\<close>)

lemma plan_block_sound:
  assumes "liveness_equations fn blocks" "j < length (fn_blocks fn)"
    "list_all plain_operands (bb_instructions (fn_blocks fn ! j))"
    "run_simple (bb_instructions (fn_blocks fn ! j)) x = Some x'"
    "run_simple (bb_instructions (fn_blocks fn ! j)) y = Some y'"
    "agree (bl_live_in (blocks ! j)) x y"
  shows "agree (bl_live_out (blocks ! j)) x' y'"
proof -
  have "block_equations fn blocks (fn_blocks fn ! j) (blocks ! j)"
    using assms(1,2) by (simp add: liveness_equations_def list_all2_conv_all_nth)
  then show ?thesis
    using run_simple_sound [OF assms(4,5,3)] assms(6) live_in_before by metis
qed

end
