(* ===== verification/Memory_Bytes.thy ===== *)
theory Memory_Bytes
  imports Memory_Correct
begin

text \<open>
  The guest memory as an array of bytes: which backing byte a physical address stands for, what a
  store changes of it, and that staging the stores of a block and flushing them is the same as
  storing one after the other.
\<close>

subsection \<open>Little-endian values\<close>

lemma bit_from_little:
  "bit (from_little bs) n \<longleftrightarrow> n < 32 \<and> n div 8 < length bs \<and> bit (bs ! (n div 8)) (n mod 8)"
proof (induction bs arbitrary: n)
  case (Cons b bs)
  show ?case
  proof (cases "n < 8")
    case True
    then show ?thesis by (simp add: bit_or_iff bit_push_bit_iff bit_unsigned_iff)
  next
    case False
    then have "n div 8 = Suc ((n - 8) div 8)" "n mod 8 = (n - 8) mod 8"
      by (simp_all add: le_div_geq le_mod_geq)
    then show ?thesis
      using False Cons.IH [of "n - 8"]
      by (auto simp: bit_or_iff bit_push_bit_iff bit_unsigned_iff dest: bit_imp_le_length)
  qed
qed simp

lemma from_to_little:
  "from_little (to_little (width_bytes width) v) = v AND width_mask width"
proof (rule bit_word_eqI)
  fix n assume n: "n < LENGTH(32)"
  have width: "n div 8 < width_bytes width \<longleftrightarrow> bit (width_mask width) n" if "n < 32" for n
  proof -
    have m: "(0xFF::u32) = mask 8" "(0xFFFF::u32) = mask 16" "(0xFFFFFFFF::u32) = mask 32"
      by (simp_all add: mask_eq_exp_minus_1)
    show ?thesis
      using that by (cases width) (simp_all only: width_bytes.simps width_mask.simps m bit_mask_iff,
          auto simp: less_mult_imp_div_less div_less_iff_less_mult)
  qed
  have "8 * (n div 8) + n mod 8 = n" by simp
  then show "bit (from_little (to_little (width_bytes width) v)) n = bit (v AND width_mask width) n"
    using n width [of n]
    by (auto simp: bit_from_little to_little_def bit_and_iff bit_unsigned_iff bit_drop_bit_eq)
qed

lemma nth_store_bytes:
  assumes "at + length new \<le> length bytes" "i < length bytes"
  shows "store_bytes bytes at new ! i =
    (if at \<le> i \<and> i < at + length new then new ! (i - at) else bytes ! i)"
  using assms by (auto simp: store_bytes_def nth_append)

lemma take_drop_map:
  "offset + n \<le> length bytes \<Longrightarrow>
     take n (drop offset bytes) = map (\<lambda>k. bytes ! (offset + k)) [0..<n]"
  by (rule nth_equalityI) auto

subsection \<open>Where a byte lives\<close>

definition byte_home :: "'d Memory \<Rightarrow> nat \<Rightarrow> (nat \<times> nat) option" where
  "byte_home mem x = map_option (\<lambda>m. (mr_device m, x - region_start m))
     (find (covers x (x + 1)) (mem_regions mem))"

definition byte_at :: "'d Memory \<Rightarrow> nat \<Rightarrow> u8 option" where
  "byte_at mem x = (case byte_home mem x of None \<Rightarrow> None
     | Some (d, i) \<Rightarrow> map_option (\<lambda>bytes. bytes ! i) (linear_bytes mem d))"

lemma byte_home_region:
  assumes "regions_ok mem" "m \<in> set (mem_regions mem)" "region_start m \<le> x" "x < region_end m"
  shows "byte_home mem x = Some (mr_device m, x - region_start m)"
proof -
  obtain r where r: "find (covers x (x + 1)) (mem_regions mem) = Some r"
    using assms(2-4) by (cases "find (covers x (x + 1)) (mem_regions mem)")
      (auto simp: find_None_iff Suc_le_eq)
  then have "r \<in> set (mem_regions mem)" "region_start r \<le> x" "x < region_end r"
    by (auto simp: find_Some_iff)
  then have "r = m" using region_unique [OF assms(1)] assms(2-4) by blast
  then show ?thesis using r by (simp add: byte_home_def)
qed

lemma byte_home_bound:
  assumes "regions_ok mem" "byte_home mem x = Some (d, i)" "linear_bytes mem d = Some bytes"
  shows "i < length bytes"
proof -
  obtain r where "find (covers x (x + 1)) (mem_regions mem) = Some r"
    and d: "d = mr_device r" "i = x - region_start r"
    using assms(2) by (auto simp: byte_home_def)
  then have "r \<in> set (mem_regions mem)" "region_start r \<le> x" "x < region_end r"
    by (auto simp: find_Some_iff)
  then show ?thesis using linear_device_size [OF assms(1)] assms(3) d by force
qed

lemma unat_region_offset:
  "region_start m \<le> unat address \<Longrightarrow> unat (region_offset m address) = unat address - region_start m"
  by (simp add: region_offset_def unat_sub word_le_nat_alt)

text \<open>A linear access touches the backing bytes of its addresses.\<close>

lemma resolved_linear:
  assumes "memory_ok mem" "resolve mem address width operation = Inr m"
    "linear_bytes mem (mr_device m) = Some bytes"
  shows "unat (region_offset m address) + width_bytes width \<le> length bytes"
    "k < width_bytes width \<Longrightarrow>
       byte_home mem (unat address + k) = Some (mr_device m, unat (region_offset m address) + k)"
proof -
  note m = resolve_covers [OF assms(1,2)]
  have ok: "regions_ok mem" using assms(1) by (simp add: memory_ok_def)
  show "unat (region_offset m address) + width_bytes width \<le> length bytes"
    using m(2) linear_device_size [OF ok m(1) assms(3)] unat_region_offset [of m address]
    by linarith
  show "k < width_bytes width \<Longrightarrow>
       byte_home mem (unat address + k) = Some (mr_device m, unat (region_offset m address) + k)"
    using m byte_home_region [OF ok m(1), of "unat address + k"] by (simp add: unat_region_offset)
qed

lemma read_at_linear:
  assumes "memory_ok mem" "resolve mem address width ReadAccess = Inr m"
    "linear_bytes mem (mr_device m) = Some bytes"
  shows "fst (read_at ops width address context mem) =
    Inr (from_little (map (\<lambda>k. bytes ! (unat (region_offset m address) + k))
      [0..<width_bytes width]))"
  using resolved_linear(1) [OF assms] assms(2,3)
  by (simp add: read_at_def read_mapped_def linear_read_def device_access_ok_def Let_def
      take_drop_map)

text \<open>A store to linear memory succeeds and changes exactly the bytes of its home.\<close>

lemma observe_access_devices [simp]:
  "mem_devices (observe_access m event mem) = mem_devices mem"
  by (simp add: observe_access_def record_mmio_access_def notify_access_def add_log_def Let_def)

lemma write_at_linear:
  fixes v :: u32
  assumes "memory_ok mem" "resolve_writable mem address width = Inr m"
    "linear_bytes mem (mr_device m) = Some bytes"
  defines "new \<equiv> store_bytes bytes (unat (region_offset m address)) (to_little (width_bytes width) v)"
  shows "fst (write_at ops width address v context source mem) = Inr ()"
    "mem_devices (snd (write_at ops width address v context source mem)) =
       (mem_devices mem)(mr_device m \<mapsto> LinearMemoryDevice new)"
proof -
  have "resolve mem address width WriteAccess = Inr m"
    using assms(2) by (auto simp: resolve_writable_def split: sum.splits if_splits)
  then have "device_access_ok (length bytes) (region_offset m address) width"
    using resolved_linear(1) [OF assms(1) _ assms(3)] by (force simp: device_access_ok_def)
  then have "write_mapped ops m width address v mem =
      (Inr (), set_linear_bytes (mr_device m) new mem)"
    using assms(3) by (simp add: write_mapped_def linear_write_def new_def Let_def)
  then show "fst (write_at ops width address v context source mem) = Inr ()"
    "mem_devices (snd (write_at ops width address v context source mem)) =
       (mem_devices mem)(mr_device m \<mapsto> LinearMemoryDevice new)"
    using assms(2,3)
    by (simp_all add: write_at_def validate_store_def Let_def notify_guest_memory_access_def
        notify_guest_write_def add_log_def set_linear_bytes_def split: prod.splits)
qed

lemma byte_at_after_store:
  assumes "memory_ok mem" "resolve_writable mem address width = Inr m"
    "linear_bytes mem (mr_device m) = Some bytes"
    "write_at ops width address v context source mem = (r, mem')"
  shows "byte_at mem' x = (case byte_home mem x of None \<Rightarrow> None | Some (d, i) \<Rightarrow>
      if d = mr_device m \<and> unat (region_offset m address) \<le> i \<and>
         i < unat (region_offset m address) + width_bytes width
      then Some (ucast (drop_bit (8 * (i - unat (region_offset m address))) v)) else byte_at mem x)"
proof -
  let ?off = "unat (region_offset m address)"
  have devices: "mem_devices mem' = (mem_devices mem)(mr_device m \<mapsto> LinearMemoryDevice
      (store_bytes bytes ?off (to_little (width_bytes width) v)))"
    using write_at_linear(2) [OF assms(1-3)] assms(4) by (metis snd_conv)
  have "same_layout mem mem'" using write_at_layout assms(4) by (metis snd_conv)
  then have home: "byte_home mem' = byte_home mem"
    by (simp add: same_layout_def byte_home_def fun_eq_iff)
  have ok: "regions_ok mem" using assms(1) by (simp add: memory_ok_def)
  have "resolve mem address width WriteAccess = Inr m"
    using assms(2) by (auto simp: resolve_writable_def split: sum.splits if_splits)
  note fits = resolved_linear(1) [OF assms(1) this assms(3)]
  show ?thesis
  proof (cases "byte_home mem x")
    case None
    then show ?thesis by (simp add: byte_at_def home)
  next
    case (Some p)
    obtain d i where p: "p = (d, i)" by fastforce
    show ?thesis
    proof (cases "d = mr_device m")
      case True
      then have "i < length bytes" using byte_home_bound [OF ok] Some p assms(3) by blast
      then have "store_bytes bytes ?off (to_little (width_bytes width) v) ! i =
          (if ?off \<le> i \<and> i < ?off + width_bytes width
           then ucast (drop_bit (8 * (i - ?off)) v) else bytes ! i)"
        using fits by (auto simp: nth_store_bytes to_little_def)
      then show ?thesis
        using Some p True assms(3) by (simp add: byte_at_def home linear_bytes_def devices)
    next
      case False
      then show ?thesis
        using Some p by (simp add: byte_at_def home linear_bytes_def devices split: option.splits)
    qed
  qed
qed

subsection \<open>Staged stores\<close>

text \<open>A batch that was opened on a memory and filled with stores of that memory.\<close>

inductive staged :: "'d Memory \<Rightarrow> DirectLinearWriteBatch \<Rightarrow> bool" for mem where
  staged_begin: "staged mem (begin_direct_linear_write_batch mem)"
| staged_store: "staged mem batch \<Longrightarrow> v AND width_mask width = v \<Longrightarrow>
    try_stage mem width address v source batch = Some batch' \<Longrightarrow> staged mem batch'"

text \<open>The stores of a list of entries, one after the other.\<close>

fun store_in_order :: "BatchEntry list \<Rightarrow> 'd Memory \<Rightarrow> 'd Memory option" where
  "store_in_order [] mem = Some mem"
| "store_in_order (e # es) mem =
     Option.bind (try_write_direct_linear (be_width e) (be_physical_address e) (be_value e)
         (be_source e) mem) (store_in_order es)"

definition write_calls :: "'d Memory \<Rightarrow> BatchEntry list \<Rightarrow> notification list" where
  "write_calls mem es = (if mem_write_observer mem then map (GuestWriteCall \<circ> entry_event) es else [])"

lemma store_in_order_append:
  "store_in_order (es @ fs) mem = Option.bind (store_in_order es mem) (store_in_order fs)"
  by (induction es arbitrary: mem) (auto split: bind_split)

lemma replay_in_order: "store_in_order es mem = Some mem' \<Longrightarrow> replay_entries ops es mem = Some mem'"
  by (induction es arbitrary: mem) (auto simp: replay_entry_def split: bind_splits option.splits)

lemma from_little_eq_iff:
  assumes "length xs = width_bytes width" "v AND width_mask width = v"
  shows "from_little xs = v \<longleftrightarrow> (\<forall>k<width_bytes width. xs ! k = ucast (drop_bit (8 * k) v))"
proof
  assume "from_little xs = v"
  then have v: "bit v n \<longleftrightarrow> n < 32 \<and> n div 8 < length xs \<and> bit (xs ! (n div 8)) (n mod 8)" for n
    using bit_from_little by metis
  have four: "width_bytes width \<le> 4" by (cases width) auto
  show "\<forall>k<width_bytes width. xs ! k = ucast (drop_bit (8 * k) v)"
    using assms(1) four by (auto intro!: bit_word_eqI simp: bit_unsigned_iff bit_drop_bit_eq v)
next
  assume "\<forall>k<width_bytes width. xs ! k = ucast (drop_bit (8 * k) v)"
  then have "xs = to_little (width_bytes width) v"
    using assms(1) by (intro nth_equalityI) (auto simp: to_little_def)
  then show "from_little xs = v" using from_to_little assms(2) by metis
qed

text \<open>
  What committing entries leaves of a memory with a bound window: everything but the backing bytes,
  and those are the ones the staging code predicts.
\<close>

definition commit_view :: "'d Memory \<Rightarrow> BatchEntry list \<Rightarrow> 'd Memory \<Rightarrow> bool" where
  "commit_view mem es mem' \<longleftrightarrow> (\<exists>d bytes bytes'. mem_direct_backing mem = Some d \<and>
     linear_bytes mem d = Some bytes \<and> length bytes' = length bytes \<and>
     mem' = set_linear_bytes d bytes' mem \<and>
     (\<forall>i<length bytes. bytes' ! i = staged_byte es bytes i))"

lemma set_linear_bytes_twice [simp]:
  "set_linear_bytes d b (set_linear_bytes d a mem) = set_linear_bytes d b mem"
  by (simp add: set_linear_bytes_def)

lemma set_linear_bytes_direct [simp]:
  "mem_direct_backing (set_linear_bytes d bytes mem) = mem_direct_backing mem"
  "mem_direct_writes_enabled (set_linear_bytes d bytes mem) = mem_direct_writes_enabled mem"
  "mem_log (set_linear_bytes d bytes mem) = mem_log mem"
  by (simp_all add: set_linear_bytes_def)

lemma direct_linear_offset_contents:
  assumes "mem_direct_backing mem = Some d" "linear_bytes mem d = Some bytes"
    "length bytes' = length bytes"
  shows "direct_linear_offset (add_log notes (set_linear_bytes d bytes' mem)) = direct_linear_offset mem"
proof -
  let ?new = "add_log notes (set_linear_bytes d bytes' mem)"
  have "direct_bytes mem = Some bytes" "direct_bytes ?new = Some bytes'"
    using assms by (simp_all add: direct_bytes_def add_log_def set_linear_bytes_def linear_bytes_def)
  moreover have "mem_direct_physical_base ?new = mem_direct_physical_base mem"
    "mem_direct_physical_span ?new = mem_direct_physical_span mem"
    "mem_direct_backing_mask ?new = mem_direct_backing_mask mem"
    by (simp_all add: add_log_def set_linear_bytes_def)
  ultimately show ?thesis
    by (intro ext) (simp only: direct_linear_offset_def option.case assms(3))
qed

lemma direct_offset_fits:
  "direct_linear_offset mem address n = Some offset \<Longrightarrow> direct_bytes mem = Some bytes \<Longrightarrow>
     unat offset + n \<le> length bytes"
  by (auto simp: direct_linear_offset_def Let_def split: if_splits)

lemma commit_entry_view:
  assumes "commit_view mem es mem'" "direct_linear_offset mem address (width_bytes width) = Some offset"
    "e = \<lparr>be_physical_address = address, be_backing_offset = offset, be_value = v, be_width = width,
       be_source = source, be_bytes_changed = changed\<rparr>"
  shows "commit_view mem (es @ [e]) (commit_entry e mem')"
proof -
  obtain d bytes bytes' where v: "mem_direct_backing mem = Some d" "linear_bytes mem d = Some bytes"
    "length bytes' = length bytes" "mem' = set_linear_bytes d bytes' mem"
    "\<forall>i<length bytes. bytes' ! i = staged_byte es bytes i"
    using assms(1) by (auto simp: commit_view_def)
  then have direct: "direct_bytes mem = Some bytes" "direct_bytes mem' = Some bytes'"
    by (simp_all add: direct_bytes_def)
  let ?new = "store_bytes bytes' (unat offset) (to_little (width_bytes width) v)"
  have "unat offset + width_bytes width \<le> length bytes"
    using direct_offset_fits [OF assms(2) direct(1)] .
  then have "length ?new = length bytes"
    "\<forall>i<length bytes. ?new ! i = staged_byte (es @ [e]) bytes i"
    using v(3,5) assms(3)
    by (auto simp: length_store_bytes nth_store_bytes staged_byte_def entry_covers_def to_little_def)
  moreover have "commit_entry e mem' = set_linear_bytes d ?new mem"
    using v assms(3) direct by (simp add: commit_entry_def store_direct_def)
  ultimately show ?thesis unfolding commit_view_def using v(1,2) by blast
qed

lemma staged_in_order:
  assumes "staged mem batch" "wb_entries batch \<noteq> []"
  shows "commit_view mem (wb_entries batch) (fold commit_entry (wb_entries batch) mem) \<and>
    store_in_order (wb_entries batch) mem =
      Some (add_log (write_calls mem (wb_entries batch)) (fold commit_entry (wb_entries batch) mem)) \<and>
    direct_linear_write_batch_current mem batch"
  using assms
proof (induction rule: staged.induct)
  case staged_begin
  then show ?case
    by (auto simp: begin_direct_linear_write_batch_def empty_batch_def split: if_splits)
next
  case (staged_store batch v width address source batch')
  let ?es = "wb_entries batch"
  obtain offset where offset: "direct_linear_offset mem address (width_bytes width) = Some offset"
    and current: "direct_linear_write_batch_current mem batch"
    using staged_store.hyps(3) by (auto simp: try_stage_def split: if_splits option.splits)
  obtain bytes d where direct: "direct_bytes mem = Some bytes" "mem_direct_backing mem = Some d"
    "linear_bytes mem d = Some bytes"
    using offset by (auto simp: direct_linear_offset_def direct_bytes_def bind_eq_Some_conv
        split: option.splits)
  define e where "e = \<lparr>be_physical_address = address, be_backing_offset = offset, be_value = v,
    be_width = width, be_source = source,
    be_bytes_changed = staged_changes ?es bytes (unat offset) v (width_bytes width)\<rparr>"
  have batch': "batch' = batch\<lparr>wb_entries := ?es @ [e]\<rparr>"
    using staged_store.hyps(3) offset direct
    by (auto simp: try_stage_def e_def split: if_splits)
  let ?mem = "fold commit_entry ?es mem"
  have ih: "commit_view mem ?es ?mem"
    "store_in_order ?es mem = Some (add_log (write_calls mem ?es) ?mem)"
  proof -
    have "commit_view mem ?es ?mem \<and> store_in_order ?es mem = Some (add_log (write_calls mem ?es) ?mem)"
    proof (cases "?es = []")
      case True
      have "set_linear_bytes d bytes mem = mem"
        using direct by (auto simp: set_linear_bytes_def linear_bytes_def fun_upd_idem
            split: option.splits MemoryDevice.splits)
      then have "commit_view mem [] mem"
        using direct by (auto simp: commit_view_def staged_byte_def intro!: exI [of _ bytes])
      then show ?thesis using True by (simp add: write_calls_def add_log_def)
    qed (use staged_store.IH in blast)
    then show "commit_view mem ?es ?mem"
      "store_in_order ?es mem = Some (add_log (write_calls mem ?es) ?mem)" by blast+
  qed
  obtain bytes' where b': "length bytes' = length bytes" "?mem = set_linear_bytes d bytes' mem"
    "\<forall>i<length bytes. bytes' ! i = staged_byte ?es bytes i"
    using ih(1) direct by (auto simp: commit_view_def)
  have fits: "unat offset + width_bytes width \<le> length bytes"
    using direct_offset_fits [OF offset direct(1)] .
  have changed: "from_little (take (width_bytes width) (drop (unat offset) bytes')) \<noteq> v \<longleftrightarrow>
      be_bytes_changed e"
    using fits b' from_little_eq_iff [OF _ staged_store.hyps(2),
        of "take (width_bytes width) (drop (unat offset) bytes')"]
    by (auto simp: e_def staged_changes_def list_ex_iff)
  have "mem_direct_writes_enabled mem"
    using current by (simp add: direct_linear_write_batch_current_def)
  moreover have "direct_linear_offset (add_log (write_calls mem ?es) ?mem) = direct_linear_offset mem"
    using direct_linear_offset_contents [OF direct(2,3) b'(1)] b'(2) by metis
  moreover have "direct_bytes (add_log (write_calls mem ?es) ?mem) = Some bytes'"
    using direct b'(2) by (simp add: direct_bytes_def add_log_def linear_bytes_def
        set_linear_bytes_def)
  ultimately have "try_write_direct_linear width address v source (add_log (write_calls mem ?es) ?mem)
      = Some (add_log (write_calls mem (?es @ [e])) (commit_entry e ?mem))"
    using offset changed b'(2) direct
    by (auto simp: try_write_direct_linear_def commit_entry_def store_direct_def e_def write_calls_def
        entry_event_def notify_guest_write_def add_log_def set_linear_bytes_def linear_bytes_def
        direct_bytes_def)
  then have "store_in_order (?es @ [e]) mem =
      Some (add_log (write_calls mem (?es @ [e])) (fold commit_entry (?es @ [e]) mem))"
    using ih(2) by (simp add: store_in_order_append e_def)
  moreover have "commit_view mem (?es @ [e]) (fold commit_entry (?es @ [e]) mem)"
    using commit_entry_view [OF ih(1) offset] by (simp add: e_def)
  ultimately show ?case
    using current by (simp add: batch' direct_linear_write_batch_current_def)
qed

text \<open>
  Flushing is storing in order.  Only the notifications differ: an observer that admits the batch is
  told once, with all events, instead of once per store.
\<close>

lemma flush_in_order:
  assumes "staged mem batch"
  defines "events \<equiv> map entry_event (wb_entries batch)"
  shows "\<exists>mem'. store_in_order (wb_entries batch) mem = Some mem' \<and>
    flush_direct_linear_write_batch ops admit batch mem =
      Some (if wb_entries batch \<noteq> [] \<and> mem_batch_observer mem \<and> admit events
            then add_log [GuestWriteBatchCommit events] (mem'\<lparr>mem_log := mem_log mem\<rparr>) else mem')"
proof (cases "wb_entries batch = []")
  case True
  then show ?thesis by (simp add: flush_direct_linear_write_batch_def)
next
  case False
  define committed where "committed = fold commit_entry (wb_entries batch) mem"
  define stored where "stored = add_log (write_calls mem (wb_entries batch)) committed"
  have view: "commit_view mem (wb_entries batch) committed"
    and order: "store_in_order (wb_entries batch) mem = Some stored"
    and current: "direct_linear_write_batch_current mem batch"
    using staged_in_order [OF assms(1) False] by (auto simp: committed_def stored_def)
  have log: "mem_log committed = mem_log mem" "mem_batch_observer committed = mem_batch_observer mem"
    using view by (auto simp: commit_view_def set_linear_bytes_def)
  have quiet: "stored = committed" if "\<not> mem_batch_observer mem"
    using that current by (simp add: stored_def write_calls_def add_log_def
        direct_linear_write_batch_current_def)
  have "stored\<lparr>mem_log := mem_log mem\<rparr> = committed" using log by (simp add: stored_def add_log_def)
  then show ?thesis
    using False order current quiet log replay_in_order [OF order, of ops]
    by (auto simp: flush_direct_linear_write_batch_def events_def committed_def [symmetric])
qed

subsection \<open>A load after a store\<close>

lemma load_after_store:
  assumes "memory_ok mem" "resolve_writable mem address width = Inr m"
    "linear_bytes mem (mr_device m) = Some bytes"
    "write_at ops width address v context source mem = (r, mem')"
    "resolve mem' alias_address width ReadAccess = Inr m'" "mr_device m' = mr_device m"
    "region_offset m' alias_address = region_offset m address"
  shows "fst (read_at ops width alias_address context' mem') = Inr (v AND width_mask width)"
proof -
  let ?off = "unat (region_offset m address)"
  let ?new = "store_bytes bytes ?off (to_little (width_bytes width) v)"
  have "mem_devices mem' = (mem_devices mem)(mr_device m \<mapsto> LinearMemoryDevice ?new)"
    using write_at_linear(2) [OF assms(1-3)] assms(4) by (metis snd_conv)
  then have new: "linear_bytes mem' (mr_device m') = Some ?new"
    using assms(6) by (simp add: linear_bytes_def)
  have "same_layout mem mem'" using write_at_layout assms(4) by (metis snd_conv)
  then have ok: "memory_ok mem'" using assms(1) same_layout_ok by blast
  have "resolve mem address width WriteAccess = Inr m"
    using assms(2) by (auto simp: resolve_writable_def split: sum.splits if_splits)
  note fits = resolved_linear(1) [OF assms(1) this assms(3)]
  then have "map (\<lambda>k. ?new ! (?off + k)) [0..<width_bytes width] = to_little (width_bytes width) v"
    by (intro nth_equalityI) (simp_all add: nth_store_bytes to_little_def)
  then show ?thesis
    using read_at_linear [OF ok assms(5) new] assms(7) by (simp add: from_to_little)
qed

end
