(* ===== verification/Block_Abi.thy ===== *)
theory Block_Abi
  imports Cpu_State
begin

text \<open>
  The block ABI (\<open>src/runtime/block_abi.cpp\<close>, \<open>include/katana/runtime/block_abi.hpp\<close>,
  \<open>include/katana/runtime/code_address_inline.hpp\<close>): the scoped relocations of copied native code
  with their interval caches, and the entry and exit contract of a block.

  The thread-local variables form one record.  The two versions of the ABI are generated by the build
  and are arguments of \<open>validate_block_entry\<close>.
\<close>

subsection \<open>Relocation state\<close>

record CodeAddressMapping =
  cm_source_start :: u32
  cm_runtime_start :: u32
  cm_extent :: u32

text \<open>The interval \<open>[begin, begin + extent)\<close>; the extent of the full address space needs 33 bits.\<close>

record LookupInterval =
  li_extent :: u64
  li_begin :: u32
  li_delta :: u32

record CodeAddressState =
  ca_mappings :: "(u64 \<times> CodeAddressMapping) list"
  ca_next_token :: u64
  ca_mapping_active :: bool
  ca_relocated :: LookupInterval
  ca_unrelocated :: LookupInterval
  ca_relocate_cache :: "nat \<Rightarrow> LookupInterval"
  ca_unrelocate_cache :: "nat \<Rightarrow> LookupInterval"

definition guest_address_space_extent :: u64 where
  "guest_address_space_extent = 0x100000000"

definition initial_code_addresses :: CodeAddressState where
  "initial_code_addresses = \<lparr>ca_mappings = [], ca_next_token = 1, ca_mapping_active = False,
     ca_relocated = \<lparr>li_extent = 0x100000000, li_begin = 0, li_delta = 0\<rparr>,
     ca_unrelocated = \<lparr>li_extent = 0x100000000, li_begin = 0, li_delta = 0\<rparr>,
     ca_relocate_cache = (\<lambda>_. \<lparr>li_extent = 0, li_begin = 0, li_delta = 0\<rparr>),
     ca_unrelocate_cache = (\<lambda>_. \<lparr>li_extent = 0, li_begin = 0, li_delta = 0\<rparr>)\<rparr>"

definition lookup_cache_contains :: "LookupInterval \<Rightarrow> u32 \<Rightarrow> bool" where
  "lookup_cache_contains cached address \<longleftrightarrow> (ucast (address - li_begin cached) :: u64) < li_extent cached"

definition range_contains :: "u32 \<Rightarrow> u32 \<Rightarrow> u32 \<Rightarrow> bool" where
  "range_contains address start extent \<longleftrightarrow>
     (ucast start :: u64) \<le> ucast address \<and> (ucast address :: u64) < ucast start + ucast extent"

definition allocate_mapping_token :: "CodeAddressState \<Rightarrow> u64 \<times> CodeAddressState" where
  "allocate_mapping_token st =
     (let token = ca_next_token st; st = st\<lparr>ca_next_token := token + 1\<rparr>
      in if token = 0 then (ca_next_token st, st\<lparr>ca_next_token := ca_next_token st + 1\<rparr>)
         else (token, st))"

definition empty_extent :: "LookupInterval \<Rightarrow> LookupInterval" where
  "empty_extent cached = cached\<lparr>li_extent := 0\<rparr>"

definition invalidate_code_address_lookup_cache :: "CodeAddressState \<Rightarrow> CodeAddressState" where
  "invalidate_code_address_lookup_cache st =
     (let whole = \<lparr>li_extent = (if ca_mapping_active st then 0 else guest_address_space_extent),
                   li_begin = 0, li_delta = 0\<rparr>
      in st\<lparr>ca_relocate_cache := (\<lambda>k. empty_extent (ca_relocate_cache st k)),
            ca_unrelocate_cache := (\<lambda>k. empty_extent (ca_unrelocate_cache st k)),
            ca_relocated := whole, ca_unrelocated := whole\<rparr>)"

subsection \<open>Lookups\<close>

text \<open>\<open>Reverse\<close> of the template is a boolean argument.\<close>

definition mapping_start :: "bool \<Rightarrow> CodeAddressMapping \<Rightarrow> u32" where
  "mapping_start reverse mapping =
     (if reverse then cm_runtime_start mapping else cm_source_start mapping)"

definition mapping_delta :: "bool \<Rightarrow> CodeAddressMapping \<Rightarrow> int" where
  "mapping_delta reverse mapping =
     (if reverse then uint (cm_source_start mapping) - uint (cm_runtime_start mapping)
      else uint (cm_runtime_start mapping) - uint (cm_source_start mapping))"

definition mapping_end :: "bool \<Rightarrow> CodeAddressMapping \<Rightarrow> u64" where
  "mapping_end reverse mapping = ucast (mapping_start reverse mapping) + ucast (cm_extent mapping)"

definition mapping_contains :: "bool \<Rightarrow> u32 \<Rightarrow> CodeAddressMapping \<Rightarrow> bool" where
  "mapping_contains reverse address mapping =
     range_contains address (mapping_start reverse mapping) (cm_extent mapping)"

text \<open>The loop from the newest mapping down\<close>

fun select_mapping :: "bool \<Rightarrow> u32 \<Rightarrow> (u64 \<times> CodeAddressMapping) list \<Rightarrow> nat \<Rightarrow> nat option" where
  "select_mapping reverse address mappings 0 = None"
| "select_mapping reverse address mappings (Suc index) =
     (if mapping_contains reverse address (snd (mappings ! index)) then Some index
      else select_mapping reverse address mappings index)"

definition constrain_gap ::
    "bool \<Rightarrow> u32 \<Rightarrow> u64 \<times> CodeAddressMapping \<Rightarrow> u64 \<times> u64 \<Rightarrow> u64 \<times> u64" where
  "constrain_gap reverse address entry bounds =
     (if mapping_end reverse (snd entry) \<le> ucast address
      then (max (fst bounds) (mapping_end reverse (snd entry)), snd bounds)
      else if mapping_start reverse (snd entry) > address
      then (fst bounds, min (snd bounds) (ucast (mapping_start reverse (snd entry))))
      else bounds)"

definition cache_index :: "u32 \<Rightarrow> nat" where
  "cache_index address =
     unat (((ucast (drop_bit 12 address) :: u64) XOR ucast (drop_bit 20 address)) AND (64 - 1))"

definition lookup_interval :: "bool \<Rightarrow> u32 \<Rightarrow> (u64 \<times> CodeAddressMapping) list \<Rightarrow> LookupInterval" where
  "lookup_interval reverse address mappings =
     (let ((begin, last), delta) =
        (case select_mapping reverse address mappings (length mappings) of
           Some selected \<Rightarrow>
             let mapping = snd (mappings ! selected)
             in (fold (constrain_gap reverse address) (drop (Suc selected) mappings)
                   (ucast (mapping_start reverse mapping), mapping_end reverse mapping),
                 mapping_delta reverse mapping)
         | None \<Rightarrow>
             (fold (constrain_gap reverse address) mappings (0, guest_address_space_extent), 0))
      in \<lparr>li_extent = last - begin, li_begin = ucast begin, li_delta = word_of_int delta\<rparr>)"

definition lookup_cache :: "bool \<Rightarrow> CodeAddressState \<Rightarrow> nat \<Rightarrow> LookupInterval" where
  "lookup_cache reverse st = (if reverse then ca_unrelocate_cache st else ca_relocate_cache st)"

definition recent_interval :: "bool \<Rightarrow> CodeAddressState \<Rightarrow> LookupInterval" where
  "recent_interval reverse st = (if reverse then ca_unrelocated st else ca_relocated st)"

definition set_lookup_cache ::
    "bool \<Rightarrow> nat \<Rightarrow> LookupInterval \<Rightarrow> CodeAddressState \<Rightarrow> CodeAddressState" where
  "set_lookup_cache reverse k cached st =
     (if reverse then st\<lparr>ca_unrelocate_cache := (ca_unrelocate_cache st)(k := cached)\<rparr>
      else st\<lparr>ca_relocate_cache := (ca_relocate_cache st)(k := cached)\<rparr>)"

definition set_recent :: "bool \<Rightarrow> LookupInterval \<Rightarrow> CodeAddressState \<Rightarrow> CodeAddressState" where
  "set_recent reverse cached st =
     (if reverse then st\<lparr>ca_unrelocated := cached\<rparr> else st\<lparr>ca_relocated := cached\<rparr>)"

definition lookup_code_address_slow ::
    "bool \<Rightarrow> u32 \<Rightarrow> CodeAddressState \<Rightarrow> u32 \<times> CodeAddressState" where
  "lookup_code_address_slow reverse address st =
     (let k = cache_index address; cached = lookup_cache reverse st k
      in if lookup_cache_contains cached address then
           (address + li_delta cached, set_recent reverse cached st)
         else
           let cached = lookup_interval reverse address (ca_mappings st)
           in (address + li_delta cached,
               set_recent reverse cached (set_lookup_cache reverse k cached st)))"

definition lookup_code_address ::
    "bool \<Rightarrow> u32 \<Rightarrow> CodeAddressState \<Rightarrow> u32 \<times> CodeAddressState" where
  "lookup_code_address reverse address st =
     (let recent = recent_interval reverse st
      in if lookup_cache_contains recent address then (address + li_delta recent, st)
         else lookup_code_address_slow reverse address st)"

definition relocate_code_address :: "u32 \<Rightarrow> CodeAddressState \<Rightarrow> u32 \<times> CodeAddressState" where
  "relocate_code_address source_address st =
     (if \<not> ca_mapping_active st then (source_address, st)
      else lookup_code_address False source_address st)"

definition unrelocate_code_address :: "u32 \<Rightarrow> CodeAddressState \<Rightarrow> u32 \<times> CodeAddressState" where
  "unrelocate_code_address runtime_address st =
     (if \<not> ca_mapping_active st then (runtime_address, st)
      else lookup_code_address True runtime_address st)"

text \<open>The inline forms the generated code uses\<close>

definition relocate_code_address_inline :: "u32 \<Rightarrow> CodeAddressState \<Rightarrow> u32 \<times> CodeAddressState" where
  "relocate_code_address_inline source_address st =
     (let cached = ca_relocated st
      in if (ucast (source_address - li_begin cached) :: u64) < li_extent cached
         then (source_address + li_delta cached, st)
         else relocate_code_address source_address st)"

definition unrelocate_code_address_inline :: "u32 \<Rightarrow> CodeAddressState \<Rightarrow> u32 \<times> CodeAddressState" where
  "unrelocate_code_address_inline runtime_address st =
     (let cached = ca_unrelocated st
      in if (ucast (runtime_address - li_begin cached) :: u64) < li_extent cached
         then (runtime_address + li_delta cached, st)
         else unrelocate_code_address runtime_address st)"

subsection \<open>Scopes\<close>

datatype block_error = InvalidArgument string | LengthError string

definition validate_code_address_mapping :: "CodeAddressMapping \<Rightarrow> block_error option" where
  "validate_code_address_mapping mapping =
     (if cm_extent mapping = 0 then
        Some (InvalidArgument ''AOT-Codeadressabbildung benoetigt eine Ausdehnung.'')
      else if (ucast (cm_source_start mapping) :: u64) + ucast (cm_extent mapping) >
              guest_address_space_extent then
        Some (LengthError
          ''AOT-Codeadressabbildung laeuft am Quellbereich ueber 32 Bit hinaus.'')
      else if (ucast (cm_runtime_start mapping) :: u64) + ucast (cm_extent mapping) >
              guest_address_space_extent then
        Some (LengthError
          ''AOT-Codeadressabbildung laeuft am Runtimebereich ueber 32 Bit hinaus.'')
      else None)"

text \<open>The constructor and the destructor of \<open>ScopedCodeAddressMapping\<close>; the object is its token.\<close>

definition enter_mapping ::
    "CodeAddressMapping \<Rightarrow> CodeAddressState \<Rightarrow> block_error + u64 \<times> CodeAddressState" where
  "enter_mapping mapping st =
     (case validate_code_address_mapping mapping of
        Some e \<Rightarrow> Inl e
      | None \<Rightarrow>
          let (token, st) = allocate_mapping_token st;
              st = st\<lparr>ca_mappings := ca_mappings st @ [(token, mapping)], ca_mapping_active := True\<rparr>
          in Inr (token, invalidate_code_address_lookup_cache st))"

definition remove_last_token ::
    "u64 \<Rightarrow> (u64 \<times> CodeAddressMapping) list \<Rightarrow> (u64 \<times> CodeAddressMapping) list" where
  "remove_last_token token mappings =
     rev (case List.extract (\<lambda>entry. fst entry = token) (rev mappings) of
            Some (before, _, after) \<Rightarrow> before @ after
          | None \<Rightarrow> rev mappings)"

definition leave_mapping :: "u64 \<Rightarrow> CodeAddressState \<Rightarrow> CodeAddressState" where
  "leave_mapping token st =
     (if \<not> list_ex (\<lambda>entry. fst entry = token) (ca_mappings st) then st
      else let mappings = remove_last_token token (ca_mappings st)
           in invalidate_code_address_lookup_cache
                (st\<lparr>ca_mappings := mappings, ca_mapping_active := (mappings \<noteq> [])\<rparr>))"

subsection \<open>Block entry and exit\<close>

record BlockAddress =
  ba_virtual_address :: u32
  ba_physical_address :: u32

datatype BlockEndKind =
    Fallthrough | StaticBranch | ConditionalBranchEnd | DynamicBranch | CallEnd | ReturnEnd
  | ExceptionReturnEnd | SleepEnd | ExceptionEnd | InterruptSafepoint

datatype BlockSyncPoint = EntryPoint | ExitPoint | BackendBoundary | FallbackBoundary

record BlockExecutionContext =
  bx_scheduler_cycle :: u64
  bx_scheduler_event_budget :: nat
  bx_delay_slot_owner_pc :: "u32 option"
  bx_exception_generation_on_entry :: "u64 option"
  bx_sync_point :: BlockSyncPoint

record BlockEntry =
  be_address :: BlockAddress
  be_required_runtime_abi :: u32
  be_required_block_abi :: u32

record BlockExit =
  bo_kind :: BlockEndKind
  bo_source :: BlockAddress
  bo_target :: "BlockAddress option"
  bo_scheduler_cycle :: u64
  bo_scheduler_event_budget :: nat
  bo_exception_cause :: ExceptionCause
  bo_in_delay_slot :: bool
  bo_exception_owner_pc :: u32
  bo_exception_instruction_pc :: u32
  bo_exception_generation :: u64

fun requires_target :: "BlockEndKind \<Rightarrow> bool" where
  "requires_target SleepEnd = False"
| "requires_target ExceptionEnd = False"
| "requires_target InterruptSafepoint = False"
| "requires_target _ = True"

definition validate_block_entry ::
    "u32 \<Rightarrow> u32 \<Rightarrow> CpuState \<Rightarrow> BlockExecutionContext \<Rightarrow> BlockEntry \<Rightarrow> block_error option" where
  "validate_block_entry abi_version block_abi_version cpu context entry =
     (if be_required_runtime_abi entry \<noteq> abi_version then
        Some (InvalidArgument (''Blockeintritt fordert Runtime-ABI '' @
          nat_to_string (unat (be_required_runtime_abi entry)) @ '', vorhanden ist '' @
          nat_to_string (unat abi_version) @ ''.''))
      else if be_required_block_abi entry \<noteq> block_abi_version then
        Some (InvalidArgument (''Blockeintritt fordert Block-ABI '' @
          nat_to_string (unat (be_required_block_abi entry)) @ '', vorhanden ist '' @
          nat_to_string (unat block_abi_version) @ ''.''))
      else if bx_sync_point context \<noteq> EntryPoint \<and> bx_sync_point context \<noteq> BackendBoundary \<and>
              bx_sync_point context \<noteq> FallbackBoundary then
        Some (InvalidArgument ''Blockeintritt liegt nicht an einem synchronisierten Grenzpunkt.'')
      else if cpu_pc cpu \<noteq> ba_virtual_address (be_address entry) then
        Some (InvalidArgument ''Blockeintritt stimmt nicht mit dem Gast-PC ueberein.'')
      else None)"

text \<open>A new exception since the block was entered\<close>

definition new_exception :: "CpuState \<Rightarrow> BlockExecutionContext \<Rightarrow> bool" where
  "new_exception cpu context \<longleftrightarrow>
     (case bx_exception_generation_on_entry context of
        None \<Rightarrow> False
      | Some generation \<Rightarrow> cpu_exception_generation cpu \<noteq> generation \<and>
          cpu_last_exception_generation cpu = cpu_exception_generation cpu \<and>
          cpu_last_exception_generation cpu \<noteq> 0)"

definition effective_exception_pc :: "CpuState \<Rightarrow> BlockExecutionContext \<Rightarrow> u32" where
  "effective_exception_pc cpu context =
     (if new_exception cpu context then cpu_last_exception_owner_pc cpu
      else case bx_delay_slot_owner_pc context of Some pc \<Rightarrow> pc | None \<Rightarrow> cpu_pc cpu)"

definition exit_source ::
    "CpuState \<Rightarrow> BlockExecutionContext \<Rightarrow> bool \<Rightarrow> BlockAddress \<Rightarrow> BlockAddress" where
  "exit_source cpu context exception_edge source =
     (if exception_edge then
        \<lparr>ba_virtual_address = cpu_last_exception_instruction_pc cpu,
         ba_physical_address = cpu_last_exception_instruction_physical_pc cpu\<rparr>
      else if bx_exception_generation_on_entry context \<noteq> None then
        let block_offset = ba_virtual_address source - cpu_active_block_virtual_start cpu
        in if cpu_active_block_size cpu \<noteq> 0 \<and> block_offset < cpu_active_block_size cpu
           then source\<lparr>ba_physical_address := cpu_active_block_physical_start cpu + block_offset\<rparr>
           else source
      else source)"

definition make_block_exit ::
    "CpuState \<Rightarrow> BlockExecutionContext \<Rightarrow> BlockEndKind \<Rightarrow> BlockAddress \<Rightarrow> BlockAddress option \<Rightarrow>
     block_error + BlockExit \<times> BlockExecutionContext" where
  "make_block_exit cpu context kind source target =
     (if requires_target kind \<and> target = None then
        Inl (InvalidArgument ''Der typisierte Blockaustritt benoetigt eine Gastzieladresse.'')
      else
        let context = context\<lparr>bx_sync_point := ExitPoint\<rparr>;
            exception_edge = (kind = ExceptionEnd \<and> new_exception cpu context);
            actual_source = exit_source cpu context exception_edge source
        in Inr (\<lparr>bo_kind = kind, bo_source = actual_source, bo_target = target,
             bo_scheduler_cycle = bx_scheduler_cycle context,
             bo_scheduler_event_budget = bx_scheduler_event_budget context,
             bo_exception_cause =
               (if exception_edge then cpu_last_exception_cause cpu else NoneCause),
             bo_in_delay_slot =
               (if exception_edge then cpu_exception_in_delay_slot cpu
                else bx_delay_slot_owner_pc context \<noteq> None),
             bo_exception_owner_pc =
               (if exception_edge then cpu_last_exception_owner_pc cpu
                else effective_exception_pc cpu context),
             bo_exception_instruction_pc =
               (if exception_edge then cpu_last_exception_instruction_pc cpu
                else ba_virtual_address actual_source),
             bo_exception_generation =
               (if exception_edge then cpu_last_exception_generation cpu else 0)\<rparr>, context))"

definition stable_block_identity :: "BlockAddress \<Rightarrow> string" where
  "stable_block_identity address =
     ''v'' @ hex_digits 8 (unat (ba_virtual_address address)) @ ''-p'' @
     hex_digits 8 (unat (ba_physical_address address))"

end
