(* ===== verification/Code_Address.thy ===== *)
theory Code_Address
  imports Block_Abi
begin

text \<open>
  The interval caches of the code relocation are invisible: in every state the scopes and lookups can
  reach, each lookup returns what the innermost active mapping says.  A block exit reports the
  exception that ended the block, and identities of blocks are distinct.
\<close>

subsection \<open>Specification\<close>

text \<open>One translation step of the innermost mapping that contains the address\<close>

definition map_code_address :: "bool \<Rightarrow> (u64 \<times> CodeAddressMapping) list \<Rightarrow> u32 \<Rightarrow> u32" where
  "map_code_address reverse mappings address =
     (case find (\<lambda>entry. mapping_contains reverse address (snd entry)) (rev mappings) of
        None \<Rightarrow> address
      | Some entry \<Rightarrow> address - mapping_start reverse (snd entry) +
          mapping_start (\<not> reverse) (snd entry))"

definition usable_mapping :: "CodeAddressMapping \<Rightarrow> bool" where
  "usable_mapping mapping \<longleftrightarrow> validate_code_address_mapping mapping = None"

definition interval_exact :: "bool \<Rightarrow> (u64 \<times> CodeAddressMapping) list \<Rightarrow> LookupInterval \<Rightarrow> bool" where
  "interval_exact reverse mappings cached \<longleftrightarrow>
     (\<forall>address. lookup_cache_contains cached address \<longrightarrow>
        address + li_delta cached = map_code_address reverse mappings address)"

definition code_addresses_ok :: "CodeAddressState \<Rightarrow> bool" where
  "code_addresses_ok st \<longleftrightarrow>
     (ca_mapping_active st \<longleftrightarrow> ca_mappings st \<noteq> []) \<and>
     (\<forall>entry \<in> set (ca_mappings st). usable_mapping (snd entry)) \<and>
     (\<forall>reverse. interval_exact reverse (ca_mappings st) (recent_interval reverse st) \<and>
        (\<forall>k. interval_exact reverse (ca_mappings st) (lookup_cache reverse st k)))"

subsection \<open>Ranges as numbers\<close>

lemma unat_u32_less: "unat (a::u32) < 2 ^ 32"
  using unsigned_less [of a] by simp

lemma unat_wide [simp]: "unat (ucast (a::u32) :: u64) = unat a"
  using unat_u32_less [of a] by (simp add: unsigned_ucast_eq take_bit_eq_mod)

lemma unat_sum_wide: "unat (ucast (a::u32) + ucast (b::u32) :: u64) = unat a + unat b"
proof -
  have "unat (ucast a :: u64) + unat (ucast b :: u64) < 2 ^ LENGTH(64)"
    using unat_u32_less [of a] unat_u32_less [of b] by simp
  then have "unat (ucast a + ucast b :: u64) = unat (ucast a :: u64) + unat (ucast b :: u64)"
    by (simp only: unat_add_lem)
  then show ?thesis by simp
qed

lemma mapping_end_nat:
  "unat (mapping_end reverse m) = unat (mapping_start reverse m) + unat (cm_extent m)"
  by (simp add: mapping_end_def unat_sum_wide)

lemma usable_mapping_end: "usable_mapping m \<Longrightarrow> unat (mapping_end reverse m) \<le> 2 ^ 32"
  by (cases reverse)
    (simp_all add: usable_mapping_def validate_code_address_mapping_def guest_address_space_extent_def
      mapping_end_def mapping_start_def word_less_nat_alt not_less word_le_nat_alt split: if_splits)

lemma mapping_contains_nat:
  "mapping_contains reverse x m \<longleftrightarrow>
     unat (mapping_start reverse m) \<le> unat x \<and> unat x < unat (mapping_end reverse m)"
  by (simp add: mapping_contains_def range_contains_def word_le_nat_alt word_less_nat_alt
      unat_sum_wide mapping_end_nat)

subsection \<open>The interval of a lookup\<close>

lemma interval_contains_nat:
  assumes "unat b < unat e" and "unat e \<le> 2 ^ 32"
  shows "lookup_cache_contains \<lparr>li_extent = e - b, li_begin = ucast b, li_delta = d\<rparr> x \<longleftrightarrow>
    unat b \<le> unat x \<and> unat x < unat e"
proof -
  have b: "unat (ucast b :: u32) = unat b"
    using assms by (simp add: unsigned_ucast_eq take_bit_eq_mod)
  have extent: "unat (e - b) = unat e - unat b" using assms by (simp add: unat_sub_if')
  have "unat (x - ucast b) =
      (if unat b \<le> unat x then unat x - unat b else unat x + 2 ^ 32 - unat b)"
    by (simp add: unat_sub_if' b)
  then show ?thesis
    using assms unat_u32_less [of x]
    by (auto simp: lookup_cache_contains_def word_less_nat_alt extent split: if_splits)
qed

definition bounds_around :: "u32 \<Rightarrow> u64 \<times> u64 \<Rightarrow> bool" where
  "bounds_around address bounds \<longleftrightarrow>
     unat (fst bounds) \<le> unat address \<and> unat address < unat (snd bounds) \<and> unat (snd bounds) \<le> 2 ^ 32"

definition within :: "u32 \<Rightarrow> u64 \<times> u64 \<Rightarrow> bool" where
  "within x bounds \<longleftrightarrow> unat (fst bounds) \<le> unat x \<and> unat x < unat (snd bounds)"

lemma constrain_gap_step:
  assumes "bounds_around address bounds" and "\<not> mapping_contains reverse address (snd entry)"
  defines "bounds' \<equiv> constrain_gap reverse address entry bounds"
  shows "bounds_around address bounds'"
    and "within x bounds' \<Longrightarrow> within x bounds \<and> \<not> mapping_contains reverse x (snd entry)"
  using assms
  by (auto simp: constrain_gap_def bounds_around_def within_def mapping_contains_nat word_le_nat_alt
      word_less_nat_alt max_def min_def not_le not_less split: if_splits)

lemma constrain_gap_fold:
  assumes "bounds_around address bounds"
    and "\<forall>entry \<in> set entries. \<not> mapping_contains reverse address (snd entry)"
  shows "bounds_around address (fold (constrain_gap reverse address) entries bounds) \<and>
    (\<forall>x. within x (fold (constrain_gap reverse address) entries bounds) \<longrightarrow>
      within x bounds \<and> (\<forall>entry \<in> set entries. \<not> mapping_contains reverse x (snd entry)))"
  using assms
proof (induction entries arbitrary: bounds)
  case (Cons entry entries)
  define bounds' where "bounds' = constrain_gap reverse address entry bounds"
  have outside: "\<not> mapping_contains reverse address (snd entry)" using Cons.prems(2) by simp
  have "bounds_around address bounds'"
    unfolding bounds'_def by (rule constrain_gap_step(1) [OF Cons.prems(1) outside])
  moreover have "\<forall>entry \<in> set entries. \<not> mapping_contains reverse address (snd entry)"
    using Cons.prems(2) by simp
  moreover have "within x bounds' \<Longrightarrow> within x bounds \<and> \<not> mapping_contains reverse x (snd entry)" for x
    unfolding bounds'_def by (rule constrain_gap_step(2) [OF Cons.prems(1) outside])
  ultimately show ?case using Cons.IH [of bounds'] by (simp add: bounds'_def)
qed simp

lemma select_mapping_Some:
  "select_mapping reverse address mappings n = Some k \<Longrightarrow>
     k < n \<and> mapping_contains reverse address (snd (mappings ! k)) \<and>
     (\<forall>j. k < j \<and> j < n \<longrightarrow> \<not> mapping_contains reverse address (snd (mappings ! j)))"
  by (induction n) (auto simp: less_Suc_eq split: if_splits)

lemma select_mapping_None:
  "select_mapping reverse address mappings n = None \<Longrightarrow>
     \<forall>j<n. \<not> mapping_contains reverse address (snd (mappings ! j))"
  by (induction n) (auto simp: less_Suc_eq split: if_splits)

lemma find_split: "(\<forall>x \<in> set xs. \<not> P x) \<Longrightarrow> P y \<Longrightarrow> find P (xs @ y # ys) = Some y"
  by (induction xs) auto

lemma innermost:
  assumes "k < length mappings" and "mapping_contains reverse x (snd (mappings ! k))"
    and "\<forall>entry \<in> set (drop (Suc k) mappings). \<not> mapping_contains reverse x (snd entry)"
  shows "map_code_address reverse mappings x =
    x + word_of_int (mapping_delta reverse (snd (mappings ! k)))"
proof -
  have "rev mappings = rev (drop (Suc k) mappings) @ mappings ! k # rev (take k mappings)"
    by (subst id_take_nth_drop [OF assms(1)]) simp
  then have "find (\<lambda>entry. mapping_contains reverse x (snd entry)) (rev mappings) = Some (mappings ! k)"
    using find_split [of "rev (drop (Suc k) mappings)"] assms(2,3) by simp
  then show ?thesis
    by (cases reverse)
      (simp_all add: map_code_address_def mapping_delta_def mapping_start_def algebra_simps)
qed

lemma outside_all:
  assumes "\<forall>entry \<in> set mappings. \<not> mapping_contains reverse x (snd entry)"
  shows "map_code_address reverse mappings x = x"
proof -
  have "find (\<lambda>entry. mapping_contains reverse x (snd entry)) (rev mappings) = None"
    using assms by (auto simp: find_None_iff)
  then show ?thesis by (simp add: map_code_address_def)
qed

lemma lookup_interval_bounds:
  assumes "\<forall>entry \<in> set mappings. usable_mapping (snd entry)"
  obtains bounds delta where
    "lookup_interval reverse address mappings = \<lparr>li_extent = snd bounds - fst bounds,
       li_begin = ucast (fst bounds), li_delta = word_of_int delta\<rparr>"
    and "bounds_around address bounds"
    and "\<And>x. within x bounds \<Longrightarrow> map_code_address reverse mappings x = x + word_of_int delta"
proof (cases "select_mapping reverse address mappings (length mappings)")
  case None
  define bounds where
    "bounds = fold (constrain_gap reverse address) mappings (0, guest_address_space_extent)"
  have "bounds_around address (0, guest_address_space_extent)"
    using unat_u32_less [of address] by (simp add: bounds_around_def guest_address_space_extent_def)
  moreover have "\<forall>entry \<in> set mappings. \<not> mapping_contains reverse address (snd entry)"
    using select_mapping_None [OF None] by (metis in_set_conv_nth)
  ultimately have "bounds_around address bounds"
    and "\<And>x. within x bounds \<Longrightarrow> \<forall>entry \<in> set mappings. \<not> mapping_contains reverse x (snd entry)"
    using constrain_gap_fold unfolding bounds_def by blast+
  then show ?thesis
    using that [of bounds 0] None
    by (simp add: lookup_interval_def bounds_def outside_all split_beta)
next
  case (Some k)
  note k = select_mapping_Some [OF Some]
  define m where "m = snd (mappings ! k)"
  define bounds where "bounds = fold (constrain_gap reverse address) (drop (Suc k) mappings)
    (ucast (mapping_start reverse m), mapping_end reverse m)"
  have "usable_mapping m" using assms k by (simp add: m_def)
  then have "bounds_around address (ucast (mapping_start reverse m), mapping_end reverse m)"
    using k usable_mapping_end [of m reverse]
    by (simp add: bounds_around_def mapping_contains_nat m_def)
  moreover have "\<forall>entry \<in> set (drop (Suc k) mappings). \<not> mapping_contains reverse address (snd entry)"
  proof
    fix entry assume "entry \<in> set (drop (Suc k) mappings)"
    then obtain i where "i < length mappings - Suc k" and "entry = mappings ! (Suc k + i)"
      by (auto simp: in_set_conv_nth)
    then show "\<not> mapping_contains reverse address (snd entry)" using k by simp
  qed
  ultimately have around: "bounds_around address bounds"
    and gap: "\<And>x. within x bounds \<Longrightarrow>
      within x (ucast (mapping_start reverse m), mapping_end reverse m) \<and>
      (\<forall>entry \<in> set (drop (Suc k) mappings). \<not> mapping_contains reverse x (snd entry))"
    using constrain_gap_fold unfolding bounds_def by blast+
  have "map_code_address reverse mappings x = x + word_of_int (mapping_delta reverse m)"
    if "within x bounds" for x
    using innermost [of k mappings reverse x] gap [OF that] k
    by (simp add: m_def within_def mapping_contains_nat)
  then show ?thesis
    using that [of bounds "mapping_delta reverse m"] Some around
    by (simp add: lookup_interval_def bounds_def m_def split_beta Let_def)
qed

lemma lookup_interval_exact:
  assumes "\<forall>entry \<in> set mappings. usable_mapping (snd entry)"
  shows "interval_exact reverse mappings (lookup_interval reverse address mappings)"
    and "address + li_delta (lookup_interval reverse address mappings) =
      map_code_address reverse mappings address"
proof -
  obtain bounds delta where interval: "lookup_interval reverse address mappings =
      \<lparr>li_extent = snd bounds - fst bounds, li_begin = ucast (fst bounds), li_delta = word_of_int delta\<rparr>"
    and around: "bounds_around address bounds"
    and exact: "\<And>x. within x bounds \<Longrightarrow> map_code_address reverse mappings x = x + word_of_int delta"
    using lookup_interval_bounds [OF assms] by metis
  show "interval_exact reverse mappings (lookup_interval reverse address mappings)"
    using around exact by (auto simp: interval_exact_def interval bounds_around_def within_def
        interval_contains_nat)
  show "address + li_delta (lookup_interval reverse address mappings) =
      map_code_address reverse mappings address"
    using around exact [of address] by (simp add: interval bounds_around_def within_def)
qed

subsection \<open>Every operation keeps the caches exact\<close>

lemma empty_interval_exact: "li_extent cached = 0 \<Longrightarrow> interval_exact reverse mappings cached"
  by (simp add: interval_exact_def lookup_cache_contains_def)

lemma invalidate_ok:
  assumes "ca_mapping_active st \<longleftrightarrow> ca_mappings st \<noteq> []"
    and "\<forall>entry \<in> set (ca_mappings st). usable_mapping (snd entry)"
  shows "code_addresses_ok (invalidate_code_address_lookup_cache st)"
proof (cases "ca_mappings st = []")
  case True
  then show ?thesis using assms
    by (auto simp: code_addresses_ok_def invalidate_code_address_lookup_cache_def Let_def
        recent_interval_def lookup_cache_def empty_extent_def interval_exact_def
        map_code_address_def lookup_cache_contains_def)
next
  case False
  then show ?thesis using assms
    by (auto simp: code_addresses_ok_def invalidate_code_address_lookup_cache_def Let_def
        recent_interval_def lookup_cache_def empty_extent_def empty_interval_exact)
qed

lemma initial_code_addresses_ok: "code_addresses_ok initial_code_addresses"
  by (auto simp: code_addresses_ok_def initial_code_addresses_def recent_interval_def
      lookup_cache_def interval_exact_def map_code_address_def lookup_cache_contains_def)

lemma enter_mapping_ok:
  assumes "code_addresses_ok st" and "enter_mapping mapping st = Inr (token, st')"
  shows "code_addresses_ok st' \<and> (\<exists>token. ca_mappings st' = ca_mappings st @ [(token, mapping)])"
proof -
  obtain token' st1 where alloc: "allocate_mapping_token st = (token', st1)" by fastforce
  then have kept: "ca_mappings st1 = ca_mappings st"
    by (auto simp: allocate_mapping_token_def Let_def split: if_splits)
  define st2 where "st2 = st1\<lparr>ca_mappings := ca_mappings st1 @ [(token', mapping)],
    ca_mapping_active := True\<rparr>"
  have "usable_mapping mapping" and st': "st' = invalidate_code_address_lookup_cache st2"
    using assms(2) by (auto simp: enter_mapping_def alloc st2_def usable_mapping_def Let_def
        split: option.splits)
  then have "code_addresses_ok st'"
    unfolding st' using assms(1) kept
    by (intro invalidate_ok) (auto simp: st2_def code_addresses_ok_def)
  moreover have "ca_mappings st' = ca_mappings st @ [(token', mapping)]"
    by (simp add: st' st2_def kept invalidate_code_address_lookup_cache_def Let_def)
  ultimately show ?thesis by blast
qed

lemma remove_last_token_set: "set (remove_last_token token mappings) \<subseteq> set mappings"
proof (cases "List.extract (\<lambda>entry. fst entry = token) (rev mappings)")
  case (Some parts)
  obtain before entry after where "parts = (before, entry, after)" by (cases parts)
  with Some have "rev mappings = before @ entry # after" by (simp add: extract_Some_iff)
  then have "set (rev mappings) = set (before @ entry # after)" by simp
  then show ?thesis using Some \<open>parts = _\<close> by (auto simp: remove_last_token_def)
qed (simp add: remove_last_token_def)

lemma leave_mapping_ok:
  assumes "code_addresses_ok st"
  shows "code_addresses_ok (leave_mapping token st)"
proof (cases "list_ex (\<lambda>entry. fst entry = token) (ca_mappings st)")
  case True
  define st1 where "st1 = st\<lparr>ca_mappings := remove_last_token token (ca_mappings st),
    ca_mapping_active := (remove_last_token token (ca_mappings st) \<noteq> [])\<rparr>"
  have "code_addresses_ok (invalidate_code_address_lookup_cache st1)"
    using assms remove_last_token_set [of token "ca_mappings st"]
    by (intro invalidate_ok) (auto simp: st1_def code_addresses_ok_def)
  then show ?thesis using True by (simp add: leave_mapping_def st1_def Let_def)
qed (simp add: leave_mapping_def assms)

lemma set_intervals_ok:
  assumes "code_addresses_ok st" and "interval_exact reverse (ca_mappings st) cached"
  shows "code_addresses_ok (set_recent reverse cached st)"
    and "code_addresses_ok (set_lookup_cache reverse k cached st)"
  using assms
  by (auto simp: code_addresses_ok_def set_recent_def set_lookup_cache_def recent_interval_def
      lookup_cache_def split: if_splits)

lemma mappings_kept [simp]:
  "ca_mappings (set_recent reverse cached st) = ca_mappings st"
  "ca_mappings (set_lookup_cache reverse k cached st) = ca_mappings st"
  by (simp_all add: set_recent_def set_lookup_cache_def)

definition exact_lookup :: "bool \<Rightarrow> u32 \<Rightarrow> CodeAddressState \<Rightarrow> u32 \<times> CodeAddressState \<Rightarrow> bool" where
  "exact_lookup reverse address st result \<longleftrightarrow>
     fst result = map_code_address reverse (ca_mappings st) address \<and>
     code_addresses_ok (snd result) \<and> ca_mappings (snd result) = ca_mappings st"

lemma recent_exact:
  assumes "code_addresses_ok st" and "lookup_cache_contains (recent_interval reverse st) address"
  shows "exact_lookup reverse address st (address + li_delta (recent_interval reverse st), st)"
  using assms by (simp add: exact_lookup_def code_addresses_ok_def interval_exact_def)

lemma slow_exact:
  assumes "code_addresses_ok st"
  shows "exact_lookup reverse address st (lookup_code_address_slow reverse address st)"
proof (cases "lookup_cache_contains (lookup_cache reverse st (cache_index address)) address")
  case True
  moreover have "interval_exact reverse (ca_mappings st) (lookup_cache reverse st (cache_index address))"
    using assms by (simp add: code_addresses_ok_def)
  ultimately show ?thesis
    using assms by (simp add: exact_lookup_def lookup_code_address_slow_def set_intervals_ok
        interval_exact_def Let_def)
next
  case False
  have "\<forall>entry \<in> set (ca_mappings st). usable_mapping (snd entry)"
    using assms by (simp add: code_addresses_ok_def)
  note exact = lookup_interval_exact [OF this, where reverse = reverse and address = address]
  then have "code_addresses_ok (set_lookup_cache reverse (cache_index address)
      (lookup_interval reverse address (ca_mappings st)) st)"
    by (intro set_intervals_ok(2) assms)
  then show ?thesis
    using False exact by (simp add: exact_lookup_def lookup_code_address_slow_def set_intervals_ok Let_def)
qed

lemma lookup_exact:
  "code_addresses_ok st \<Longrightarrow> exact_lookup reverse address st (lookup_code_address reverse address st)"
  using recent_exact [of st reverse address] slow_exact [of st reverse address]
  by (simp add: lookup_code_address_def Let_def)

lemma relocate_exact:
  assumes "code_addresses_ok st"
  shows "exact_lookup False address st (relocate_code_address address st)"
    and "exact_lookup True address st (unrelocate_code_address address st)"
proof -
  have "exact_lookup reverse address st (address, st)" if "\<not> ca_mapping_active st" for reverse
  proof -
    have "ca_mappings st = []" using assms that by (simp add: code_addresses_ok_def)
    then show ?thesis using assms by (simp add: exact_lookup_def map_code_address_def)
  qed
  then show "exact_lookup False address st (relocate_code_address address st)"
    and "exact_lookup True address st (unrelocate_code_address address st)"
    using lookup_exact [OF assms]
    by (simp_all add: relocate_code_address_def unrelocate_code_address_def)
qed

lemma inline_exact:
  assumes "code_addresses_ok st"
  shows "exact_lookup False address st (relocate_code_address_inline address st)"
    and "exact_lookup True address st (unrelocate_code_address_inline address st)"
  using relocate_exact [OF assms] recent_exact [OF assms, of False address]
    recent_exact [OF assms, of True address]
  by (simp_all add: relocate_code_address_inline_def unrelocate_code_address_inline_def Let_def
      lookup_cache_contains_def recent_interval_def)

subsection \<open>Reachable states\<close>

inductive code_address_step :: "CodeAddressState \<Rightarrow> CodeAddressState \<Rightarrow> bool" where
  enter: "enter_mapping mapping st = Inr (token, st') \<Longrightarrow> code_address_step st st'"
| leave: "code_address_step st (leave_mapping token st)"
| relocate: "code_address_step st (snd (relocate_code_address address st))"
| unrelocate: "code_address_step st (snd (unrelocate_code_address address st))"
| relocate_inline: "code_address_step st (snd (relocate_code_address_inline address st))"
| unrelocate_inline: "code_address_step st (snd (unrelocate_code_address_inline address st))"

inductive reachable_code_addresses :: "CodeAddressState \<Rightarrow> bool" where
  start: "reachable_code_addresses initial_code_addresses"
| step: "reachable_code_addresses st \<Longrightarrow> code_address_step st st' \<Longrightarrow> reachable_code_addresses st'"

lemma code_address_step_ok: "code_address_step st st' \<Longrightarrow> code_addresses_ok st \<Longrightarrow> code_addresses_ok st'"
  by (induction rule: code_address_step.induct)
    (use enter_mapping_ok leave_mapping_ok relocate_exact inline_exact in \<open>auto simp: exact_lookup_def\<close>)

lemma reachable_code_addresses_ok: "reachable_code_addresses st \<Longrightarrow> code_addresses_ok st"
  by (induction rule: reachable_code_addresses.induct)
    (auto intro: initial_code_addresses_ok code_address_step_ok)

subsection \<open>Round trip\<close>

lemma round_trip_innermost:
  assumes "usable_mapping m" and "mapping_contains False address m"
    and "ca_mappings st = mappings @ [(token, m)]"
  shows "map_code_address True (ca_mappings st) (map_code_address False (ca_mappings st) address) = address"
    and "map_code_address False (ca_mappings st) address =
      address - cm_source_start m + cm_runtime_start m"
proof -
  show moved: "map_code_address False (ca_mappings st) address =
      address - cm_source_start m + cm_runtime_start m"
    using assms(2,3) by (simp add: map_code_address_def mapping_start_def)
  have offset: "unat (address - cm_source_start m) = unat address - unat (cm_source_start m)"
    using assms(2) by (simp add: mapping_contains_nat mapping_start_def unat_sub_if')
  then have "unat (address - cm_source_start m) < unat (cm_extent m)"
    using assms(2) by (auto simp: mapping_contains_nat mapping_end_nat mapping_start_def)
  moreover have "unat (cm_runtime_start m) + unat (cm_extent m) \<le> 2 ^ 32"
    using usable_mapping_end [OF assms(1), of True] by (simp add: mapping_end_nat mapping_start_def)
  ultimately have "mapping_contains True (address - cm_source_start m + cm_runtime_start m) m"
    by (simp add: mapping_contains_nat mapping_end_nat mapping_start_def unat_word_ariths)
  then show "map_code_address True (ca_mappings st) (map_code_address False (ca_mappings st) address) =
      address"
    using assms(2,3) by (simp add: map_code_address_def mapping_start_def)
qed

subsection \<open>Block exits\<close>

lemma next_generation_fresh:
  "next_exception_generation g \<noteq> 0" "next_exception_generation g \<noteq> g"
  by (auto simp: next_exception_generation_def eq_neg_iff_add_eq_0 split: if_splits)

lemma fold_swap_keeps: "(\<And>k c. f (swap_step k c) = f c) \<Longrightarrow> f (fold swap_step ks cpu) = f cpu"
  by (induction ks arbitrary: cpu) simp_all

lemma write_sr_keeps_exception:
  fixes cpu :: CpuState
  shows "cpu_exception_generation (write_sr v cpu) = cpu_exception_generation cpu"
    and "cpu_last_exception_generation (write_sr v cpu) = cpu_last_exception_generation cpu"
    and "cpu_last_exception_cause (write_sr v cpu) = cpu_last_exception_cause cpu"
    and "cpu_exception_in_delay_slot (write_sr v cpu) = cpu_exception_in_delay_slot cpu"
    and "cpu_last_exception_instruction_pc (write_sr v cpu) = cpu_last_exception_instruction_pc cpu"
    and "cpu_last_exception_owner_pc (write_sr v cpu) = cpu_last_exception_owner_pc cpu"
  by (simp_all add: write_sr_def swap_banks_def Let_def fold_swap_keeps swap_step_def)

lemma accept_exception_record:
  fixes cpu :: CpuState and request metadata v ipc opc
  defines "cpu' \<equiv> accept_exception request metadata v ipc opc cpu"
  shows "cpu_exception_generation cpu' = next_exception_generation (cpu_exception_generation cpu)"
    and "cpu_last_exception_generation cpu' = cpu_exception_generation cpu'"
    and "cpu_last_exception_cause cpu' = em_cause metadata"
    and "cpu_exception_in_delay_slot cpu' = er_in_delay_slot request"
    and "cpu_last_exception_instruction_pc cpu' = ipc"
    and "cpu_last_exception_owner_pc cpu' = opc"
  unfolding cpu'_def
  by (auto simp: accept_exception_def write_sr_keeps_exception Let_def split: option.splits)

lemma exit_reports_exception:
  fixes sink :: reset_sink
  assumes "takes_exception request cpu"
    and "bx_exception_generation_on_entry context = Some (cpu_exception_generation cpu)"
  defines "instruction_pc \<equiv> value_or (er_instruction_pc request) (cpu_active_instruction_pc cpu)"
  shows "\<exists>exit. make_block_exit (enter_exception sink request cpu) context ExceptionEnd source target =
      Inr (exit, context\<lparr>bx_sync_point := ExitPoint\<rparr>) \<and>
    bo_exception_cause exit =
      em_cause (exception_metadata (er_cause request) (er_event_code request)) \<and>
    bo_in_delay_slot exit = er_in_delay_slot request \<and>
    bo_exception_instruction_pc exit = instruction_pc \<and>
    ba_virtual_address (bo_source exit) = instruction_pc \<and>
    bo_exception_owner_pc exit = value_or (er_delay_slot_owner_pc request) instruction_pc \<and>
    bo_exception_generation exit \<noteq> cpu_exception_generation cpu \<and>
    effective_exception_pc (enter_exception sink request cpu) context = bo_exception_owner_pc exit"
proof -
  let ?c = "cpu\<lparr>cpu_last_memory_fault_provenance := no_provenance\<rparr>"
  have "enter_exception sink request cpu = accept_exception request
      (exception_metadata (er_cause request) (er_event_code request)) (read_sr cpu) instruction_pc
      (value_or (er_delay_slot_owner_pc request) instruction_pc) ?c"
    using assms(1) by (auto simp: enter_exception_def takes_exception_def interrupts_blocked_def
        instruction_pc_def Let_def)
  then show ?thesis
    using assms(2) next_generation_fresh [of "cpu_exception_generation cpu"]
    by (simp add: make_block_exit_def new_exception_def exit_source_def effective_exception_pc_def
        accept_exception_record Let_def)
qed

subsection \<open>Block identities\<close>

lemma digit_char_inj: "a < 16 \<Longrightarrow> b < 16 \<Longrightarrow> digit_char a = digit_char b \<Longrightarrow> a = b"
proof -
  have "distinct ''0123456789ABCDEF''" by simp
  then show "a < 16 \<Longrightarrow> b < 16 \<Longrightarrow> digit_char a = digit_char b \<Longrightarrow> a = b"
    by (simp add: digit_char_def nth_eq_iff_index_eq)
qed

lemma hex_digits_inj: "hex_digits k a = hex_digits k b \<Longrightarrow> a mod 16 ^ k = b mod 16 ^ k"
proof (induction k arbitrary: a b)
  case (Suc k)
  then have "hex_digits k (a div 16) = hex_digits k (b div 16)"
    and "digit_char (a mod 16) = digit_char (b mod 16)" by simp_all
  note high = Suc.IH [OF this(1)] and low = digit_char_inj [OF _ _ this(2)]
  have "a mod 16 = b mod 16" by (rule low) simp_all
  with high show ?case by (simp only: power_Suc mod_mult2_eq)
qed simp

lemma stable_block_identity_inj:
  assumes "stable_block_identity a = stable_block_identity b"
  shows "a = (b :: BlockAddress)"
proof -
  have hex: "unat x = unat y" if "hex_digits 8 (unat x) = hex_digits 8 (unat y)" for x y :: u32
  proof -
    have "(16::nat) ^ 8 = 2 ^ 32" by simp
    then have "unat x < 16 ^ 8" "unat y < 16 ^ 8" using unat_u32_less by (simp_all only:)
    then show ?thesis using hex_digits_inj [OF that] by (simp only: mod_less)
  qed
  have "hex_digits 8 (unat (ba_virtual_address a)) = hex_digits 8 (unat (ba_virtual_address b)) \<and>
      hex_digits 8 (unat (ba_physical_address a)) = hex_digits 8 (unat (ba_physical_address b))"
    using assms unfolding stable_block_identity_def
    by (simp del: hex_digits_numeral add: append_eq_append_conv)
  then show ?thesis using hex by (intro BlockAddress.equality) (auto simp: word_unat_eq_iff)
qed

end
