(* ===== verification/Verifier.thy ===== *)
theory Verifier
  imports Lower "HOL-Library.Product_Lexorder"
begin

text \<open>
  The IR verifier (\<open>src/ir/verifier.cpp\<close>): every check of \<open>verify_function\<close> and
  \<open>verify_program\<close>, with the issue texts of the source, the exceptions of the two
  \<open>require_valid_*\<close> functions as values, and the declarative well-formedness condition the verifier
  decides.  The opcode cache of the source is a memo table of the pure \<open>decode\<close>, so the model calls
  \<open>decode\<close> directly.
\<close>

subsection \<open>Classification of operations\<close>

definition is_control_flow :: "Operation \<Rightarrow> bool" where
  "is_control_flow operation \<longleftrightarrow> operation \<in>
     {O_System SystemOp.TrapAlways, O_System SystemOp.ReturnFromException, O_System SystemOp.Sleep,
      O_Flow FlowOp.Branch, O_Flow FlowOp.Call, O_Flow FlowOp.BranchIfTrue,
      O_Flow FlowOp.BranchIfFalse, O_Flow FlowOp.JumpRegister, O_Flow FlowOp.CallRegister,
      O_Flow FlowOp.Return}"

definition requires_direct_target :: "Operation \<Rightarrow> bool" where
  "requires_direct_target operation \<longleftrightarrow>
     operation = O_Flow FlowOp.Branch \<or> operation = O_Flow FlowOp.Call \<or>
     operation = O_Flow FlowOp.BranchIfTrue \<or> operation = O_Flow FlowOp.BranchIfFalse"

definition requires_effective_address :: "Operation \<Rightarrow> bool" where
  "requires_effective_address operation \<longleftrightarrow>
     operation = O_Memory MemoryOp.LoadWordSignedPcRelative \<or>
     operation = O_Memory MemoryOp.LoadLongPcRelative \<or>
     operation = O_Memory MemoryOp.MoveAddressPcRelative"

definition requires_special_register :: "Operation \<Rightarrow> bool" where
  "requires_special_register operation \<longleftrightarrow>
     operation = O_System SystemOp.StoreSpecialRegister \<or>
     operation = O_System SystemOp.StoreSpecialRegisterPreDecrement \<or>
     operation = O_System SystemOp.LoadSpecialRegister \<or>
     operation = O_System SystemOp.LoadSpecialRegisterPostIncrement"

definition is_indirect :: "Operation \<Rightarrow> bool" where
  "is_indirect operation \<longleftrightarrow>
     operation = O_Flow FlowOp.JumpRegister \<or> operation = O_Flow FlowOp.CallRegister"

definition is_dead_gpr_write_tombstone :: "Instruction \<Rightarrow> bool" where
  "is_dead_gpr_write_tombstone i \<longleftrightarrow>
     (if ir_operation i \<noteq> Operation.Nop then False
      else ir_original_operation i \<in>
        {O_Arith ArithOp.MovImmediate, O_Arith ArithOp.Constant32, O_Arith ArithOp.MovRegister,
         O_Arith ArithOp.AddImmediate, O_Arith ArithOp.AddRegister, O_Arith ArithOp.SubRegister,
         O_Arith ArithOp.NegateRegister, O_Arith ArithOp.NotRegister, O_Logic LogicOp.AndRegister,
         O_Logic LogicOp.OrRegister, O_Logic LogicOp.XorRegister})"

text \<open>\<open>controlling_instruction\<close>: called on blocks that have at least one instruction.\<close>

definition controlling_instruction :: "BasicBlock \<Rightarrow> Instruction" where
  "controlling_instruction block =
     (let is = bb_instructions block; last_one = last is
      in if ds_role (ir_delay_slot last_one) = Slot \<and> length is \<ge> 2
         then is ! (length is - 2) else last_one)"

subsection \<open>Issues\<close>

record VerificationIssue =
  vi_address :: u32
  vi_message :: string

definition hex_address :: "u32 \<Rightarrow> string" where
  "hex_address address = ''0x'' @ hex_digits 8 (unat address)"

text \<open>\<open>if (c) add_issue(issues, address, message)\<close>\<close>

definition issue_if :: "bool \<Rightarrow> u32 \<Rightarrow> string \<Rightarrow> VerificationIssue list" where
  "issue_if c address message =
     (if c then [\<lparr>vi_address = address, vi_message = message\<rparr>] else [])"

definition sort_issues :: "VerificationIssue list \<Rightarrow> VerificationIssue list" where
  "sort_issues issues = sort_key (\<lambda>i. (vi_address i, vi_message i)) issues"

definition is_canonical :: "u32 list \<Rightarrow> bool" where
  "is_canonical xs \<longleftrightarrow> sorted xs \<and> distinct_adj xs"

subsection \<open>One instruction\<close>

definition verify_memory_effects :: "Instruction \<Rightarrow> VerificationIssue list" where
  "verify_memory_effects i =
     (let effects = ir_memory_effects i;
          has_access = (me_access effects \<noteq> NoneAccess);
          has_update = (me_address_update effects \<noteq> NoneUpdate)
      in issue_if (has_access \<noteq> (me_width effects \<noteq> NoneWidth) \<or>
                   has_access \<noteq> (me_access_count effects \<noteq> 0)) (ir_source_address i)
           ''Speicherzugriff, Breite und Zugriffszahl sind inkonsistent.'' @
         issue_if (has_update \<noteq> (me_updated_register_count effects \<noteq> 0) \<or>
                   me_width effects \<noteq> ow_memory (ir_widths i)) (ir_source_address i)
           ''Speicher- und Adressupdate-Metadaten sind inkonsistent.'' @
         issue_if (\<not> has_access \<and> me_region effects \<noteq> UnknownRegion) (ir_source_address i)
           ''Speicherregion ist ohne Speicherzugriff gesetzt.'')"

definition verify_owner :: "BasicBlock \<Rightarrow> nat \<Rightarrow> u32 \<Rightarrow> VerificationIssue list" where
  "verify_owner block index peer =
     (let is = bb_instructions block; i = is ! index; slot = is ! (index + 1)
      in issue_if (\<not> is_control_flow (ir_operation i)) (ir_source_address i)
           ''Delay-Slot-Owner ist keine Kontrollflussinstruktion.'' @
         (if index + 1 \<ge> length is then
            issue_if True (ir_source_address i) ''Delay-Slot-Owner besitzt keinen folgenden Slot.''
          else
            issue_if (peer \<noteq> ir_source_address i + 2 \<or>
                ir_source_address slot \<noteq> ir_source_address i + 2 \<or>
                peer \<noteq> ir_source_address slot \<or> ds_role (ir_delay_slot slot) \<noteq> Slot \<or>
                ds_counterpart_address (ir_delay_slot slot) \<noteq> Some (ir_source_address i))
              (ir_source_address i)
              ''Delay-Slot-Owner und folgender Slot sind nicht gegenseitig verknuepft.'' @
            issue_if (index + 2 \<noteq> length is) (ir_source_address i)
              ''Nach einem Delay-Slot-Paar stehen weitere Blockinstruktionen.''))"

definition verify_slot :: "BasicBlock \<Rightarrow> nat \<Rightarrow> u32 \<Rightarrow> VerificationIssue list" where
  "verify_slot block index peer =
     (let is = bb_instructions block; i = is ! index; owner = is ! (index - 1)
      in if index = 0 then
           issue_if True (ir_source_address i) ''Delay Slot besitzt keinen vorhergehenden Owner.''
         else
           issue_if (ir_source_address i \<noteq> ir_source_address owner + 2 \<or>
               peer \<noteq> ir_source_address i - 2 \<or> peer \<noteq> ir_source_address owner \<or>
               ds_role (ir_delay_slot owner) \<noteq> Owner \<or>
               ds_counterpart_address (ir_delay_slot owner) \<noteq> Some (ir_source_address i))
             (ir_source_address i)
             ''Delay Slot und vorhergehender Owner sind nicht gegenseitig verknuepft.'' @
           issue_if (is_control_flow (ir_operation i) \<or>
               changes_control_flow (decode (ir_original_opcode i))) (ir_source_address i)
             ''Kontrollflussinstruktion ist als Delay Slot ungueltig.'')"

definition verify_delay_slot :: "BasicBlock \<Rightarrow> nat \<Rightarrow> VerificationIssue list" where
  "verify_delay_slot block index =
     (let i = bb_instructions block ! index;
          role = ds_role (ir_delay_slot i);
          peer = ds_counterpart_address (ir_delay_slot i);
          opcode_has_delay_slot = d_has_delay_slot (decode (ir_original_opcode i))
      in issue_if (role = Owner \<and> \<not> opcode_has_delay_slot) (ir_source_address i)
           ''Delay-Slot-Owner verwendet keinen verzoegerten Originalopcode.'' @
         issue_if (role \<noteq> Owner \<and> opcode_has_delay_slot) (ir_source_address i)
           ''Verzoegerter Originalopcode besitzt keine Owner-Rolle.'' @
         (if role = NoneRole then
            issue_if (peer \<noteq> None) (ir_source_address i)
              ''Delay-Slot-Rolle None besitzt eine Gegenadresse.''
          else case peer of
            None \<Rightarrow> issue_if True (ir_source_address i)
              ''Delay-Slot-Beziehung besitzt keine Gegenadresse.''
          | Some p \<Rightarrow>
              if role = Owner then verify_owner block index p else verify_slot block index p))"

text \<open>The checks of the instruction loop before the delay-slot check: address, operation, operands,
  and effects.\<close>

definition verify_instruction_shape :: "Instruction \<Rightarrow> VerificationIssue list" where
  "verify_instruction_shape i =
     (let a = ir_source_address i
      in issue_if (ir_original_operation i \<noteq> Operation.Unknown \<and>
             ir_operation i \<noteq> ir_original_operation i \<and>
             ir_operation i \<noteq> O_Arith ArithOp.Constant32 \<and> \<not> is_dead_gpr_write_tombstone i) a
           ''Transformierte IR-Operation ist nicht als synthetische Operation modelliert.'' @
         issue_if (ir_destination_register i \<ge> 16 \<or> ir_source_register i \<ge> 16 \<or>
             ir_branch_register i \<ge> 16 \<or>
             (case ir_forwarded_value_register i of None \<Rightarrow> False | Some r \<Rightarrow> r \<ge> 16)) a
           ''Allgemeines Register liegt ausserhalb R0 bis R15.'' @
         issue_if (ir_widths i \<noteq> operation_operand_widths (ir_operation i)) a
           ''Operandbreiten passen nicht zur Operation.'' @
         issue_if (ir_status_effects i \<noteq>
             instruction_status_effects (ir_operation i) (ir_special_register i)) a
           ''Statusregistereffekte passen nicht zur Operation.'' @
         issue_if (ir_memory_effects i \<noteq>
             (instruction_memory_effects (ir_operation i) (ir_destination_register i)
               (ir_source_register i))\<lparr>me_region := me_region (ir_memory_effects i)\<rparr>) a
           ''Speichereffekte passen nicht zur Operation.'' @
         issue_if (ir_accumulator_effects i \<noteq>
             operation_accumulator_effects (ir_operation i) (ir_special_register i)) a
           ''Akkumulatoreffekte passen nicht zur Operation.'' @
         verify_memory_effects i)"

definition valid_forward :: "BasicBlock \<Rightarrow> nat \<Rightarrow> reg \<Rightarrow> bool" where
  "valid_forward block index forwarded =
     (let i = bb_instructions block ! index; store = bb_instructions block ! (index - 1)
      in ir_operation i = O_Memory MemoryOp.LoadLong \<and> index \<noteq> 0 \<and>
         ir_operation store = O_Memory MemoryOp.StoreLong \<and>
         ir_destination_register store = ir_source_register i \<and>
         ir_source_register store = forwarded \<and>
         me_region (ir_memory_effects i) = NormalRam \<and>
         me_region (ir_memory_effects store) = NormalRam)"

definition verify_forwarding :: "BasicBlock \<Rightarrow> nat \<Rightarrow> VerificationIssue list" where
  "verify_forwarding block index =
     (let i = bb_instructions block ! index
      in case ir_forwarded_value_register i of
           None \<Rightarrow> []
         | Some r \<Rightarrow> issue_if (\<not> valid_forward block index r) (ir_source_address i)
             ''Load-Forwarding besitzt keinen passenden direkten Store.'')"

text \<open>The checks after it: control-flow metadata.\<close>

definition verify_control_metadata :: "Instruction \<Rightarrow> VerificationIssue list" where
  "verify_control_metadata i =
     (let a = ir_source_address i; op = ir_operation i; targets = ir_resolved_targets i;
          dyn = ir_dynamic_target_class i
      in issue_if (requires_direct_target op \<and> ir_target_address i = None) a
           ''Direkter Kontrollfluss besitzt kein Ziel.'' @
         issue_if (requires_effective_address op \<and> ir_effective_address i = None) a
           ''Operation besitzt keine erforderliche effektive Adresse.'' @
         issue_if (requires_special_register op \<and> ir_special_register i = NoneRegister) a
           ''Spezialregisteroperation besitzt kein Spezialregister.'' @
         issue_if (targets \<noteq> [] \<and> \<not> is_indirect op) a
           ''Aufgeloeste Ziele gehoeren nicht zu indirektem Kontrollfluss.'' @
         issue_if (\<not> is_indirect op \<and> dyn \<noteq> NotApplicable) a
           ''Dynamische Zielklasse gehoert nicht zu indirektem Kontrollfluss.'' @
         issue_if (dyn = RuntimeOnly \<and> targets \<noteq> []) a
           ''Runtime-only-Kontrollfluss darf keine geratenen Ziele tragen.'' @
         issue_if (dyn = ExactGuarded \<and> length targets \<noteq> 1) a
           ''Exact-Guarded-Kontrollfluss benoetigt genau ein erlaubtes Ziel.'' @
         issue_if (dyn = GuardedComplete \<and> targets = []) a
           ''Guarded-Complete-Kontrollfluss benoetigt mindestens ein erlaubtes Ziel.'' @
         issue_if (ir_branch_register_relative i \<and> \<not> is_indirect op) a
           ''Registerrelativer Basiswert gehoert nicht zu indirektem Kontrollfluss.'' @
         issue_if (\<not> is_canonical targets) a
           ''Aufgeloeste Kontrollflussziele sind nicht kanonisch.'')"

text \<open>
  The body of the instruction loop.  \<open>seen\<close> is the function-wide address set,
  \<open>saw_control_flow\<close> the flag of the block.
\<close>

definition verify_at ::
    "BasicBlock \<Rightarrow> nat \<Rightarrow> u32 set \<Rightarrow> bool \<Rightarrow> VerificationIssue list" where
  "verify_at block index seen saw_control_flow =
     (let i = bb_instructions block ! index; a = ir_source_address i
      in issue_if (index \<noteq> 0 \<and> a \<le> ir_source_address (bb_instructions block ! (index - 1))) a
           ''Instruktionsadressen sind nicht streng aufsteigend.'' @
         issue_if (a AND 1 \<noteq> 0) a ''Instruktionsadresse ist nicht 2-Byte-ausgerichtet.'' @
         issue_if (a \<in> seen) a ''Instruktionsadresse ist doppelt vorhanden.'' @
         verify_instruction_shape i @
         verify_forwarding block index @
         verify_delay_slot block index @
         issue_if (saw_control_flow \<and> ds_role (ir_delay_slot i) \<noteq> Slot) a
           ''Normale Instruktion folgt einer Terminalinstruktion.'' @
         verify_control_metadata i)"

text \<open>\<open>count\<close> instructions are left; the current one is \<open>length - count\<close>.\<close>

fun verify_instructions ::
    "BasicBlock \<Rightarrow> nat \<Rightarrow> nat \<Rightarrow> u32 set \<Rightarrow> bool \<Rightarrow> VerificationIssue list \<times> u32 set" where
  "verify_instructions block index 0 seen saw = ([], seen)"
| "verify_instructions block index (Suc count) seen saw =
     (let i = bb_instructions block ! index;
          (rest, seen') = verify_instructions block (Suc index) count
             (insert (ir_source_address i) seen) (saw \<or> is_control_flow (ir_operation i))
      in (verify_at block index seen saw @ rest, seen'))"

subsection \<open>Blocks and functions\<close>

fun verify_blocks ::
    "BasicBlock list \<Rightarrow> u32 set \<Rightarrow> u32 set \<Rightarrow> VerificationIssue list" where
  "verify_blocks [] starts seen = []"
| "verify_blocks (block # blocks) starts seen =
     (let start = bb_start_address block; is = bb_instructions block;
          duplicate = issue_if (start \<in> starts) start ''Blockadresse ist doppelt vorhanden.''
      in if is = [] then
           duplicate @ issue_if True start ''Block besitzt keine Instruktionen.'' @
           verify_blocks blocks (insert start starts) seen
         else
           let (issues, seen') = verify_instructions block 0 (length is) seen False
           in duplicate @
              issue_if (ir_source_address (hd is) \<noteq> start) start
                ''Blockstart stimmt nicht mit der ersten Instruktion ueberein.'' @
              issues @ verify_blocks blocks (insert start starts) seen')"

definition fallthrough :: "BasicBlock \<Rightarrow> u32" where
  "fallthrough block = ir_source_address (last (bb_instructions block)) + 2"

definition expected_successors :: "u32 set \<Rightarrow> BasicBlock \<Rightarrow> u32 list" where
  "expected_successors starts block =
     (let control = controlling_instruction block;
          internal = filter (\<lambda>a. a \<in> starts);
          target = (case ir_target_address control of None \<Rightarrow> [] | Some t \<Rightarrow> [t])
      in case ir_operation control of
           O_Flow FlowOp.Branch \<Rightarrow> internal target
         | O_Flow FlowOp.BranchIfTrue \<Rightarrow> internal (target @ [fallthrough block])
         | O_Flow FlowOp.BranchIfFalse \<Rightarrow> internal (target @ [fallthrough block])
         | O_Flow FlowOp.Call \<Rightarrow> internal [fallthrough block]
         | O_Flow FlowOp.CallRegister \<Rightarrow> internal [fallthrough block]
         | O_Flow FlowOp.JumpRegister \<Rightarrow> internal (ir_resolved_targets control)
         | O_Flow FlowOp.Return \<Rightarrow> []
         | O_System SystemOp.ReturnFromException \<Rightarrow> []
         | O_System SystemOp.TrapAlways \<Rightarrow> []
         | O_System SystemOp.Sleep \<Rightarrow> []
         | _ \<Rightarrow> internal [fallthrough block])"

definition block_callees :: "BasicBlock \<Rightarrow> u32 list" where
  "block_callees block =
     (let control = controlling_instruction block
      in if bb_instructions block = [] then []
         else if ir_operation control = O_Flow FlowOp.Call then
           (case ir_target_address control of None \<Rightarrow> [] | Some t \<Rightarrow> [t])
         else if ir_operation control = O_Flow FlowOp.CallRegister then
           ir_resolved_targets control
         else [])"

definition block_indirect_sites :: "BasicBlock \<Rightarrow> u32 list" where
  "block_indirect_sites block =
     (let control = controlling_instruction block
      in if bb_instructions block = [] then []
         else if ir_operation control = O_Flow FlowOp.CallRegister then [ir_source_address control]
         else [])"

text \<open>The second loop: successors, ownership targets and the indirect marker of a block.\<close>

definition verify_ownership :: "u32 set \<Rightarrow> BasicBlock \<Rightarrow> VerificationIssue list" where
  "verify_ownership starts block =
     (let control = controlling_instruction block; start = bb_start_address block;
          targets = bb_guarded_case_ownership_targets block
      in issue_if (\<not> is_canonical targets) start
           ''Guarded Case-Ownership-Ziele sind nicht kanonisch.'' @
         (if targets = [] then []
          else issue_if (ir_operation control \<noteq> O_Flow FlowOp.JumpRegister \<or>
                  \<not> ir_branch_register_relative control \<or>
                  (ir_dynamic_target_class control \<noteq> GuardedPartial \<and>
                   ir_dynamic_target_class control \<noteq> RuntimeOnly) \<or>
                  \<not> bb_has_indirect_successor block) start
                ''Guarded Case-Ownership passt nicht zu einem bewachten registerrelativen Sprung.'' @
               concat (map (\<lambda>t. issue_if (t \<notin> starts) start
                 ''Guarded Case-Ownership verweist ausserhalb der Funktion.'') targets)))"

definition verify_block_edges :: "u32 set \<Rightarrow> BasicBlock \<Rightarrow> VerificationIssue list" where
  "verify_block_edges starts block =
     (if bb_instructions block = [] then []
      else
        let control = controlling_instruction block; start = bb_start_address block;
            expected = sort_unique (expected_successors starts block);
            actual = sort_unique (bb_successors block);
            indirect_operation = is_indirect (ir_operation control)
        in issue_if (actual \<noteq> bb_successors block) start
             ''Blocknachfolger sind nicht kanonisch sortiert und eindeutig.'' @
           issue_if (actual \<noteq> expected) start
             ''Blocknachfolger passen nicht zur Terminaloperation.'' @
           verify_ownership starts block @
           issue_if ((\<not> indirect_operation \<and> bb_has_indirect_successor block) \<or>
               (indirect_operation \<and> ir_resolved_targets control = [] \<and>
                \<not> bb_has_indirect_successor block)) start
             ''Indirekte CFG-Markierung passt nicht zur Terminaloperation.'')"

definition verify_call_metadata :: "Function \<Rightarrow> VerificationIssue list" where
  "verify_call_metadata f =
     (let callees = sort_unique (fn_direct_callees f);
          sites = sort_unique (fn_indirect_call_sites f);
          expected_callees = sort_unique (concat (map block_callees (fn_blocks f)));
          expected_sites = sort_unique (concat (map block_indirect_sites (fn_blocks f)))
      in issue_if (callees \<noteq> fn_direct_callees f \<or> callees \<noteq> expected_callees)
           (fn_entry_address f) ''Direkte Callee-Metadaten sind nicht kanonisch oder veraltet.'' @
         issue_if (sites \<noteq> fn_indirect_call_sites f \<or> sites \<noteq> expected_sites)
           (fn_entry_address f) ''Indirekte Callsite-Metadaten sind nicht kanonisch oder veraltet.'')"

definition block_addresses :: "Function \<Rightarrow> u32 set" where
  "block_addresses f = set (map bb_start_address (fn_blocks f))"

definition verify_function :: "Function \<Rightarrow> VerificationIssue list" where
  "verify_function f =
     (if fn_blocks f = [] then
        issue_if True (fn_entry_address f) ''Funktion besitzt keine Bloecke.''
      else
        let starts = block_addresses f
        in sort_issues
            (verify_blocks (fn_blocks f) {} {} @
             issue_if (fn_entry_address f \<notin> starts) (fn_entry_address f)
               ''Funktionseintritt besitzt keinen gleichnamigen Block.'' @
             concat (map (verify_block_edges starts) (fn_blocks f)) @
             verify_call_metadata f))"

datatype error = InvalidArgument string

definition require_valid_function :: "Function \<Rightarrow> error + unit" where
  "require_valid_function f =
     (case verify_function f of
        [] \<Rightarrow> Inr ()
      | i # _ \<Rightarrow> Inl (InvalidArgument
          (''Ungueltige Katana-IR-Funktion '' @ hex_address (fn_entry_address f) @ '': '' @
           hex_address (vi_address i) @ '': '' @ vi_message i)))"

subsection \<open>Programs\<close>

fun verify_entries :: "Function list \<Rightarrow> u32 set \<Rightarrow> VerificationIssue list" where
  "verify_entries [] entries = []"
| "verify_entries (f # fs) entries =
     verify_function f @
     issue_if (fn_entry_address f \<in> entries) (fn_entry_address f)
       ''Funktionseintritt ist im Programm doppelt vorhanden.'' @
     verify_entries fs (insert (fn_entry_address f) entries)"

definition block_required_callees :: "BasicBlock \<Rightarrow> u32 list" where
  "block_required_callees block =
     (if bb_instructions block = [] then []
      else
        let control = controlling_instruction block
        in if ir_operation control = O_Flow FlowOp.Call \<and> ir_target_address control \<noteq> None then
             [the (ir_target_address control)]
           else if ir_operation control = O_Flow FlowOp.CallRegister \<and>
                   \<not> bb_has_indirect_successor block then
             ir_resolved_targets control
           else [])"

definition verify_callees :: "u32 set \<Rightarrow> Function \<Rightarrow> VerificationIssue list" where
  "verify_callees entries f =
     concat (map (\<lambda>callee. issue_if (callee \<notin> entries) (fn_entry_address f)
         (''Callee '' @ hex_address callee @ '' besitzt keinen eindeutigen Funktionseintritt.''))
       (sort_unique (concat (map block_required_callees (fn_blocks f)))))"

definition verify_program :: "Function list \<Rightarrow> u32 list \<Rightarrow> VerificationIssue list" where
  "verify_program functions external_function_entries =
     (let entries = set (map fn_entry_address functions) \<union> set external_function_entries
      in sort_issues (verify_entries functions {} @
           concat (map (verify_callees entries) functions)))"

definition require_valid_program :: "Function list \<Rightarrow> u32 list \<Rightarrow> error + unit" where
  "require_valid_program functions external_function_entries =
     (case verify_program functions external_function_entries of
        [] \<Rightarrow> Inr ()
      | i # _ \<Rightarrow> Inl (InvalidArgument
          (''Ungueltiges Katana-IR-Programm: '' @ hex_address (vi_address i) @ '': '' @
           vi_message i)))"

end
