(* ===== verification/Optimize.thy ===== *)
theory Optimize
  imports Verifier
begin

text \<open>
  The IR optimizer (\<open>src/ir/optimize.cpp\<close>): constant folding, copy propagation, dead-write
  elimination, control-flow simplification, load/store forwarding and the pipeline that runs them.
  A pass returns the rewritten block or function with its number of changes.  The register tables
  (\<open>std::array\<close> of sixteen optionals) are functions from register indices.
\<close>

type_synonym Constants = "reg \<Rightarrow> u32 option"
type_synonym Aliases = "reg \<Rightarrow> reg option"

subsection \<open>Dispatchability contract\<close>

datatype ExternalDispatchEntryKind = BlockEntry | InstructionContinuation

record ExternalDispatchEntry =
  de_address :: u32
  de_kind :: ExternalDispatchEntryKind

record DispatchabilityIndex =
  di_block_entries :: "u32 set"
  di_instruction_continuations :: "u32 set"

definition empty_index :: DispatchabilityIndex where
  "empty_index = \<lparr>di_block_entries = {}, di_instruction_continuations = {}\<rparr>"

fun index_entries ::
    "ExternalDispatchEntry list \<Rightarrow> u32 set \<Rightarrow> DispatchabilityIndex \<Rightarrow> error + DispatchabilityIndex"
  where
  "index_entries [] addresses result = Inr result"
| "index_entries (entry # entries) addresses result =
     (let a = de_address entry
      in if a = 0 \<or> a AND 1 \<noteq> 0 \<or> a \<in> addresses then
           Inl (InvalidArgument
             ''Externer IR-Dispatch-Eintritt ist ungueltig oder doppelt deklariert.'')
         else index_entries entries (insert a addresses)
           (case de_kind entry of
              BlockEntry \<Rightarrow> result\<lparr>di_block_entries := insert a (di_block_entries result)\<rparr>
            | InstructionContinuation \<Rightarrow>
                result\<lparr>di_instruction_continuations :=
                  insert a (di_instruction_continuations result)\<rparr>))"

definition make_dispatchability_index ::
    "ExternalDispatchEntry list \<Rightarrow> error + DispatchabilityIndex" where
  "make_dispatchability_index contract = index_entries contract {} empty_index"

text \<open>
  The messages of a missing entry end with the decimal number of one missing address; which one
  depends on the iteration order of a hash set, so the number is left out.
\<close>

definition require_dispatchability_contract ::
    "Function list \<Rightarrow> DispatchabilityIndex \<Rightarrow> error + unit" where
  "require_dispatchability_contract program contract =
     (if di_block_entries contract = {} \<and> di_instruction_continuations contract = {} then Inr ()
      else
        let blocks = concat (map fn_blocks program);
            continued = filter
              (\<lambda>i. ir_source_address i \<in> di_instruction_continuations contract)
              (concat (map bb_instructions blocks));
            found_blocks = set (filter (\<lambda>a. a \<in> di_block_entries contract)
              (map bb_start_address blocks));
            found_continuations = set (map ir_source_address continued)
        in if list_ex (\<lambda>i. ds_role (ir_delay_slot i) = Slot) continued then
             Inl (InvalidArgument
               ''Externe IR-Instruktionsfortsetzung liegt in einem Delay Slot.'')
           else if card found_blocks \<noteq> card (di_block_entries contract) then
             Inl (InvalidArgument
               (if di_block_entries contract \<subseteq> found_blocks
                then ''Extern erreichbare IR-Blockeintritte sind nicht kanonisch eindeutig.''
                else ''Extern erreichbarer IR-Blockeintritt fehlt: ''))
           else if card found_continuations \<noteq> card (di_instruction_continuations contract) then
             Inl (InvalidArgument
               (if di_instruction_continuations contract \<subseteq> found_continuations
                then ''Extern erreichbare IR-Instruktionsfortsetzungen sind nicht kanonisch eindeutig.''
                else ''Extern erreichbare IR-Instruktionsfortsetzung fehlt: ''))
           else Inr ())"

subsection \<open>Rewriting an instruction\<close>

definition canonicalize :: "Instruction \<Rightarrow> Instruction" where
  "canonicalize i =
     i\<lparr>ir_widths := operation_operand_widths (ir_operation i),
       ir_status_effects := instruction_status_effects (ir_operation i) (ir_special_register i),
       ir_memory_effects := instruction_memory_effects (ir_operation i)
         (ir_destination_register i) (ir_source_register i),
       ir_accumulator_effects :=
         operation_accumulator_effects (ir_operation i) (ir_special_register i)\<rparr>"

definition replace_with_nop :: "Instruction \<Rightarrow> Instruction" where
  "replace_with_nop i = canonicalize
     (i\<lparr>ir_operation := Operation.Nop, ir_destination_register := 0, ir_source_register := 0,
        ir_branch_register := 0, ir_immediate := 0, ir_displacement := 0,
        ir_special_register := NoneRegister, ir_effective_address := None,
        ir_target_address := None, ir_resolved_targets := [],
        ir_forwarded_value_register := None, ir_dynamic_target_class := NotApplicable,
        ir_is_privileged := False, ir_branch_register_relative := False\<rparr>)"

definition replace_with_constant :: "reg \<Rightarrow> u32 \<Rightarrow> Instruction \<Rightarrow> Instruction" where
  "replace_with_constant destination v i = canonicalize
     (i\<lparr>ir_operation := O_Arith ArithOp.Constant32, ir_destination_register := destination,
        ir_source_register := 0, ir_branch_register := 0, ir_immediate := to_i32 v,
        ir_displacement := 0, ir_special_register := NoneRegister,
        ir_effective_address := None, ir_target_address := None, ir_resolved_targets := [],
        ir_forwarded_value_register := None, ir_dynamic_target_class := NotApplicable\<rparr>)"

text \<open>The operations the passes step over: they leave the general registers alone.\<close>

definition transparent_operation :: "Operation \<Rightarrow> bool" where
  "transparent_operation operation \<longleftrightarrow> operation \<in>
     {Operation.Nop, O_Logic LogicOp.ClearS, O_Logic LogicOp.SetS, O_Logic LogicOp.ClearT,
      O_Logic LogicOp.SetT, O_Logic LogicOp.CompareEqualImmediate,
      O_Logic LogicOp.CompareEqualRegister, O_Logic LogicOp.CompareHigherOrSame,
      O_Logic LogicOp.CompareGreaterOrEqual, O_Logic LogicOp.CompareHigher,
      O_Logic LogicOp.CompareGreaterThan, O_Logic LogicOp.ComparePositiveOrZero,
      O_Logic LogicOp.ComparePositive, O_Logic LogicOp.CompareString,
      O_Logic LogicOp.TestImmediate, O_Logic LogicOp.TestRegister, O_Flow FlowOp.Branch,
      O_Flow FlowOp.Call, O_Flow FlowOp.BranchIfTrue, O_Flow FlowOp.BranchIfFalse,
      O_Flow FlowOp.JumpRegister, O_Flow FlowOp.CallRegister, O_Flow FlowOp.Return,
      O_System SystemOp.ReturnFromException, O_System SystemOp.TrapAlways,
      O_System SystemOp.Sleep}"

subsection \<open>Constant folding\<close>

definition binary_constant :: "Constants \<Rightarrow> Instruction \<Rightarrow> u32 option" where
  "binary_constant constants i =
     (case (constants (ir_destination_register i), constants (ir_source_register i)) of
        (Some left, Some right) \<Rightarrow>
          (case ir_operation i of
             O_Arith ArithOp.AddRegister \<Rightarrow> Some (left + right)
           | O_Arith ArithOp.SubRegister \<Rightarrow> Some (left - right)
           | O_Logic LogicOp.AndRegister \<Rightarrow> Some (left AND right)
           | O_Logic LogicOp.OrRegister \<Rightarrow> Some (left OR right)
           | O_Logic LogicOp.XorRegister \<Rightarrow> Some (left XOR right)
           | _ \<Rightarrow> None)
      | _ \<Rightarrow> None)"

text \<open>The value the folder knows for the result of an instruction that writes its destination.\<close>

definition folded_value :: "Constants \<Rightarrow> Instruction \<Rightarrow> u32 option" where
  "folded_value constants i =
     (case ir_operation i of
        O_Arith ArithOp.MovRegister \<Rightarrow> constants (ir_source_register i)
      | O_Arith ArithOp.AddImmediate \<Rightarrow>
          map_option (\<lambda>v. v + to_u32 (ir_immediate i)) (constants (ir_destination_register i))
      | O_Arith ArithOp.NegateRegister \<Rightarrow>
          map_option (\<lambda>v. 0 - v) (constants (ir_source_register i))
      | O_Arith ArithOp.NotRegister \<Rightarrow> map_option (\<lambda>v. NOT v) (constants (ir_source_register i))
      | _ \<Rightarrow> binary_constant constants i)"

definition foldable_operation :: "Operation \<Rightarrow> bool" where
  "foldable_operation operation \<longleftrightarrow> operation \<in>
     {O_Arith ArithOp.MovRegister, O_Arith ArithOp.AddImmediate, O_Arith ArithOp.AddRegister,
      O_Arith ArithOp.SubRegister, O_Logic LogicOp.AndRegister, O_Logic LogicOp.OrRegister,
      O_Logic LogicOp.XorRegister, O_Arith ArithOp.NegateRegister, O_Arith ArithOp.NotRegister}"

text \<open>One iteration of the loop of \<open>fold_block\<close>.\<close>

definition fold_instruction :: "Constants \<Rightarrow> Instruction \<Rightarrow> Instruction \<times> Constants \<times> nat" where
  "fold_instruction constants i =
     (let destination = ir_destination_register i
      in if ir_operation i = O_Arith ArithOp.MovImmediate \<or>
            ir_operation i = O_Arith ArithOp.Constant32 then
           (i, constants(destination := Some (to_u32 (ir_immediate i))), 0)
         else if foldable_operation (ir_operation i) then
           (case folded_value constants i of
              Some v \<Rightarrow> (replace_with_constant destination v i, constants(destination := Some v), 1)
            | None \<Rightarrow> (i, constants(destination := None), 0))
         else if transparent_operation (ir_operation i) then (i, constants, 0)
         else (i, \<lambda>_. None, 0))"

fun fold_instructions :: "Constants \<Rightarrow> Instruction list \<Rightarrow> Instruction list \<times> nat" where
  "fold_instructions constants [] = ([], 0)"
| "fold_instructions constants (i # is) =
     (let (i', constants', c) = fold_instruction constants i;
          (is', n) = fold_instructions constants' is
      in (i' # is', c + n))"

definition fold_block :: "BasicBlock \<Rightarrow> BasicBlock \<times> nat" where
  "fold_block block =
     (let (is, n) = fold_instructions (\<lambda>_. None) (bb_instructions block)
      in (block\<lparr>bb_instructions := is\<rparr>, n))"

subsection \<open>Copy propagation\<close>

fun resolve_steps :: "nat \<Rightarrow> Aliases \<Rightarrow> reg \<Rightarrow> reg" where
  "resolve_steps 0 aliases r = r"
| "resolve_steps (Suc depth) aliases r =
     (case aliases r of
        None \<Rightarrow> r
      | Some r' \<Rightarrow> if r' = r then r else resolve_steps depth aliases r')"

definition resolve_alias :: "Aliases \<Rightarrow> reg \<Rightarrow> reg" where
  "resolve_alias aliases r = resolve_steps 16 aliases r"

definition invalidate_aliases :: "reg \<Rightarrow> Aliases \<Rightarrow> Aliases" where
  "invalidate_aliases written aliases =
     (\<lambda>index. if index = written \<or> (aliases index \<noteq> None \<and> resolve_alias aliases index = written)
              then None else aliases index)"

definition has_propagatable_source :: "Operation \<Rightarrow> bool" where
  "has_propagatable_source operation \<longleftrightarrow> operation \<in>
     {O_Arith ArithOp.MovRegister, O_Arith ArithOp.AddRegister, O_Arith ArithOp.SubRegister,
      O_Arith ArithOp.NegateRegister, O_Arith ArithOp.NotRegister, O_Logic LogicOp.AndRegister,
      O_Logic LogicOp.OrRegister, O_Logic LogicOp.XorRegister,
      O_Logic LogicOp.CompareEqualRegister, O_Logic LogicOp.CompareHigherOrSame,
      O_Logic LogicOp.CompareGreaterOrEqual, O_Logic LogicOp.CompareHigher,
      O_Logic LogicOp.CompareGreaterThan, O_Logic LogicOp.CompareString,
      O_Logic LogicOp.TestRegister}"

definition writes_destination :: "Operation \<Rightarrow> bool" where
  "writes_destination operation \<longleftrightarrow> operation \<in>
     {O_Arith ArithOp.MovImmediate, O_Arith ArithOp.Constant32, O_Arith ArithOp.MovRegister,
      O_Arith ArithOp.AddImmediate, O_Arith ArithOp.AddRegister, O_Arith ArithOp.SubRegister,
      O_Arith ArithOp.NegateRegister, O_Arith ArithOp.NotRegister, O_Logic LogicOp.AndRegister,
      O_Logic LogicOp.OrRegister, O_Logic LogicOp.XorRegister}"

definition propagate_source :: "Aliases \<Rightarrow> Instruction \<Rightarrow> Instruction \<times> nat" where
  "propagate_source aliases i =
     (let resolved = resolve_alias aliases (ir_source_register i)
      in if has_propagatable_source (ir_operation i) \<and> resolved \<noteq> ir_source_register i
         then (canonicalize (i\<lparr>ir_source_register := resolved\<rparr>), 1) else (i, 0))"

definition aliases_after :: "Aliases \<Rightarrow> Instruction \<Rightarrow> Aliases" where
  "aliases_after aliases i =
     (let destination = ir_destination_register i
      in if writes_destination (ir_operation i) then
           let aliases = invalidate_aliases destination aliases
           in if ir_operation i = O_Arith ArithOp.MovRegister \<and> destination \<noteq> ir_source_register i
              then aliases(destination := Some (ir_source_register i)) else aliases
         else if transparent_operation (ir_operation i) then aliases
         else (\<lambda>_. None))"

fun propagate_instructions :: "Aliases \<Rightarrow> Instruction list \<Rightarrow> Instruction list \<times> nat" where
  "propagate_instructions aliases [] = ([], 0)"
| "propagate_instructions aliases (i # is) =
     (let (i', c) = propagate_source aliases i;
          (is', n) = propagate_instructions (aliases_after aliases i') is
      in (i' # is', c + n))"

definition propagate_block_copies :: "BasicBlock \<Rightarrow> BasicBlock \<times> nat" where
  "propagate_block_copies block =
     (let (is, n) = propagate_instructions (\<lambda>_. None) (bb_instructions block)
      in (block\<lparr>bb_instructions := is\<rparr>, n))"

subsection \<open>Dead-write elimination\<close>

definition is_pure_register_write :: "Instruction \<Rightarrow> bool" where
  "is_pure_register_write i \<longleftrightarrow>
     (if ds_role (ir_delay_slot i) \<noteq> NoneRole \<or> ir_is_privileged i \<or>
         ir_status_effects i \<noteq> no_status \<or> ir_memory_effects i \<noteq> no_memory \<or>
         ir_accumulator_effects i \<noteq> no_accumulator then False
      else writes_destination (ir_operation i))"

definition reads_register :: "Instruction \<Rightarrow> reg \<Rightarrow> bool" where
  "reads_register i r =
     (let n = ir_destination_register i; m = ir_source_register i
      in case ir_operation i of
           O_Arith ArithOp.MovImmediate \<Rightarrow> False
         | O_Arith ArithOp.Constant32 \<Rightarrow> False
         | O_Arith ArithOp.MovRegister \<Rightarrow> m = r
         | O_Arith ArithOp.NegateRegister \<Rightarrow> m = r
         | O_Arith ArithOp.NotRegister \<Rightarrow> m = r
         | O_Arith ArithOp.AddImmediate \<Rightarrow> n = r
         | O_Arith ArithOp.AddRegister \<Rightarrow> n = r \<or> m = r
         | O_Arith ArithOp.SubRegister \<Rightarrow> n = r \<or> m = r
         | O_Logic LogicOp.AndRegister \<Rightarrow> n = r \<or> m = r
         | O_Logic LogicOp.OrRegister \<Rightarrow> n = r \<or> m = r
         | O_Logic LogicOp.XorRegister \<Rightarrow> n = r \<or> m = r
         | _ \<Rightarrow> True)"

text \<open>The forward pass from position \<open>index\<close> on; the result is \<open>dead_candidates\<close>.\<close>

fun dead_writes :: "nat \<Rightarrow> Instruction list \<Rightarrow> (reg \<Rightarrow> nat list) \<Rightarrow> nat list" where
  "dead_writes index [] pending = []"
| "dead_writes index (i # is) pending =
     (if \<not> is_pure_register_write i then
        (if ir_operation i = Operation.Nop then dead_writes (Suc index) is pending
         else dead_writes (Suc index) is (\<lambda>_. []))
      else
        let pending = (\<lambda>r. if reads_register i r then [] else pending r);
            destination = ir_destination_register i;
            dead = (if \<not> reads_register i destination then pending destination else []);
            pending = (if \<not> reads_register i destination then pending(destination := [])
                       else pending);
            pending = pending(destination := pending destination @ [index])
        in dead @ dead_writes (Suc index) is pending)"

definition eliminate_dead_block_code :: "BasicBlock \<Rightarrow> BasicBlock \<times> nat" where
  "eliminate_dead_block_code block =
     (let is = bb_instructions block; dead_candidates = dead_writes 1 (tl is) (\<lambda>_. [])
      in (block\<lparr>bb_instructions :=
            fold (\<lambda>index is. is[index := replace_with_nop (is ! index)]) dead_candidates is\<rparr>,
          length dead_candidates))"

subsection \<open>Control-flow simplification\<close>

text \<open>The worklist is a stack; its top is the head of the list.\<close>

function close_reachable :: "(u32 \<Rightarrow> u32 list) \<Rightarrow> u32 list \<Rightarrow> u32 set \<Rightarrow> u32 set" where
  "close_reachable edges [] reachable = reachable"
| "close_reachable edges (address # worklist) reachable =
     (if address \<in> reachable then close_reachable edges worklist reachable
      else close_reachable edges (rev (edges address) @ worklist) (insert address reachable))"
  by pat_completeness auto
termination
proof (relation "measures [\<lambda>(_, worklist, reachable). card (- reachable),
    \<lambda>(_, worklist, reachable). length worklist]")
  fix edges :: "u32 \<Rightarrow> u32 list" and address :: u32 and worklist reachable
  assume "address \<notin> reachable"
  then have "- insert address reachable \<subset> - reachable" by blast
  then have "card (- insert address reachable) < card (- reachable)" by (intro psubset_card_mono) simp_all
  then show "((edges, rev (edges address) @ worklist, insert address reachable),
      (edges, address # worklist, reachable)) \<in> measures [\<lambda>(_, worklist, reachable). card (- reachable),
        \<lambda>(_, worklist, reachable). length worklist]" by simp
qed auto

definition block_targets :: "BasicBlock list \<Rightarrow> u32 \<Rightarrow> u32 list" where
  "block_targets blocks address =
     (case find (\<lambda>b. bb_start_address b = address) blocks of
        None \<Rightarrow> []
      | Some b \<Rightarrow> bb_successors b @ bb_guarded_case_ownership_targets b)"

definition cfg_roots :: "DispatchabilityIndex \<Rightarrow> BasicBlock list \<Rightarrow> u32 list" where
  "cfg_roots dispatchability blocks =
     concat (map (\<lambda>b.
       (if bb_start_address b \<in> di_block_entries dispatchability
        then [bb_start_address b] else []) @
       (if list_ex (\<lambda>i. ir_source_address i \<in> di_instruction_continuations dispatchability)
             (bb_instructions b)
        then [bb_start_address b] else [])) blocks)"

definition cfg_reachable :: "DispatchabilityIndex \<Rightarrow> Function \<Rightarrow> u32 set" where
  "cfg_reachable dispatchability f =
     close_reachable (block_targets (fn_blocks f))
       (rev (fn_entry_address f # cfg_roots dispatchability (fn_blocks f))) {}"

definition instruction_callees :: "Instruction \<Rightarrow> u32 list" where
  "instruction_callees i =
     (if ir_operation i = O_Flow FlowOp.Call
      then (case ir_target_address i of None \<Rightarrow> [] | Some t \<Rightarrow> [t]) else []) @
     (if ir_operation i = O_Flow FlowOp.CallRegister then ir_resolved_targets i else [])"

definition instruction_sites :: "Instruction \<Rightarrow> u32 list" where
  "instruction_sites i =
     (if ir_operation i = O_Flow FlowOp.CallRegister then [ir_source_address i] else [])"

text \<open>
  \<open>std::sort\<close> of the blocks by start address; the verifier has excluded equal addresses, for which
  the order would be unspecified.
\<close>

definition simplify_function_cfg ::
    "DispatchabilityIndex \<Rightarrow> Function \<Rightarrow> Function \<times> nat" where
  "simplify_function_cfg dispatchability f =
     (let reachable = cfg_reachable dispatchability f;
          kept = filter (\<lambda>b. bb_start_address b \<in> reachable) (fn_blocks f);
          blocks = map (\<lambda>b. b\<lparr>bb_successors := sort_unique (bb_successors b)\<rparr>) kept;
          blocks = sort_key bb_start_address blocks;
          instructions = concat (map bb_instructions blocks);
          direct_callees = sort_unique (concat (map instruction_callees instructions));
          indirect_call_sites = sort_unique (concat (map instruction_sites instructions))
      in (f\<lparr>fn_blocks := blocks, fn_direct_callees := direct_callees,
            fn_indirect_call_sites := indirect_call_sites\<rparr>,
          (length (fn_blocks f) - length kept) +
          sum_list (map (\<lambda>b. length (bb_successors b) - length (sort_unique (bb_successors b))) kept) +
          (if fn_direct_callees f \<noteq> direct_callees then 1 else 0) +
          (if fn_indirect_call_sites f \<noteq> indirect_call_sites then 1 else 0)))"

subsection \<open>Load/store forwarding\<close>

definition forwards :: "Instruction \<Rightarrow> Instruction \<Rightarrow> bool" where
  "forwards store load \<longleftrightarrow>
     ir_operation store = O_Memory MemoryOp.StoreLong \<and>
     ir_operation load = O_Memory MemoryOp.LoadLong \<and>
     ir_destination_register store = ir_source_register load \<and>
     me_region (ir_memory_effects store) = NormalRam \<and>
     me_region (ir_memory_effects load) = NormalRam \<and>
     ir_forwarded_value_register load = None"

fun forward_stores :: "Instruction list \<Rightarrow> Instruction list \<times> nat" where
  "forward_stores (store # load # is) =
     (let hit = forwards store load;
          load = (if hit then load\<lparr>ir_forwarded_value_register := Some (ir_source_register store)\<rparr>
                  else load);
          (rest, n) = forward_stores (load # is)
      in (store # rest, (if hit then 1 else 0) + n))"
| "forward_stores is = (is, 0)"

definition simplify_block_load_store :: "BasicBlock \<Rightarrow> BasicBlock \<times> nat" where
  "simplify_block_load_store block =
     (let (is, n) = forward_stores (bb_instructions block)
      in (block\<lparr>bb_instructions := is\<rparr>, n))"

subsection \<open>Passes\<close>

text \<open>The loop over the blocks the four block passes share.\<close>

definition each_block :: "(BasicBlock \<Rightarrow> BasicBlock \<times> nat) \<Rightarrow> Function \<Rightarrow> Function \<times> nat" where
  "each_block pass f =
     (let results = map pass (fn_blocks f)
      in (f\<lparr>fn_blocks := map fst results\<rparr>, sum_list (map snd results)))"

definition fold_constants_unchecked :: "Function \<Rightarrow> Function \<times> nat" where
  "fold_constants_unchecked = each_block fold_block"

definition propagate_copies_unchecked :: "Function \<Rightarrow> Function \<times> nat" where
  "propagate_copies_unchecked = each_block propagate_block_copies"

definition eliminate_dead_code_unchecked :: "Function \<Rightarrow> Function \<times> nat" where
  "eliminate_dead_code_unchecked = each_block eliminate_dead_block_code"

definition simplify_load_store_unchecked :: "Function \<Rightarrow> Function \<times> nat" where
  "simplify_load_store_unchecked = each_block simplify_block_load_store"

fun require_valid_functions :: "Function list \<Rightarrow> error + unit" where
  "require_valid_functions [] = Inr ()"
| "require_valid_functions (f # fs) =
     (case require_valid_function f of
        Inl e \<Rightarrow> Inl e
      | Inr _ \<Rightarrow> require_valid_functions fs)"

definition checked_pass :: "(Function \<Rightarrow> Function \<times> nat) \<Rightarrow> Function \<Rightarrow> error + Function \<times> nat" where
  "checked_pass pass f =
     (case require_valid_function f of
        Inl e \<Rightarrow> Inl e
      | Inr _ \<Rightarrow>
          (case require_valid_function (fst (pass f)) of
             Inl e \<Rightarrow> Inl e
           | Inr _ \<Rightarrow> Inr (pass f)))"

definition fold_constants :: "Function \<Rightarrow> error + Function \<times> nat" where
  "fold_constants = checked_pass fold_constants_unchecked"

definition propagate_copies :: "Function \<Rightarrow> error + Function \<times> nat" where
  "propagate_copies = checked_pass propagate_copies_unchecked"

definition eliminate_dead_code :: "Function \<Rightarrow> error + Function \<times> nat" where
  "eliminate_dead_code = checked_pass eliminate_dead_code_unchecked"

definition simplify_load_store :: "Function \<Rightarrow> error + Function \<times> nat" where
  "simplify_load_store = checked_pass simplify_load_store_unchecked"

definition simplify_cfg ::
    "ExternalDispatchEntry list \<Rightarrow> Function \<Rightarrow> error + Function \<times> nat" where
  "simplify_cfg dispatchability f =
     (case require_valid_function f of
        Inl e \<Rightarrow> Inl e
      | Inr _ \<Rightarrow>
     (case make_dispatchability_index dispatchability of
        Inl e \<Rightarrow> Inl e
      | Inr index \<Rightarrow>
     (case require_dispatchability_contract [f] index of
        Inl e \<Rightarrow> Inl e
      | Inr _ \<Rightarrow>
          let (f', n) = simplify_function_cfg index f
          in (case require_valid_function f' of
                Inl e \<Rightarrow> Inl e
              | Inr _ \<Rightarrow>
             (case require_dispatchability_contract [f'] index of
                Inl e \<Rightarrow> Inl e
              | Inr _ \<Rightarrow> Inr (f', n))))))"

subsection \<open>Pipeline\<close>

record OptimizationOptions =
  oo_enabled :: bool
  oo_constant_folding :: bool
  oo_copy_propagation :: bool
  oo_dead_code_elimination :: bool
  oo_cfg_simplification :: bool
  oo_load_store_simplification :: bool
  oo_capture_dumps :: bool

definition default_options :: OptimizationOptions where
  "default_options = \<lparr>oo_enabled = True, oo_constant_folding = True, oo_copy_propagation = True,
     oo_dead_code_elimination = True, oo_cfg_simplification = True,
     oo_load_store_simplification = False, oo_capture_dumps = False\<rparr>"

record OptimizationPassReport =
  pr_name :: string
  pr_changes :: nat

record OptimizationPipelineReport =
  or_passes :: "OptimizationPassReport list"
  or_total_changes :: nat

text \<open>
  The lambda \<open>run_pass\<close>.  Progress reporting and the text dumps of \<open>capture_dumps\<close> leave the program
  and the counters alone and are left out; the parallel branch stores each function's result at its
  index, so it computes the same list as the loop.
\<close>

type_synonym pipeline = "Function list \<times> OptimizationPipelineReport"

definition run_pass ::
    "DispatchabilityIndex \<Rightarrow> string \<Rightarrow> bool \<Rightarrow> (Function \<Rightarrow> Function \<times> nat) \<Rightarrow> pipeline \<Rightarrow>
     error + pipeline" where
  "run_pass index name enabled pass s =
     (let (program, report) = s
      in if \<not> enabled then Inr s
         else case require_dispatchability_contract program index of
           Inl e \<Rightarrow> Inl e
         | Inr _ \<Rightarrow>
        (case require_valid_functions program of
           Inl e \<Rightarrow> Inl e
         | Inr _ \<Rightarrow>
             let results = map pass program; program' = map fst results;
                 changes = sum_list (map snd results)
             in (case require_valid_functions program' of
                   Inl e \<Rightarrow> Inl e
                 | Inr _ \<Rightarrow>
                (case require_dispatchability_contract program' index of
                   Inl e \<Rightarrow> Inl e
                 | Inr _ \<Rightarrow> Inr (program',
                     report\<lparr>or_passes :=
                              or_passes report @ [\<lparr>pr_name = name, pr_changes = changes\<rparr>],
                            or_total_changes := or_total_changes report + changes\<rparr>)))))"

definition and_then :: "error + 'a \<Rightarrow> ('a \<Rightarrow> error + 'b) \<Rightarrow> error + 'b" where
  "and_then r k = (case r of Inl e \<Rightarrow> Inl e | Inr x \<Rightarrow> k x)"

definition optimize_program ::
    "OptimizationOptions \<Rightarrow> ExternalDispatchEntry list \<Rightarrow> Function list \<Rightarrow> error + pipeline" where
  "optimize_program options dispatchability program =
     and_then (make_dispatchability_index dispatchability) (\<lambda>index.
     and_then (require_dispatchability_contract program index) (\<lambda>_.
       let s = (program, \<lparr>or_passes = [], or_total_changes = 0\<rparr>)
       in if \<not> oo_enabled options then Inr s
          else
            and_then (run_pass index ''constant-folding'' (oo_constant_folding options)
              fold_constants_unchecked s)
           (\<lambda>s. and_then (run_pass index ''copy-propagation'' (oo_copy_propagation options)
              propagate_copies_unchecked s)
           (\<lambda>s. and_then (run_pass index ''dead-code-elimination''
              (oo_dead_code_elimination options) eliminate_dead_code_unchecked s)
           (\<lambda>s. and_then (run_pass index ''cfg-simplification'' (oo_cfg_simplification options)
              (simplify_function_cfg index) s)
           (\<lambda>s. run_pass index ''load-store-simplification''
              (oo_load_store_simplification options) simplify_load_store_unchecked s))))))"

end
