(* ===== verification/Verifier_Correct.thy ===== *)
theory Verifier_Correct
  imports Optimize
begin

text \<open>
  What the IR verifier decides, as a condition on the function (\<open>function_wf\<close>), and that the
  rewriting passes of the optimizer keep it: the validation after a pass never fails on a function
  that passed the validation before it.
\<close>

subsection \<open>The condition the verifier decides\<close>

lemma issue_if_Nil [simp]: "issue_if c a m = [] \<longleftrightarrow> \<not> c"
  by (simp add: issue_if_def)

lemma sort_issues_Nil [simp]: "sort_issues xs = [] \<longleftrightarrow> xs = []"
  by (metis length_0_conv length_sort sort_issues_def)

definition instruction_wf :: "BasicBlock \<Rightarrow> nat \<Rightarrow> bool" where
  "instruction_wf block k \<longleftrightarrow>
     (let i = bb_instructions block ! k
      in (k \<noteq> 0 \<longrightarrow> ir_source_address (bb_instructions block ! (k - 1)) < ir_source_address i) \<and>
         ir_source_address i AND 1 = 0 \<and> verify_instruction_shape i = [] \<and>
         verify_forwarding block k = [] \<and> verify_delay_slot block k = [] \<and>
         verify_control_metadata i = [])"

definition slots_follow_control :: "Instruction list \<Rightarrow> bool" where
  "slots_follow_control is \<longleftrightarrow>
     (\<forall>k<length is. (\<exists>j<k. is_control_flow (ir_operation (is ! j))) \<longrightarrow>
        ds_role (ir_delay_slot (is ! k)) = Slot)"

definition block_wf :: "BasicBlock \<Rightarrow> bool" where
  "block_wf block \<longleftrightarrow> bb_instructions block \<noteq> [] \<and>
     ir_source_address (hd (bb_instructions block)) = bb_start_address block \<and>
     (\<forall>k<length (bb_instructions block). instruction_wf block k) \<and>
     slots_follow_control (bb_instructions block)"

definition source_addresses :: "BasicBlock \<Rightarrow> u32 list" where
  "source_addresses block = map ir_source_address (bb_instructions block)"

definition function_wf :: "Function \<Rightarrow> bool" where
  "function_wf f \<longleftrightarrow> fn_blocks f \<noteq> [] \<and> fn_entry_address f \<in> block_addresses f \<and>
     distinct (map bb_start_address (fn_blocks f)) \<and>
     distinct (concat (map source_addresses (fn_blocks f))) \<and>
     (\<forall>b\<in>set (fn_blocks f). block_wf b \<and> verify_block_edges (block_addresses f) b = []) \<and>
     verify_call_metadata f = []"

lemma verify_instructions_iff:
  assumes "index + count = length (bb_instructions block)"
  shows "snd (verify_instructions block index count seen saw) =
      seen \<union> ir_source_address ` set (drop index (bb_instructions block)) \<and>
    (fst (verify_instructions block index count seen saw) = [] \<longleftrightarrow>
      (\<forall>k. index \<le> k \<longrightarrow> k < length (bb_instructions block) \<longrightarrow> instruction_wf block k) \<and>
      distinct (map ir_source_address (drop index (bb_instructions block))) \<and>
      seen \<inter> ir_source_address ` set (drop index (bb_instructions block)) = {} \<and>
      (\<forall>k. index \<le> k \<longrightarrow> k < length (bb_instructions block) \<longrightarrow>
        saw \<or> (\<exists>j. index \<le> j \<and> j < k \<and> is_control_flow (ir_operation (bb_instructions block ! j))) \<longrightarrow>
        ds_role (ir_delay_slot (bb_instructions block ! k)) = Slot))"
  using assms
proof (induction count arbitrary: index seen saw)
  case (Suc count)
  let ?is = "bb_instructions block" and ?i = "bb_instructions block ! index"
  have less: "index < length ?is" using Suc.prems by simp
  then have drop: "drop index ?is = ?i # drop (Suc index) ?is" by (simp add: Cons_nth_drop_Suc)
  have all: "(\<forall>k. index \<le> k \<longrightarrow> k < length ?is \<longrightarrow> P k) \<longleftrightarrow>
      P index \<and> (\<forall>k. Suc index \<le> k \<longrightarrow> k < length ?is \<longrightarrow> P k)" for P
    using less by (metis Suc_leD le_antisym not_less_eq_eq order_refl)
  have control: "(\<exists>j. index \<le> j \<and> j < k \<and> Q j) \<longleftrightarrow> Q index \<or> (\<exists>j. Suc index \<le> j \<and> j < k \<and> Q j)"
    if "Suc index \<le> k" for k Q
    using that by (metis Suc_leD Suc_le_lessD le_antisym not_less_eq_eq order_refl)
  obtain rest seen' where rec: "verify_instructions block (Suc index) count
      (insert (ir_source_address ?i) seen) (saw \<or> is_control_flow (ir_operation ?i)) = (rest, seen')"
    by (cases "verify_instructions block (Suc index) count
      (insert (ir_source_address ?i) seen) (saw \<or> is_control_flow (ir_operation ?i))")
  note IH = Suc.IH [of "Suc index" "insert (ir_source_address ?i) seen"
      "saw \<or> is_control_flow (ir_operation ?i)"]
  have "verify_at block index seen saw = [] \<longleftrightarrow>
      instruction_wf block index \<and> ir_source_address ?i \<notin> seen \<and>
      (saw \<longrightarrow> ds_role (ir_delay_slot ?i) = Slot)"
    by (auto simp: verify_at_def instruction_wf_def Let_def not_le)
  moreover have "(\<forall>k. index \<le> k \<longrightarrow> k < length ?is \<longrightarrow>
        saw \<or> (\<exists>j. index \<le> j \<and> j < k \<and> is_control_flow (ir_operation (?is ! j))) \<longrightarrow>
        ds_role (ir_delay_slot (?is ! k)) = Slot) \<longleftrightarrow>
      (saw \<longrightarrow> ds_role (ir_delay_slot ?i) = Slot) \<and>
      (\<forall>k. Suc index \<le> k \<longrightarrow> k < length ?is \<longrightarrow>
        (saw \<or> is_control_flow (ir_operation ?i)) \<or>
          (\<exists>j. Suc index \<le> j \<and> j < k \<and> is_control_flow (ir_operation (?is ! j))) \<longrightarrow>
        ds_role (ir_delay_slot (?is ! k)) = Slot)"
    by (subst all) (simp add: control disj_assoc cong: conj_cong imp_cong)
  moreover note all [of "instruction_wf block"]
  ultimately show ?case
    using IH Suc.prems rec drop by (simp add: Let_def) blast
qed simp

lemma verify_block_iff:
  "bb_instructions block \<noteq> [] \<Longrightarrow>
   snd (verify_instructions block 0 (length (bb_instructions block)) seen False) =
     seen \<union> set (source_addresses block) \<and>
   (fst (verify_instructions block 0 (length (bb_instructions block)) seen False) = [] \<longleftrightarrow>
     (\<forall>k<length (bb_instructions block). instruction_wf block k) \<and>
     distinct (source_addresses block) \<and> seen \<inter> set (source_addresses block) = {} \<and>
     slots_follow_control (bb_instructions block))"
  using verify_instructions_iff [of 0 "length (bb_instructions block)" block seen False]
  by (auto simp: source_addresses_def slots_follow_control_def)

lemma verify_blocks_iff:
  "verify_blocks blocks starts seen = [] \<longleftrightarrow>
     (\<forall>b\<in>set blocks. block_wf b) \<and>
     distinct (map bb_start_address blocks) \<and> starts \<inter> bb_start_address ` set blocks = {} \<and>
     distinct (concat (map source_addresses blocks)) \<and>
     seen \<inter> set (concat (map source_addresses blocks)) = {}"
proof (induction blocks arbitrary: starts seen)
  case (Cons b blocks)
  show ?case
  proof (cases "bb_instructions b = []")
    case True
    then show ?thesis by (simp add: block_wf_def Let_def)
  next
    case False
    obtain issues seen' where rec:
      "verify_instructions b 0 (length (bb_instructions b)) seen False = (issues, seen')"
      by (cases "verify_instructions b 0 (length (bb_instructions b)) seen False")
    have seen': "seen' = seen \<union> set (source_addresses b)"
      and issues: "issues = [] \<longleftrightarrow> (\<forall>k<length (bb_instructions b). instruction_wf b k) \<and>
        distinct (source_addresses b) \<and> seen \<inter> set (source_addresses b) = {} \<and>
        slots_follow_control (bb_instructions b)"
      using verify_block_iff [OF False, of seen] rec by simp_all
    have "verify_blocks (b # blocks) starts seen = [] \<longleftrightarrow> bb_start_address b \<notin> starts \<and>
        ir_source_address (hd (bb_instructions b)) = bb_start_address b \<and> issues = [] \<and>
        verify_blocks blocks (insert (bb_start_address b) starts) seen' = []"
      using False rec by (simp add: Let_def)
    also have "\<dots> \<longleftrightarrow> block_wf b \<and> distinct (source_addresses b) \<and>
        seen \<inter> set (source_addresses b) = {} \<and> bb_start_address b \<notin> starts \<and>
        verify_blocks blocks (insert (bb_start_address b) starts) seen' = []"
      using False by (auto simp: issues block_wf_def)
    finally show ?thesis
      by (auto simp: Cons.IH seen' Int_Un_distrib Int_Un_distrib2 Int_commute)
  qed
qed simp

lemma verify_function_iff: "verify_function f = [] \<longleftrightarrow> function_wf f"
  by (auto simp: verify_function_def function_wf_def Let_def verify_blocks_iff)

lemma require_valid_iff: "require_valid_function f = Inr () \<longleftrightarrow> function_wf f"
  by (simp add: require_valid_function_def verify_function_iff [symmetric] split: list.splits)

subsection \<open>Rewriting instructions in place\<close>

text \<open>An instruction replaced at its address by one that does not transfer control either.\<close>

definition rewritten_as :: "Instruction \<Rightarrow> Instruction \<Rightarrow> bool" where
  "rewritten_as i j \<longleftrightarrow> j = i \<or>
     (ir_source_address j = ir_source_address i \<and> ir_original_opcode j = ir_original_opcode i \<and>
      ir_delay_slot j = ir_delay_slot i \<and>
      \<not> is_control_flow (ir_operation i) \<and> \<not> is_control_flow (ir_operation j) \<and>
      verify_instruction_shape j = [] \<and> verify_control_metadata j = [])"

lemma rewritten_as_refl [simp]: "rewritten_as i i"
  by (simp add: rewritten_as_def)

lemma rewritten_as_same:
  assumes "rewritten_as i j"
  shows "ir_source_address j = ir_source_address i" and "ir_delay_slot j = ir_delay_slot i"
    and "ir_original_opcode j = ir_original_opcode i"
    and "is_control_flow (ir_operation j) = is_control_flow (ir_operation i)"
  using assms by (auto simp: rewritten_as_def)

lemma rewritten_as_control:
  assumes "rewritten_as i j" and "is_control_flow (ir_operation i)"
  shows "j = i"
  using assms by (auto simp: rewritten_as_def)

definition block_rewrites :: "BasicBlock \<Rightarrow> BasicBlock \<Rightarrow> bool" where
  "block_rewrites a b \<longleftrightarrow> list_all2 rewritten_as (bb_instructions a) (bb_instructions b) \<and>
     (\<forall>k<length (bb_instructions a). verify_forwarding a k = [] \<longrightarrow> verify_forwarding b k = []) \<and>
     bb_start_address b = bb_start_address a \<and> bb_successors b = bb_successors a \<and>
     bb_guarded_case_ownership_targets b = bb_guarded_case_ownership_targets a \<and>
     bb_has_indirect_successor b = bb_has_indirect_successor a"

lemma rewritten_length:
  "block_rewrites a b \<Longrightarrow> length (bb_instructions b) = length (bb_instructions a)"
  by (auto simp: block_rewrites_def dest: list_all2_lengthD)

lemma rewritten_nth:
  "block_rewrites a b \<Longrightarrow> k < length (bb_instructions a) \<Longrightarrow>
   rewritten_as (bb_instructions a ! k) (bb_instructions b ! k)"
  by (simp add: block_rewrites_def list_all2_nthD)

lemma rewritten_nil: "block_rewrites a b \<Longrightarrow> bb_instructions b = [] \<longleftrightarrow> bb_instructions a = []"
  using rewritten_length [of a b] by force

lemma rewritten_addresses: "block_rewrites a b \<Longrightarrow> source_addresses b = source_addresses a"
  using rewritten_nth rewritten_length unfolding source_addresses_def
  by (intro nth_equalityI) (simp_all add: rewritten_as_same(1))

lemma rewritten_control:
  assumes "block_rewrites a b" and "bb_instructions a \<noteq> []"
  shows "rewritten_as (controlling_instruction a) (controlling_instruction b)"
proof -
  let ?n = "length (bb_instructions a)"
  have len: "length (bb_instructions b) = ?n" by (rule rewritten_length [OF assms(1)])
  have last: "rewritten_as (bb_instructions a ! (?n - 1)) (bb_instructions b ! (?n - 1))"
    using rewritten_nth [OF assms(1)] assms(2) by simp
  moreover have "rewritten_as (bb_instructions a ! (?n - 2)) (bb_instructions b ! (?n - 2))"
    using rewritten_nth [OF assms(1)] assms(2) by simp
  ultimately show ?thesis
    using rewritten_as_same(2) [OF last] assms(2) rewritten_nil [OF assms(1)]
    by (simp add: controlling_instruction_def Let_def last_conv_nth len)
qed

lemma rewritten_fallthrough:
  assumes "block_rewrites a b" and "bb_instructions a \<noteq> []"
  shows "fallthrough b = fallthrough a"
proof -
  have "rewritten_as (last (bb_instructions a)) (last (bb_instructions b))"
    using rewritten_nth [OF assms(1), of "length (bb_instructions a) - 1"] assms
      rewritten_length [OF assms(1)] rewritten_nil [OF assms(1)]
    by (simp add: last_conv_nth)
  then show ?thesis by (simp add: fallthrough_def rewritten_as_same(1))
qed

lemma plain_successors:
  assumes "\<not> is_control_flow (ir_operation (controlling_instruction block))"
  shows "expected_successors starts block = filter (\<lambda>a. a \<in> starts) [fallthrough block]"
  using assms
  by (auto simp: expected_successors_def is_control_flow_def Let_def
      split: Operation.splits SystemOp.splits FlowOp.splits)

lemma rewritten_edges:
  assumes "block_rewrites a b"
  shows "verify_block_edges starts b = verify_block_edges starts a \<and>
    block_callees b = block_callees a \<and> block_indirect_sites b = block_indirect_sites a"
proof (cases "bb_instructions a = []")
  case True
  then show ?thesis
    using rewritten_nil [OF assms]
    by (simp add: verify_block_edges_def block_callees_def block_indirect_sites_def)
next
  case False
  note c = rewritten_control [OF assms False]
  note same = assms [unfolded block_rewrites_def] rewritten_nil [OF assms]
    rewritten_fallthrough [OF assms False]
  show ?thesis
  proof (cases "is_control_flow (ir_operation (controlling_instruction a))")
    case True
    note eq = rewritten_as_control [OF c this]
    have "expected_successors starts b = expected_successors starts a"
      unfolding expected_successors_def eq rewritten_fallthrough [OF assms False] ..
    then show ?thesis
      using same False eq
      by (simp add: verify_block_edges_def verify_ownership_def block_callees_def
          block_indirect_sites_def Let_def)
  next
    case plain: False
    then have plain': "\<not> is_control_flow (ir_operation (controlling_instruction b))"
      using rewritten_as_same(4) [OF c] by simp
    have "verify_ownership starts b = verify_ownership starts a"
      using same plain plain' by (auto simp: verify_ownership_def is_control_flow_def Let_def)
    then show ?thesis
      using same False plain plain'
      by (auto simp: verify_block_edges_def plain_successors block_callees_def
          block_indirect_sites_def Let_def is_indirect_def is_control_flow_def)
  qed
qed

lemma rewritten_delay_slot:
  assumes "block_rewrites a b" and "k < length (bb_instructions a)"
  shows "verify_delay_slot b k = verify_delay_slot a k"
proof -
  note len = rewritten_length [OF assms(1)]
  note k = rewritten_as_same [OF rewritten_nth [OF assms]]
  have next_one: "ir_source_address (bb_instructions b ! (k + 1)) =
      ir_source_address (bb_instructions a ! (k + 1)) \<and>
    ir_delay_slot (bb_instructions b ! (k + 1)) = ir_delay_slot (bb_instructions a ! (k + 1))"
    if "k + 1 < length (bb_instructions a)"
    using rewritten_as_same(1,2) [OF rewritten_nth [OF assms(1) that]] by simp
  have previous: "ir_source_address (bb_instructions b ! (k - 1)) =
      ir_source_address (bb_instructions a ! (k - 1)) \<and>
    ir_delay_slot (bb_instructions b ! (k - 1)) = ir_delay_slot (bb_instructions a ! (k - 1))"
    using rewritten_as_same(1,2) [OF rewritten_nth [OF assms(1), of "k - 1"]] assms(2) by simp
  have "verify_owner b k p = verify_owner a k p" for p
    using k len next_one by (auto simp: verify_owner_def Let_def)
  moreover have "verify_slot b k p = verify_slot a k p" for p
    using k previous by (auto simp: verify_slot_def Let_def)
  ultimately show ?thesis using k by (simp add: verify_delay_slot_def Let_def split: option.split)
qed

lemma rewritten_forwarding:
  "block_rewrites a b \<Longrightarrow> k < length (bb_instructions a) \<Longrightarrow> verify_forwarding a k = [] \<Longrightarrow>
   verify_forwarding b k = []"
  by (simp add: block_rewrites_def)

lemma rewritten_instruction:
  assumes "block_rewrites a b" and "k < length (bb_instructions a)" and "instruction_wf a k"
  shows "instruction_wf b k"
proof -
  have "verify_instruction_shape (bb_instructions b ! k) = [] \<and>
      verify_control_metadata (bb_instructions b ! k) = []"
    using rewritten_nth [OF assms(1,2)] assms(3) by (auto simp: rewritten_as_def instruction_wf_def Let_def)
  moreover have "ir_source_address (bb_instructions b ! (k - 1)) =
      ir_source_address (bb_instructions a ! (k - 1))"
    using rewritten_as_same(1) [OF rewritten_nth [OF assms(1), of "k - 1"]] assms(2) by simp
  ultimately show ?thesis
    using assms(3) rewritten_as_same(1) [OF rewritten_nth [OF assms(1,2)]]
      rewritten_delay_slot [OF assms(1,2)] rewritten_forwarding [OF assms(1,2)]
    by (simp add: instruction_wf_def Let_def)
qed

lemma rewritten_block_wf:
  assumes "block_rewrites a b" and "block_wf a"
  shows "block_wf b"
proof -
  note len = rewritten_length [OF assms(1)]
  have nonempty: "bb_instructions a \<noteq> []" using assms(2) by (simp add: block_wf_def)
  have "ir_source_address (hd (bb_instructions b)) = ir_source_address (hd (bb_instructions a))"
    using rewritten_as_same(1) [OF rewritten_nth [OF assms(1), of 0]] nonempty
      rewritten_nil [OF assms(1)] by (simp add: hd_conv_nth)
  moreover have "slots_follow_control (bb_instructions b)"
    unfolding slots_follow_control_def
  proof (intro allI impI)
    fix k
    assume k: "k < length (bb_instructions b)"
      and "\<exists>j<k. is_control_flow (ir_operation (bb_instructions b ! j))"
    then obtain j where j: "j < k" "is_control_flow (ir_operation (bb_instructions b ! j))" by blast
    then have "is_control_flow (ir_operation (bb_instructions a ! j))"
      using rewritten_as_same(4) [OF rewritten_nth [OF assms(1), of j]] k len by simp
    then show "ds_role (ir_delay_slot (bb_instructions b ! k)) = Slot"
      using assms(2) j k len rewritten_as_same(2) [OF rewritten_nth [OF assms(1), of k]]
      by (auto simp: block_wf_def slots_follow_control_def)
  qed
  ultimately show ?thesis
    using assms rewritten_instruction [OF assms(1)] rewritten_nil [OF assms(1)] len
    by (simp add: block_wf_def block_rewrites_def)
qed

text \<open>A pass that rewritten_as every well-formed block keeps the function well formed.\<close>

lemma rewritten_function_wf:
  assumes wf: "function_wf f" and pass: "\<And>b. block_wf b \<Longrightarrow> b \<in> set (fn_blocks f) \<Longrightarrow>
      block_rewrites b (fst (pass b))"
  shows "function_wf (fst (each_block pass f))"
proof -
  let ?f = "fst (each_block pass f)"
  have r: "block_rewrites b (fst (pass b))" if "b \<in> set (fn_blocks f)" for b
    using pass that wf by (simp add: function_wf_def)
  have blocks: "fn_blocks ?f = map (fst \<circ> pass) (fn_blocks f)"
    and fields: "fn_entry_address ?f = fn_entry_address f"
      "fn_direct_callees ?f = fn_direct_callees f"
      "fn_indirect_call_sites ?f = fn_indirect_call_sites f"
    by (simp_all add: each_block_def Let_def)
  have starts: "map bb_start_address (fn_blocks ?f) = map bb_start_address (fn_blocks f)"
    and addresses: "map source_addresses (fn_blocks ?f) = map source_addresses (fn_blocks f)"
    and callees: "map block_callees (fn_blocks ?f) = map block_callees (fn_blocks f)"
    and sites: "map block_indirect_sites (fn_blocks ?f) = map block_indirect_sites (fn_blocks f)"
    using r rewritten_addresses rewritten_edges by (auto simp: blocks block_rewrites_def)
  have same_starts: "block_addresses ?f = block_addresses f"
    using starts by (simp add: block_addresses_def)
  have "verify_call_metadata ?f = verify_call_metadata f"
    by (simp add: verify_call_metadata_def fields callees sites)
  moreover have "block_wf (fst (pass b)) \<and> verify_block_edges (block_addresses f) (fst (pass b)) = []"
    if "b \<in> set (fn_blocks f)" for b
    using wf that rewritten_block_wf [OF r [OF that]] rewritten_edges [OF r [OF that]]
    by (simp add: function_wf_def)
  then have "\<forall>b\<in>set (fn_blocks ?f). block_wf b \<and> verify_block_edges (block_addresses f) b = []"
    by (simp add: blocks)
  moreover have "fn_blocks ?f \<noteq> []" using wf by (simp add: blocks function_wf_def)
  ultimately show ?thesis
    using wf unfolding function_wf_def starts addresses same_starts fields by simp
qed

subsection \<open>Register operations\<close>

definition is_memory_operation :: "Operation \<Rightarrow> bool" where
  "is_memory_operation operation \<longleftrightarrow> (\<exists>m. operation = O_Memory m)"

definition register_rewrite :: "Instruction \<Rightarrow> Instruction \<Rightarrow> bool" where
  "register_rewrite i j \<longleftrightarrow> j = i \<or>
     (rewritten_as i j \<and> \<not> is_memory_operation (ir_operation i) \<and>
      ir_forwarded_value_register j = None)"

lemma register_rewrite_refl [simp]: "register_rewrite i i"
  by (simp add: register_rewrite_def)

lemma register_rewrite_forwarding:
  assumes "list_all2 register_rewrite (bb_instructions a) (bb_instructions b)"
    and "k < length (bb_instructions a)" and "verify_forwarding a k = []"
  shows "verify_forwarding b k = []"
proof (cases "ir_forwarded_value_register (bb_instructions b ! k)")
  case (Some r)
  have same: "bb_instructions b ! k = bb_instructions a ! k"
    using list_all2_nthD [OF assms(1,2)] Some by (auto simp: register_rewrite_def)
  then have v: "valid_forward a k r" using assms(3) Some by (simp add: verify_forwarding_def)
  then have "is_memory_operation (ir_operation (bb_instructions a ! (k - 1)))"
    by (auto simp: valid_forward_def is_memory_operation_def Let_def)
  moreover have "k - 1 < length (bb_instructions a)" using assms(2) by simp
  ultimately have "bb_instructions b ! (k - 1) = bb_instructions a ! (k - 1)"
    using list_all2_nthD [OF assms(1), of "k - 1"] by (auto simp: register_rewrite_def)
  then show ?thesis using same v Some by (simp add: verify_forwarding_def valid_forward_def Let_def)
qed (simp add: verify_forwarding_def)

lemma register_rewrites:
  assumes "list_all2 register_rewrite (bb_instructions a) is"
  shows "block_rewrites a (a\<lparr>bb_instructions := is\<rparr>)"
proof -
  have "list_all2 rewritten_as (bb_instructions a) is"
    using assms by (rule list_all2_mono) (auto simp: register_rewrite_def)
  then show ?thesis
    using register_rewrite_forwarding [of a "a\<lparr>bb_instructions := is\<rparr>"] assms
    by (simp add: block_rewrites_def)
qed

definition register_operation :: "Operation \<Rightarrow> bool" where
  "register_operation operation \<longleftrightarrow>
     writes_destination operation \<or> has_propagatable_source operation \<or> operation = Operation.Nop"

lemma register_operation_facts:
  assumes "register_operation operation"
  shows "\<not> is_control_flow operation" and "\<not> is_memory_operation operation"
    and "\<not> requires_direct_target operation" and "\<not> requires_effective_address operation"
    and "\<not> requires_special_register operation" and "\<not> is_indirect operation"
    and "instruction_memory_effects operation n m = no_memory"
    and "ow_memory (operation_operand_widths operation) = NoneWidth"
  using assms
  by (auto simp: register_operation_def writes_destination_def has_propagatable_source_def
      is_control_flow_def is_memory_operation_def requires_direct_target_def
      requires_effective_address_def requires_special_register_def is_indirect_def
      instruction_memory_effects_def operation_operand_widths_def register_binary_def
      register_unary_def operand_widths_def no_widths_def)

text \<open>What the verifier says of one instruction of a well-formed block.\<close>

definition instruction_ok :: "Instruction \<Rightarrow> bool" where
  "instruction_ok i \<longleftrightarrow> verify_instruction_shape i = [] \<and> verify_control_metadata i = [] \<and>
     (ir_forwarded_value_register i \<noteq> None \<longrightarrow> is_memory_operation (ir_operation i))"

lemma block_wf_instructions: "block_wf b \<Longrightarrow> list_all instruction_ok (bb_instructions b)"
  by (auto simp: list_all_length block_wf_def instruction_wf_def instruction_ok_def Let_def
      verify_forwarding_def valid_forward_def is_memory_operation_def)

text \<open>An operation that differs from the original one is synthetic.\<close>

definition synthetic_ok :: "Instruction \<Rightarrow> bool" where
  "synthetic_ok i \<longleftrightarrow> ir_original_operation i = Operation.Unknown \<or>
     ir_operation i = ir_original_operation i \<or> ir_operation i = O_Arith ArithOp.Constant32 \<or>
     is_dead_gpr_write_tombstone i"

lemma shape_synthetic: "verify_instruction_shape i = [] \<Longrightarrow> synthetic_ok i"
  by (auto simp: verify_instruction_shape_def synthetic_ok_def Let_def)

lemma canonical_shape:
  assumes "register_operation (ir_operation i)" and "synthetic_ok i"
    and "ir_destination_register i < 16" and "ir_source_register i < 16"
    and "ir_branch_register i < 16" and "ir_forwarded_value_register i = None"
  shows "verify_instruction_shape (canonicalize i) = []"
proof -
  note facts = register_operation_facts [OF assms(1)]
  have "is_dead_gpr_write_tombstone (canonicalize i) = is_dead_gpr_write_tombstone i"
    by (simp add: is_dead_gpr_write_tombstone_def canonicalize_def)
  then show ?thesis
    using assms facts(7,8)
    by (auto simp: verify_instruction_shape_def canonicalize_def synthetic_ok_def Let_def
        verify_memory_effects_def no_memory_def)
qed

lemma plain_metadata:
  assumes "register_operation (ir_operation i)" and "ir_resolved_targets i = []"
    and "ir_dynamic_target_class i = NotApplicable" and "\<not> ir_branch_register_relative i"
  shows "verify_control_metadata i = []"
  using assms register_operation_facts [OF assms(1)]
  by (simp add: verify_control_metadata_def Let_def is_canonical_def)

lemma ok_register_operation:
  assumes "instruction_ok i" and "register_operation (ir_operation i)"
  shows "ir_destination_register i < 16" and "ir_source_register i < 16"
    and "ir_branch_register i < 16" and "ir_forwarded_value_register i = None"
    and "ir_resolved_targets i = []" and "ir_dynamic_target_class i = NotApplicable"
    and "\<not> ir_branch_register_relative i"
  using assms register_operation_facts [OF assms(2)]
  by (auto simp: instruction_ok_def verify_instruction_shape_def verify_control_metadata_def
      Let_def not_le)

lemma canonical_rewrite:
  assumes "register_operation (ir_operation i)" and "register_operation (ir_operation j)"
    and "synthetic_ok j" and "ir_destination_register j < 16" and "ir_source_register j < 16"
    and "ir_branch_register j < 16" and "ir_forwarded_value_register j = None"
    and "ir_resolved_targets j = []" and "ir_dynamic_target_class j = NotApplicable"
    and "\<not> ir_branch_register_relative j" and "ir_source_address j = ir_source_address i"
    and "ir_original_opcode j = ir_original_opcode i" and "ir_delay_slot j = ir_delay_slot i"
  shows "register_rewrite i (canonicalize j)"
proof -
  have "verify_control_metadata (canonicalize j) = []"
    by (rule plain_metadata) (use assms in \<open>simp_all add: canonicalize_def\<close>)
  then show ?thesis
    using canonical_shape [OF assms(2-7)] register_operation_facts(1,2) [OF assms(1)]
      register_operation_facts(1) [OF assms(2)] assms
    by (simp add: register_rewrite_def rewritten_as_def canonicalize_def)
qed

end
