(* ===== verification/Disassembler.thy ===== *)
theory Disassembler
  imports Verifier_Correct
begin

text \<open>
  The linear disassembler (\<open>src/analysis/disassembler.cpp\<close>) over little-endian bytes
  (\<open>read_u16_le\<close> of \<open>src/io/binary_reader.cpp\<close>), and that every line it produces lowers to an
  instruction the verifier accepts.
\<close>

subsection \<open>Definitions\<close>

datatype disassembly_error =
    OddByteCount | AddressOverflow | OutOfRange | SegmentFailed string disassembly_error

definition read_u16_le :: "u8 list \<Rightarrow> nat \<Rightarrow> disassembly_error + u16" where
  "read_u16_le bytes offset =
     (if offset \<ge> length bytes \<or> length bytes - offset < 2 then Inl OutOfRange
      else let low = (ucast (bytes ! offset) :: u16); high = (ucast (bytes ! (offset + 1)) :: u16)
           in Inr (low OR push_bit 8 high))"

definition disassembled_line :: "u32 \<Rightarrow> u16 \<Rightarrow> bool \<Rightarrow> DisassemblyLine" where
  "disassembled_line address opcode is_delay_slot =
     \<lparr>dl_address = address, dl_opcode = opcode, dl_instruction = decode opcode,
      dl_is_delay_slot = is_delay_slot,
      dl_target_address = calculate_direct_branch_target (decode opcode) address\<rparr>"

text \<open>The loop from \<open>offset\<close> on.\<close>

function disassemble_from ::
    "u8 list \<Rightarrow> u32 \<Rightarrow> nat \<Rightarrow> bool \<Rightarrow> disassembly_error + DisassemblyLine list" where
  "disassemble_from bytes base_address offset previous_has_delay_slot =
     (if offset < length bytes then
        let expanded_address = unat base_address + offset
        in if expanded_address > 0xFFFFFFFF then Inl AddressOverflow
           else case read_u16_le bytes offset of
             Inl e \<Rightarrow> Inl e
           | Inr opcode \<Rightarrow>
               let line = disassembled_line (of_nat expanded_address) opcode previous_has_delay_slot
               in (case disassemble_from bytes base_address (offset + 2)
                     (d_has_delay_slot (dl_instruction line)) of
                     Inl e \<Rightarrow> Inl e
                   | Inr lines \<Rightarrow> Inr (line # lines))
      else Inr [])"
  by pat_completeness auto
termination by (relation "measure (\<lambda>(bytes, _, offset, _). length bytes - offset)") auto

declare disassemble_from.simps [simp del]

definition disassemble :: "u8 list \<Rightarrow> u32 \<Rightarrow> disassembly_error + DisassemblyLine list" where
  "disassemble bytes base_address =
     (if length bytes mod 2 \<noteq> 0 then Inl OddByteCount
      else disassemble_from bytes base_address 0 False)"

datatype SegmentKind = UnknownSegment | CodeSegment | DataSegment | MixedSegment

record ImageSegment =
  seg_name :: string
  seg_virtual_address :: u32
  seg_kind :: SegmentKind
  seg_executable :: bool
  seg_bytes :: "u8 list"

fun disassemble_image :: "ImageSegment list \<Rightarrow> disassembly_error + DisassemblyLine list" where
  "disassemble_image [] = Inr []"
| "disassemble_image (segment # segments) =
     (if seg_kind segment \<noteq> CodeSegment \<or> \<not> seg_executable segment then disassemble_image segments
      else case disassemble (seg_bytes segment) (seg_virtual_address segment) of
        Inl e \<Rightarrow> Inl (SegmentFailed (seg_name segment) e)
      | Inr lines \<Rightarrow>
          (case disassemble_image segments of
             Inl e \<Rightarrow> Inl e
           | Inr rest \<Rightarrow> Inr (lines @ rest)))"

subsection \<open>Lines\<close>

definition opcode_at :: "u8 list \<Rightarrow> nat \<Rightarrow> u16" where
  "opcode_at bytes k = ucast (bytes ! (2 * k)) OR push_bit 8 (ucast (bytes ! (2 * k + 1)))"

definition line_at :: "u8 list \<Rightarrow> u32 \<Rightarrow> nat \<Rightarrow> DisassemblyLine" where
  "line_at bytes base k = disassembled_line (base + of_nat (2 * k)) (opcode_at bytes k)
     (k \<noteq> 0 \<and> d_has_delay_slot (decode (opcode_at bytes (k - 1))))"

lemma disassemble_from_lines:
  assumes "even (length bytes)" and "unat base + length bytes \<le> 0x100000001" and "2 * k \<le> length bytes"
    and "slot = (k \<noteq> 0 \<and> d_has_delay_slot (decode (opcode_at bytes (k - 1))))"
  shows "disassemble_from bytes base (2 * k) slot =
    Inr (map (line_at bytes base) [k..<length bytes div 2])"
  using assms
proof (induction "length bytes div 2 - k" arbitrary: k slot)
  case 0
  then have "2 * k = length bytes" by auto
  then show ?case by (simp add: disassemble_from.simps [of bytes base "length bytes"])
next
  case (Suc n)
  then have k: "k < length bytes div 2" by simp
  then have less: "2 * k + 1 < length bytes" by linarith
  have read: "read_u16_le bytes (2 * k) = Inr (opcode_at bytes k)"
    using less by (simp add: read_u16_le_def opcode_at_def)
  have line: "disassembled_line (of_nat (unat base + 2 * k)) (opcode_at bytes k) slot =
      line_at bytes base k"
    using Suc.prems(4) by (simp add: line_at_def)
  have "disassemble_from bytes base (2 * Suc k) (d_has_delay_slot (decode (opcode_at bytes k))) =
      Inr (map (line_at bytes base) [Suc k..<length bytes div 2])"
    using Suc.hyps(2) Suc.prems less by (intro Suc.hyps(1)) simp_all
  moreover have "d_has_delay_slot (dl_instruction (line_at bytes base k)) =
      d_has_delay_slot (decode (opcode_at bytes k))"
    by (simp add: line_at_def disassembled_line_def)
  ultimately show ?case
    using k less read line Suc.prems(2)
    by (simp add: disassemble_from.simps [of bytes base "2 * k"] Let_def upt_conv_Cons)
qed

lemma disassemble_from_overflow:
  assumes "even (length bytes)" and "unat base + length bytes > 0x100000001"
    and "2 * k \<le> length bytes" and "unat base + 2 * k \<le> 0x100000001"
  shows "disassemble_from bytes base (2 * k) slot = Inl AddressOverflow"
  using assms
proof (induction "length bytes div 2 - k" arbitrary: k slot)
  case 0
  then have "2 * k = length bytes" by auto
  then show ?case using 0 by simp
next
  case (Suc n)
  then have less: "2 * k + 1 < length bytes" by linarith
  show ?case
  proof (cases "unat base + 2 * k > 0xFFFFFFFF")
    case True
    then show ?thesis using less by (simp add: disassemble_from.simps [of bytes base "2 * k"])
  next
    case False
    then have "disassemble_from bytes base (2 * Suc k) slot' = Inl AddressOverflow" for slot'
      using Suc.hyps(2) Suc.prems less by (intro Suc.hyps(1)) simp_all
    then show ?thesis
      using less False
      by (simp add: disassemble_from.simps [of bytes base "2 * k"] Let_def read_u16_le_def)
  qed
qed

lemma disassemble_result:
  "disassemble bytes base =
     (if odd (length bytes) then Inl OddByteCount
      else if unat base + length bytes > 0x100000001 then Inl AddressOverflow
      else Inr (map (line_at bytes base) [0..<length bytes div 2]))"
proof -
  have "unat base < 0x100000000" using unsigned_less [of base, where 'a = nat] by simp
  then show ?thesis
    using disassemble_from_lines [of bytes base 0 False]
      disassemble_from_overflow [of bytes base 0 False]
    by (auto simp: disassemble_def odd_iff_mod_2_eq_one not_less)
qed

subsection \<open>Lowered lines pass the instruction checks\<close>

lemma canonical_memory_consistent:
  fixes operation :: Operation and n m :: reg
  defines "e \<equiv> instruction_memory_effects operation n m"
  shows "(me_access e \<noteq> NoneAccess) = (me_width e \<noteq> NoneWidth)"
    and "(me_access e \<noteq> NoneAccess) = (me_access_count e \<noteq> 0)"
    and "(me_address_update e \<noteq> NoneUpdate) = (me_updated_register_count e \<noteq> 0)"
    and "me_region e = UnknownRegion"
  unfolding e_def instruction_memory_effects_def memory_effects_def read_effects_def
    write_effects_def predecrement_write_def postincrement_read_def no_memory_def
  by simp_all

lemmas effect_tables = instruction_memory_effects_def operation_operand_widths_def
  memory_effects_def read_effects_def write_effects_def predecrement_write_def
  postincrement_read_def no_memory_def no_widths_def operand_widths_def memory_store_def
  memory_load_def register_binary_def register_unary_def

lemma canonical_memory_width:
  "me_width (instruction_memory_effects operation n m) = ow_memory (operation_operand_widths operation)"
proof (cases operation)
  case (O_Arith a)
  then show ?thesis by (cases a) (simp_all add: effect_tables)
next
  case (O_Shift a)
  then show ?thesis by (cases a) (simp_all add: effect_tables)
next
  case (O_MulDiv a)
  then show ?thesis by (cases a) (simp_all add: effect_tables)
next
  case (O_Logic a)
  then show ?thesis by (cases a) (simp_all add: effect_tables)
next
  case (O_Memory a)
  then show ?thesis by (cases a) (simp_all add: effect_tables)
next
  case (O_System a)
  then show ?thesis by (cases a) (simp_all add: effect_tables)
next
  case (O_Fpu a)
  then show ?thesis by (cases a) (simp_all add: effect_tables)
next
  case (O_Flow a)
  then show ?thesis by (cases a) (simp_all add: effect_tables)
qed (simp_all add: effect_tables)


lemma lowered_shape:
  assumes "operands_ok (dl_instruction line)"
  shows "verify_instruction_shape (lower_instruction line) = []"
  using assms canonical_memory_consistent canonical_memory_width
  by (simp add: verify_instruction_shape_def lower_instruction_def empty_instruction_def Let_def
      verify_memory_effects_def operands_ok_def not_le)

lemma special_kinds_special:
  assumes "requires_special_register (lower_operation (d_kind (decode opcode)))"
  shows "d_special_register (decode opcode) \<noteq> SpecialRegister.NoneRegister"
proof -
  have rows: "list_all (\<lambda>m. \<not> requires_special_register (lower_operation (md_kind m)))
      instruction_metadata"
    by code_simp
  consider (row) m where "m \<in> set instruction_metadata" "matches m opcode"
    | (special) e where "e \<in> set special_register_encoding_metadata" "special_matches e opcode"
    | (none) "\<forall>m\<in>set instruction_metadata. \<not> matches m opcode"
        "\<forall>e\<in>set special_register_encoding_metadata. \<not> special_matches e opcode" by blast
  then show ?thesis
  proof cases
    case row
    then show ?thesis
      using row_decodes [OF row] rows assms by (auto simp: decodes_as_def list_all_iff)
  next
    case special
    then show ?thesis using special_row_decodes [OF special] special_row_kind(2) by auto
  next
    case none
    then show ?thesis
      using decode_unknown [OF none] assms
      by (simp add: fresh_instruction_def lower_operation_def requires_special_register_def)
  qed
qed

lemma lower_special_None:
  "lower_special_register r = IrSpecialRegister.NoneRegister \<longleftrightarrow> r = SpecialRegister.NoneRegister"
  by (cases r) simp_all

lemma lower_not_flow [simp]:
  "lower_arith a \<noteq> O_Flow f" "lower_shift b \<noteq> O_Flow f" "lower_muldiv c \<noteq> O_Flow f"
  "lower_logic d \<noteq> O_Flow f" "lower_move e \<noteq> O_Flow f" "lower_system g \<noteq> O_Flow f"
  "lower_fpu h \<noteq> O_Flow f"
  by (cases a; simp; fail)
    (cases b; simp; fail | cases c; simp; fail | cases d; simp; fail | cases e; simp; fail |
      cases g; simp; fail | cases h; simp; fail)+

lemma direct_kinds_target:
  assumes "requires_direct_target (lower_operation kind)"
  shows "kind \<in> {K_Flow Bra, K_Flow Bsr, K_Flow Bt, K_Flow Bf, K_Flow BtS, K_Flow BfS}"
  using assms unfolding requires_direct_target_def lower_operation_def
  by (auto split: InstructionKind.splits elim!: lower_flow.elims)

lemma relative_kinds_indirect: "kind \<in> {K_Flow FlowKind.Braf, K_Flow FlowKind.Bsrf} \<Longrightarrow>
   is_indirect (lower_operation kind)"
  by (auto simp: is_indirect_def lower_operation_def)

lemma lowered_metadata:
  "verify_control_metadata (lower_instruction (disassembled_line address opcode slot)) = []"
proof -
  let ?op = "lower_operation (d_kind (decode opcode))"
  have "calculate_direct_branch_target (decode opcode) address \<noteq> None" if "requires_direct_target ?op"
    using direct_kinds_target [OF that] by (simp add: calculate_direct_branch_target_def Let_def)
  moreover have "lowered_effective_address ?op address d \<noteq> None" if "requires_effective_address ?op" for d
    using that by (auto simp: lowered_effective_address_def requires_effective_address_def)
  moreover have "is_indirect ?op"
    if "d_kind (decode opcode) \<in> {K_Flow FlowKind.Braf, K_Flow FlowKind.Bsrf}"
    using relative_kinds_indirect [OF that] .
  moreover have "lower_special_register (d_special_register (decode opcode)) \<noteq> IrSpecialRegister.NoneRegister"
    if "requires_special_register ?op"
    using special_kinds_special [OF that] by (simp add: lower_special_None)
  ultimately show ?thesis
    by (auto simp: verify_control_metadata_def lower_instruction_def disassembled_line_def
        empty_instruction_def Let_def is_indirect_def is_canonical_def)
qed

end
