(* ===== verification/Block_Semantics.thy ===== *)
theory Block_Semantics
  imports Emitted Optimize
begin

text \<open>
  What the C++ code emitted for a basic block does (\<open>emit_terminal_instruction\<close> and
  \<open>emit_privileged_guard\<close> of \<open>src/codegen/cpp_emitter.cpp\<close> around the simple instructions of
  \<open>Emitted\<close>).  A control-flow instruction computes its target and its link register before the delay
  slot and stores the target to \<open>cpu.pc\<close> after it; the state of a block carries what is computed in
  between.  The instructions outside the integer core (memory, special registers, FPU) are a
  parameter, and so is the code relocation.
\<close>

record 'x block_state =
  bs_cpu :: CpuState
  bs_target :: "u32 option"
  bs_previous_pr :: "u32 option"
  bs_world :: 'x

text \<open>\<open>Inl\<close>: the emitted function has returned; \<open>Inr\<close>: the next instruction follows.\<close>

type_synonym 'x block_result = "'x block_state + 'x block_state"

definition fallthrough_address :: "Instruction \<Rightarrow> u32" where
  "fallthrough_address i =
     ir_source_address i + (if ds_role (ir_delay_slot i) = Owner then 4 else 2)"

definition register_target :: "(u32 \<Rightarrow> u32) \<Rightarrow> Instruction \<Rightarrow> CpuState \<Rightarrow> u32" where
  "register_target relocate i cpu =
     (if ir_branch_register_relative i
      then cpu_r cpu (ir_branch_register i) + relocate (ir_source_address i + 4)
      else cpu_r cpu (ir_branch_register i))"

text \<open>The statements before the delay slot.  Without a direct target the emitter throws.\<close>

definition set_target :: "u32 option \<Rightarrow> 'x block_state \<Rightarrow> 'x block_result" where
  "set_target target s = (if target = None then Inl s else Inr (s\<lparr>bs_target := target\<rparr>))"

definition set_link ::
    "(u32 \<Rightarrow> u32) \<Rightarrow> Instruction \<Rightarrow> u32 option \<Rightarrow> 'x block_state \<Rightarrow> 'x block_result" where
  "set_link relocate i target s =
     (if target = None then Inl s
      else let cpu = bs_cpu s
           in Inr (s\<lparr>bs_target := target, bs_previous_pr := Some (cpu_pr cpu),
                bs_cpu := cpu\<lparr>cpu_pr := relocate (ir_source_address i + 4)\<rparr>\<rparr>))"

definition emitted_branch ::
    "(u32 \<Rightarrow> u32) \<Rightarrow> Instruction \<Rightarrow> 'x block_state \<Rightarrow> 'x block_result" where
  "emitted_branch relocate i s = set_target (map_option relocate (ir_target_address i)) s"

definition emitted_call ::
    "(u32 \<Rightarrow> u32) \<Rightarrow> Instruction \<Rightarrow> 'x block_state \<Rightarrow> 'x block_result" where
  "emitted_call relocate i s = set_link relocate i (map_option relocate (ir_target_address i)) s"

definition emitted_conditional ::
    "(u32 \<Rightarrow> u32) \<Rightarrow> bool \<Rightarrow> Instruction \<Rightarrow> 'x block_state \<Rightarrow> 'x block_result" where
  "emitted_conditional relocate take_branch i s =
     set_target (map_option (\<lambda>target. if take_branch then relocate target
       else relocate (fallthrough_address i)) (ir_target_address i)) s"

definition emitted_jump_register ::
    "(u32 \<Rightarrow> u32) \<Rightarrow> Instruction \<Rightarrow> 'x block_state \<Rightarrow> 'x block_result" where
  "emitted_jump_register relocate i s = set_target (Some (register_target relocate i (bs_cpu s))) s"

definition emitted_call_register ::
    "(u32 \<Rightarrow> u32) \<Rightarrow> Instruction \<Rightarrow> 'x block_state \<Rightarrow> 'x block_result" where
  "emitted_call_register relocate i s =
     set_link relocate i (Some (register_target relocate i (bs_cpu s))) s"

definition emitted_return :: "'x block_state \<Rightarrow> 'x block_result" where
  "emitted_return s = set_target (Some (cpu_pr (bs_cpu s))) s"

fun emitted_flow ::
    "(u32 \<Rightarrow> u32) \<Rightarrow> FlowOp \<Rightarrow> Instruction \<Rightarrow> 'x block_state \<Rightarrow> 'x block_result" where
  "emitted_flow relocate FlowOp.Branch i s = emitted_branch relocate i s"
| "emitted_flow relocate FlowOp.Call i s = emitted_call relocate i s"
| "emitted_flow relocate FlowOp.BranchIfTrue i s =
     emitted_conditional relocate (cpu_t (bs_cpu s)) i s"
| "emitted_flow relocate FlowOp.BranchIfFalse i s =
     emitted_conditional relocate (\<not> cpu_t (bs_cpu s)) i s"
| "emitted_flow relocate FlowOp.JumpRegister i s = emitted_jump_register relocate i s"
| "emitted_flow relocate FlowOp.CallRegister i s = emitted_call_register relocate i s"
| "emitted_flow relocate FlowOp.Return i s = emitted_return s"

definition privileged_guard ::
    "(u32 \<Rightarrow> u32) \<Rightarrow> reset_sink \<Rightarrow> Instruction \<Rightarrow> 'x block_state \<Rightarrow> 'x block_result" where
  "privileged_guard relocate sink i s =
     (if \<not> ir_is_privileged i \<or> privileged_mode (bs_cpu s) then Inr s
      else Inl (s\<lparr>bs_cpu := raise_illegal_instruction sink (relocate (ir_source_address i))
        (if ds_role (ir_delay_slot i) = Slot
         then map_option relocate (ds_counterpart_address (ir_delay_slot i)) else None)
        (bs_cpu s)\<rparr>))"

text \<open>
  A delay slot of a call runs in a lambda: after an exception the link register is restored and the
  function returns, otherwise it continues.
\<close>

definition in_call_slot :: "'x block_state \<Rightarrow> 'x block_result \<Rightarrow> 'x block_result" where
  "in_call_slot before result =
     (case (bs_previous_pr before, result) of
        (Some pr, Inl s) \<Rightarrow>
          if cpu_exception_generation (bs_cpu s) \<noteq> cpu_exception_generation (bs_cpu before)
          then Inl (s\<lparr>bs_cpu := (bs_cpu s)\<lparr>cpu_pr := pr\<rparr>\<rparr>) else Inr s
      | _ \<Rightarrow> result)"

definition emitted_return_from_exception ::
    "(u32 \<Rightarrow> u32) \<Rightarrow> reset_sink \<Rightarrow> Instruction \<Rightarrow> 'x block_state \<Rightarrow> 'x block_result" where
  "emitted_return_from_exception relocate sink i s =
     (case privileged_guard relocate sink i s of
        Inl s \<Rightarrow> Inl s
      | Inr s \<Rightarrow> Inr (s\<lparr>bs_cpu := return_from_exception (bs_cpu s)\<rparr>))"

definition emitted_trap_always ::
    "(u32 \<Rightarrow> u32) \<Rightarrow> reset_sink \<Rightarrow> Instruction \<Rightarrow> 'x block_state \<Rightarrow> 'x block_result" where
  "emitted_trap_always relocate sink i s =
     Inl (s\<lparr>bs_cpu := raise_trapa sink (word_of_int (ir_immediate i))
       (relocate (ir_source_address i)) (bs_cpu s)\<rparr>)"

definition emitted_sleep ::
    "(u32 \<Rightarrow> u32) \<Rightarrow> reset_sink \<Rightarrow> Instruction \<Rightarrow> 'x block_state \<Rightarrow> 'x block_result" where
  "emitted_sleep relocate sink i s =
     (case privileged_guard relocate sink i s of
        Inl s \<Rightarrow> Inl s
      | Inr s \<Rightarrow> Inl (s\<lparr>bs_cpu := (bs_cpu s)\<lparr>cpu_sleeping := True,
          cpu_pc := relocate (ir_source_address i + 2)\<rparr>\<rparr>))"

definition emitted_step ::
    "(u32 \<Rightarrow> u32) \<Rightarrow> reset_sink \<Rightarrow> (Instruction \<Rightarrow> 'x block_state \<Rightarrow> 'x block_result) \<Rightarrow>
     Instruction \<Rightarrow> 'x block_state \<Rightarrow> 'x block_result" where
  "emitted_step relocate sink other i s =
     (case exec_simple i (bs_cpu s) of
        Some cpu \<Rightarrow> Inr (s\<lparr>bs_cpu := cpu\<rparr>)
      | None \<Rightarrow>
     (case ir_operation i of
        O_Flow operation \<Rightarrow> emitted_flow relocate operation i s
      | O_System SystemOp.ReturnFromException \<Rightarrow> emitted_return_from_exception relocate sink i s
      | O_System SystemOp.TrapAlways \<Rightarrow> emitted_trap_always relocate sink i s
      | O_System SystemOp.Sleep \<Rightarrow> emitted_sleep relocate sink i s
      | _ \<Rightarrow> in_call_slot s (other i s)))"

primrec run ::
    "(Instruction \<Rightarrow> 's \<Rightarrow> 's + 's) \<Rightarrow> Instruction list \<Rightarrow> 's \<Rightarrow> 's + 's" where
  "run step [] s = Inr s"
| "run step (i # is) s = (case step i s of Inl s' \<Rightarrow> Inl s' | Inr s' \<Rightarrow> run step is s')"

text \<open>The end of the function: the pending target becomes the program counter.\<close>

definition complete_block :: "'x block_result \<Rightarrow> 'x block_state" where
  "complete_block result =
     (case result of
        Inl s \<Rightarrow> s
      | Inr s \<Rightarrow> (case bs_target s of
          None \<Rightarrow> s | Some target \<Rightarrow> s\<lparr>bs_cpu := (bs_cpu s)\<lparr>cpu_pc := target\<rparr>\<rparr>))"

definition run_block ::
    "(u32 \<Rightarrow> u32) \<Rightarrow> reset_sink \<Rightarrow> (Instruction \<Rightarrow> 'x block_state \<Rightarrow> 'x block_result) \<Rightarrow>
     BasicBlock \<Rightarrow> 'x block_state \<Rightarrow> 'x block_state" where
  "run_block relocate sink other block s =
     complete_block (run (emitted_step relocate sink other) (bb_instructions block) s)"

subsection \<open>The contract of the optimizer\<close>

text \<open>
  What the passes rely on: the simple instructions act on the CPU alone, and an instruction the
  passes step over keeps the general registers unless it ends the block.
\<close>

definition ends_block :: "Operation \<Rightarrow> bool" where
  "ends_block operation \<longleftrightarrow> operation \<in>
     {O_System SystemOp.ReturnFromException, O_System SystemOp.TrapAlways, O_System SystemOp.Sleep}"

locale block_machine =
  fixes step :: "Instruction \<Rightarrow> 's \<Rightarrow> 's + 's"
    and cpu_of :: "'s \<Rightarrow> CpuState"
    and with_cpu :: "CpuState \<Rightarrow> 's \<Rightarrow> 's"
  assumes step_simple: "exec_simple i (cpu_of s) = Some c \<Longrightarrow> step i s = Inr (with_cpu c s)"
    and step_transparent: "transparent_operation (ir_operation i) \<Longrightarrow>
      \<not> ends_block (ir_operation i) \<Longrightarrow> step i s = Inr s' \<Longrightarrow> cpu_r (cpu_of s') = cpu_r (cpu_of s)"
    and cpu_with [simp]: "cpu_of (with_cpu c s) = c"
    and with_with [simp]: "with_cpu c (with_cpu c' s) = with_cpu c s"
    and with_cpu_of [simp]: "with_cpu (cpu_of s) s = s"

lemma emitted_flow_registers:
  "emitted_flow relocate operation i s = Inr s' \<Longrightarrow> cpu_r (bs_cpu s') = cpu_r (bs_cpu s)"
  by (cases operation)
    (auto simp: emitted_branch_def emitted_call_def emitted_conditional_def emitted_return_def
      emitted_jump_register_def emitted_call_register_def set_target_def set_link_def Let_def
      split: if_splits)

lemma transparent_logic_registers:
  assumes "transparent_operation (ir_operation i)" and "exec_simple i c = Some c'"
  shows "cpu_r c' = cpu_r c"
  using assms by (auto simp: transparent_operation_def exec_simple_def exec_operation_def)

interpretation emitted: block_machine "emitted_step relocate sink other" bs_cpu
  "\<lambda>c s. s\<lparr>bs_cpu := c\<rparr>" for relocate sink other
proof
  fix i s s'
  assume t: "transparent_operation (ir_operation i)" and e: "\<not> ends_block (ir_operation i)"
    and s: "emitted_step relocate sink other i s = Inr s'"
  show "cpu_r (bs_cpu s') = cpu_r (bs_cpu s)"
  proof (cases "exec_simple i (bs_cpu s)")
    case None
    then obtain operation where "ir_operation i = O_Flow operation"
      using t e by (auto simp: transparent_operation_def ends_block_def exec_simple_def
          exec_operation_def)
    then show ?thesis using s None emitted_flow_registers by (auto simp: emitted_step_def)
  next
    case (Some c)
    then show ?thesis using s transparent_logic_registers [OF t Some] by (auto simp: emitted_step_def)
  qed
qed (auto simp: emitted_step_def)

end
