(* ===== verification/Optimize_Correct.thy ===== *)
theory Optimize_Correct
  imports Block_Semantics
begin

text \<open>
  The block passes of the optimizer keep what a block does, for every machine that satisfies the
  contract \<open>block_machine\<close>; the dead-write pass computes its reference definition, the rescan of the
  rest of the block; the worklist of the control-flow pass computes reachability.
\<close>

subsection \<open>Register writes\<close>

definition written_value :: "Instruction \<Rightarrow> (reg \<Rightarrow> u32) \<Rightarrow> u32" where
  "written_value i r =
     (let a = r (ir_destination_register i); b = r (ir_source_register i);
          imm = to_u32 (ir_immediate i)
      in case ir_operation i of
           O_Arith ArithOp.AddImmediate \<Rightarrow> a + imm
         | O_Arith ArithOp.MovRegister \<Rightarrow> b
         | O_Arith ArithOp.AddRegister \<Rightarrow> a + b
         | O_Arith ArithOp.SubRegister \<Rightarrow> a - b
         | O_Arith ArithOp.NegateRegister \<Rightarrow> 0 - b
         | O_Arith ArithOp.NotRegister \<Rightarrow> NOT b
         | O_Logic LogicOp.AndRegister \<Rightarrow> a AND b
         | O_Logic LogicOp.OrRegister \<Rightarrow> a OR b
         | O_Logic LogicOp.XorRegister \<Rightarrow> a XOR b
         | _ \<Rightarrow> imm)"

lemma exec_writes:
  "writes_destination (ir_operation i) \<Longrightarrow>
   exec_simple i c = Some (set_r (ir_destination_register i) (written_value i (cpu_r c)) c)"
  by (auto simp: writes_destination_def exec_simple_def exec_operation_def written_value_def)

lemma written_value_cong:
  assumes "writes_destination (ir_operation i)" and "\<And>r. reads_register i r \<Longrightarrow> f r = g r"
  shows "written_value i f = written_value i g"
  using assms by (auto simp: writes_destination_def written_value_def reads_register_def)

lemma set_r_registers [simp]: "cpu_r (set_r n v c) = (cpu_r c)(n := v)"
  by (simp add: set_r_def)

subsection \<open>Constants\<close>

definition constants_ok :: "Constants \<Rightarrow> (reg \<Rightarrow> u32) \<Rightarrow> bool" where
  "constants_ok constants r \<longleftrightarrow> (\<forall>i v. constants i = Some v \<longrightarrow> r i = v)"

lemma constants_ok_write:
  "constants_ok constants r \<Longrightarrow> (\<And>w. v = Some w \<Longrightarrow> x = w) \<Longrightarrow> constants_ok (constants(n := v)) (r(n := x))"
  by (auto simp: constants_ok_def)

lemma foldable_writes: "foldable_operation operation \<Longrightarrow> writes_destination operation"
  by (auto simp: foldable_operation_def writes_destination_def)

lemma folded_value_sound:
  assumes "foldable_operation (ir_operation i)" and "constants_ok constants r"
    and "folded_value constants i = Some v"
  shows "written_value i r = v"
  using assms by (auto simp: foldable_operation_def folded_value_def binary_constant_def
      written_value_def constants_ok_def split: option.splits prod.splits)

lemma constant_instruction:
  "ir_operation (replace_with_constant n v i) = O_Arith ArithOp.Constant32"
  "ir_destination_register (replace_with_constant n v i) = n"
  "written_value (replace_with_constant n v i) r = v"
  by (simp_all add: replace_with_constant_def canonicalize_def written_value_def)

text \<open>Behind an instruction that ends the block, nothing but \<open>nop\<close> follows.\<close>

fun exits_last :: "Instruction list \<Rightarrow> bool" where
  "exits_last [] = True"
| "exits_last (i # is) \<longleftrightarrow>
     (ends_block (ir_operation i) \<longrightarrow> list_all (\<lambda>j. ir_operation j = Operation.Nop) is) \<and>
     exits_last is"

lemma fold_nops:
  "list_all (\<lambda>j. ir_operation j = Operation.Nop) is \<Longrightarrow> fst (fold_instructions constants is) = is"
  by (induction "is" arbitrary: constants)
    (auto simp: fold_instruction_def foldable_operation_def transparent_operation_def
      split: prod.splits, metis fst_conv)

lemma fold_instructions_Cons:
  "fst (fold_instructions constants (i # is)) =
     fst (fold_instruction constants i) #
     fst (fold_instructions (fst (snd (fold_instruction constants i))) is)"
  by (simp split: prod.splits)

context block_machine
begin

lemma step_writes:
  assumes "writes_destination (ir_operation i)"
  shows "step i s = Inr (with_cpu (set_r (ir_destination_register i)
    (written_value i (cpu_r (cpu_of s))) (cpu_of s)) s)"
  by (rule step_simple) (rule exec_writes [OF assms])

lemma fold_step:
  assumes ok: "constants_ok constants (cpu_r (cpu_of s))" and "\<not> ends_block (ir_operation i)"
  shows "step (fst (fold_instruction constants i)) s = step i s \<and>
    (\<forall>s'. step i s = Inr s' \<longrightarrow>
      constants_ok (fst (snd (fold_instruction constants i))) (cpu_r (cpu_of s')))"
proof -
  let ?op = "ir_operation i" and ?n = "ir_destination_register i"
  consider (literal) "?op = O_Arith ArithOp.MovImmediate \<or> ?op = O_Arith ArithOp.Constant32"
    | (foldable) "foldable_operation ?op" "?op \<noteq> O_Arith ArithOp.MovImmediate"
        "?op \<noteq> O_Arith ArithOp.Constant32"
    | (rest) "\<not> foldable_operation ?op" "?op \<noteq> O_Arith ArithOp.MovImmediate"
        "?op \<noteq> O_Arith ArithOp.Constant32" by blast
  then show ?thesis
  proof cases
    case literal
    then have "writes_destination ?op" and "written_value i r = to_u32 (ir_immediate i)" for r
      by (auto simp: writes_destination_def written_value_def)
    then show ?thesis
      using literal ok by (auto simp: fold_instruction_def Let_def step_writes intro: constants_ok_write)
  next
    case foldable
    note w = step_writes [OF foldable_writes [OF foldable(1)], of s]
    show ?thesis
    proof (cases "folded_value constants i")
      case None
      then show ?thesis
        using foldable ok w by (auto simp: fold_instruction_def Let_def intro: constants_ok_write)
    next
      case (Some v)
      have v: "written_value i (cpu_r (cpu_of s)) = v"
        by (rule folded_value_sound [OF foldable(1) ok Some])
      have "step (replace_with_constant ?n v i) s = step i s"
        using step_writes [of "replace_with_constant ?n v i" s] w v
        by (simp add: constant_instruction writes_destination_def)
      then show ?thesis
        using foldable ok w v Some by (auto simp: fold_instruction_def Let_def intro: constants_ok_write)
    qed
  next
    case rest
    then show ?thesis
      using ok step_transparent [of i s] assms(2)
      by (auto simp: fold_instruction_def Let_def constants_ok_def)
  qed
qed

lemma fold_run:
  assumes "constants_ok constants (cpu_r (cpu_of s))" and "exits_last is"
  shows "run step (fst (fold_instructions constants is)) s = run step is s"
  using assms
proof (induction "is" arbitrary: constants s)
  case (Cons i "is")
  show ?case
  proof (cases "ends_block (ir_operation i)")
    case True
    then have "fst (fold_instruction constants i) = i"
      by (auto simp: ends_block_def fold_instruction_def foldable_operation_def
          transparent_operation_def)
    then show ?thesis
      using True Cons.prems(2) by (simp add: fold_instructions_Cons fold_nops split: sum.splits
          del: fold_instructions.simps)
  next
    case False
    then show ?thesis
      using fold_step [OF Cons.prems(1) False] Cons.IH Cons.prems(2)
      by (auto simp: fold_instructions_Cons split: sum.splits simp del: fold_instructions.simps)
  qed
qed simp

end

subsection \<open>Copies\<close>

text \<open>Aliases never chain: the register an alias names is not itself an alias.\<close>

definition aliases_flat :: "Aliases \<Rightarrow> bool" where
  "aliases_flat aliases \<longleftrightarrow> (\<forall>i j. aliases i = Some j \<longrightarrow> i \<noteq> j \<and> aliases j = None)"

definition aliases_ok :: "Aliases \<Rightarrow> (reg \<Rightarrow> u32) \<Rightarrow> bool" where
  "aliases_ok aliases r \<longleftrightarrow> aliases_flat aliases \<and> (\<forall>i j. aliases i = Some j \<longrightarrow> r i = r j)"

lemma resolve_flat:
  assumes "aliases_flat aliases"
  shows "resolve_alias aliases i = (case aliases i of None \<Rightarrow> i | Some j \<Rightarrow> j)"
proof -
  have "resolve_steps (Suc (Suc n)) aliases i = (case aliases i of None \<Rightarrow> i | Some j \<Rightarrow> j)" for n
    using assms by (auto simp: aliases_flat_def split: option.splits)
  from this [of 14] show ?thesis by (simp add: resolve_alias_def)
qed

lemma resolve_value: "aliases_ok aliases r \<Longrightarrow> r (resolve_alias aliases i) = r i"
  by (auto simp: aliases_ok_def resolve_flat split: option.splits)

lemma resolve_root: "aliases_flat aliases \<Longrightarrow> aliases (resolve_alias aliases i) = None"
  by (auto simp: resolve_flat aliases_flat_def split: option.splits)

lemma propagatable_writes_or_compares:
  "has_propagatable_source operation \<Longrightarrow> exec_operation operation n m imm c \<noteq> None"
  by (auto simp: has_propagatable_source_def exec_operation_def)

lemma exec_source:
  assumes "has_propagatable_source operation" and "cpu_r c m' = cpu_r c m"
  shows "exec_operation operation n m' imm c = exec_operation operation n m imm c"
  using assms by (auto simp: has_propagatable_source_def exec_operation_def)

lemma propagate_source_exec:
  assumes "aliases_ok aliases (cpu_r c)"
  shows "exec_simple (fst (propagate_source aliases i)) c = exec_simple i c"
proof -
  let ?m = "resolve_alias aliases (ir_source_register i)"
  have "cpu_r c ?m = cpu_r c (ir_source_register i)" by (rule resolve_value [OF assms])
  then show ?thesis
    using exec_source [of "ir_operation i" c ?m "ir_source_register i"]
    by (simp add: propagate_source_def exec_simple_def canonicalize_def Let_def)
qed

lemma propagate_source_fields [simp]:
  "ir_operation (fst (propagate_source aliases i)) = ir_operation i"
  "ir_destination_register (fst (propagate_source aliases i)) = ir_destination_register i"
  by (simp_all add: propagate_source_def canonicalize_def Let_def)

lemma propagated_root:
  assumes "aliases_flat aliases" and "has_propagatable_source (ir_operation i)"
  shows "aliases (ir_source_register (fst (propagate_source aliases i))) = None"
  using assms resolve_root [OF assms(1), of "ir_source_register i"]
  by (auto simp: propagate_source_def canonicalize_def Let_def)

lemma invalidated:
  assumes "aliases_flat aliases" and "invalidate_aliases n aliases i = Some j"
  shows "aliases i = Some j \<and> i \<noteq> n \<and> j \<noteq> n"
  using assms by (auto simp: invalidate_aliases_def resolve_flat split: if_splits)

lemma invalidate_None: "aliases i = None \<Longrightarrow> invalidate_aliases n aliases i = None"
  by (simp add: invalidate_aliases_def)

lemma invalidate_flat:
  assumes "aliases_flat aliases"
  shows "aliases_flat (invalidate_aliases n aliases)"
  unfolding aliases_flat_def
proof (intro allI impI)
  fix i j
  assume "invalidate_aliases n aliases i = Some j"
  then have "aliases i = Some j" using invalidated [OF assms] by blast
  then show "i \<noteq> j \<and> invalidate_aliases n aliases j = None"
    using assms invalidate_None unfolding aliases_flat_def by blast
qed

lemma aliases_ok_invalidate:
  assumes "aliases_ok aliases r"
  shows "aliases_ok (invalidate_aliases n aliases) (r(n := v))"
proof -
  have flat: "aliases_flat aliases" using assms by (simp add: aliases_ok_def)
  have "(r(n := v)) i = (r(n := v)) j" if "invalidate_aliases n aliases i = Some j" for i j
    using invalidated [OF flat that] assms by (simp add: aliases_ok_def)
  then show ?thesis using invalidate_flat [OF flat] by (simp add: aliases_ok_def)
qed

lemma aliases_ok_move:
  assumes "aliases_ok aliases r" and "aliases m = None" and "n \<noteq> m"
  shows "aliases_ok ((invalidate_aliases n aliases)(n := Some m)) (r(n := r m))"
proof -
  have flat: "aliases_flat aliases" using assms(1) by (simp add: aliases_ok_def)
  have "aliases_ok (invalidate_aliases n aliases) (r(n := r m))"
    by (rule aliases_ok_invalidate [OF assms(1)])
  moreover have "invalidate_aliases n aliases m = None" using assms(2) by (rule invalidate_None)
  moreover have "j \<noteq> n" if "invalidate_aliases n aliases i = Some j" for i j
    using invalidated [OF flat that] by simp
  ultimately show ?thesis
    using assms(3) by (auto simp: aliases_ok_def aliases_flat_def split: if_splits)
qed

lemma aliases_ok_after_write:
  assumes ok: "aliases_ok aliases r" and w: "writes_destination (ir_operation i)"
    and root: "has_propagatable_source (ir_operation i) \<Longrightarrow> aliases (ir_source_register i) = None"
  shows "aliases_ok (aliases_after aliases i) (r(ir_destination_register i := written_value i r))"
proof (cases "ir_operation i = O_Arith ArithOp.MovRegister \<and>
    ir_destination_register i \<noteq> ir_source_register i")
  case True
  then have "written_value i r = r (ir_source_register i)"
    and "aliases (ir_source_register i) = None"
    using root by (auto simp: written_value_def has_propagatable_source_def)
  then show ?thesis
    using True w aliases_ok_move [OF ok, of "ir_source_register i" "ir_destination_register i"]
    by (simp add: aliases_after_def Let_def)
next
  case False
  then have "aliases_after aliases i = invalidate_aliases (ir_destination_register i) aliases"
    using w by (auto simp: aliases_after_def Let_def)
  then show ?thesis using aliases_ok_invalidate [OF ok] by simp
qed

lemma aliases_ok_empty [simp]: "aliases_ok (\<lambda>_. None) r"
  by (simp add: aliases_ok_def aliases_flat_def)

lemma propagate_instructions_Cons:
  "fst (propagate_instructions aliases (i # is)) =
     (let i' = fst (propagate_source aliases i)
      in i' # fst (propagate_instructions (aliases_after aliases i') is))"
  by (simp add: Let_def split: prod.splits)

lemma propagate_nops:
  "list_all (\<lambda>j. ir_operation j = Operation.Nop) is \<Longrightarrow>
   fst (propagate_instructions aliases is) = is"
proof (induction "is" arbitrary: aliases)
  case (Cons i "is")
  then show ?case
    by (simp add: propagate_instructions_Cons propagate_source_def has_propagatable_source_def
        del: propagate_instructions.simps)
qed simp

context block_machine
begin

lemma step_same_exec:
  assumes "exec_simple i (cpu_of s) = exec_simple j (cpu_of s)"
    and "exec_simple j (cpu_of s) \<noteq> None"
  shows "step i s = step j s"
  using assms step_simple [of i s] step_simple [of j s] by force

lemma propagate_step:
  assumes ok: "aliases_ok aliases (cpu_r (cpu_of s))" and ends: "\<not> ends_block (ir_operation i)"
  defines "i' \<equiv> fst (propagate_source aliases i)"
  shows "step i' s = step i s \<and>
    (\<forall>s'. step i s = Inr s' \<longrightarrow> aliases_ok (aliases_after aliases i') (cpu_r (cpu_of s')))"
proof -
  have flat: "aliases_flat aliases" using ok by (simp add: aliases_ok_def)
  have same: "step i' s = step i s"
  proof (cases "has_propagatable_source (ir_operation i)")
    case True
    then show ?thesis
      using propagate_source_exec [OF ok, of i] propagatable_writes_or_compares [OF True]
      unfolding i'_def by (intro step_same_exec) (simp_all add: exec_simple_def)
  qed (simp add: i'_def propagate_source_def)
  moreover have "aliases_ok (aliases_after aliases i') (cpu_r (cpu_of s'))"
    if "step i s = Inr s'" for s'
  proof (cases "writes_destination (ir_operation i')")
    case True
    then have "cpu_r (cpu_of s') = (cpu_r (cpu_of s))
        (ir_destination_register i' := written_value i' (cpu_r (cpu_of s)))"
      using that same step_writes [OF True, of s] by auto
    then show ?thesis
      using aliases_ok_after_write [OF ok True] propagated_root [OF flat, of i]
      by (simp add: i'_def)
  next
    case False
    then show ?thesis
      using that ok ends step_transparent [of i s]
      by (auto simp: aliases_after_def Let_def i'_def)
  qed
  ultimately show ?thesis by blast
qed

lemma propagate_run:
  assumes "aliases_ok aliases (cpu_r (cpu_of s))" and "exits_last is"
  shows "run step (fst (propagate_instructions aliases is)) s = run step is s"
  using assms
proof (induction "is" arbitrary: aliases s)
  case (Cons i "is")
  show ?case
  proof (cases "ends_block (ir_operation i)")
    case True
    then have "fst (propagate_source aliases i) = i"
      by (auto simp: ends_block_def propagate_source_def has_propagatable_source_def)
    then show ?thesis
      using True Cons.prems(2) by (simp add: propagate_instructions_Cons propagate_nops Let_def
          split: sum.splits del: propagate_instructions.simps)
  next
    case False
    then show ?thesis
      using propagate_step [OF Cons.prems(1) False] Cons.IH Cons.prems(2)
      by (auto simp: propagate_instructions_Cons Let_def split: sum.splits
          simp del: propagate_instructions.simps)
  qed
qed simp

end

subsection \<open>Dead writes\<close>

text \<open>
  The rescan the single pass replaces: a register is dead before \<open>is\<close> when a pure write to it is
  reached before it is read and before a barrier.
\<close>

fun dead_at :: "reg \<Rightarrow> Instruction list \<Rightarrow> bool" where
  "dead_at r [] = False"
| "dead_at r (i # is) =
     (if is_pure_register_write i then
        (if reads_register i r then False
         else if ir_destination_register i = r then True else dead_at r is)
      else if ir_operation i = Operation.Nop then dead_at r is
      else False)"

definition dead_write :: "Instruction \<Rightarrow> Instruction list \<Rightarrow> bool" where
  "dead_write i is \<longleftrightarrow> is_pure_register_write i \<and> dead_at (ir_destination_register i) is"

fun eliminate_reference :: "Instruction list \<Rightarrow> Instruction list" where
  "eliminate_reference [] = []"
| "eliminate_reference (i # is) =
     (if dead_write i is then replace_with_nop i else i) # eliminate_reference is"

definition dead_positions :: "nat \<Rightarrow> Instruction list \<Rightarrow> nat set" where
  "dead_positions k is = {k + n | n. n < length is \<and> dead_write (is ! n) (drop (Suc n) is)}"

lemma dead_positions_Nil [simp]: "dead_positions k [] = {}"
  by (simp add: dead_positions_def)

lemma dead_positions_Cons:
  "dead_positions k (i # is) =
     (if dead_write i is then {k} else {}) \<union> dead_positions (Suc k) is"
proof -
  have "{k + n | n. n < Suc (length is) \<and> dead_write ((i # is) ! n) (drop n is)} =
      {k + n | n. n = 0 \<and> dead_write i is} \<union>
      {k + Suc n | n. n < length is \<and> dead_write (is ! n) (drop (Suc n) is)}"
    by (auto simp: less_Suc_eq_0_disj)
  then show ?thesis by (auto simp: dead_positions_def)
qed

lemma dead_writes_set:
  "set (dead_writes k is pending) =
     {j. \<exists>r. j \<in> set (pending r) \<and> dead_at r is} \<union> dead_positions k is"
proof (induction "is" arbitrary: k pending)
  case (Cons i "is")
  consider (pure) "is_pure_register_write i"
    | (nop) "\<not> is_pure_register_write i" "ir_operation i = Operation.Nop"
    | (barrier) "\<not> is_pure_register_write i" "ir_operation i \<noteq> Operation.Nop" by blast
  then show ?case
  proof cases
    case pure
    then show ?thesis
      by (auto simp: Cons.IH dead_positions_Cons dead_write_def Let_def split: if_splits)
  qed (simp_all add: Cons.IH dead_positions_Cons dead_write_def)
qed simp

lemma replace_with_nop_idem: "replace_with_nop (replace_with_nop i) = replace_with_nop i"
  by (simp add: replace_with_nop_def canonicalize_def)

lemma fold_replace:
  "fold (\<lambda>index is. is[index := replace_with_nop (is ! index)]) ks is =
   map (\<lambda>j. if j \<in> set ks then replace_with_nop (is ! j) else is ! j) [0..<length is]"
proof (induction ks arbitrary: "is")
  case (Cons k ks)
  show ?case
  proof (rule nth_equalityI)
    fix j
    assume "j < length (fold (\<lambda>index is. is[index := replace_with_nop (is ! index)]) (k # ks) is)"
    then have "j < length is" by (simp add: Cons.IH)
    then show "fold (\<lambda>index is. is[index := replace_with_nop (is ! index)]) (k # ks) is ! j =
        map (\<lambda>j. if j \<in> set (k # ks) then replace_with_nop (is ! j) else is ! j)
          [0..<length is] ! j"
      by (cases "j = k") (auto simp: Cons.IH replace_with_nop_idem)
  qed (simp add: Cons.IH)
qed (simp add: map_nth)

lemma eliminate_reference_nth:
  "n < length is \<Longrightarrow> eliminate_reference is ! n =
     (if dead_write (is ! n) (drop (Suc n) is) then replace_with_nop (is ! n) else is ! n)"
  by (induction "is" arbitrary: n) (auto simp: nth_Cons split: nat.splits)

lemma length_eliminate_reference [simp]: "length (eliminate_reference is) = length is"
  by (induction "is") auto

lemma eliminate_dead_block_code_reference:
  "bb_instructions (fst (eliminate_dead_block_code block)) =
     (case bb_instructions block of [] \<Rightarrow> [] | i # is \<Rightarrow> i # eliminate_reference is)"
proof (cases "bb_instructions block")
  case (Cons i "is")
  have "map (\<lambda>j. if j \<in> dead_positions 1 is then replace_with_nop ((i # is) ! j) else (i # is) ! j)
      [0..<Suc (length is)] = i # eliminate_reference is"
  proof (rule nth_equalityI)
    fix j
    assume "j < length (map (\<lambda>j. if j \<in> dead_positions 1 is then replace_with_nop ((i # is) ! j)
      else (i # is) ! j) [0..<Suc (length is)])"
    then have j: "j < Suc (length is)" by simp
    then show "map (\<lambda>j. if j \<in> dead_positions 1 is then replace_with_nop ((i # is) ! j)
        else (i # is) ! j) [0..<Suc (length is)] ! j = (i # eliminate_reference is) ! j"
      by (cases j) (auto simp: dead_positions_def eliminate_reference_nth simp del: upt_Suc)
  qed simp
  then show ?thesis
    using Cons by (simp add: eliminate_dead_block_code_def Let_def fold_replace dead_writes_set
        del: upt_Suc)
qed (simp add: eliminate_dead_block_code_def)

lemma pure_writes: "is_pure_register_write i \<Longrightarrow> writes_destination (ir_operation i)"
  by (simp add: is_pure_register_write_def split: if_splits)

text \<open>Two CPU states that differ at most in the registers \<open>dead\<close>.\<close>

definition agree_off :: "(reg \<Rightarrow> bool) \<Rightarrow> CpuState \<Rightarrow> CpuState \<Rightarrow> bool" where
  "agree_off dead c c' \<longleftrightarrow>
     (\<exists>f. c' = c\<lparr>cpu_r := f\<rparr> \<and> (\<forall>r. \<not> dead r \<longrightarrow> f r = cpu_r c r))"

lemma agree_off_nothing: "agree_off (\<lambda>_. False) c c' \<Longrightarrow> c' = c"
  by (auto simp: agree_off_def fun_eq_iff [symmetric])

lemma agree_off_refl [simp]: "agree_off dead c c"
  unfolding agree_off_def by (intro exI [of _ "cpu_r c"]) simp

lemma agree_off_value: "agree_off dead c c' \<Longrightarrow> \<not> dead r \<Longrightarrow> cpu_r c' r = cpu_r c r"
  by (auto simp: agree_off_def)

lemma agree_off_write:
  assumes "agree_off dead c c'" and "\<And>r. \<not> dead' r \<Longrightarrow> r \<noteq> n \<Longrightarrow> \<not> dead r"
  shows "agree_off dead' (set_r n v c) (set_r n v c')"
proof -
  obtain f where "c' = c\<lparr>cpu_r := f\<rparr>" and "\<forall>r. \<not> dead r \<longrightarrow> f r = cpu_r c r"
    using assms(1) by (auto simp: agree_off_def)
  then show ?thesis
    unfolding agree_off_def
    by (intro exI [of _ "f(n := v)"]) (use assms(2) in \<open>auto simp: set_r_def\<close>)
qed

lemma agree_off_skip:
  assumes "agree_off dead c c'" and "\<And>r. \<not> dead' r \<Longrightarrow> r \<noteq> n \<and> \<not> dead r"
  shows "agree_off dead' (set_r n v c) c'"
proof -
  obtain f where "c' = c\<lparr>cpu_r := f\<rparr>" and "\<forall>r. \<not> dead r \<longrightarrow> f r = cpu_r c r"
    using assms(1) by (auto simp: agree_off_def)
  then show ?thesis
    unfolding agree_off_def by (intro exI [of _ f]) (use assms(2) in \<open>auto simp: set_r_def\<close>)
qed

lemma nop_exec: "ir_operation i = Operation.Nop \<Longrightarrow> exec_simple i c = Some c"
  by (simp add: exec_simple_def exec_operation_def)

lemma replace_with_nop_operation [simp]: "ir_operation (replace_with_nop i) = Operation.Nop"
  by (simp add: replace_with_nop_def canonicalize_def)

context block_machine
begin

lemma step_nop: "ir_operation i = Operation.Nop \<Longrightarrow> step i s = Inr s"
  using step_simple [OF nop_exec, of i s] by simp

lemma eliminate_run:
  assumes "agree_off (\<lambda>r. dead_at r is) (cpu_of s) c"
  shows "run step (eliminate_reference is) (with_cpu c s) = run step is s"
  using assms
proof (induction "is" arbitrary: s c)
  case Nil
  then have "c = cpu_of s" using agree_off_nothing by simp
  then show ?case by simp
next
  case (Cons i "is")
  let ?n = "ir_destination_register i" and ?v = "\<lambda>c. written_value i (cpu_r c)"
  consider (pure) "is_pure_register_write i"
    | (nop) "\<not> is_pure_register_write i" "ir_operation i = Operation.Nop"
    | (barrier) "\<not> is_pure_register_write i" "ir_operation i \<noteq> Operation.Nop" by blast
  then show ?case
  proof cases
    case pure
    note w = step_writes [OF pure_writes [OF pure]]
    have "?v c = ?v (cpu_of s)"
      using pure
      by (intro written_value_cong [OF pure_writes [OF pure]] agree_off_value [OF Cons.prems]) simp
    moreover have "agree_off (\<lambda>r. dead_at r is) (set_r ?n (?v (cpu_of s)) (cpu_of s)) c"
      if "dead_at ?n is"
      by (rule agree_off_skip [OF Cons.prems]) (use pure that in auto)
    moreover have "agree_off (\<lambda>r. dead_at r is) (set_r ?n v (cpu_of s)) (set_r ?n v c)" for v
      by (rule agree_off_write [OF Cons.prems]) (use pure in auto)
    ultimately show ?thesis
      using pure w [of s] w [of "with_cpu c s"] step_nop [of "replace_with_nop i" "with_cpu c s"]
        Cons.IH [of "with_cpu (set_r ?n (?v (cpu_of s)) (cpu_of s)) s"]
      by (auto simp: dead_write_def)
  next
    case nop
    then show ?thesis using Cons step_nop by (simp add: dead_write_def)
  next
    case barrier
    then have "c = cpu_of s" using Cons.prems agree_off_nothing by simp
    then show ?thesis
      using barrier Cons.IH by (auto simp: dead_write_def split: sum.splits)
        (metis with_cpu_of agree_off_refl Cons.IH)+
  qed
qed

end

end
