(* ===== verification/Optimize_Valid.thy ===== *)
theory Optimize_Valid
  imports Verifier_Correct Optimize_Correct "HOL-Library.Multiset"
begin

text \<open>
  The passes of the optimizer keep the well-formedness the verifier decides, so the validation after
  a pass never fails; the control-flow pass keeps exactly the blocks reachable from the entry and the
  external dispatch entries.
\<close>

subsection \<open>Constant folding\<close>

lemma foldable_register: "foldable_operation operation \<Longrightarrow> register_operation operation"
  by (auto simp: foldable_operation_def register_operation_def writes_destination_def)

lemma fold_instruction_rewrite:
  assumes "instruction_ok i"
  shows "register_rewrite i (fst (fold_instruction constants i))"
proof (cases "foldable_operation (ir_operation i) \<and> folded_value constants i \<noteq> None \<and>
    ir_operation i \<noteq> O_Arith ArithOp.MovImmediate \<and> ir_operation i \<noteq> O_Arith ArithOp.Constant32")
  case True
  then obtain v where v: "folded_value constants i = Some v" by blast
  note r = foldable_register [OF conjunct1 [OF True]]
  have "fst (fold_instruction constants i) =
      replace_with_constant (ir_destination_register i) v i"
    using True v by (simp add: fold_instruction_def Let_def)
  moreover have "register_rewrite i (replace_with_constant (ir_destination_register i) v i)"
    unfolding replace_with_constant_def
    by (rule canonical_rewrite [OF r])
      (use ok_register_operation [OF assms r] in
        \<open>simp_all add: register_operation_def writes_destination_def synthetic_ok_def\<close>)
  ultimately show ?thesis by simp
next
  case False
  then have "fst (fold_instruction constants i) = i"
    by (auto simp: fold_instruction_def Let_def split: option.splits)
  then show ?thesis by simp
qed

lemma fold_instructions_rewrite:
  "list_all instruction_ok is \<Longrightarrow> list_all2 register_rewrite is (fst (fold_instructions constants is))"
proof (induction "is" arbitrary: constants)
  case (Cons i "is")
  then show ?case
    using fold_instruction_rewrite [of i constants]
    by (simp add: fold_instructions_Cons del: fold_instructions.simps)
qed simp

lemma fst_fold_block:
  "fst (fold_block b) =
     b\<lparr>bb_instructions := fst (fold_instructions (\<lambda>_. None) (bb_instructions b))\<rparr>"
  by (simp add: fold_block_def split: prod.split)

lemma fold_block_rewrites: "block_wf b \<Longrightarrow> block_rewrites b (fst (fold_block b))"
  unfolding fst_fold_block
  by (rule register_rewrites [OF fold_instructions_rewrite [OF block_wf_instructions]])

subsection \<open>Copy propagation\<close>

definition aliases_bounded :: "Aliases \<Rightarrow> bool" where
  "aliases_bounded aliases \<longleftrightarrow> (\<forall>i j. aliases i = Some j \<longrightarrow> j < 16)"

lemma resolve_bounded: "aliases_bounded aliases \<Longrightarrow> r < 16 \<Longrightarrow> resolve_steps n aliases r < 16"
  by (induction n arbitrary: r) (auto simp: aliases_bounded_def split: option.splits)

lemma propagatable_register: "has_propagatable_source operation \<Longrightarrow> register_operation operation"
  by (simp add: register_operation_def)

lemma propagate_source_rewrite:
  assumes "instruction_ok i" and "aliases_bounded aliases"
  shows "register_rewrite i (fst (propagate_source aliases i))"
proof (cases "has_propagatable_source (ir_operation i)")
  case True
  note r = propagatable_register [OF True]
  have "resolve_alias aliases (ir_source_register i) < 16"
    using resolve_bounded [OF assms(2) ok_register_operation(2) [OF assms(1) r], of 16]
    by (simp add: resolve_alias_def)
  moreover have "synthetic_ok (i\<lparr>ir_source_register := m\<rparr>) = synthetic_ok i" for m
    by (simp add: synthetic_ok_def is_dead_gpr_write_tombstone_def)
  then have "synthetic_ok (i\<lparr>ir_source_register := m\<rparr>)" for m
    using assms(1) shape_synthetic by (simp add: instruction_ok_def)
  ultimately have "register_rewrite i (canonicalize (i\<lparr>ir_source_register :=
      resolve_alias aliases (ir_source_register i)\<rparr>))"
    by (intro canonical_rewrite [OF r])
      (use r ok_register_operation [OF assms(1) r] in simp_all)
  then show ?thesis by (simp add: propagate_source_def Let_def)
qed (simp add: propagate_source_def)

lemma aliases_after_bounded:
  assumes "aliases_bounded aliases" and "ir_source_register i < 16"
  shows "aliases_bounded (aliases_after aliases i)"
  using assms
  by (auto simp: aliases_after_def invalidate_aliases_def aliases_bounded_def Let_def
      split: if_splits)

lemma propagated_source_bound:
  assumes "instruction_ok i" and "aliases_bounded aliases"
  shows "ir_source_register (fst (propagate_source aliases i)) < 16"
proof -
  have "ir_source_register i < 16"
    using assms(1) by (simp add: instruction_ok_def verify_instruction_shape_def Let_def not_le)
  then show ?thesis
    using resolve_bounded [OF assms(2), of "ir_source_register i" 16]
    by (simp add: propagate_source_def canonicalize_def Let_def resolve_alias_def)
qed

lemma propagate_instructions_rewrite:
  "list_all instruction_ok is \<Longrightarrow> aliases_bounded aliases \<Longrightarrow>
   list_all2 register_rewrite is (fst (propagate_instructions aliases is))"
proof (induction "is" arbitrary: aliases)
  case (Cons i "is")
  have "aliases_bounded (aliases_after aliases (fst (propagate_source aliases i)))"
    using propagated_source_bound [of i aliases] Cons.prems
    by (intro aliases_after_bounded) simp_all
  from Cons.IH [OF _ this] show ?case
    using Cons.prems propagate_source_rewrite [of i aliases]
    by (simp add: propagate_instructions_Cons Let_def del: propagate_instructions.simps)
qed simp

lemma fst_propagate_block:
  "fst (propagate_block_copies b) =
     b\<lparr>bb_instructions := fst (propagate_instructions (\<lambda>_. None) (bb_instructions b))\<rparr>"
  by (simp add: propagate_block_copies_def split: prod.split)

lemma propagate_block_rewrites: "block_wf b \<Longrightarrow> block_rewrites b (fst (propagate_block_copies b))"
  unfolding fst_propagate_block
  by (rule register_rewrites [OF propagate_instructions_rewrite [OF block_wf_instructions]])
    (simp_all add: aliases_bounded_def)

subsection \<open>Dead writes\<close>

text \<open>A synthetic constant stands for an operation that writes its destination.\<close>

definition constant_from_write :: "Instruction \<Rightarrow> bool" where
  "constant_from_write i \<longleftrightarrow>
     (ir_operation i = O_Arith ArithOp.Constant32 \<longrightarrow>
        ir_original_operation i = Operation.Unknown \<or> writes_destination (ir_original_operation i))"

lemma replace_with_nop_rewrite:
  assumes ok: "instruction_ok i" and "constant_from_write i" and pure: "is_pure_register_write i"
  shows "register_rewrite i (replace_with_nop i)"
proof -
  have w: "writes_destination (ir_operation i)" by (rule pure_writes [OF pure])
  then have r: "register_operation (ir_operation i)" by (simp add: register_operation_def)
  have "synthetic_ok i" using ok shape_synthetic by (simp add: instruction_ok_def)
  then have "ir_original_operation i = Operation.Unknown \<or>
      writes_destination (ir_original_operation i)"
    using w assms(2)
    by (auto simp: synthetic_ok_def constant_from_write_def is_dead_gpr_write_tombstone_def
        writes_destination_def)
  then show ?thesis
    unfolding replace_with_nop_def
    by (intro canonical_rewrite [OF r])
      (auto simp: register_operation_def synthetic_ok_def is_dead_gpr_write_tombstone_def
        writes_destination_def)
qed

lemma eliminate_reference_rewrite:
  "list_all instruction_ok is \<Longrightarrow> list_all constant_from_write is \<Longrightarrow>
   list_all2 register_rewrite is (eliminate_reference is)"
  by (induction "is") (auto simp: dead_write_def intro: replace_with_nop_rewrite)

lemma eliminate_block_rewrites:
  assumes "block_wf b" and "list_all constant_from_write (bb_instructions b)"
  shows "block_rewrites b (fst (eliminate_dead_block_code b))"
proof -
  let ?is = "bb_instructions (fst (eliminate_dead_block_code b))"
  have "fst (eliminate_dead_block_code b) = b\<lparr>bb_instructions := ?is\<rparr>"
    by (simp add: eliminate_dead_block_code_def Let_def)
  moreover have "list_all2 register_rewrite (bb_instructions b) ?is"
    using block_wf_instructions [OF assms(1)] assms(2) eliminate_reference_rewrite
    by (auto simp: eliminate_dead_block_code_reference split: list.split)
  ultimately show ?thesis using register_rewrites by metis
qed

subsection \<open>Load/store forwarding\<close>

definition forwarded_load :: "Instruction list \<Rightarrow> nat \<Rightarrow> Instruction" where
  "forwarded_load is k =
     (if k \<noteq> 0 \<and> forwards (is ! (k - 1)) (is ! k)
      then (is ! k)\<lparr>ir_forwarded_value_register := Some (ir_source_register (is ! (k - 1)))\<rparr>
      else is ! k)"

lemma forwards_ignores [simp]:
  "forwards (store\<lparr>ir_forwarded_value_register := r\<rparr>) load = forwards store load"
  by (simp add: forwards_def)

lemma length_forward_stores [simp]: "length (fst (forward_stores is)) = length is"
  by (induction "is" rule: forward_stores.induct) (auto simp: Let_def split: prod.splits)

lemma forward_stores_nth:
  "k < length is \<Longrightarrow> fst (forward_stores is) ! k = forwarded_load is k"
proof (induction "is" arbitrary: k rule: forward_stores.induct)
  case (1 store load "is")
  define load' where "load' = (if forwards store load
      then load\<lparr>ir_forwarded_value_register := Some (ir_source_register store)\<rparr> else load)"
  have rec: "fst (forward_stores (store # load # is)) = store # fst (forward_stores (load' # is))"
    by (simp add: Let_def load'_def split: prod.split)
  show ?case
  proof (cases k)
    case (Suc n)
    then have "fst (forward_stores (load' # is)) ! n = forwarded_load (load' # is) n"
      using 1 by (simp add: load'_def)
    moreover have "forwarded_load (load' # is) n = forwarded_load (store # load # is) (Suc n)"
      by (cases n; cases "n - 1") (auto simp: forwarded_load_def load'_def)
    ultimately show ?thesis using rec Suc by simp
  qed (simp add: rec forwarded_load_def del: forward_stores.simps)
qed (auto simp: forwarded_load_def)

lemma forwarded_ignored [simp]:
  "verify_memory_effects (i\<lparr>ir_forwarded_value_register := r\<rparr>) = verify_memory_effects i"
  "is_dead_gpr_write_tombstone (i\<lparr>ir_forwarded_value_register := r\<rparr>) = is_dead_gpr_write_tombstone i"
  "verify_control_metadata (i\<lparr>ir_forwarded_value_register := r\<rparr>) = verify_control_metadata i"
  by (simp_all add: verify_memory_effects_def is_dead_gpr_write_tombstone_def
      verify_control_metadata_def Let_def)

lemma forwarded_shape:
  "verify_instruction_shape i = [] \<Longrightarrow> r < 16 \<Longrightarrow>
   verify_instruction_shape (i\<lparr>ir_forwarded_value_register := Some r\<rparr>) = []"
  unfolding verify_instruction_shape_def Let_def by simp

lemma forwarded_load_rewrite:
  assumes wf: "block_wf b" and k: "k < length (bb_instructions b)"
  shows "rewritten_as (bb_instructions b ! k) (forwarded_load (bb_instructions b) k)"
proof (cases "k \<noteq> 0 \<and> forwards (bb_instructions b ! (k - 1)) (bb_instructions b ! k)")
  case True
  let ?i = "bb_instructions b ! k" and ?s = "bb_instructions b ! (k - 1)"
  have ok: "instruction_ok ?i" "instruction_ok ?s"
    using block_wf_instructions [OF wf] k by (simp_all add: list_all_length)
  have "ir_source_register ?s < 16"
    using ok(2) by (simp add: instruction_ok_def verify_instruction_shape_def Let_def not_le)
  then have "verify_instruction_shape (?i\<lparr>ir_forwarded_value_register :=
      Some (ir_source_register ?s)\<rparr>) = []"
    using forwarded_shape ok(1) by (simp add: instruction_ok_def)
  then show ?thesis
    using True ok(1)
    by (simp add: instruction_ok_def forwarded_load_def rewritten_as_def forwards_def
        is_control_flow_def)
qed (auto simp: forwarded_load_def)

lemma forward_block_rewrites:
  assumes wf: "block_wf b"
  shows "block_rewrites b (fst (simplify_block_load_store b))"
proof -
  let ?is = "bb_instructions b" and ?b = "b\<lparr>bb_instructions := fst (forward_stores (bb_instructions b))\<rparr>"
  have b: "fst (simplify_block_load_store b) = ?b"
    by (simp add: simplify_block_load_store_def split: prod.split)
  have "list_all2 rewritten_as ?is (fst (forward_stores ?is))"
    by (simp add: list_all2_conv_all_nth forward_stores_nth forwarded_load_rewrite [OF wf])
  moreover have "verify_forwarding ?b k = []"
    if "k < length ?is" "verify_forwarding b k = []" for k
  proof -
    have "bb_instructions ?b ! k = forwarded_load ?is k"
      and "bb_instructions ?b ! (k - 1) = forwarded_load ?is (k - 1)"
      using that(1) by (simp_all add: forward_stores_nth)
    then show ?thesis
      using that(2)
      by (auto simp: verify_forwarding_def valid_forward_def forwarded_load_def Let_def
          forwards_def split: option.splits)
  qed
  ultimately show ?thesis unfolding b by (simp add: block_rewrites_def)
qed

subsection \<open>Reachability\<close>

definition edge_relation :: "(u32 \<Rightarrow> u32 list) \<Rightarrow> (u32 \<times> u32) set" where
  "edge_relation edges = {(a, b). b \<in> set (edges a)}"

lemma closed_reachable:
  assumes "\<forall>a\<in>R. set (edges a) \<subseteq> R \<union> W" and "a \<in> R" and "(a, b) \<in> (edge_relation edges)\<^sup>*"
  shows "b \<in> R \<union> (edge_relation edges)\<^sup>* `` W"
  using assms(3)
proof (induction rule: rtrancl_induct)
  case base
  then show ?case using assms(2) by simp
next
  case (step b c)
  then show ?case
    using assms(1) by (auto simp: edge_relation_def intro: rtrancl_into_rtrancl)
qed

lemma rtrancl_Image_step:
  "insert a ((edge_relation edges)\<^sup>* `` set (edges a)) = (edge_relation edges)\<^sup>* `` {a}"
proof -
  have "set (edges a) = edge_relation edges `` {a}" by (auto simp: edge_relation_def)
  then show ?thesis
    by (auto intro: converse_rtrancl_into_rtrancl elim: converse_rtranclE)
qed

lemma close_reachable_closure:
  assumes "\<forall>a\<in>R. set (edges a) \<subseteq> R \<union> set W"
  shows "close_reachable edges W R = R \<union> (edge_relation edges)\<^sup>* `` set W"
  using assms
proof (induction edges W R rule: close_reachable.induct)
  case (2 edges a W R)
  show ?case
  proof (cases "a \<in> R")
    case True
    then have "\<forall>a\<in>R. set (edges a) \<subseteq> R \<union> set W" using "2.prems" by auto
    moreover from this have "(edge_relation edges)\<^sup>* `` {a} \<subseteq> R \<union> (edge_relation edges)\<^sup>* `` set W"
      using closed_reachable [OF _ True] by blast
    ultimately show ?thesis using True "2.IH"(1) by auto
  next
    case False
    have "\<forall>b\<in>insert a R. set (edges b) \<subseteq> insert a R \<union> set (rev (edges a) @ W)"
      using "2.prems" by auto
    from "2.IH"(2) [OF False this] show ?thesis
      using False rtrancl_Image_step [of a edges] by (auto simp: Image_Un)
  qed
qed simp

lemma close_reachable_roots:
  "close_reachable edges W {} = (edge_relation edges)\<^sup>* `` set W"
  by (simp add: close_reachable_closure)

lemma cfg_reachable_eq:
  "cfg_reachable d f = (edge_relation (block_targets (fn_blocks f)))\<^sup>* ``
     insert (fn_entry_address f) (set (cfg_roots d (fn_blocks f)))"
  by (simp add: cfg_reachable_def close_reachable_roots)

lemma find_start:
  assumes "distinct (map bb_start_address blocks)" and "b \<in> set blocks"
  shows "find (\<lambda>c. bb_start_address c = bb_start_address b) blocks = Some b"
  using assms by (induction blocks) (auto simp: image_iff)

lemma reachable_targets:
  assumes "distinct (map bb_start_address (fn_blocks f))" and "b \<in> set (fn_blocks f)"
    and "bb_start_address b \<in> cfg_reachable d f"
  shows "set (bb_successors b) \<union> set (bb_guarded_case_ownership_targets b) \<subseteq> cfg_reachable d f"
proof
  fix t
  assume "t \<in> set (bb_successors b) \<union> set (bb_guarded_case_ownership_targets b)"
  then have "(bb_start_address b, t) \<in> edge_relation (block_targets (fn_blocks f))"
    by (simp add: edge_relation_def block_targets_def find_start [OF assms(1,2)])
  then show "t \<in> cfg_reachable d f"
    using assms(3) unfolding cfg_reachable_eq by (auto intro: rtrancl_into_rtrancl)
qed

lemma reachable_roots:
  "fn_entry_address f \<in> cfg_reachable d f"
  "a \<in> set (cfg_roots d (fn_blocks f)) \<Longrightarrow> a \<in> cfg_reachable d f"
  unfolding cfg_reachable_eq by auto

subsection \<open>Control-flow simplification\<close>

definition kept_blocks :: "DispatchabilityIndex \<Rightarrow> Function \<Rightarrow> BasicBlock list" where
  "kept_blocks d f = sort_key bb_start_address
     (filter (\<lambda>b. bb_start_address b \<in> cfg_reachable d f) (fn_blocks f))"

lemma canonical_successors:
  "bb_instructions b \<noteq> [] \<Longrightarrow> verify_block_edges starts b = [] \<Longrightarrow>
   sort_unique (bb_successors b) = bb_successors b \<and>
   set (bb_successors b) = set (expected_successors starts b)"
  by (auto simp: verify_block_edges_def Let_def) (metis set_sort_unique)+

lemma simplified_blocks:
  assumes "function_wf f"
  shows "fn_blocks (fst (simplify_function_cfg d f)) = kept_blocks d f"
proof -
  have "map (\<lambda>b. b\<lparr>bb_successors := sort_unique (bb_successors b)\<rparr>)
      (filter (\<lambda>b. bb_start_address b \<in> cfg_reachable d f) (fn_blocks f)) =
      filter (\<lambda>b. bb_start_address b \<in> cfg_reachable d f) (fn_blocks f)"
    using assms canonical_successors
    by (intro map_idI) (auto simp: function_wf_def block_wf_def)
  then show ?thesis by (simp add: simplify_function_cfg_def kept_blocks_def Let_def)
qed

lemma set_kept [simp]:
  "set (kept_blocks d f) = {b \<in> set (fn_blocks f). bb_start_address b \<in> cfg_reachable d f}"
  by (auto simp: kept_blocks_def)

lemma mset_concat_perm:
  "mset xs = mset ys \<Longrightarrow> mset (concat (map g xs)) = mset (concat (map g ys))"
  by (metis map_map mset_concat mset_map sum_mset_sum_list)

lemma distinct_concat_filter:
  "distinct (concat (map g xs)) \<Longrightarrow> distinct (concat (map g (filter P xs)))"
  by (induction xs) auto

lemma kept_distinct:
  assumes "function_wf f"
  shows "distinct (map bb_start_address (kept_blocks d f))"
    and "distinct (concat (map source_addresses (kept_blocks d f)))"
proof -
  let ?xs = "filter (\<lambda>b. bb_start_address b \<in> cfg_reachable d f) (fn_blocks f)"
  have m: "mset (kept_blocks d f) = mset ?xs" by (simp add: kept_blocks_def)
  have "distinct (map bb_start_address ?xs)"
    using assms by (simp add: function_wf_def distinct_map_filter)
  moreover have "mset (map bb_start_address (kept_blocks d f)) = mset (map bb_start_address ?xs)"
    using m by simp
  ultimately show "distinct (map bb_start_address (kept_blocks d f))"
    by (metis mset_eq_imp_distinct_iff)
  have "distinct (concat (map source_addresses ?xs))"
    using assms by (simp add: function_wf_def distinct_concat_filter)
  then show "distinct (concat (map source_addresses (kept_blocks d f)))"
    using mset_concat_perm [OF m, of source_addresses] by (metis mset_eq_imp_distinct_iff)
qed

lemma expected_successors_filter:
  "expected_successors starts b = filter (\<lambda>a. a \<in> starts) (expected_successors UNIV b)"
proof (cases "is_control_flow (ir_operation (controlling_instruction b))")
  case True
  then show ?thesis by (auto simp: is_control_flow_def expected_successors_def Let_def)
qed (simp add: plain_successors)

lemma expected_successors_kept:
  assumes "set (expected_successors starts b) \<subseteq> starts'" and "starts' \<subseteq> starts"
  shows "expected_successors starts' b = expected_successors starts b"
proof -
  have "filter (\<lambda>a. a \<in> starts') (expected_successors UNIV b) =
      filter (\<lambda>a. a \<in> starts) (expected_successors UNIV b)"
    using assms unfolding expected_successors_filter [of starts] by (intro filter_cong) auto
  then show ?thesis
    unfolding expected_successors_filter [of starts] expected_successors_filter [of starts'] .
qed

lemma edges_kept:
  assumes "verify_block_edges starts b = []" and "bb_instructions b \<noteq> []" and "starts' \<subseteq> starts"
    and "set (bb_successors b) \<union> set (bb_guarded_case_ownership_targets b) \<subseteq> starts \<longrightarrow>
      set (bb_successors b) \<union> set (bb_guarded_case_ownership_targets b) \<subseteq> starts'"
  shows "verify_block_edges starts' b = []"
proof -
  have succ: "set (bb_successors b) = set (expected_successors starts b)"
    using canonical_successors [OF assms(2,1)] by simp
  moreover have "set (expected_successors starts b) \<subseteq> starts"
    unfolding expected_successors_filter [of starts] by auto
  moreover have "set (bb_guarded_case_ownership_targets b) \<subseteq> starts"
    using assms(1,2) by (auto simp: verify_block_edges_def verify_ownership_def Let_def split: if_splits)
  ultimately have sub: "set (expected_successors starts b) \<subseteq> starts'"
    "set (bb_guarded_case_ownership_targets b) \<subseteq> starts'"
    using assms(4) by auto
  have "verify_ownership starts b = []"
    using assms(1,2) by (simp add: verify_block_edges_def Let_def)
  then have "verify_ownership starts' b = []"
    using sub(2) by (auto simp: verify_ownership_def Let_def split: if_splits)
  then show ?thesis
    using assms(1,2) expected_successors_kept [OF sub(1) assms(3)]
    by (auto simp: verify_block_edges_def Let_def)
qed

text \<open>The only control-flow instruction of a well-formed block is its controlling one.\<close>

lemma slot_has_owner:
  assumes "instruction_wf b k" and "ds_role (ir_delay_slot (bb_instructions b ! k)) = Slot"
  shows "k \<noteq> 0 \<and> ds_role (ir_delay_slot (bb_instructions b ! (k - 1))) = Owner \<and>
    \<not> is_control_flow (ir_operation (bb_instructions b ! k))"
  using assms
  by (auto simp: instruction_wf_def verify_delay_slot_def verify_slot_def Let_def
      split: option.splits if_splits)

lemma control_position:
  assumes wf: "block_wf b" and k: "k < length (bb_instructions b)"
    and control: "is_control_flow (ir_operation (bb_instructions b ! k))"
  shows "bb_instructions b ! k = controlling_instruction b"
proof -
  let ?is = "bb_instructions b" and ?n = "length (bb_instructions b)"
  have i: "instruction_wf b j" if "j < ?n" for j using wf that by (simp add: block_wf_def)
  have slot: "ds_role (ir_delay_slot (?is ! j)) = Slot" if "k < j" "j < ?n" for j
    using wf that control by (auto simp: block_wf_def slots_follow_control_def)
  have no_slot: "ds_role (ir_delay_slot (?is ! k)) \<noteq> Slot"
    using slot_has_owner [OF i [OF k]] control by blast
  have "?n \<le> k + 2"
  proof (rule ccontr)
    assume "\<not> ?thesis"
    then have "ds_role (ir_delay_slot (?is ! (k + 1))) = Owner"
      using slot_has_owner [OF i [of "k + 2"] slot [of "k + 2"]] by simp
    then show False using slot [of "k + 1"] \<open>\<not> ?n \<le> k + 2\<close> by simp
  qed
  then consider "?n = k + 1" | "?n = k + 2" using k by linarith
  moreover have "last ?is = ?is ! (?n - 1)" using k by (intro last_conv_nth) auto
  ultimately show ?thesis
  proof cases
    case 1
    then show ?thesis
      using no_slot \<open>last ?is = _\<close> by (simp add: controlling_instruction_def Let_def)
  next
    case 2
    then show ?thesis
      using slot [of "k + 1"] \<open>last ?is = _\<close> by (simp add: controlling_instruction_def Let_def)
  qed
qed

lemma controlling_in_block: "bb_instructions b \<noteq> [] \<Longrightarrow> controlling_instruction b \<in> set (bb_instructions b)"
  by (auto simp: controlling_instruction_def Let_def intro!: nth_mem)

lemma control_callees:
  assumes "\<And>i. \<not> is_control_flow (ir_operation i) \<Longrightarrow> g i = []" and wf: "block_wf b"
  shows "set (concat (map g (bb_instructions b))) = set (g (controlling_instruction b))"
proof
  show "set (g (controlling_instruction b)) \<subseteq> set (concat (map g (bb_instructions b)))"
    using controlling_in_block [of b] wf by (auto simp: block_wf_def)
next
  have "set (g i) \<subseteq> set (g (controlling_instruction b))" if "i \<in> set (bb_instructions b)" for i
  proof (cases "is_control_flow (ir_operation i)")
    case True
    then have "i = controlling_instruction b"
      using that control_position [OF wf] by (auto simp: in_set_conv_nth)
    then show ?thesis by simp
  qed (simp add: assms(1))
  then show "set (concat (map g (bb_instructions b))) \<subseteq> set (g (controlling_instruction b))"
    by auto
qed

lemma block_callees_instructions:
  assumes "block_wf b"
  shows "set (concat (map instruction_callees (bb_instructions b))) = set (block_callees b)"
    and "set (concat (map instruction_sites (bb_instructions b))) = set (block_indirect_sites b)"
proof -
  have "bb_instructions b \<noteq> []" using assms by (simp add: block_wf_def)
  then have eq: "block_callees b = instruction_callees (controlling_instruction b)"
    "block_indirect_sites b = instruction_sites (controlling_instruction b)"
    by (auto simp: block_callees_def block_indirect_sites_def instruction_callees_def
        instruction_sites_def Let_def)
  show "set (concat (map instruction_callees (bb_instructions b))) = set (block_callees b)"
    unfolding eq by (rule control_callees [OF _ assms])
      (auto simp: instruction_callees_def is_control_flow_def)
  show "set (concat (map instruction_sites (bb_instructions b))) = set (block_indirect_sites b)"
    unfolding eq by (rule control_callees [OF _ assms])
      (auto simp: instruction_sites_def is_control_flow_def)
qed

lemma concat_instructions:
  assumes "\<And>b. b \<in> set blocks \<Longrightarrow> set (concat (map g (bb_instructions b))) = set (h b)"
  shows "set (concat (map g (concat (map bb_instructions blocks)))) = set (concat (map h blocks))"
  using assms by (induction blocks) auto

lemma simplify_cfg_wf:
  assumes wf: "function_wf f"
  shows "function_wf (fst (simplify_function_cfg d f))"
proof -
  let ?f = "fst (simplify_function_cfg d f)"
  have blocks: "fn_blocks ?f = kept_blocks d f" by (rule simplified_blocks [OF wf])
  have entry: "fn_entry_address ?f = fn_entry_address f"
    by (simp add: simplify_function_cfg_def Let_def)
  have starts: "block_addresses ?f = block_addresses f \<inter> cfg_reachable d f"
    by (auto simp: block_addresses_def blocks)
  have b: "block_wf b \<and> verify_block_edges (block_addresses ?f) b = []"
    if "b \<in> set (kept_blocks d f)" for b
  proof -
    have b: "b \<in> set (fn_blocks f)" "bb_start_address b \<in> cfg_reachable d f" using that by simp_all
    then have w: "block_wf b" "verify_block_edges (block_addresses f) b = []"
      using wf by (simp_all add: function_wf_def)
    have "distinct (map bb_start_address (fn_blocks f))" using wf by (simp add: function_wf_def)
    from reachable_targets [OF this b]
    have "verify_block_edges (block_addresses ?f) b = []"
      using w unfolding starts by (intro edges_kept [OF w(2)]) (auto simp: block_wf_def)
    then show ?thesis using w(1) by simp
  qed
  have "sort_unique (concat (map instruction_callees (concat (map bb_instructions
        (kept_blocks d f))))) = sort_unique (concat (map block_callees (kept_blocks d f)))"
    and "sort_unique (concat (map instruction_sites (concat (map bb_instructions
        (kept_blocks d f))))) = sort_unique (concat (map block_indirect_sites (kept_blocks d f)))"
    by (intro sort_unique_cong concat_instructions block_callees_instructions; use b in blast)+
  moreover have "fn_direct_callees ?f = sort_unique
      (concat (map instruction_callees (concat (map bb_instructions (fn_blocks ?f)))))"
    and "fn_indirect_call_sites ?f = sort_unique
      (concat (map instruction_sites (concat (map bb_instructions (fn_blocks ?f)))))"
    by (simp_all add: simplify_function_cfg_def Let_def)
  ultimately have "verify_call_metadata ?f = []"
    by (simp add: verify_call_metadata_def blocks Let_def)
  moreover have "fn_entry_address ?f \<in> block_addresses ?f"
    using wf reachable_roots(1) by (simp add: starts entry function_wf_def)
  moreover from this have "fn_blocks ?f \<noteq> []" by (auto simp: block_addresses_def)
  ultimately show ?thesis
    using b kept_distinct [OF wf] by (simp add: function_wf_def blocks)
qed

end
