(* ===== verification/Optimize_Pipeline.thy ===== *)
theory Optimize_Pipeline
  imports Optimize_Valid
begin

text \<open>
  The optimizer pipeline: on valid functions that satisfy the dispatchability contract no check of
  \<open>optimize_program\<close> fails, and every block of the result does what a block of the input at the same
  address does.
\<close>

subsection \<open>The contract as a condition on addresses\<close>

definition program_blocks :: "Function list \<Rightarrow> BasicBlock set" where
  "program_blocks program = (\<Union>f\<in>set program. set (fn_blocks f))"

definition program_starts :: "Function list \<Rightarrow> u32 set" where
  "program_starts program = bb_start_address ` program_blocks program"

definition block_sites :: "BasicBlock \<Rightarrow> (u32 \<times> DelaySlotRole) set" where
  "block_sites b = (\<lambda>i. (ir_source_address i, ds_role (ir_delay_slot i))) ` set (bb_instructions b)"

definition program_sites :: "Function list \<Rightarrow> (u32 \<times> DelaySlotRole) set" where
  "program_sites program = (\<Union>b\<in>program_blocks program. block_sites b)"

definition contract_ok :: "Function list \<Rightarrow> DispatchabilityIndex \<Rightarrow> bool" where
  "contract_ok program index \<longleftrightarrow> di_block_entries index \<subseteq> program_starts program \<and>
     di_instruction_continuations index \<subseteq> fst ` program_sites program \<and>
     (\<forall>a\<in>di_instruction_continuations index. (a, Slot) \<notin> program_sites program)"

lemma card_found: "card (A \<inter> (B :: u32 set)) = card B \<longleftrightarrow> B \<subseteq> A"
proof
  assume "card (A \<inter> B) = card B"
  then have "A \<inter> B = B" by (intro card_subset_eq) auto
  then show "B \<subseteq> A" by blast
qed (simp add: Int_absorb1)

lemma require_contract_iff:
  "require_dispatchability_contract program index = Inr () \<longleftrightarrow> contract_ok program index"
proof (cases "di_block_entries index = {} \<and> di_instruction_continuations index = {}")
  case True
  then show ?thesis by (simp add: require_dispatchability_contract_def contract_ok_def)
next
  case False
  let ?blocks = "concat (map fn_blocks program)"
  let ?continued = "filter (\<lambda>i. ir_source_address i \<in> di_instruction_continuations index)
    (concat (map bb_instructions ?blocks))"
  have starts: "set (filter (\<lambda>a. a \<in> di_block_entries index) (map bb_start_address ?blocks)) =
      program_starts program \<inter> di_block_entries index"
    by (auto simp: program_starts_def program_blocks_def)
  have sites: "set (map ir_source_address ?continued) =
      fst ` program_sites program \<inter> di_instruction_continuations index"
    by (force simp: program_sites_def program_blocks_def block_sites_def)
  have slots: "list_ex (\<lambda>i. ds_role (ir_delay_slot i) = Slot) ?continued \<longleftrightarrow>
      (\<exists>a\<in>di_instruction_continuations index. (a, Slot) \<in> program_sites program)"
    by (force simp: list_ex_iff program_sites_def program_blocks_def block_sites_def)
  show ?thesis
    unfolding require_dispatchability_contract_def Let_def starts sites slots card_found
    using False by (auto simp: contract_ok_def)
qed

subsection \<open>What a pass keeps\<close>

definition function_ok :: "Function \<Rightarrow> bool" where
  "function_ok f \<longleftrightarrow> function_wf f \<and>
     (\<forall>b\<in>set (fn_blocks f). list_all constant_from_write (bb_instructions b))"

definition pipeline_ok :: "DispatchabilityIndex \<Rightarrow> Function list \<Rightarrow> bool" where
  "pipeline_ok index program \<longleftrightarrow> (\<forall>f\<in>set program. function_ok f) \<and> contract_ok program index"

lemma require_valid_functions_iff:
  "require_valid_functions fs = Inr () \<longleftrightarrow> (\<forall>f\<in>set fs. function_wf f)"
proof (induction fs)
  case (Cons f fs)
  show ?case
  proof (cases "require_valid_function f")
    case (Inl e)
    then have "\<not> function_wf f" using require_valid_iff [of f] by simp
    then show ?thesis using Inl by simp
  next
    case (Inr u)
    then have "function_wf f" using require_valid_iff [of f] by simp
    then show ?thesis using Inr Cons by simp
  qed
qed simp

lemma run_pass_succeeds:
  assumes "pipeline_ok index program" and "pipeline_ok index (map (fst \<circ> pass) program)"
  shows "\<exists>report'. run_pass index name enabled pass (program, report) =
    Inr (if enabled then map (fst \<circ> pass) program else program, report')"
proof -
  have "require_valid_functions program = Inr ()"
    "require_valid_functions (map (fst \<circ> pass) program) = Inr ()"
    "require_dispatchability_contract program index = Inr ()"
    "require_dispatchability_contract (map (fst \<circ> pass) program) index = Inr ()"
    using assms
    by (simp_all add: require_valid_functions_iff require_contract_iff pipeline_ok_def function_ok_def)
  then show ?thesis by (cases enabled) (simp_all add: run_pass_def Let_def)
qed

definition keeps_blocks :: "(Function \<Rightarrow> Function \<times> nat) \<Rightarrow> bool" where
  "keeps_blocks pass \<longleftrightarrow> (\<forall>f. function_ok f \<longrightarrow> function_ok (fst (pass f)) \<and>
     bb_start_address ` set (fn_blocks (fst (pass f))) = bb_start_address ` set (fn_blocks f) \<and>
     \<Union>(block_sites ` set (fn_blocks (fst (pass f)))) = \<Union>(block_sites ` set (fn_blocks f)))"

lemma keeps_blocks_pipeline:
  assumes "keeps_blocks pass" and "pipeline_ok index program"
  shows "pipeline_ok index (map (fst \<circ> pass) program)"
proof -
  have ok: "function_ok f" if "f \<in> set program" for f using assms(2) that by (simp add: pipeline_ok_def)
  have "program_starts (map (fst \<circ> pass) program) =
      (\<Union>f\<in>set program. bb_start_address ` set (fn_blocks (fst (pass f))))"
    "program_starts program = (\<Union>f\<in>set program. bb_start_address ` set (fn_blocks f))"
    "program_sites (map (fst \<circ> pass) program) =
      (\<Union>f\<in>set program. \<Union>(block_sites ` set (fn_blocks (fst (pass f)))))"
    "program_sites program = (\<Union>f\<in>set program. \<Union>(block_sites ` set (fn_blocks f)))"
    by (auto simp: program_starts_def program_blocks_def program_sites_def)
  then have "program_starts (map (fst \<circ> pass) program) = program_starts program"
    "program_sites (map (fst \<circ> pass) program) = program_sites program"
    using assms(1) ok by (simp_all add: keeps_blocks_def)
  then show ?thesis
    using assms ok by (auto simp: pipeline_ok_def contract_ok_def keeps_blocks_def)
qed

lemma rewritten_sites:
  assumes "block_rewrites a b"
  shows "block_sites b = block_sites a"
proof -
  let ?site = "\<lambda>i. (ir_source_address i, ds_role (ir_delay_slot i))"
  have "?site (bb_instructions b ! k) = ?site (bb_instructions a ! k)"
    if "k < length (bb_instructions a)" for k
    using rewritten_as_same(1,2) [OF rewritten_nth [OF assms that]] by simp
  then have "map ?site (bb_instructions b) = map ?site (bb_instructions a)"
    using rewritten_length [OF assms] by (intro nth_equalityI) simp_all
  then have "set (map ?site (bb_instructions b)) = set (map ?site (bb_instructions a))" by simp
  then show ?thesis by (simp add: block_sites_def)
qed

lemma each_block_keeps:
  assumes "\<And>b. block_wf b \<Longrightarrow> list_all constant_from_write (bb_instructions b) \<Longrightarrow>
      block_rewrites b (fst (pass b)) \<and>
      list_all constant_from_write (bb_instructions (fst (pass b)))"
  shows "keeps_blocks (each_block pass)"
  unfolding keeps_blocks_def
proof (intro allI impI)
  fix f
  assume ok: "function_ok f"
  have b: "block_rewrites b (fst (pass b))"
    "list_all constant_from_write (bb_instructions (fst (pass b)))" if "b \<in> set (fn_blocks f)" for b
    using assms ok that by (simp_all add: function_ok_def function_wf_def)
  have blocks: "fn_blocks (fst (each_block pass f)) = map (fst \<circ> pass) (fn_blocks f)"
    by (simp add: each_block_def Let_def)
  have "function_wf (fst (each_block pass f))"
    using ok b by (intro rewritten_function_wf) (simp_all add: function_ok_def)
  then have "function_ok (fst (each_block pass f))" using b by (simp add: function_ok_def blocks)
  moreover have "bb_start_address (fst (pass b)) = bb_start_address b"
    "block_sites (fst (pass b)) = block_sites b" if "b \<in> set (fn_blocks f)" for b
    using b [OF that] rewritten_sites by (simp_all add: block_rewrites_def)
  ultimately show "function_ok (fst (each_block pass f)) \<and>
      bb_start_address ` set (fn_blocks (fst (each_block pass f))) =
        bb_start_address ` set (fn_blocks f) \<and>
      \<Union>(block_sites ` set (fn_blocks (fst (each_block pass f)))) =
        \<Union>(block_sites ` set (fn_blocks f))"
    by (simp add: blocks image_image)
qed

subsection \<open>The passes\<close>

lemma fold_keeps_origin:
  assumes "instruction_ok i" and "constant_from_write i"
  shows "constant_from_write (fst (fold_instruction constants i))"
proof -
  have "synthetic_ok i" using assms(1) shape_synthetic by (simp add: instruction_ok_def)
  then have "constant_from_write (replace_with_constant n v i)" if "foldable_operation (ir_operation i)" for n v
    using that foldable_writes [OF that] assms(2)
    by (auto simp: constant_from_write_def synthetic_ok_def is_dead_gpr_write_tombstone_def
        replace_with_constant_def canonicalize_def foldable_operation_def)
  then show ?thesis
    using assms(2) by (auto simp: fold_instruction_def Let_def split: option.split)
qed

lemma fold_instructions_origin:
  "list_all instruction_ok is \<Longrightarrow> list_all constant_from_write is \<Longrightarrow>
   list_all constant_from_write (fst (fold_instructions constants is))"
  by (induction "is" arbitrary: constants)
    (simp_all add: fold_instructions_Cons fold_keeps_origin del: fold_instructions.simps(2))

lemma propagate_instructions_origin:
  "list_all constant_from_write is \<Longrightarrow>
   list_all constant_from_write (fst (propagate_instructions aliases is))"
  by (induction "is" arbitrary: aliases)
    (simp_all add: propagate_instructions_Cons Let_def propagate_source_def canonicalize_def
      constant_from_write_def del: propagate_instructions.simps(2))

lemma eliminate_reference_origin:
  "list_all constant_from_write is \<Longrightarrow> list_all constant_from_write (eliminate_reference is)"
  by (induction "is")
    (auto simp: constant_from_write_def replace_with_nop_def canonicalize_def)

lemma forward_stores_origin:
  "list_all constant_from_write is \<Longrightarrow> list_all constant_from_write (fst (forward_stores is))"
  by (auto simp: list_all_length forward_stores_nth forwarded_load_def constant_from_write_def)

lemma block_passes_keep:
  "keeps_blocks fold_constants_unchecked" "keeps_blocks propagate_copies_unchecked"
  "keeps_blocks eliminate_dead_code_unchecked" "keeps_blocks simplify_load_store_unchecked"
proof -
  show "keeps_blocks fold_constants_unchecked"
    unfolding fold_constants_unchecked_def
    using fold_block_rewrites fold_instructions_origin block_wf_instructions
    by (intro each_block_keeps) (simp add: fst_fold_block)
  show "keeps_blocks propagate_copies_unchecked"
    unfolding propagate_copies_unchecked_def
    using propagate_block_rewrites propagate_instructions_origin
    by (intro each_block_keeps) (simp add: fst_propagate_block)
  show "keeps_blocks eliminate_dead_code_unchecked"
    unfolding eliminate_dead_code_unchecked_def
    using eliminate_block_rewrites eliminate_reference_origin
    by (intro each_block_keeps) (auto simp: eliminate_dead_block_code_reference split: list.split)
  show "keeps_blocks simplify_load_store_unchecked"
    unfolding simplify_load_store_unchecked_def
    using forward_block_rewrites forward_stores_origin
    by (intro each_block_keeps) (simp add: simplify_block_load_store_def split: prod.split, metis fst_conv)
qed

lemma cfg_keeps_pipeline:
  assumes ok: "pipeline_ok index program"
  shows "pipeline_ok index (map (fst \<circ> simplify_function_cfg index) program)"
proof -
  let ?p = "map (fst \<circ> simplify_function_cfg index) program"
  have f: "function_wf f" "function_ok f" if "f \<in> set program" for f
    using ok that by (simp_all add: pipeline_ok_def function_ok_def)
  have blocks: "fn_blocks (fst (simplify_function_cfg index f)) = kept_blocks index f"
    if "f \<in> set program" for f using simplified_blocks [OF f(1) [OF that]] .
  have sub: "program_blocks ?p \<subseteq> program_blocks program"
    using blocks by (auto simp: program_blocks_def)
  have kept: "b \<in> program_blocks ?p" if "f \<in> set program" "b \<in> set (fn_blocks f)"
    "bb_start_address b \<in> set (cfg_roots index (fn_blocks f))" for f b
    using that blocks [OF that(1)] reachable_roots(2)
    by (auto simp: program_blocks_def intro!: bexI [of _ f])
  have "di_block_entries index \<subseteq> program_starts ?p"
  proof
    fix a
    assume a: "a \<in> di_block_entries index"
    then obtain f b where b: "f \<in> set program" "b \<in> set (fn_blocks f)" "a = bb_start_address b"
      using ok by (auto simp: pipeline_ok_def contract_ok_def program_starts_def program_blocks_def)
    then have "b \<in> program_blocks ?p" using a by (intro kept) (auto simp: cfg_roots_def)
    then show "a \<in> program_starts ?p" using b(3) by (simp add: program_starts_def)
  qed
  moreover have "di_instruction_continuations index \<subseteq> fst ` program_sites ?p"
  proof
    fix a
    assume a: "a \<in> di_instruction_continuations index"
    then have "a \<in> fst ` program_sites program"
      using ok by (auto simp: pipeline_ok_def contract_ok_def)
    then obtain f b i where b: "f \<in> set program" "b \<in> set (fn_blocks f)"
      and i: "i \<in> set (bb_instructions b)" "a = ir_source_address i"
      by (auto simp: program_sites_def program_blocks_def block_sites_def)
    then have "b \<in> program_blocks ?p"
      using a by (intro kept) (auto simp: cfg_roots_def list_ex_iff)
    then have "(a, ds_role (ir_delay_slot i)) \<in> program_sites ?p"
      using i by (auto simp: program_sites_def block_sites_def)
    then show "a \<in> fst ` program_sites ?p" by force
  qed
  moreover have "program_sites ?p \<subseteq> program_sites program" using sub by (auto simp: program_sites_def)
  ultimately have "contract_ok ?p index" using ok by (auto simp: pipeline_ok_def contract_ok_def)
  moreover have "function_ok (fst (simplify_function_cfg index f))" if "f \<in> set program" for f
    using simplify_cfg_wf [OF f(1) [OF that]] f(2) [OF that] blocks [OF that]
    by (auto simp: function_ok_def)
  ultimately show ?thesis by (auto simp: pipeline_ok_def)
qed

subsection \<open>What the blocks do\<close>

definition program_exits :: "Function list \<Rightarrow> bool" where
  "program_exits program \<longleftrightarrow> (\<forall>b\<in>program_blocks program. exits_last (bb_instructions b))"

lemma exits_last_rewritten:
  assumes "list_all2 (\<lambda>i j. (ir_operation i = Operation.Nop \<longrightarrow> ir_operation j = Operation.Nop) \<and>
    (ends_block (ir_operation j) \<longrightarrow> ends_block (ir_operation i))) is js" and "exits_last is"
  shows "exits_last js"
  using assms
proof (induction rule: list_all2_induct)
  case (Cons i "is" j js)
  have "list_all (\<lambda>j. ir_operation j = Operation.Nop) js"
    if "list_all (\<lambda>j. ir_operation j = Operation.Nop) is"
    using Cons.hyps(2) that by (induction rule: list_all2_induct) auto
  then show ?case using Cons by auto
qed simp

lemma fold_exits:
  "exits_last is \<Longrightarrow> exits_last (fst (fold_instructions constants is))"
proof (rule exits_last_rewritten)
  have "(ir_operation i = Operation.Nop \<longrightarrow> ir_operation (fst (fold_instruction constants i)) = Operation.Nop) \<and>
      (ends_block (ir_operation (fst (fold_instruction constants i))) \<longrightarrow> ends_block (ir_operation i))"
    for constants i
    by (auto simp: fold_instruction_def Let_def foldable_operation_def transparent_operation_def
        constant_instruction ends_block_def split: option.splits)
  then show "list_all2 (\<lambda>i j. (ir_operation i = Operation.Nop \<longrightarrow> ir_operation j = Operation.Nop) \<and>
      (ends_block (ir_operation j) \<longrightarrow> ends_block (ir_operation i))) is
      (fst (fold_instructions constants is))"
    by (induction "is" arbitrary: constants)
      (simp_all add: fold_instructions_Cons del: fold_instructions.simps(2))
qed

lemma propagate_exits:
  "exits_last is \<Longrightarrow> exits_last (fst (propagate_instructions aliases is))"
proof (rule exits_last_rewritten)
  show "list_all2 (\<lambda>i j. (ir_operation i = Operation.Nop \<longrightarrow> ir_operation j = Operation.Nop) \<and>
      (ends_block (ir_operation j) \<longrightarrow> ends_block (ir_operation i))) is
      (fst (propagate_instructions aliases is))"
    by (induction "is" arbitrary: aliases)
      (simp_all add: propagate_instructions_Cons Let_def del: propagate_instructions.simps(2))
qed

lemma eliminate_exits: "exits_last is \<Longrightarrow> exits_last (eliminate_reference is)"
proof (rule exits_last_rewritten)
  show "list_all2 (\<lambda>i j. (ir_operation i = Operation.Nop \<longrightarrow> ir_operation j = Operation.Nop) \<and>
      (ends_block (ir_operation j) \<longrightarrow> ends_block (ir_operation i))) is (eliminate_reference is)"
    by (induction "is") (auto simp: ends_block_def)
qed

lemma eliminate_block_run:
  "run (emitted_step relocate sink other) (bb_instructions (fst (eliminate_dead_block_code b))) s =
   run (emitted_step relocate sink other) (bb_instructions b) s"
proof -
  have "run (emitted_step relocate sink other) (eliminate_reference is) s =
      run (emitted_step relocate sink other) is s" for "is" s
    using emitted.eliminate_run [of "is" s "bs_cpu s" relocate sink other] by simp
  then show ?thesis by (auto simp: eliminate_dead_block_code_reference split: list.split sum.split)
qed

lemma block_passes_run:
  assumes "exits_last (bb_instructions b)"
  shows "run_block relocate sink other (fst (fold_block b)) s = run_block relocate sink other b s"
    and "run_block relocate sink other (fst (propagate_block_copies b)) s =
      run_block relocate sink other b s"
    and "run_block relocate sink other (fst (eliminate_dead_block_code b)) s =
      run_block relocate sink other b s"
  using emitted.fold_run [OF _ assms, of "\<lambda>_. None" s relocate sink other]
    emitted.propagate_run [OF _ assms, of "\<lambda>_. None" s relocate sink other]
    eliminate_block_run [of relocate sink other b s]
  by (simp_all add: run_block_def fst_fold_block fst_propagate_block constants_ok_def)

definition same_blocks ::
    "(BasicBlock \<Rightarrow> 's \<Rightarrow> 't) \<Rightarrow> Function list \<Rightarrow> Function list \<Rightarrow> bool" where
  "same_blocks behaviour program program' \<longleftrightarrow>
     (\<forall>f'\<in>set program'. \<exists>f\<in>set program. fn_entry_address f' = fn_entry_address f \<and>
        (\<forall>b'\<in>set (fn_blocks f'). \<exists>b\<in>set (fn_blocks f).
           bb_start_address b' = bb_start_address b \<and> behaviour b' = behaviour b))"

lemma same_blocks_refl [simp]: "same_blocks behaviour program program"
  by (auto simp: same_blocks_def)

lemma same_blocks_trans:
  assumes "same_blocks behaviour p q" and "same_blocks behaviour q r"
  shows "same_blocks behaviour p r"
  unfolding same_blocks_def
proof
  fix f
  assume "f \<in> set r"
  then obtain g where g: "g \<in> set q" "fn_entry_address f = fn_entry_address g"
    "\<forall>b'\<in>set (fn_blocks f). \<exists>b\<in>set (fn_blocks g).
       bb_start_address b' = bb_start_address b \<and> behaviour b' = behaviour b"
    using assms(2) by (auto simp: same_blocks_def)
  then obtain h where "h \<in> set p" "fn_entry_address g = fn_entry_address h"
    "\<forall>b'\<in>set (fn_blocks g). \<exists>b\<in>set (fn_blocks h).
       bb_start_address b' = bb_start_address b \<and> behaviour b' = behaviour b"
    using assms(1) by (auto simp: same_blocks_def)
  then show "\<exists>h\<in>set p. fn_entry_address f = fn_entry_address h \<and>
      (\<forall>b'\<in>set (fn_blocks f). \<exists>b\<in>set (fn_blocks h).
         bb_start_address b' = bb_start_address b \<and> behaviour b' = behaviour b)"
    using g(2,3) by (intro bexI [of _ h]) (metis, assumption)
qed

definition program_ok :: "DispatchabilityIndex \<Rightarrow> Function list \<Rightarrow> bool" where
  "program_ok index program \<longleftrightarrow> pipeline_ok index program \<and> program_exits program"

definition pass_ok ::
    "(BasicBlock \<Rightarrow> 's \<Rightarrow> 't) \<Rightarrow> DispatchabilityIndex \<Rightarrow> (Function \<Rightarrow> Function \<times> nat) \<Rightarrow> bool" where
  "pass_ok behaviour index pass \<longleftrightarrow> (\<forall>program. program_ok index program \<longrightarrow>
     program_ok index (map (fst \<circ> pass) program) \<and>
     same_blocks behaviour program (map (fst \<circ> pass) program))"

lemma run_pass_ok:
  assumes "pass_ok behaviour index pass" and "program_ok index p"
  shows "\<exists>p' r'. run_pass index name enabled pass (p, r) = Inr (p', r') \<and>
    program_ok index p' \<and> same_blocks behaviour p p'"
proof -
  have ok: "program_ok index (map (fst \<circ> pass) p)" "same_blocks behaviour p (map (fst \<circ> pass) p)"
    using assms(1,2) by (simp_all add: pass_ok_def)
  then obtain r' where "run_pass index name enabled pass (p, r) =
      Inr (if enabled then map (fst \<circ> pass) p else p, r')"
    using run_pass_succeeds [of index p pass name enabled r] assms(2) by (auto simp: program_ok_def)
  then show ?thesis using ok assms(2) by (cases enabled) auto
qed

lemma each_block_pass_ok:
  assumes keeps: "keeps_blocks (each_block pass)"
    and block: "\<And>b. exits_last (bb_instructions b) \<Longrightarrow> bb_start_address (fst (pass b)) = bb_start_address b \<and>
      behaviour (fst (pass b)) = behaviour b \<and> exits_last (bb_instructions (fst (pass b)))"
  shows "pass_ok behaviour index (each_block pass)"
  unfolding pass_ok_def
proof (intro allI impI)
  fix program
  assume ok: "program_ok index program"
  have blocks: "fn_blocks (fst (each_block pass f)) = map (fst \<circ> pass) (fn_blocks f)"
    and entry: "fn_entry_address (fst (each_block pass f)) = fn_entry_address f" for f
    by (simp_all add: each_block_def Let_def)
  have e: "exits_last (bb_instructions b)" if "f \<in> set program" "b \<in> set (fn_blocks f)" for f b
    using ok that by (auto simp: program_ok_def program_exits_def program_blocks_def)
  have "program_exits (map (fst \<circ> each_block pass) program)"
    using e block by (auto simp: program_exits_def program_blocks_def blocks)
  moreover have "same_blocks behaviour program (map (fst \<circ> each_block pass) program)"
    using e block by (auto simp: same_blocks_def blocks entry intro!: bexI)
  moreover have "pipeline_ok index (map (fst \<circ> each_block pass) program)"
    using keeps_blocks_pipeline [OF keeps] ok by (simp add: program_ok_def)
  ultimately show "program_ok index (map (fst \<circ> each_block pass) program) \<and>
      same_blocks behaviour program (map (fst \<circ> each_block pass) program)"
    by (simp add: program_ok_def)
qed

lemma rewriting_block_fields:
  "bb_start_address (fst (fold_block b)) = bb_start_address b"
  "exits_last (bb_instructions b) \<Longrightarrow> exits_last (bb_instructions (fst (fold_block b)))"
  "bb_start_address (fst (propagate_block_copies b)) = bb_start_address b"
  "exits_last (bb_instructions b) \<Longrightarrow>
    exits_last (bb_instructions (fst (propagate_block_copies b)))"
  by (simp_all add: fst_fold_block fst_propagate_block fold_exits propagate_exits)

lemma eliminate_block_fields:
  "bb_start_address (fst (eliminate_dead_block_code b)) = bb_start_address b"
  "exits_last (bb_instructions b) \<Longrightarrow> exits_last (bb_instructions (fst (eliminate_dead_block_code b)))"
proof -
  show "bb_start_address (fst (eliminate_dead_block_code b)) = bb_start_address b"
    by (simp add: eliminate_dead_block_code_def Let_def)
  assume e: "exits_last (bb_instructions b)"
  show "exits_last (bb_instructions (fst (eliminate_dead_block_code b)))"
  proof (cases "bb_instructions b")
    case (Cons i "is")
    have "list_all (\<lambda>j. ir_operation j = Operation.Nop) (eliminate_reference is)"
      if "list_all (\<lambda>j. ir_operation j = Operation.Nop) is"
      using that by (induction "is") auto
    then show ?thesis
      using e eliminate_exits [of "is"] Cons by (simp add: eliminate_dead_block_code_reference)
  qed (simp add: eliminate_dead_block_code_reference)
qed

lemma passes_ok:
  fixes other :: "Instruction \<Rightarrow> 'x block_state \<Rightarrow> 'x block_result"
  shows "pass_ok (run_block relocate sink other) index fold_constants_unchecked"
    and "pass_ok (run_block relocate sink other) index propagate_copies_unchecked"
    and "pass_ok (run_block relocate sink other) index eliminate_dead_code_unchecked"
    and "pass_ok (run_block relocate sink other) index (simplify_function_cfg index)"
proof -
  note k = block_passes_keep [unfolded fold_constants_unchecked_def propagate_copies_unchecked_def
      eliminate_dead_code_unchecked_def]
  show "pass_ok (run_block relocate sink other) index fold_constants_unchecked"
    unfolding fold_constants_unchecked_def
    by (rule each_block_pass_ok [OF k(1)])
      (simp add: block_passes_run(1) rewriting_block_fields fun_eq_iff)
  show "pass_ok (run_block relocate sink other) index propagate_copies_unchecked"
    unfolding propagate_copies_unchecked_def
    by (rule each_block_pass_ok [OF k(2)])
      (simp add: block_passes_run(2) rewriting_block_fields fun_eq_iff)
  show "pass_ok (run_block relocate sink other) index eliminate_dead_code_unchecked"
    unfolding eliminate_dead_code_unchecked_def
    by (rule each_block_pass_ok [OF k(3)])
      (simp add: block_passes_run(3) eliminate_block_fields fun_eq_iff)
  show "pass_ok (run_block relocate sink other) index (simplify_function_cfg index)"
    unfolding pass_ok_def
  proof (intro allI impI)
    fix program
    assume ok: "program_ok index program"
    let ?p = "map (fst \<circ> simplify_function_cfg index) program"
    have blocks: "set (fn_blocks (fst (simplify_function_cfg index f))) \<subseteq> set (fn_blocks f)"
      if "f \<in> set program" for f
      using ok that simplified_blocks [of f index]
      by (auto simp: program_ok_def pipeline_ok_def function_ok_def)
    have entry: "fn_entry_address (fst (simplify_function_cfg index f)) = fn_entry_address f" for f
      by (simp add: simplify_function_cfg_def Let_def)
    have "program_exits ?p"
      using ok blocks by (force simp: program_ok_def program_exits_def program_blocks_def)
    moreover have "same_blocks (run_block relocate sink other) program ?p"
      using blocks unfolding same_blocks_def by (force simp: entry)
    ultimately show "program_ok index ?p \<and> same_blocks (run_block relocate sink other) program ?p"
      using cfg_keeps_pipeline ok by (simp add: program_ok_def)
  qed
qed

lemma optimize_program_ok:
  fixes other :: "Instruction \<Rightarrow> 'x block_state \<Rightarrow> 'x block_result"
  assumes "make_dispatchability_index dispatchability = Inr index" and "program_ok index program"
    and "\<not> oo_load_store_simplification options"
  shows "\<exists>program' report. optimize_program options dispatchability program = Inr (program', report) \<and>
    program_ok index program' \<and>
    same_blocks (run_block relocate sink other) program program'"
proof (cases "oo_enabled options")
  case False
  then show ?thesis
    using assms require_contract_iff [of program index]
    by (simp add: optimize_program_def and_then_def program_ok_def pipeline_ok_def)
next
  case True
  let ?same = "same_blocks (run_block relocate sink other)"
  let ?r0 = "\<lparr>or_passes = [], or_total_changes = 0\<rparr>"
  note run = run_pass_ok [of "run_block relocate sink other" index]
  obtain p1 r1 where 1: "run_pass index ''constant-folding'' (oo_constant_folding options)
      fold_constants_unchecked (program, ?r0) = Inr (p1, r1)" "program_ok index p1" "?same program p1"
    using run [OF passes_ok(1) assms(2)] passes_ok(1) by blast
  obtain p2 r2 where 2: "run_pass index ''copy-propagation'' (oo_copy_propagation options)
      propagate_copies_unchecked (p1, r1) = Inr (p2, r2)" "program_ok index p2" "?same p1 p2"
    using run [OF passes_ok(2) 1(2)] passes_ok(2) by blast
  obtain p3 r3 where 3: "run_pass index ''dead-code-elimination'' (oo_dead_code_elimination options)
      eliminate_dead_code_unchecked (p2, r2) = Inr (p3, r3)" "program_ok index p3" "?same p2 p3"
    using run [OF passes_ok(3) 2(2)] passes_ok(3) by blast
  obtain p4 r4 where 4: "run_pass index ''cfg-simplification'' (oo_cfg_simplification options)
      (simplify_function_cfg index) (p3, r3) = Inr (p4, r4)" "program_ok index p4" "?same p3 p4"
    using run [OF passes_ok(4) 3(2)] passes_ok(4) by blast
  have "optimize_program options dispatchability program = Inr (p4, r4)"
    using True assms 1(1) 2(1) 3(1) 4(1) require_contract_iff [of program index]
    by (simp add: optimize_program_def and_then_def program_ok_def pipeline_ok_def Let_def
        run_pass_def [of index "''load-store-simplification''"])
  moreover have "?same program p4"
    by (rule same_blocks_trans [OF 1(3) same_blocks_trans [OF 2(3)
          same_blocks_trans [OF 3(3) 4(3)]]])
  ultimately show ?thesis using 4(2) by blast
qed

end
