(* ===== verification/Lru_Cache.thy ===== *)
theory Lru_Cache
  imports Main
begin

text \<open>
  The contract of a small cache with least-recently-used replacement, as the instruction TLB of the
  runtime has it: the client touches entries it hits and refills on a miss; the provider promises how
  the recency order changes.  The client's lemma is how long a touched entry survives.
\<close>

locale lru_cache =
  fixes ok :: "'s \<Rightarrow> bool"
    and order :: "'s \<Rightarrow> 'k list"
    and touch :: "'k \<Rightarrow> 's \<Rightarrow> 's"
    and refill :: "'v \<Rightarrow> 's \<Rightarrow> 's"
    and victim :: "'s \<Rightarrow> 'k"
    and capacity :: nat
  assumes ok_touch: "ok s \<Longrightarrow> k \<in> set (order s) \<Longrightarrow> ok (touch k s)"
    and ok_refill: "ok s \<Longrightarrow> ok (refill v s)"
    and order_touch:
      "ok s \<Longrightarrow> k \<in> set (order s) \<Longrightarrow> order (touch k s) = filter (\<lambda>i. i \<noteq> k) (order s) @ [k]"
    and order_refill:
      "ok s \<Longrightarrow> order (refill v s) = filter (\<lambda>i. i \<noteq> victim s) (order s) @ [victim s]"
    and distinct_order: "ok s \<Longrightarrow> distinct (order s)"
    and order_bound: "ok s \<Longrightarrow> length (order s) \<le> capacity"
    and victim_free: "ok s \<Longrightarrow> length (order s) < capacity \<Longrightarrow> victim s \<notin> set (order s)"
    and victim_oldest: "ok s \<Longrightarrow> length (order s) = capacity \<Longrightarrow> victim s = hd (order s)"
begin

lemma ok_refills: "ok s \<Longrightarrow> ok (fold refill vs s)"
  by (induction vs arbitrary: s) (simp_all add: ok_refill)

lemma refill_keeps:
  assumes "ok s" and "order s = xs @ k # ys" and "Suc (length ys) < capacity"
  shows "\<exists>xs' v'. order (refill v s) = xs' @ k # ys @ [v']"
proof (cases "length (order s) = capacity")
  case True
  then obtain x zs where xs: "xs = x # zs" using assms(2,3) by (cases xs) auto
  have "victim s = x" using victim_oldest [OF assms(1) True] assms(2) xs by simp
  moreover have "x \<notin> set (zs @ k # ys)"
    using distinct_order [OF assms(1)] assms(2) xs by simp
  then have "filter (\<lambda>i. i \<noteq> x) (zs @ k # ys) = zs @ k # ys"
    by (intro filter_True) blast
  ultimately have "filter (\<lambda>i. i \<noteq> victim s) (order s) = zs @ k # ys"
    using assms(2) xs by simp
  then show ?thesis using order_refill [OF assms(1), of v] by simp
next
  case False
  then have "victim s \<notin> set (order s)"
    using victim_free [OF assms(1)] order_bound [OF assms(1)] by simp
  then have "filter (\<lambda>i. i \<noteq> victim s) (order s) = order s" by (auto simp: filter_id_conv)
  then show ?thesis using order_refill [OF assms(1), of v] assms(2) by simp
qed

lemma refills_keep:
  assumes "ok s" and "order s = xs @ k # ys" and "length ys + length vs < capacity"
  shows "k \<in> set (order (fold refill vs s))"
  using assms
proof (induction vs arbitrary: s xs ys)
  case (Cons v vs)
  obtain xs' v' where "order (refill v s) = xs' @ k # ys @ [v']"
    using refill_keeps [OF Cons.prems(1,2), of v] Cons.prems(3) by auto
  then show ?case
    using Cons.IH [OF ok_refill [OF Cons.prems(1), of v], of xs' "ys @ [v']"] Cons.prems(3) by simp
qed simp

text \<open>A touched entry survives fewer misses than the cache has entries.\<close>

lemma touched_survives:
  assumes "ok s" and "k \<in> set (order s)" and "length vs < capacity"
  shows "k \<in> set (order (fold refill vs (touch k s)))"
  using refills_keep [OF ok_touch [OF assms(1,2)], of _ k "[]" vs] order_touch [OF assms(1,2)]
    assms(3) by simp

end

end
