(* ===== verification/Address_Space_Invariant.thy ===== *)
theory Address_Space_Invariant
  imports Address_Space Lru_Cache
begin

text \<open>
  The invariant of the runtime address space and that every operation keeps it: distinct valid UTLB
  slots, ITLB entries that copy a UTLB mapping, and replacement ranks that form a permutation.  The
  ITLB is shown to implement a least-recently-used list, and the restore validation to accept exactly
  the snapshots that satisfy the invariant.
\<close>


subsection \<open>Replacement ranks\<close>

text \<open>The valid entries hold distinct ranks below their number.\<close>

definition ranks_ok :: "bool list \<Rightarrow> u8 list \<Rightarrow> bool" where
  "ranks_ok vs rs \<longleftrightarrow> length vs = 4 \<and> length rs = 4 \<and>
     (\<forall>i<4. vs ! i \<longrightarrow> unat (rs ! i) < length (filter id vs)) \<and>
     (\<forall>i<4. \<forall>j<4. vs ! i \<longrightarrow> vs ! j \<longrightarrow> rs ! i = rs ! j \<longrightarrow> i = j)"

lemma count_le: "length vs = 4 \<Longrightarrow> length (filter id vs) \<le> 4"
  using length_filter_le [of id vs] by simp

lemma valid_count_nat:
  "length (as_itlb_valid space) = 4 \<Longrightarrow>
     unat (valid_count space) = length (filter id (as_itlb_valid space))"
  using count_le [of "as_itlb_valid space"] by (simp add: valid_count_def unat_of_nat)

lemma ranks_ok_inj:
  assumes "ranks_ok vs rs" "i < 4" "j < 4" "vs ! i" "vs ! j"
  shows "unat (rs ! i) = unat (rs ! j) \<longleftrightarrow> i = j"
  using assms by (auto simp: ranks_ok_def word_unat_eq_iff)

definition moved_rank :: "nat \<Rightarrow> u8 \<Rightarrow> u8 \<Rightarrow> bool list \<Rightarrow> u8 list \<Rightarrow> nat \<Rightarrow> u8" where
  "moved_rank t old newest vs rs i =
     (if i = t then newest else if vs ! i \<and> rs ! i > old then rs ! i - 1 else rs ! i)"

lemma nth_lowered:
  assumes "length (as_itlb_lru space) = 4" and "i < 4" and "t < 4"
  shows "(lower_ranks t old space)[t := newest] ! i =
    moved_rank t old newest (as_itlb_valid space) (as_itlb_lru space) i"
  using assms by (simp add: lower_ranks_def moved_rank_def nth_list_update Let_def)

lemma unat_pred: "(old::u8) < r \<Longrightarrow> unat (r - 1) = unat r - 1"
  by (metis unat_minus_one word_less_nat_alt less_nat_zero_code unat_0)

lemma moved_rank_nat:
  assumes "vs ! i" "i \<noteq> t"
  shows "unat (moved_rank t old newest vs rs i) =
    (if unat old < unat (rs ! i) then unat (rs ! i) - 1 else unat (rs ! i))"
  using assms unat_pred [of old "rs ! i"] by (simp add: moved_rank_def word_less_nat_alt)

text \<open>Moving the entry \<open>t\<close> to the newest rank keeps the ranks.\<close>

lemma ranks_ok_move:
  assumes ok: "ranks_ok vs rs" and t: "t < 4" "vs ! t"
    and rs': "length rs' = 4"
      "\<And>i. i < 4 \<Longrightarrow> rs' ! i = moved_rank t (rs ! t) newest vs rs i"
    and newest: "unat newest = length (filter id vs) - 1"
  shows "ranks_ok vs rs'"
proof -
  let ?n = "length (filter id vs)"
  have bound: "unat (rs ! i) < ?n" if "i < 4" "vs ! i" for i
    using ok that by (simp add: ranks_ok_def)
  have inj: "unat (rs ! i) = unat (rs ! j) \<longleftrightarrow> i = j" if "i < 4" "j < 4" "vs ! i" "vs ! j" for i j
    by (rule ranks_ok_inj [OF ok that])
  have topr: "rs' ! t = newest" using rs'(2) [OF t(1)] by (simp add: moved_rank_def)
  have other: "unat (rs' ! i) < ?n - 1 \<and>
      unat (rs' ! i) = (if unat (rs ! t) < unat (rs ! i) then unat (rs ! i) - 1 else unat (rs ! i))"
    if "i < 4" "vs ! i" "i \<noteq> t" for i
    using that bound [of i] bound [of t] inj [of i t] t
    by (auto simp: rs'(2) moved_rank_nat)
  have "unat (rs' ! i) < ?n" if "i < 4" "vs ! i" for i
    using other [OF that] topr newest bound [OF t] by (cases "i = t") auto
  moreover have "i = j" if "i < 4" "j < 4" "vs ! i" "vs ! j" "rs' ! i = rs' ! j" for i j
  proof (cases "i = t \<or> j = t")
    case True
    then show ?thesis
      using that other [of i] other [of j] topr newest by (metis less_irrefl)
  next
    case False
    then show ?thesis
      using that other [of i] other [of j] inj [of i j] inj [of i t] inj [of j t] t
      by (auto simp: word_unat_eq_iff split: if_splits)
  qed
  ultimately show ?thesis
    using ok rs'(1) by (auto simp: ranks_ok_def)
qed


lemma valid_count_pred:
  assumes "ranks_ok (as_itlb_valid space) (as_itlb_lru space)" and "t < 4"
    and "as_itlb_valid space ! t"
  shows "valid_count space \<noteq> 0"
    and "unat (valid_count space - 1) = length (filter id (as_itlb_valid space)) - 1"
proof -
  let ?n = "length (filter id (as_itlb_valid space))"
  have "unat (as_itlb_lru space ! t) < ?n" using assms by (simp add: ranks_ok_def)
  then have "unat (valid_count space) \<noteq> 0"
    using valid_count_nat [of space] assms(1) unfolding ranks_ok_def by linarith
  then show "valid_count space \<noteq> 0" by auto
  then show "unat (valid_count space - 1) = ?n - 1"
    using valid_count_nat [of space] assms(1) by (simp add: ranks_ok_def unat_minus_one)
qed

lemma length_lower_ranks [simp]: "length (lower_ranks t old space) = 4"
  by (simp add: lower_ranks_def)

lemma ranks_ok_touch:
  assumes "ranks_ok (as_itlb_valid space) (as_itlb_lru space)" and "t < 4"
    and "as_itlb_valid space ! t"
  shows "ranks_ok (as_itlb_valid (touch_itlb t space)) (as_itlb_lru (touch_itlb t space))"
proof -
  have len: "length (as_itlb_valid space) = 4" "length (as_itlb_lru space) = 4"
    using assms(1) by (simp_all add: ranks_ok_def)
  note c = valid_count_pred [OF assms]
  have lru: "as_itlb_lru (touch_itlb t space) =
      (lower_ranks t (as_itlb_lru space ! t) space)[t := valid_count space - 1]"
    using c(1) by (simp add: touch_itlb_def Let_def)
  have valid: "as_itlb_valid (touch_itlb t space) = as_itlb_valid space"
    by (simp add: touch_itlb_def Let_def)
  show ?thesis unfolding valid
  proof (rule ranks_ok_move [OF assms])
    show "length (as_itlb_lru (touch_itlb t space)) = 4" by (simp add: lru)
    show "as_itlb_lru (touch_itlb t space) ! i = moved_rank t (as_itlb_lru space ! t)
        (valid_count space - 1) (as_itlb_valid space) (as_itlb_lru space) i" if "i < 4" for i
      unfolding lru by (rule nth_lowered [OF len(2) that assms(2)])
  qed (rule c(2))
qed

lemma filter_id_update:
  assumes "r < length vs" "\<not> vs ! r"
  shows "length (filter id (vs[r := True])) = Suc (length (filter id vs))"
proof -
  have "vs = take r vs @ False # drop (Suc r) vs"
    using assms id_take_nth_drop [of r vs] by simp
  moreover have "vs[r := True] = take r vs @ True # drop (Suc r) vs"
    using assms by (simp add: upd_conv_take_nth_drop)
  ultimately obtain a b where "vs = a @ False # b" "vs[r := True] = a @ True # b" by blast
  then show ?thesis by (simp only: filter_append filter.simps id_apply length_append) simp
qed

lemma ranks_ok_refill:
  assumes ok: "ranks_ok (as_itlb_valid space) (as_itlb_lru space)" and r: "r < 4"
  shows "ranks_ok (as_itlb_valid (refill_itlb r m space)) (as_itlb_lru (refill_itlb r m space))"
proof -
  let ?vs = "as_itlb_valid space" and ?rs = "as_itlb_lru space"
  have len: "length ?vs = 4" "length ?rs = 4" using ok by (simp_all add: ranks_ok_def)
  show ?thesis
  proof (cases "?vs ! r")
    case True
    then have vs: "?vs[r := True] = ?vs" by (metis list_update_id)
    note c = valid_count_pred(2) [OF ok r True]
    have lru: "as_itlb_lru (refill_itlb r m space) =
        (lower_ranks r (?rs ! r) space)[r := valid_count space - 1]"
      using True vs by (simp add: refill_itlb_def Let_def lower_ranks_def valid_count_def)
    have valid: "as_itlb_valid (refill_itlb r m space) = ?vs"
      by (simp add: refill_itlb_def Let_def vs)
    show ?thesis unfolding valid
    proof (rule ranks_ok_move [OF ok r True])
      show "length (as_itlb_lru (refill_itlb r m space)) = 4" by (simp add: lru)
      show "as_itlb_lru (refill_itlb r m space) ! i =
          moved_rank r (?rs ! r) (valid_count space - 1) ?vs ?rs i" if "i < 4" for i
        unfolding lru by (rule nth_lowered [OF len(2) that r])
    qed (rule c)
  next
    case False
    have n: "length (filter id (?vs[r := True])) = Suc (length (filter id ?vs))"
      using filter_id_update [of r ?vs] False r len by simp
    have le: "length (filter id ?vs) \<le> 3"
      using n count_le [of "?vs[r := True]"] len by simp
    have v: "as_itlb_valid (refill_itlb r m space) = ?vs[r := True]"
      and l: "as_itlb_lru (refill_itlb r m space) = ?rs[r := of_nat (length (filter id ?vs))]"
      using False by (simp_all add: refill_itlb_def Let_def valid_count_def n)
    have "unat (of_nat (length (filter id ?vs)) :: u8) = length (filter id ?vs)"
      using le by (simp add: unat_of_nat)
    then show ?thesis
      using ok r len unfolding v l
      by (auto simp: ranks_ok_def nth_list_update n less_Suc_eq)
  qed
qed


subsection \<open>The ITLB as a least-recently-used list\<close>

definition rank_order :: "bool list \<Rightarrow> u8 list \<Rightarrow> nat list" where
  "rank_order vs rs = sort_key (\<lambda>i. unat (rs ! i)) (filter (\<lambda>i. vs ! i) [0..<4])"

lemma set_rank_order [simp]: "set (rank_order vs rs) = {i. i < 4 \<and> vs ! i}"
  by (auto simp: rank_order_def)

lemma distinct_rank_order [simp]: "distinct (rank_order vs rs)"
  by (simp add: rank_order_def)

lemma sort_key_unique:
  assumes sorted: "sorted_wrt (\<lambda>a b. f a < (f b :: nat)) xs" and set: "set xs = set ys"
    and ys: "distinct ys"
  shows "sort_key f ys = xs"
proof -
  have strict: "sorted_wrt (<) (map f xs)" using sorted by (simp add: sorted_wrt_map)
  then have inj: "inj_on f (set xs)"
    by (simp add: strict_sorted_iff distinct_map)
  have "map f (sort_key f ys) = map f xs"
  proof (rule sorted_distinct_set_unique)
    show "sorted (map f xs)" "distinct (map f xs)"
      using strict by (simp_all add: strict_sorted_iff)
    show "distinct (map f (sort_key f ys))" using ys inj set by (simp add: distinct_map)
    show "set (map f (sort_key f ys)) = set (map f xs)" using set by simp
  qed simp
  moreover have "inj_on f (set (sort_key f ys) \<union> set xs)" using inj set by simp
  ultimately show ?thesis by (rule map_inj_on)
qed

lemma rank_order_sorted:
  assumes "ranks_ok vs rs"
  shows "sorted_wrt (\<lambda>a b. unat (rs ! a) < unat (rs ! b)) (rank_order vs rs)"
proof -
  have "inj_on (\<lambda>i. unat (rs ! i)) (set (rank_order vs rs))"
    using ranks_ok_inj [OF assms] by (auto simp: inj_on_def)
  then have "distinct (map (\<lambda>i. unat (rs ! i)) (rank_order vs rs))"
    by (simp add: distinct_map)
  moreover have "sorted (map (\<lambda>i. unat (rs ! i)) (rank_order vs rs))"
    by (simp add: rank_order_def)
  ultimately have "sorted_wrt (<) (map (\<lambda>i. unat (rs ! i)) (rank_order vs rs))"
    by (simp add: strict_sorted_iff)
  then show ?thesis by (simp add: sorted_wrt_map)
qed

lemma rank_order_move:
  assumes ok: "ranks_ok vs rs" and t: "t < 4" "vs ! t"
    and rs': "\<And>i. i < 4 \<Longrightarrow> rs' ! i = moved_rank t (rs ! t) newest vs rs i"
    and newest: "unat newest = length (filter id vs) - 1"
  shows "rank_order vs rs' = filter (\<lambda>i. i \<noteq> t) (rank_order vs rs) @ [t]"
proof -
  have key: "unat (rs' ! i) =
      (if unat (rs ! t) < unat (rs ! i) then unat (rs ! i) - 1 else unat (rs ! i))"
    if "i < 4" "vs ! i" "i \<noteq> t" for i
    using that by (simp add: rs' moved_rank_nat)
  have keyt: "unat (rs' ! t) = length (filter id vs) - 1"
    using t newest by (simp add: rs' moved_rank_def)
  have ne: "unat (rs ! i) \<noteq> unat (rs ! t)" if "i < 4" "vs ! i" "i \<noteq> t" for i
    using ranks_ok_inj [OF ok that(1) t(1) that(2) t(2)] that(3) by simp
  have bound: "unat (rs ! i) < length (filter id vs)" if "i < 4" "vs ! i" for i
    using ok that by (simp add: ranks_ok_def)
  have mono: "unat (rs' ! a) < unat (rs' ! b)"
    if "a \<in> set (rank_order vs rs)" "b \<in> set (rank_order vs rs)" "a \<noteq> t" "b \<noteq> t"
      "unat (rs ! a) < unat (rs ! b)" for a b
    using that key [of a] key [of b] ne [of a] ne [of b] by auto
  have low: "unat (rs' ! a) < unat (rs' ! t)" if "a \<in> set (rank_order vs rs)" "a \<noteq> t" for a
    using that key [of a] ne [of a] keyt bound [of a] bound [OF t] by auto
  have "sorted_wrt (\<lambda>a b. unat (rs' ! a) < unat (rs' ! b)) (filter (\<lambda>i. i \<noteq> t) (rank_order vs rs))"
    using sorted_wrt_filter [OF rank_order_sorted [OF ok], of "\<lambda>i. i \<noteq> t"]
    by (rule sorted_wrt_mono_rel [rotated]) (use mono in auto)
  then have "sorted_wrt (\<lambda>a b. unat (rs' ! a) < unat (rs' ! b))
      (filter (\<lambda>i. i \<noteq> t) (rank_order vs rs) @ [t])"
    using low by (auto simp: sorted_wrt_append)
  then show ?thesis
    unfolding rank_order_def [of vs rs'] using t by (intro sort_key_unique) auto
qed

lemma rank_order_add:
  assumes ok: "ranks_ok vs rs" and r: "r < 4" "\<not> vs ! r"
    and x: "unat x = length (filter id vs)"
  shows "rank_order (vs[r := True]) (rs[r := x]) = rank_order vs rs @ [r]"
proof -
  have len: "length vs = 4" "length rs = 4" using ok by (simp_all add: ranks_ok_def)
  have ne: "a \<noteq> r" if "a \<in> set (rank_order vs rs)" for a using that r by auto
  have "sorted_wrt (\<lambda>a b. unat (rs[r := x] ! a) < unat (rs[r := x] ! b)) (rank_order vs rs)"
    using rank_order_sorted [OF ok]
    by (rule sorted_wrt_mono_rel [rotated]) (metis ne nth_list_update_neq)
  moreover have "unat (rs[r := x] ! a) < unat (rs[r := x] ! r)" if "a \<in> set (rank_order vs rs)" for a
    using that ne [OF that] ok r len x by (auto simp: ranks_ok_def)
  ultimately have "sorted_wrt (\<lambda>a b. unat (rs[r := x] ! a) < unat (rs[r := x] ! b))
      (rank_order vs rs @ [r])"
    by (simp add: sorted_wrt_append)
  then show ?thesis
    unfolding rank_order_def [of "vs[r := True]"] using r len
    by (intro sort_key_unique) (auto simp: nth_list_update)
qed

lemma min_element_least:
  assumes "xs \<noteq> []"
  shows "min_element xs < length xs" and "i < length xs \<Longrightarrow> xs ! min_element xs \<le> xs ! i"
proof -
  let ?f = "\<lambda>best i. if xs ! i < xs ! best then i else best"
  let ?b = "\<lambda>n. foldl ?f 0 [1..<Suc n]"
  have "?b n \<le> n \<and> (\<forall>i\<le>n. xs ! ?b n \<le> xs ! i)" for n
  proof (induction n)
    case (Suc n)
    have step: "?b (Suc n) = ?f (?b n) (Suc n)" by simp
    show ?case
    proof (cases "xs ! Suc n < xs ! ?b n")
      case True
      then have "xs ! Suc n \<le> xs ! i" if "i \<le> n" for i
        using Suc.IH that by (meson less_imp_le order_trans)
      then show ?thesis unfolding step using True by (auto simp only: if_True le_Suc_eq)
    next
      case False
      then have "?b (Suc n) = ?b n" using step by (simp only: if_False)
      then show ?thesis
        using Suc.IH False by (simp only: le_Suc_eq not_less) blast
    qed
  qed simp
  from this [of "length xs - 1"] have "foldl ?f 0 [1..<Suc (length xs - 1)] \<le> length xs - 1 \<and>
      (\<forall>i\<le>length xs - 1. xs ! foldl ?f 0 [1..<Suc (length xs - 1)] \<le> xs ! i)"
    using assms by simp
  moreover have "Suc (length xs - 1) = length xs" using assms by simp
  ultimately have "foldl ?f 0 [1..<length xs] < length xs \<and>
      (\<forall>i<length xs. xs ! foldl ?f 0 [1..<length xs] \<le> xs ! i)"
    by (simp only: flip: less_Suc_eq_le) blast
  then show "min_element xs < length xs"
    "i < length xs \<Longrightarrow> xs ! min_element xs \<le> xs ! i"
    by (simp_all add: min_element_def)
qed


definition itlb_order :: "RuntimeAddressSpace \<Rightarrow> nat list" where
  "itlb_order space = rank_order (as_itlb_valid space) (as_itlb_lru space)"

definition itlb_ranks_ok :: "RuntimeAddressSpace \<Rightarrow> bool" where
  "itlb_ranks_ok space \<longleftrightarrow> ranks_ok (as_itlb_valid space) (as_itlb_lru space)"

lemma itlb_order_touch:
  assumes "itlb_ranks_ok space" and "t < 4" and "as_itlb_valid space ! t"
  shows "itlb_order (touch_itlb t space) = filter (\<lambda>i. i \<noteq> t) (itlb_order space) @ [t]"
proof -
  note ok = assms(1) [unfolded itlb_ranks_ok_def]
  note c = valid_count_pred [OF ok assms(2,3)]
  have len: "length (as_itlb_lru space) = 4" using ok by (simp add: ranks_ok_def)
  have lru: "as_itlb_lru (touch_itlb t space) =
      (lower_ranks t (as_itlb_lru space ! t) space)[t := valid_count space - 1]"
    and valid: "as_itlb_valid (touch_itlb t space) = as_itlb_valid space"
    using c(1) by (simp_all add: touch_itlb_def Let_def)
  show ?thesis
    unfolding itlb_order_def valid
  proof (rule rank_order_move [OF ok assms(2,3)])
    show "as_itlb_lru (touch_itlb t space) ! i = moved_rank t (as_itlb_lru space ! t)
        (valid_count space - 1) (as_itlb_valid space) (as_itlb_lru space) i" if "i < 4" for i
      unfolding lru by (rule nth_lowered [OF len that assms(2)])
  qed (rule c(2))
qed

lemma refill_fields:
  shows "as_itlb_valid (refill_itlb r m space) = (as_itlb_valid space)[r := True]"
    and "as_itlb (refill_itlb r m space) = (as_itlb space)[r := m]"
    and "as_itlb_source_slots (refill_itlb r m space) = (as_itlb_source_slots space)[r := tm_slot m]"
    and "as_mappings (refill_itlb r m space) = as_mappings space"
  by (simp_all add: refill_itlb_def Let_def)

lemma refill_lru:
  assumes "itlb_ranks_ok space" and "r < 4"
  shows "as_itlb_lru (refill_itlb r m space) =
    (if as_itlb_valid space ! r
     then (lower_ranks r (as_itlb_lru space ! r) space)[r := valid_count space - 1]
     else (as_itlb_lru space)[r := valid_count space])"
proof (cases "as_itlb_valid space ! r")
  case True
  then have "(as_itlb_valid space)[r := True] = as_itlb_valid space" by (metis list_update_id)
  with True show ?thesis by (simp add: refill_itlb_def Let_def lower_ranks_def valid_count_def)
next
  case False
  then have "length (filter id ((as_itlb_valid space)[r := True])) =
      Suc (length (filter id (as_itlb_valid space)))"
    using assms by (intro filter_id_update) (simp_all add: itlb_ranks_ok_def ranks_ok_def)
  with False show ?thesis by (simp add: refill_itlb_def Let_def valid_count_def)
qed

lemma itlb_order_refill:
  assumes "itlb_ranks_ok space" and "r < 4"
  shows "itlb_order (refill_itlb r m space) = filter (\<lambda>i. i \<noteq> r) (itlb_order space) @ [r]"
proof -
  note ok = assms(1) [unfolded itlb_ranks_ok_def]
  have len: "length (as_itlb_valid space) = 4" "length (as_itlb_lru space) = 4"
    using ok by (simp_all add: ranks_ok_def)
  show ?thesis
  proof (cases "as_itlb_valid space ! r")
    case True
    then have vs: "(as_itlb_valid space)[r := True] = as_itlb_valid space" by (metis list_update_id)
    note lru = refill_lru [OF assms, of m]
    show ?thesis
      unfolding itlb_order_def refill_fields vs
    proof (rule rank_order_move [OF ok assms(2) True])
      show "as_itlb_lru (refill_itlb r m space) ! i = moved_rank r (as_itlb_lru space ! r)
          (valid_count space - 1) (as_itlb_valid space) (as_itlb_lru space) i" if "i < 4" for i
        unfolding lru using True nth_lowered [OF len(2) that assms(2)] by simp
    qed (rule valid_count_pred(2) [OF ok assms(2) True])
  next
    case False
    then have "filter (\<lambda>i. i \<noteq> r) (itlb_order space) = itlb_order space"
      by (auto simp: itlb_order_def filter_id_conv)
    moreover have "unat (valid_count space) = length (filter id (as_itlb_valid space))"
      by (rule valid_count_nat [OF len(1)])
    ultimately show ?thesis
      using rank_order_add [OF ok assms(2) False] False
      by (simp add: itlb_order_def refill_fields refill_lru [OF assms])
  qed
qed

lemma itlb_replacement_less: "length (as_itlb_lru space) = 4 \<Longrightarrow> itlb_replacement space < 4"
  using min_element_least(1) [of "as_itlb_lru space"]
  by (cases "as_itlb_lru space = []") (auto simp: itlb_replacement_def find_Some_iff split: option.splits)

text \<open>A full ITLB gives up its least recently used entry.\<close>

lemma itlb_replacement_oldest:
  assumes "itlb_ranks_ok space" and "length (itlb_order space) = 4"
  shows "itlb_replacement space = hd (itlb_order space)"
proof -
  note ok = assms(1) [unfolded itlb_ranks_ok_def]
  let ?rs = "as_itlb_lru space"
  have len: "length ?rs = 4" using ok by (simp add: ranks_ok_def)
  have "card {i. i < 4 \<and> as_itlb_valid space ! i} = 4"
    using assms(2) distinct_card [of "itlb_order space"] by (simp add: itlb_order_def)
  then have "{i. i < 4 \<and> as_itlb_valid space ! i} = {..<4}"
    by (intro card_subset_eq) auto
  then have all: "as_itlb_valid space ! i" if "i < 4" for i using that by blast
  then have r: "itlb_replacement space = min_element ?rs"
    by (auto simp: itlb_replacement_def find_None_iff split: option.splits)
      (metis all atLeastLessThan_iff find_Some_iff set_upt nth_mem)
  obtain h t where ht: "itlb_order space = h # t" using assms(2) by (cases "itlb_order space") auto
  then have h: "h < 4" using set_rank_order unfolding itlb_order_def by (metis (mono_tags, lifting) list.set_intros(1) mem_Collect_eq)
  have lt: "unat (?rs ! h) \<le> unat (?rs ! i)" if "i < 4" for i
  proof -
    have "i \<in> set (rank_order (as_itlb_valid space) ?rs)" using all that by simp
    then have "i = h \<or> i \<in> set t" using ht by (simp only: itlb_order_def) simp
    moreover have "sorted_wrt (\<lambda>a b. unat (?rs ! a) < unat (?rs ! b)) (h # t)"
      using rank_order_sorted [OF ok] ht by (simp add: itlb_order_def)
    ultimately show ?thesis by auto
  qed
  have "?rs \<noteq> []" using len by auto
  then have m: "min_element ?rs < 4" "?rs ! min_element ?rs \<le> ?rs ! h"
    using min_element_least [of ?rs] len h by auto
  then have "unat (?rs ! min_element ?rs) = unat (?rs ! h)"
    using lt [of "min_element ?rs"] by (simp add: word_le_nat_alt)
  then have "min_element ?rs = h"
    using ranks_ok_inj [OF ok m(1) h] all m(1) h by simp
  then show ?thesis by (simp add: r ht)
qed



lemma itlb_ranks_ok_touch:
  "itlb_ranks_ok space \<Longrightarrow> t \<in> set (itlb_order space) \<Longrightarrow> itlb_ranks_ok (touch_itlb t space)"
  using ranks_ok_touch [of space t] by (simp add: itlb_ranks_ok_def itlb_order_def)

lemma itlb_order_length: "itlb_ranks_ok space \<Longrightarrow> length (itlb_order space) \<le> 4"
  by (simp add: itlb_order_def rank_order_def)
    (metis length_filter_le length_upt diff_zero)

lemma itlb_replacement_free:
  assumes "itlb_ranks_ok space" and "length (itlb_order space) < 4"
  shows "itlb_replacement space \<notin> set (itlb_order space)"
proof -
  have "\<exists>i<4. \<not> as_itlb_valid space ! i"
  proof (rule ccontr)
    assume "\<not> (\<exists>i<4. \<not> as_itlb_valid space ! i)"
    then have "filter (\<lambda>i. as_itlb_valid space ! i) [0..<4] = [0..<4]" by (simp add: filter_id_conv)
    then show False using assms(2) by (simp add: itlb_order_def rank_order_def)
  qed
  then obtain j where j: "find (\<lambda>i. \<not> as_itlb_valid space ! i) [0..<4] = Some j"
    by (cases "find (\<lambda>i. \<not> as_itlb_valid space ! i) [0..<4]") (auto simp: find_None_iff)
  then have "\<not> as_itlb_valid space ! j" by (auto simp: find_Some_iff)
  then show ?thesis by (simp add: itlb_replacement_def itlb_order_def j)
qed

text \<open>The instruction TLB is a least-recently-used cache of four entries.\<close>

interpretation itlb: lru_cache itlb_ranks_ok itlb_order touch_itlb
  "\<lambda>m space. refill_itlb (itlb_replacement space) m space" itlb_replacement 4
proof unfold_locales
  fix s k m
  assume ok: "itlb_ranks_ok s"
  then have r: "itlb_replacement s < 4"
    by (intro itlb_replacement_less) (simp add: itlb_ranks_ok_def ranks_ok_def)
  show "itlb_ranks_ok (refill_itlb (itlb_replacement s) m s)"
    using ranks_ok_refill [of s "itlb_replacement s" m] ok r by (simp add: itlb_ranks_ok_def)
  show "itlb_order (refill_itlb (itlb_replacement s) m s) =
      filter (\<lambda>i. i \<noteq> itlb_replacement s) (itlb_order s) @ [itlb_replacement s]"
    by (rule itlb_order_refill [OF ok r])
  show "distinct (itlb_order s)" by (simp add: itlb_order_def)
  show "length (itlb_order s) \<le> 4" by (rule itlb_order_length [OF ok])
  show "k \<in> set (itlb_order s) \<Longrightarrow>
      itlb_order (touch_itlb k s) = filter (\<lambda>i. i \<noteq> k) (itlb_order s) @ [k]"
    using itlb_order_touch [OF ok, of k] by (simp add: itlb_order_def)
qed (simp_all add: itlb_ranks_ok_touch itlb_replacement_free itlb_replacement_oldest)

subsection \<open>Page alignment\<close>

definition page_bits :: "u32 \<Rightarrow> nat" where
  "page_bits s = (if s = 1024 then 10 else if s = 4096 then 12 else if s = 65536 then 16 else 20)"

lemma valid_page_size_power:
  "valid_page_size s \<Longrightarrow> s = 2 ^ page_bits s \<and> 10 \<le> page_bits s \<and> page_bits s \<le> 20"
  by (auto simp: valid_page_size_def page_bits_def)

definition align_down :: "nat \<Rightarrow> u32 \<Rightarrow> u32" where
  "align_down k v = push_bit k (drop_bit k v)"

lemma align_down_div: "valid_page_size s \<Longrightarrow> v div s * s = align_down (page_bits s) v"
  using valid_page_size_power [of s]
  by (metis align_down_def drop_bit_eq_div push_bit_eq_mult)

lemma mod_page: "valid_page_size s \<Longrightarrow> v mod s = take_bit (page_bits s) v"
  using valid_page_size_power [of s] by (metis take_bit_eq_mod)

lemma bit_align_down: "bit (align_down k v) n \<longleftrightarrow> k \<le> n \<and> bit v n"
  by (auto simp: align_down_def bit_push_bit_iff bit_drop_bit_eq dest: bit_imp_le_length)

lemma align_down_mod: "valid_page_size s \<Longrightarrow> align_down (page_bits s) v mod s = 0"
  by (simp add: mod_page align_down_def take_bit_push_bit)

lemma align_down_and:
  assumes "\<And>n. bit msk n \<Longrightarrow> k \<le> n"
  shows "align_down k v AND msk = v AND msk"
  using assms by (auto simp: u32_eq_iff bit_and_iff bit_align_down)

lemma high_mask_bits: "bit (0xFC000000 :: u32) n \<Longrightarrow> 26 \<le> n"
proof -
  have "(0xFC000000 :: u32) = push_bit 26 0x3F" by simp
  then show "bit (0xFC000000 :: u32) n \<Longrightarrow> 26 \<le> n" by (metis bit_push_bit_iff)
qed

lemma below_p4_iff: "(v::u32) < 0xE0000000 \<longleftrightarrow> drop_bit 29 v < 7"
proof -
  have "unat (drop_bit 29 v) = unat v div 2 ^ 29" by (simp add: drop_bit_eq_div unat_div)
  then show ?thesis by (auto simp: word_less_nat_alt)
qed

lemma align_down_segment: "k \<le> 29 \<Longrightarrow> drop_bit 29 (align_down k v) = drop_bit 29 v"
  by (auto intro!: bit_word_eqI simp: bit_drop_bit_eq bit_align_down)

lemma canonical_aligned:
  assumes "k \<le> 20"
  shows "canonical_physical_address (align_down k (canonical_physical_address p)) =
    align_down k (canonical_physical_address p)"
proof -
  let ?c = "canonical_physical_address p" and ?a = "align_down k (canonical_physical_address p)"
  have w: "?a AND 0xFC000000 = ?c AND 0xFC000000"
    using assms high_mask_bits by (intro align_down_and) fastforce
  have s: "?a < 0xE0000000 \<longleftrightarrow> ?c < 0xE0000000"
    using assms by (simp add: below_p4_iff align_down_segment)
  have "?c AND 0xFC000000 = 0x7C000000 \<or> \<not> ?c < 0xE0000000 \<or> ?c AND 0x1FFFFFFF = ?c"
    by (simp add: canonical_physical_address_def and.assoc)
  moreover have "?a AND 0x1FFFFFFF = ?a" if "?c AND 0x1FFFFFFF = ?c"
    using that by (auto simp: u32_eq_iff bit_and_iff bit_align_down)
  ultimately show ?thesis
    unfolding canonical_physical_address_def [of ?a] using w s by auto
qed

subsection \<open>Invariant of the address space\<close>

definition itlb_entry_ok :: "RuntimeAddressSpace \<Rightarrow> nat \<Rightarrow> bool" where
  "itlb_entry_ok space i \<longleftrightarrow>
     (if as_itlb_valid space ! i
      then as_itlb space ! i \<in> set (as_mappings space) \<and>
           as_itlb_source_slots space ! i = tm_slot (as_itlb space ! i)
      else as_itlb_source_slots space ! i = 0xFF)"

definition mappings_ok :: "TlbMapping list \<Rightarrow> bool" where
  "mappings_ok ms \<longleftrightarrow> distinct (map tm_slot ms) \<and> (\<forall>m\<in>set ms. valid_mapping m)"

definition space_ok :: "RuntimeAddressSpace \<Rightarrow> bool" where
  "space_ok space \<longleftrightarrow> itlb_ranks_ok space \<and> length (as_itlb space) = 4 \<and>
     length (as_itlb_source_slots space) = 4 \<and> mappings_ok (as_mappings space) \<and>
     (\<forall>i<4. itlb_entry_ok space i)"

lemma space_ok_ranks: "space_ok space \<Longrightarrow> itlb_ranks_ok space"
  and space_ok_mappings: "space_ok space \<Longrightarrow> mappings_ok (as_mappings space)"
  and space_ok_entry: "space_ok space \<Longrightarrow> i < 4 \<Longrightarrow> itlb_entry_ok space i"
  by (simp_all add: space_ok_def)

text \<open>The operations that change nothing the invariant reads.\<close>

lemma space_ok_cong:
  assumes "as_mappings b = as_mappings a" "as_itlb b = as_itlb a"
    "as_itlb_valid b = as_itlb_valid a" "as_itlb_lru b = as_itlb_lru a"
    "as_itlb_source_slots b = as_itlb_source_slots a"
  shows "space_ok b = space_ok a"
  using assms by (simp add: space_ok_def itlb_ranks_ok_def itlb_entry_ok_def)

lemma ranks_ok_cleared: "ranks_ok (replicate 4 False) (replicate 4 0)"
  by (simp add: ranks_ok_def)

lemma space_ok_clear_itlb:
  assumes "mappings_ok (as_mappings space)" and "length (as_itlb space) = 4"
  shows "space_ok (clear_itlb space)"
  using assms
  by (simp add: space_ok_def itlb_ranks_ok_def itlb_entry_ok_def clear_itlb_def ranks_ok_cleared)

lemma space_ok_initial: "space_ok initial_address_space"
  by (simp add: space_ok_def itlb_ranks_ok_def itlb_entry_ok_def initial_address_space_def
      ranks_ok_cleared mappings_ok_def)

lemma replace_slot_slots:
  "set (map tm_slot (replace_slot m ms)) = insert (tm_slot m) (set (map tm_slot ms))"
  by (induction ms) auto

lemma mappings_ok_replace_slot:
  assumes "mappings_ok ms" and "valid_mapping m"
  shows "mappings_ok (replace_slot m ms)"
  using assms
proof (induction ms)
  case Nil
  then show ?case by (simp add: mappings_ok_def)
next
  case (Cons x ms)
  show ?case
  proof (cases "tm_slot x = tm_slot m")
    case True
    then show ?thesis using Cons.prems by (auto simp: mappings_ok_def)
  next
    case False
    have "mappings_ok (replace_slot m ms)"
      using Cons by (simp add: mappings_ok_def)
    moreover have "tm_slot x \<notin> set (map tm_slot (replace_slot m ms))"
      unfolding replace_slot_slots using False Cons.prems(1) by (auto simp: mappings_ok_def)
    ultimately show ?thesis
      using False Cons.prems(1) by (simp add: mappings_ok_def)
  qed
qed

lemma valid_mapping_normalised:
  assumes "valid_page_size (tm_page_size m)" and "tm_slot m < 64"
  shows "valid_mapping (m\<lparr>tm_virtual_page := tm_virtual_page m div tm_page_size m * tm_page_size m,
    tm_physical_page :=
      canonical_physical_address (tm_physical_page m) div tm_page_size m * tm_page_size m\<rparr>)"
  using assms valid_page_size_power [OF assms(1)]
  by (simp add: valid_mapping_def align_down_div align_down_mod canonical_aligned)

lemma space_ok_bump_mmu [simp]: "space_ok (bump_mmu space) = space_ok space"
  by (rule space_ok_cong) (simp_all add: bump_mmu_def)

lemma space_ok_ldtlb:
  assumes "space_ok space" and "tm_slot m < 64" and "ldtlb m space = Inr space'"
  shows "space_ok space'"
proof -
  let ?m = "m\<lparr>tm_virtual_page := tm_virtual_page m div tm_page_size m * tm_page_size m,
    tm_physical_page :=
      canonical_physical_address (tm_physical_page m) div tm_page_size m * tm_page_size m\<rparr>"
  have v: "valid_page_size (tm_page_size m)"
    and s: "space' = bump_mmu (clear_itlb (space\<lparr>as_mappings := replace_slot ?m (as_mappings space)\<rparr>))"
    using assms(3) by (auto simp: ldtlb_def Let_def split: if_splits)
  have "mappings_ok (replace_slot ?m (as_mappings space))"
    using assms(1) valid_mapping_normalised [OF v assms(2)]
    by (intro mappings_ok_replace_slot) (simp_all add: space_ok_def)
  then show ?thesis
    using assms(1) unfolding s by (simp add: space_ok_clear_itlb space_ok_def [of space])
qed

lemma space_ok_touch:
  assumes "space_ok space" and "t < 4" and "as_itlb_valid space ! t"
  shows "space_ok (touch_itlb t space)"
proof -
  have "itlb_ranks_ok (touch_itlb t space)"
    using ranks_ok_touch [of space t] assms by (simp add: space_ok_def itlb_ranks_ok_def)
  then show ?thesis
    using assms by (simp add: space_ok_def itlb_entry_ok_def touch_itlb_def Let_def)
qed

lemma space_ok_refill:
  assumes "space_ok space" and "r < 4" and "m \<in> set (as_mappings space)"
  shows "space_ok (refill_itlb r m space)"
proof -
  have "itlb_ranks_ok (refill_itlb r m space)"
    using ranks_ok_refill [of space r m] assms by (simp add: space_ok_def itlb_ranks_ok_def)
  moreover have "itlb_entry_ok (refill_itlb r m space) i" if "i < 4" for i
    using assms that space_ok_entry [OF assms(1) that]
    by (auto simp: itlb_entry_ok_def refill_fields nth_list_update space_ok_def itlb_ranks_ok_def
        ranks_ok_def)
  ultimately show ?thesis
    using assms by (simp add: space_ok_def refill_fields)
qed

lemma dropWhile_Cons_in: "dropWhile P xs = y # ys \<Longrightarrow> y \<in> set xs \<and> \<not> P y"
  by (metis dropWhile_eq_Cons_conv in_set_conv_decomp)

lemma space_ok_translate_utlb:
  "space_ok space \<Longrightarrow> space_ok (snd (translate_utlb space a access p u))"
  by (auto simp: translate_utlb_def Let_def space_ok_def [of space] itlb_ranks_ok_def ranks_ok_def
      intro!: space_ok_refill itlb_replacement_less dest: dropWhile_Cons_in split: list.splits)

lemma itlb_hit_Some:
  "itlb_hit space a p = Some i \<Longrightarrow>
     i < 4 \<and> as_itlb_valid space ! i \<and> tlb_matches space a p (as_itlb space ! i)"
  by (auto simp: itlb_hit_def find_Some_iff)

lemma space_ok_translate_mapped:
  "space_ok space \<Longrightarrow> space_ok (snd (translate_mapped space a access p u))"
  by (auto simp: translate_mapped_def space_ok_translate_utlb space_ok_touch
      dest: itlb_hit_Some split: option.splits if_splits)

lemma space_ok_translate_impl:
  "space_ok space \<Longrightarrow> space_ok (snd (translate_impl space a access p u))"
  by (auto simp: translate_impl_def Let_def space_ok_translate_mapped
      split: InstructionTranslationPath.splits)

subsection \<open>Snapshots\<close>

text \<open>The array members of a snapshot have four elements.\<close>

definition snapshot_arrays :: "RuntimeAddressSpaceSnapshot \<Rightarrow> bool" where
  "snapshot_arrays state \<longleftrightarrow> length (sn_itlb state) = 4 \<and> length (sn_itlb_valid state) = 4 \<and>
     length (sn_itlb_lru state) = 4 \<and> length (sn_itlb_source_slots state) = 4"

lemma mappings_accepted_iff:
  "mappings_accepted ms seen \<longleftrightarrow>
     mappings_ok ms \<and> (\<forall>m\<in>set ms. tm_slot m \<notin> seen)"
  by (induction ms arbitrary: seen) (auto simp: mappings_ok_def image_iff)

lemma mappings_ok_length:
  assumes "mappings_ok ms"
  shows "length ms \<le> 64"
proof -
  have "inj_on (unat \<circ> tm_slot) (set ms)"
    using assms by (auto simp: mappings_ok_def distinct_map inj_on_def word_unat_eq_iff)
  moreover have "(unat \<circ> tm_slot) ` set ms \<subseteq> {..<64}"
    using assms by (auto simp: mappings_ok_def valid_mapping_def word_less_nat_alt)
  ultimately have "card (set ms) \<le> 64"
    using card_inj_on_le [of "unat \<circ> tm_slot" "set ms" "{..<64}"] by simp
  moreover have "distinct ms" using assms by (auto simp: mappings_ok_def distinct_map)
  ultimately show ?thesis by (simp add: distinct_card)
qed

lemma find_slot_iff:
  assumes "distinct (map tm_slot ms)"
  shows "find (\<lambda>m. tm_slot m = s) ms = Some x \<longleftrightarrow> x \<in> set ms \<and> tm_slot x = s"
  using assms by (induction ms) auto

lemma check_itlb_iff:
  assumes "distinct indices"
  shows "check_itlb state n indices seen = None \<longleftrightarrow>
    (\<forall>i\<in>set indices. if sn_itlb_valid state ! i then
        find (\<lambda>m. tm_slot m = sn_itlb_source_slots state ! i) (sn_mappings state) =
          Some (sn_itlb state ! i) \<and> sn_itlb_source_slots state ! i < 64 \<and>
        valid_mapping (sn_itlb state ! i) \<and> unat (sn_itlb_lru state ! i) < n \<and>
        sn_itlb_lru state ! i \<notin> seen
      else sn_itlb_source_slots state ! i = 0xFF) \<and>
    (\<forall>i\<in>set indices. \<forall>j\<in>set indices. sn_itlb_valid state ! i \<longrightarrow> sn_itlb_valid state ! j \<longrightarrow>
        sn_itlb_lru state ! i = sn_itlb_lru state ! j \<longrightarrow> i = j)"
  using assms
proof (induction indices arbitrary: seen)
  case (Cons i indices)
  show ?case
  proof (cases "sn_itlb_valid state ! i")
    case True
    then show ?thesis
      using Cons by (auto simp: Let_def split: option.splits)
  next
    case False
    then show ?thesis using Cons by auto
  qed
qed simp

lemma validate_state_restore_iff:
  assumes "snapshot_arrays state"
  shows "validate_state_restore space state = None \<longleftrightarrow>
    as_address_space_generation space \<noteq> - 1 \<and> as_mmu_generation space \<noteq> - 1 \<and>
    space_ok (commit_validated_state_restore state space)"
proof -
  have "check_itlb state (length (filter id (sn_itlb_valid state))) [0..<4] {} = None \<longleftrightarrow>
      space_ok (commit_validated_state_restore state space)" if ok: "mappings_ok (sn_mappings state)"
  proof -
    have d: "distinct (map tm_slot (sn_mappings state))" using ok by (simp add: mappings_ok_def)
    have v: "valid_mapping m \<and> tm_slot m < 64" if "m \<in> set (sn_mappings state)" for m
      using ok that by (auto simp: mappings_ok_def valid_mapping_def)
    show ?thesis
      using assms ok v
      by (auto simp: check_itlb_iff find_slot_iff [OF d] space_ok_def itlb_ranks_ok_def
          ranks_ok_def itlb_entry_ok_def commit_validated_state_restore_def snapshot_arrays_def)
  qed
  moreover have "space_ok (commit_validated_state_restore state space) \<Longrightarrow>
      mappings_ok (sn_mappings state)"
    by (simp add: space_ok_def commit_validated_state_restore_def)
  ultimately show ?thesis
    using mappings_ok_length [of "sn_mappings state"]
    by (auto simp: validate_state_restore_def mappings_accepted_iff)
qed

lemma commit_snapshot_ok:
  "space_ok (commit_validated_state_restore (snapshot space) other) = space_ok space"
  by (rule space_ok_cong) (simp_all add: commit_validated_state_restore_def snapshot_def)

end
