(* ===== verification/Address_Space_Translation.thy ===== *)
theory Address_Space_Translation
  imports Address_Space_Invariant
begin

text \<open>
  Translation through the runtime address space: the step relation of its operations and the
  reachable states, agreement of \<open>translate\<close> with the side-effect free \<open>inspect_translation\<close>, what
  the generations of a block guard detect, and the soundness of \<open>prove_instruction_mapping\<close>.
\<close>

subsection \<open>Steps\<close>

inductive space_step :: "RuntimeAddressSpace \<Rightarrow> RuntimeAddressSpace \<Rightarrow> bool" where
  step_set_mode: "space_step space (set_mode mode space)"
| step_write_mmucr: "space_step space (write_mmucr v space)"
| step_write_pteh: "space_step space (write_pteh v space)"
| step_ldtlb: "tm_slot m < 64 \<Longrightarrow> ldtlb m space = Inr space' \<Longrightarrow> space_step space space'"
| step_clear_tlb: "space_step space (clear_tlb space)"
| step_clear_itlb: "space_step space (clear_itlb space)"
| step_bump_address_space: "space_step space (bump_address_space space)"
| step_bump_watchpoints: "space_step space (bump_watchpoints space)"
| step_translate: "space_step space (snd (translate space a access p))"
| step_restore: "snapshot_arrays state \<Longrightarrow> restore_state_passive state space = Inr space' \<Longrightarrow>
     space_step space space'"

inductive reachable_space :: "RuntimeAddressSpace \<Rightarrow> bool" where
  reach_initial: "reachable_space initial_address_space"
| reach_step: "reachable_space space \<Longrightarrow> space_step space space' \<Longrightarrow> reachable_space space'"

inductive_cases space_stepE: "space_step space space'"

lemma space_ok_simple_steps:
  assumes "space_ok space"
  shows "space_ok (set_mode mode space)" and "space_ok (write_mmucr v space)"
    and "space_ok (write_pteh v space)" and "space_ok (clear_tlb space)"
    and "space_ok (clear_itlb space)" and "space_ok (bump_address_space space)"
    and "space_ok (bump_watchpoints space)"
proof -
  have len: "length (as_itlb space) = 4" and ms: "mappings_ok (as_mappings space)"
    using assms by (simp_all add: space_ok_def)
  have upd: "space_ok (space\<lparr>as_mode := mode, as_address_space_generation := g\<rparr>)"
    "space_ok (space\<lparr>as_mmucr := v\<rparr>)" "space_ok (space\<lparr>as_asid := x\<rparr>)"
    "space_ok (space\<lparr>as_address_space_generation := g\<rparr>)"
    "space_ok (space\<lparr>as_watchpoint_generation := g\<rparr>)" for g x
    using assms by (subst space_ok_cong [of _ space]; simp)+
  show "space_ok (set_mode mode space)" "space_ok (bump_address_space space)"
    "space_ok (bump_watchpoints space)" "space_ok (write_pteh v space)"
    using assms upd
    by (simp_all add: set_mode_def bump_address_space_def bump_watchpoints_def write_pteh_def Let_def)
  show "space_ok (write_mmucr v space)"
    using assms upd len ms by (simp add: write_mmucr_def Let_def space_ok_clear_itlb)
  show "space_ok (clear_tlb space)" "space_ok (clear_itlb space)"
    using len ms
    by (simp_all add: clear_tlb_def space_ok_clear_itlb mappings_ok_def [of "[]"])
qed

lemma space_ok_restore:
  assumes "snapshot_arrays state" and "restore_state_passive state space = Inr space'"
  shows "space_ok space'"
  using assms validate_state_restore_iff [OF assms(1), of space]
  by (auto simp: restore_state_passive_def split: option.splits)

lemma space_step_ok: "space_step space space' \<Longrightarrow> space_ok space \<Longrightarrow> space_ok space'"
  by (induction rule: space_step.induct)
    (auto simp: space_ok_simple_steps translate_def
      intro: space_ok_ldtlb space_ok_restore space_ok_translate_impl)

lemma reachable_space_ok: "reachable_space space \<Longrightarrow> space_ok space"
  by (induction rule: reachable_space.induct) (auto intro: space_ok_initial space_step_ok)

subsection \<open>Inspection and translation\<close>

text \<open>
  The part of \<open>translate_impl\<close> before the TLB: an exception, a direct physical address, or \<open>None\<close>
  when the TLB decides.
\<close>

definition route :: "AddressTranslationMode \<Rightarrow> u32 \<Rightarrow> TranslationAccess \<Rightarrow> bool \<Rightarrow>
    (address_error + u32) option" where
  "route mode address access privileged =
     (let failed = Some (Inl (translation_error access address
            (if access = DataWrite then AddressErrorWrite else AddressErrorRead)))
      in if access = InstructionFetch \<and> address AND 1 \<noteq> 0 then failed
         else if \<not> privileged \<and> address \<ge> 0x80000000 then failed
         else if address AND 0xFC000000 = sh4_on_chip_ram_address then Some (Inr address)
         else if segment address = 4 \<or> segment address = 5 then
           (if \<not> privileged then failed else Some (Inr (canonical_physical_address address)))
         else if segment address \<ge> 7 then
           (if access = InstructionFetch \<or> \<not> privileged then failed else Some (Inr address))
         else if mode = NoMmu then Some (Inr (canonical_physical_address address))
         else if segment address = 6 \<and> \<not> privileged then failed
         else None)"

lemma canonical_on_chip:
  "address AND 0xFC000000 = sh4_on_chip_ram_address \<Longrightarrow>
     canonical_physical_address address = address"
  by (simp add: canonical_physical_address_def sh4_on_chip_ram_address_def)

lemma translate_impl_route:
  "translate_impl space address access privileged u =
     (case route (as_mode space) address access privileged of
        None \<Rightarrow> translate_mapped space address access privileged u
      | Some (Inl e) \<Rightarrow> (Inl e, space)
      | Some (Inr physical) \<Rightarrow> (Inr (direct_result space address physical), space))"
proof (cases "access = InstructionFetch")
  case True
  then show ?thesis
    by (simp add: translate_impl_def route_def instruction_translation_path_def canonical_on_chip
        Let_def)
next
  case False
  then show ?thesis by (simp add: translate_impl_def route_def Let_def)
qed

lemma translate_utlb_keeps: "snd (translate_utlb space a access p False) = space"
  by (cases "dropWhile (\<lambda>m. \<not> tlb_matches space a p m) (as_mappings space)")
    (auto simp: translate_utlb_def simp del: dropWhile_eq_Nil_conv)

lemma inspect_keeps_space: "snd (inspect_translation space a access p) = space"
  by (simp add: inspect_translation_def translate_impl_route translate_mapped_def
      translate_utlb_keeps split: option.splits sum.splits)

text \<open>What a caller sees of a translation: the exception or the physical address.\<close>

definition outcome :: "address_error + TranslationResult \<Rightarrow> address_error + u32" where
  "outcome r = (case r of Inl e \<Rightarrow> Inl e | Inr t \<Rightarrow> Inr (tr_physical_address t))"

lemma outcome_finish:
  "outcome (finish_translation s a access p m u1 i1 r1) =
   outcome (finish_translation s' a access p m u2 i2 r2)"
  by (auto simp: finish_translation_def outcome_def)

lemma dropWhile_unique:
  assumes "dropWhile (\<lambda>x. \<not> P x) xs = y # ys" and "\<not> list_ex P ys" and "e \<in> set xs" and "P e"
  shows "e = y"
proof -
  have "e \<notin> set (takeWhile (\<lambda>x. \<not> P x) xs)" using assms(4) by (auto dest: set_takeWhileD)
  then have "e \<in> set (y # ys)"
    using assms(1,3) by (metis takeWhile_dropWhile_id set_append UnE)
  then show ?thesis using assms(2,4) by (auto simp: list_ex_iff)
qed

lemma translate_utlb_outcome:
  "outcome (fst (translate_utlb space a access p u)) =
   outcome (fst (translate_utlb space a access p False))"
  by (cases "dropWhile (\<lambda>m. \<not> tlb_matches space a p m) (as_mappings space)")
    (auto simp: translate_utlb_def Let_def intro: outcome_finish simp del: dropWhile_eq_Nil_conv)

lemma translate_mapped_outcome:
  assumes ok: "space_ok space"
    and "fst (translate_mapped space a access p False) \<noteq>
      Inl (translation_error access a TlbMultipleHit)"
  shows "outcome (fst (translate_mapped space a access p u)) =
    outcome (fst (translate_mapped space a access p False))"
proof (cases "if access = InstructionFetch \<and> u then itlb_hit space a p else None")
  case None
  then show ?thesis using translate_utlb_outcome [of space a access p u]
    by (simp add: translate_mapped_def)
next
  case (Some i)
  then have acc: "access = InstructionFetch" "u" and hit: "itlb_hit space a p = Some i"
    by (simp_all split: if_splits)
  let ?e = "as_itlb space ! i"
  have e: "?e \<in> set (as_mappings space)" "tlb_matches space a p ?e"
    using itlb_hit_Some [OF hit] space_ok_entry [OF ok, of i]
    by (simp_all add: itlb_entry_ok_def)
  then obtain found rest where dw:
    "dropWhile (\<lambda>m. \<not> tlb_matches space a p m) (as_mappings space) = found # rest"
    by (cases "dropWhile (\<lambda>m. \<not> tlb_matches space a p m) (as_mappings space)")
      (auto simp: dropWhile_eq_Nil_conv)
  have single: "\<not> list_ex (tlb_matches space a p) rest"
    using assms(2) dw by (auto simp: translate_mapped_def translate_utlb_def)
  have "?e = found" by (rule dropWhile_unique [OF dw single e])
  then show ?thesis
    using acc hit dw single outcome_finish
    by (simp add: translate_mapped_def translate_utlb_def)
qed

lemma translate_inspect_outcome:
  assumes ok: "space_ok space"
    and "fst (inspect_translation space a access p) \<noteq>
      Inl (translation_error access a TlbMultipleHit)"
  shows "outcome (fst (translate space a access p)) =
    outcome (fst (inspect_translation space a access p))"
proof (cases "route (as_mode space) a access p")
  case None
  then show ?thesis
    using assms translate_mapped_outcome [OF ok, of a access p True]
    by (simp add: translate_def inspect_translation_def translate_impl_route)
next
  case (Some r)
  then show ?thesis
    by (cases r) (simp_all add: translate_def inspect_translation_def translate_impl_route)
qed

subsection \<open>Guards\<close>

text \<open>What translation reads of the address space.\<close>

definition translation_view ::
    "RuntimeAddressSpace \<Rightarrow> AddressTranslationMode \<times> bool \<times> u8 \<times> TlbMapping list" where
  "translation_view space =
     (as_mode space, as_mmucr space AND mmucr_sv_mask \<noteq> 0, as_asid space, as_mappings space)"

definition generations :: "RuntimeAddressSpace \<Rightarrow> u64 \<times> u64" where
  "generations space = (as_address_space_generation space, as_mmu_generation space)"

lemma view_matches:
  "translation_view s = translation_view t \<Longrightarrow> tlb_matches s a p = tlb_matches t a p"
  by (auto simp: fun_eq_iff tlb_matches_def translation_view_def Let_def)

lemma view_utlb_outcome:
  assumes "translation_view s = translation_view t"
  shows "outcome (fst (translate_utlb s a access p False)) =
    outcome (fst (translate_utlb t a access p False))"
proof -
  have "as_mappings s = as_mappings t" using assms by (simp add: translation_view_def)
  then show ?thesis
    using view_matches [OF assms, of a p]
    by (cases "dropWhile (\<lambda>m. \<not> tlb_matches s a p m) (as_mappings s)")
      (auto simp: translate_utlb_def intro: outcome_finish simp del: dropWhile_eq_Nil_conv)
qed

lemma view_inspect_outcome:
  assumes "translation_view s = translation_view t"
  shows "outcome (fst (inspect_translation s a access p)) =
    outcome (fst (inspect_translation t a access p))"
  using assms view_utlb_outcome [OF assms, of a access p]
  by (auto simp: inspect_translation_def translate_impl_route translate_mapped_def
      translation_view_def outcome_def direct_result_def split: option.splits sum.splits)

lemma bump_changes: "(x::u64) + 1 \<noteq> x"
  by simp

lemma sv_unchanged:
  assumes "(a XOR b) AND mmucr_translation_mask = 0"
  shows "(a AND mmucr_sv_mask \<noteq> 0) = ((b::u32) AND mmucr_sv_mask \<noteq> 0)"
proof -
  have m: "mmucr_translation_mask AND mmucr_sv_mask = mmucr_sv_mask"
    by (simp add: mmucr_translation_mask_def mmucr_at_mask_def mmucr_sv_mask_def mmucr_sqmd_mask_def)
  have "(a XOR b) AND mmucr_sv_mask =
      ((a XOR b) AND mmucr_translation_mask) AND mmucr_sv_mask"
    by (simp only: and.assoc m)
  then have "(a XOR b) AND mmucr_sv_mask = 0" by (simp add: assms)
  then have "a AND mmucr_sv_mask = b AND mmucr_sv_mask"
    by (simp add: bit_eq_iff bit_simps) blast
  then show ?thesis by simp
qed

lemma touch_refill_fields [simp]:
  "as_mode (touch_itlb i s) = as_mode s" "as_mmucr (touch_itlb i s) = as_mmucr s"
  "as_asid (touch_itlb i s) = as_asid s" "as_mappings (touch_itlb i s) = as_mappings s"
  "as_mode (refill_itlb r m s) = as_mode s" "as_mmucr (refill_itlb r m s) = as_mmucr s"
  "as_asid (refill_itlb r m s) = as_asid s" "as_mappings (refill_itlb r m s) = as_mappings s"
  by (simp_all add: touch_itlb_def refill_itlb_def Let_def)

lemma translate_utlb_view:
  "translation_view (snd (translate_utlb s a access p u)) = translation_view s"
  by (cases "dropWhile (\<lambda>m. \<not> tlb_matches s a p m) (as_mappings s)")
    (auto simp: translate_utlb_def Let_def translation_view_def simp del: dropWhile_eq_Nil_conv)

lemma translate_view: "translation_view (snd (translate s a access p)) = translation_view s"
  using translate_utlb_view [of s a access p True]
  by (auto simp: translate_def translate_impl_route translate_mapped_def translation_view_def
      split: option.splits sum.splits)

text \<open>A step that keeps both generations keeps every translation.\<close>

lemma step_generations:
  assumes "space_step s t" and "generations t = generations s"
  shows "translation_view t = translation_view s"
  using assms
proof (induction rule: space_step.induct)
  case (step_write_mmucr space v)
  then have "(as_mmucr space XOR v) AND mmucr_translation_mask = 0 \<or> as_mmucr space = v"
    by (auto simp: write_mmucr_def Let_def generations_def bump_mmu_def clear_itlb_def
        split: if_splits)
  then show ?case
    using sv_unchanged [of "as_mmucr space" v]
    by (auto simp: write_mmucr_def Let_def translation_view_def bump_mmu_def clear_itlb_def)
next
  case (step_translate space a access p)
  then show ?case by (simp add: translate_view)
qed (auto simp: set_mode_def write_pteh_def ldtlb_def clear_tlb_def clear_itlb_def bump_mmu_def
    bump_address_space_def bump_watchpoints_def restore_state_passive_def
    commit_validated_state_restore_def generations_def translation_view_def Let_def
    split: if_splits option.splits)

lemma direct_guard_is_guard_for:
  assumes "direct_p1_p2_instruction_guard space a fpscr p = Some g" and "a AND 1 = 0"
  shows "guard_for space a fpscr p = Inr g"
proof -
  have p: "p" and seg: "segment a = 4 \<or> segment a = 5"
    and g: "g = state_guard space fpscr (canonical_physical_address a)"
    using assms(1) by (auto simp: direct_p1_p2_instruction_guard_def split: if_splits)
  have "a AND 0xFC000000 \<noteq> sh4_on_chip_ram_address"
  proof
    assume "a AND 0xFC000000 = sh4_on_chip_ram_address"
    then have "drop_bit 29 (a AND 0xFC000000) = 3" by (simp add: sh4_on_chip_ram_address_def)
    then have "drop_bit 29 a AND 7 = (3::u32)" by (simp add: drop_bit_and)
    then show False using seg by (auto simp: segment_def)
  qed
  then have "route (as_mode space) a InstructionFetch p = Some (Inr (canonical_physical_address a))"
    using seg p assms(2) by (auto simp: route_def Let_def)
  then show ?thesis
    by (simp add: guard_for_def inspect_translation_def translate_impl_route direct_result_def g)
qed

lemma dispatch_guard_current_iff:
  "direct_p1_p2_dispatch_guard_current space a fpscr p key rt \<longleftrightarrow>
     (\<exists>g. direct_p1_p2_instruction_guard space a fpscr p = Some g \<and> key = block_variant_key g rt)"
  by (auto simp: direct_p1_p2_dispatch_guard_current_def direct_p1_p2_instruction_guard_def
      block_variant_key_def state_guard_def)

subsection \<open>Mapping proofs\<close>

text \<open>Two addresses of one kilobyte agree from bit ten on.\<close>

definition same_kilobyte :: "u32 \<Rightarrow> u32 \<Rightarrow> bool" where
  "same_kilobyte a b \<longleftrightarrow> unat a div 1024 = unat b div 1024"

lemma same_kilobyte_bits:
  assumes "same_kilobyte a b" and "10 \<le> n"
  shows "bit a n = bit b n"
proof -
  have "drop_bit 10 a = drop_bit 10 b"
    using assms(1) by (simp add: same_kilobyte_def word_unat_eq_iff drop_bit_eq_div unat_div)
  then have "bit (drop_bit 10 a) (n - 10) = bit (drop_bit 10 b) (n - 10)" by simp
  then show ?thesis using assms(2) by (simp add: bit_drop_bit_eq)
qed

lemma same_kilobyte_high:
  assumes "same_kilobyte a b"
  shows "a AND 0xFC000000 = b AND 0xFC000000" and "segment a = segment b"
    and "a \<ge> 0x80000000 \<longleftrightarrow> b \<ge> 0x80000000" and "a < 0xE0000000 \<longleftrightarrow> b < 0xE0000000"
    and "a AND NOT 0x1FFFFFFF = b AND NOT 0x1FFFFFFF"
proof -
  have bits: "bit a n = bit b n" if "10 \<le> n" for n using same_kilobyte_bits [OF assms that] .
  have e: "bit a n \<longleftrightarrow> bit b n" if "bit (0xFC000000::u32) n" for n
    using high_mask_bits [OF that] bits [of n] by simp
  show "a AND 0xFC000000 = b AND 0xFC000000"
    using e by (auto simp only: bit_eq_iff bit_and_iff)
  show seg: "segment a = segment b"
    by (auto intro!: bit_word_eqI simp: segment_def bit_drop_bit_eq bits)
  then show "a < 0xE0000000 \<longleftrightarrow> b < 0xE0000000"
    by (simp add: below_p4_iff segment_def)
  have "(v::u32) \<ge> 0x80000000 \<longleftrightarrow> 4 \<le> segment v" for v
    by (simp add: segment_def drop_bit_eq_div word_le_nat_alt unat_div less_eq_div_iff_mult_less_eq)
  then show "a \<ge> 0x80000000 \<longleftrightarrow> b \<ge> 0x80000000" using seg by simp
  have low: "\<not> bit (NOT 0x1FFFFFFF :: u32) n" if "n < 10" for n
  proof -
    have "(0x1FFFFFFF :: u32) = mask 29" by (simp add: mask_eq_exp_minus_1)
    then have "bit (0x1FFFFFFF :: u32) n" using that by (simp only: bit_mask_iff) simp
    then show ?thesis by (auto simp only: bit_not_iff)
  qed
  show "a AND NOT 0x1FFFFFFF = b AND NOT 0x1FFFFFFF"
  proof (rule bit_word_eqI)
    fix n
    show "bit (a AND NOT 0x1FFFFFFF) n = bit (b AND NOT 0x1FFFFFFF) n"
      using low [of n] bits [of n] by (cases "n < 10") (simp_all only: bit_and_iff not_less simp_thms)
  qed
qed

lemma canonical_affine:
  assumes "same_kilobyte a b"
  shows "canonical_physical_address b = canonical_physical_address a + (b - a)"
proof -
  note h = same_kilobyte_high [OF assms]
  have split: "(v AND 0x1FFFFFFF) + (v AND NOT 0x1FFFFFFF) = v" for v :: u32
    by (subst disjunctive_add_eq_or) (auto intro!: bit_word_eqI simp: bit_simps)
  have shift: "x = l + t \<Longrightarrow> y = l' + t \<Longrightarrow> l' = l + (y - x)" for x y l l' t :: u32 by simp
  have "b AND 0x1FFFFFFF = (a AND 0x1FFFFFFF) + (b - a)"
    by (rule shift [OF split [of a, symmetric] split [of b, folded h(5), symmetric]])
  then show ?thesis using h(1,4) by (simp add: canonical_physical_address_def)
qed

lemma page_multiple:
  assumes "valid_mapping m"
  obtains q r where "uint (tm_virtual_page m) = 1024 * q" and "uint (tm_page_size m) = 1024 * r"
proof -
  have vs: "valid_page_size (tm_page_size m)" and mod0: "tm_virtual_page m mod tm_page_size m = 0"
    using assms by (simp_all add: valid_mapping_def)
  then obtain r where r: "uint (tm_page_size m) = 1024 * r"
    by (auto simp: valid_page_size_def)
  have "uint (tm_virtual_page m) mod uint (tm_page_size m) = 0"
    using arg_cong [OF mod0, of uint] by (simp add: uint_mod)
  then obtain k where "uint (tm_virtual_page m) = uint (tm_page_size m) * k"
    by (metis mod_0_imp_dvd dvdE)
  then have "uint (tm_virtual_page m) = 1024 * (r * k)" using r by simp
  with r that show thesis by blast
qed

lemma kilobyte_le: "1024 * q \<le> (x::int) \<longleftrightarrow> q \<le> x div 1024"
  by linarith

lemma same_kilobyte_matches:
  assumes "same_kilobyte a b" and "valid_mapping m"
  shows "tlb_matches space a p m = tlb_matches space b p m"
proof -
  obtain q r where qr: "uint (tm_virtual_page m) = 1024 * q" "uint (tm_page_size m) = 1024 * r"
    using page_multiple [OF assms(2)] .
  have "int (unat a div 1024) = int (unat b div 1024)"
    using assms(1) by (simp only: same_kilobyte_def)
  then have "uint a div 1024 = uint b div 1024"
    by (simp add: zdiv_int)
  then have "1024 * q \<le> uint a \<longleftrightarrow> 1024 * q \<le> uint b"
    and "uint a < 1024 * q + 1024 * r \<longleftrightarrow> uint b < 1024 * q + 1024 * r"
    using kilobyte_le [of "q + r" "uint a"] kilobyte_le [of "q + r" "uint b"]
    by (simp_all add: kilobyte_le linorder_not_le [symmetric])
  then show ?thesis by (simp add: tlb_matches_def Let_def qr)
qed

lemma same_kilobyte_utlb:
  assumes "space_ok space" and "same_kilobyte a b"
    and "fst (translate_utlb space a InstructionFetch p False) = Inr ra"
  shows "\<exists>rb. fst (translate_utlb space b InstructionFetch p False) = Inr rb \<and>
    tr_physical_address rb = tr_physical_address ra + (b - a)"
proof -
  have eq: "tlb_matches space a p m = tlb_matches space b p m" if "m \<in> set (as_mappings space)" for m
    using assms(1,2) that by (intro same_kilobyte_matches) (auto simp: space_ok_def mappings_ok_def)
  have dw: "dropWhile (\<lambda>m. \<not> tlb_matches space b p m) (as_mappings space) =
      dropWhile (\<lambda>m. \<not> tlb_matches space a p m) (as_mappings space)"
    by (rule dropWhile_cong) (simp_all add: eq)
  obtain found rest where found:
    "dropWhile (\<lambda>m. \<not> tlb_matches space a p m) (as_mappings space) = found # rest"
    and single: "\<not> list_ex (tlb_matches space a p) rest"
    and fin: "finish_translation space a InstructionFetch p found (tm_slot found) 0xFF False = Inr ra"
    using assms(3)
    by (auto simp: translate_utlb_def simp del: dropWhile_eq_Nil_conv split: list.splits if_splits)
  have "set rest \<subseteq> set (as_mappings space)"
    using found by (metis set_dropWhileD set_subset_Cons subset_eq)
  then have "\<not> list_ex (tlb_matches space b p) rest"
    using single eq by (auto simp: list_ex_iff)
  then show ?thesis
    using fin by (auto simp: translate_utlb_def dw found finish_translation_def split: if_splits)
qed

lemma same_kilobyte_inspect:
  assumes "space_ok space" and "same_kilobyte a b" and "b AND 1 = 0"
    and "fst (inspect_translation space a InstructionFetch p) = Inr ra"
  shows "\<exists>rb. fst (inspect_translation space b InstructionFetch p) = Inr rb \<and>
    tr_physical_address rb = tr_physical_address ra + (b - a)"
proof -
  note h = same_kilobyte_high [OF assms(2)]
  have even: "a AND 1 = 0"
  proof (rule ccontr)
    assume "a AND 1 \<noteq> 0"
    then show False
      using assms(4) by (simp add: inspect_translation_def translate_impl_route route_def Let_def)
  qed
  have r: "route (as_mode space) b InstructionFetch p =
      (case route (as_mode space) a InstructionFetch p of
         Some (Inl e) \<Rightarrow> Some (Inl (translation_error InstructionFetch b AddressErrorRead))
       | Some (Inr x) \<Rightarrow> Some (Inr (x + (b - a)))
       | None \<Rightarrow> None)"
    using even assms(3) h canonical_affine [OF assms(2)] by (simp add: route_def Let_def)
  show ?thesis
  proof (cases "route (as_mode space) a InstructionFetch p")
    case None
    then show ?thesis
      using same_kilobyte_utlb [OF assms(1,2), of p ra] assms(4) r
      by (simp add: inspect_translation_def translate_impl_route translate_mapped_def)
  next
    case (Some x)
    then show ?thesis
      using assms(4) r
      by (cases x) (auto simp: inspect_translation_def translate_impl_route direct_result_def)
  qed
qed

lemma check_boundaries_at:
  assumes "check_boundaries at s e b" and "b + 1024 * k < e"
  shows "at (of_nat (b + 1024 * k - s))"
  using assms
proof (induction at s e b arbitrary: k rule: check_boundaries.induct)
  case (1 at s e b)
  have b: "b < e" using "1.prems"(2) by simp
  then have here: "at (of_nat (b - s))" and rest: "check_boundaries at s e (b + 1024)"
    using "1.prems"(1) by (subst (asm) check_boundaries.simps, simp add: Let_def split: if_splits)+
  show ?case
  proof (cases k)
    case 0
    then show ?thesis using here by simp
  next
    case (Suc k')
    have "at (of_nat (b + 1024 + 1024 * k' - s))"
      using "1.prems"(1,2) Suc b rest here
      by (intro "1.IH") (auto simp: check_boundaries.simps [of at s e b] Let_def split: if_splits)
    then show ?thesis using Suc by (simp add: algebra_simps)
  qed
qed

lemma even_and_one: "(a::u32) AND 1 = 0 \<longleftrightarrow> even a"
  by (simp add: and_one_eq even_iff_mod_2_eq_zero)

lemma translated_at_same_kilobyte:
  assumes ok: "space_ok space" and at: "translated_at space vs ps p o1"
    and same: "same_kilobyte (vs + o1) (vs + o2)" and even: "(vs + o2) AND 1 = 0"
  shows "translated_at space vs ps p o2"
proof -
  obtain r where r: "fst (inspect_translation space (vs + o1) InstructionFetch p) = Inr r"
    "tr_physical_address r = ps + o1"
    using at by (auto simp: translated_at_def split: sum.splits)
  from same_kilobyte_inspect [OF ok same even r(1)] r(2) show ?thesis
    by (auto simp: translated_at_def)
qed

lemma prove_instruction_mapping_sound:
  assumes ok: "space_ok space" and proved: "prove_instruction_mapping space vs ps n p"
    and off: "off AND 1 = 0" "off < n"
  shows "translated_at space vs ps p off"
proof -
  let ?at = "translated_at space vs ps p" and ?x = "vs + off"
  have even: "vs AND 1 = 0" and fits: "unat vs + unat n \<le> 0x100000000" and first: "?at 0"
    and loop: "check_boundaries ?at (unat vs) (unat vs + unat n) ((unat vs div 1024 + 1) * 1024)"
    using proved by (auto simp: prove_instruction_mapping_def Let_def split: if_splits)
  have lt: "unat off < unat n" using off(2) by (simp add: word_less_nat_alt)
  then have x: "unat ?x = unat vs + unat off" using fits by (subst unat_plus_if') simp
  have ex: "?x AND 1 = 0" using even off(1) by (simp add: even_and_one)
  show ?thesis
  proof (cases "unat ?x div 1024 = unat vs div 1024")
    case True
    then have "same_kilobyte (vs + 0) ?x" by (simp add: same_kilobyte_def)
    from translated_at_same_kilobyte [OF ok first this ex] show ?thesis .
  next
    case False
    define b where "b = unat ?x div 1024 * 1024"
    define k where "k = unat ?x div 1024 - (unat vs div 1024 + 1)"
    have "unat vs div 1024 \<le> unat ?x div 1024" using x by (simp add: div_le_mono)
    with False have k: "unat ?x div 1024 = unat vs div 1024 + 1 + k" by (simp add: k_def)
    have b: "b = (unat vs div 1024 + 1) * 1024 + 1024 * k" unfolding b_def k by simp
    have bx: "b \<le> unat ?x" by (simp add: b_def)
    have "unat vs < (unat vs div 1024 + 1) * 1024"
      using dividend_less_div_times [of 1024 "unat vs"] by simp
    then have vb: "unat vs \<le> b" by (simp only: b)
    have "?at (of_nat (b - unat vs))"
      using check_boundaries_at [OF loop, of k] b bx x lt by simp
    moreover have B: "vs + of_nat (b - unat vs) = of_nat b"
      using vb by (simp add: of_nat_diff)
    moreover have "unat (of_nat b :: u32) = b"
      using bx unsigned_less [of ?x, where 'a = nat] by (simp add: unat_of_nat)
    then have "same_kilobyte (of_nat b) ?x" by (simp add: same_kilobyte_def b_def)
    ultimately show ?thesis
      using translated_at_same_kilobyte [OF ok, of vs ps p "of_nat (b - unat vs)" off] ex by simp
  qed
qed

end
