(* ===== verification/Ordered_Map.thy ===== *)
theory Ordered_Map
  imports Main
begin

text \<open>
  The part of \<open>std::map\<close> the runtime uses, on association lists kept strictly ascending by key:
  \<open>emplace\<close> (which keeps an existing entry), \<open>erase\<close> by key and extraction of the first entry.  The
  locale states what a client relies on; the scheduler's timeline and its observer table use the
  interpretation.
\<close>

fun emplace :: "'k::linorder \<Rightarrow> 'v \<Rightarrow> ('k \<times> 'v) list \<Rightarrow> ('k \<times> 'v) list" where
  "emplace k v [] = [(k, v)]"
| "emplace k v ((k', v') # m) =
     (if k < k' then (k, v) # (k', v') # m
      else if k = k' then (k', v') # m
      else (k', v') # emplace k v m)"

fun erase :: "'k \<Rightarrow> ('k \<times> 'v) list \<Rightarrow> ('k \<times> 'v) list" where
  "erase k [] = []"
| "erase k ((k', v') # m) = (if k = k' then m else (k', v') # erase k m)"

fun extract_first :: "('k \<times> 'v) list \<Rightarrow> (('k \<times> 'v) \<times> ('k \<times> 'v) list) option" where
  "extract_first [] = None"
| "extract_first (e # m) = Some (e, m)"

primrec keys :: "('k \<times> 'v) list \<Rightarrow> 'k set" where
  "keys [] = {}"
| "keys (e # m) = insert (fst e) (keys m)"

primrec ascending :: "('k::linorder \<times> 'v) list \<Rightarrow> bool" where
  "ascending [] = True"
| "ascending (e # m) \<longleftrightarrow> (\<forall>k\<in>keys m. fst e < k) \<and> ascending m"

lemma keys_eq: "keys m = fst ` set m"
  by (induction m) auto

lemma keys_dom: "keys m = dom (map_of m)"
  by (simp add: keys_eq dom_map_of_conv_image_fst)

lemma not_key: "k \<notin> keys m \<longleftrightarrow> map_of m k = None"
  by (auto simp: keys_dom)

lemma keys_emplace: "keys (emplace k v m) = insert k (keys m)"
  by (induction k v m rule: emplace.induct) auto

lemma keys_erase: "keys (erase k m) \<subseteq> keys m"
  by (induction k m rule: erase.induct) auto

lemma ascending_emplace: "ascending m \<Longrightarrow> ascending (emplace k v m)"
  by (induction k v m rule: emplace.induct) (auto simp: keys_emplace dest: order.strict_trans)

lemma ascending_erase: "ascending m \<Longrightarrow> ascending (erase k m)"
  by (induction k m rule: erase.induct) (use keys_erase in fastforce)+

lemma map_of_emplace:
  "ascending m \<Longrightarrow> k \<notin> keys m \<Longrightarrow> map_of (emplace k v m) = (map_of m)(k \<mapsto> v)"
  by (induction k v m rule: emplace.induct) (auto simp: fun_eq_iff)

lemma emplace_present: "ascending m \<Longrightarrow> k \<in> keys m \<Longrightarrow> emplace k v m = m"
  by (induction k v m rule: emplace.induct) auto

lemma map_of_erase: "ascending m \<Longrightarrow> map_of (erase k m) = (map_of m)(k := None)"
  by (induction k m rule: erase.induct) (auto simp: fun_eq_iff not_key [symmetric])

text \<open>The contract: a finite map with a key order, from which the least entry can be taken.\<close>

locale timeline =
  fixes ok :: "'q \<Rightarrow> bool"
    and lookup :: "'q \<Rightarrow> 'k::linorder \<rightharpoonup> 'v"
    and put :: "'k \<Rightarrow> 'v \<Rightarrow> 'q \<Rightarrow> 'q"
    and drop_key :: "'k \<Rightarrow> 'q \<Rightarrow> 'q"
    and take_first :: "'q \<Rightarrow> (('k \<times> 'v) \<times> 'q) option"
  assumes ok_put: "ok q \<Longrightarrow> ok (put k v q)"
    and ok_drop: "ok q \<Longrightarrow> ok (drop_key k q)"
    and ok_first: "ok q \<Longrightarrow> take_first q = Some (e, q') \<Longrightarrow> ok q'"
    and lookup_put: "ok q \<Longrightarrow> k \<notin> dom (lookup q) \<Longrightarrow> lookup (put k v q) = (lookup q)(k \<mapsto> v)"
    and lookup_drop: "ok q \<Longrightarrow> lookup (drop_key k q) = (lookup q)(k := None)"
    and first_None: "ok q \<Longrightarrow> take_first q = None \<longleftrightarrow> lookup q = Map.empty"
    and first_Some: "ok q \<Longrightarrow> take_first q = Some ((k, v), q') \<Longrightarrow>
      lookup q k = Some v \<and> lookup q' = (lookup q)(k := None) \<and> (\<forall>k'\<in>dom (lookup q'). k < k')"
begin

definition after :: "'k \<Rightarrow> 'q \<Rightarrow> bool" where
  "after k q \<longleftrightarrow> (\<forall>k'\<in>dom (lookup q). k < k')"

lemma after_first: "ok q \<Longrightarrow> take_first q = Some ((k, v), q') \<Longrightarrow> after k q'"
  using first_Some by (simp add: after_def)

lemma after_put: "ok q \<Longrightarrow> k' \<notin> dom (lookup q) \<Longrightarrow> after k q \<Longrightarrow> k < k' \<Longrightarrow> after k (put k' v q)"
  by (auto simp: after_def lookup_put)

lemma after_drop: "ok q \<Longrightarrow> after k q \<Longrightarrow> after k (drop_key k' q)"
  by (auto simp: after_def lookup_drop)

text \<open>What is taken from a queue that is after \<open>k\<close> comes after \<open>k\<close>.\<close>

lemma first_after: "ok q \<Longrightarrow> after k q \<Longrightarrow> take_first q = Some ((k', v), q') \<Longrightarrow> k < k'"
  using first_Some by (fastforce simp: after_def)

lemma first_least: "ok q \<Longrightarrow> take_first q = Some ((k, v), q') \<Longrightarrow> k' \<in> dom (lookup q) \<Longrightarrow> k \<le> k'"
  using first_Some [of q k v q'] by (cases "k' = k") (auto simp: less_imp_le)

end

lemma extract_first_Some:
  "ascending q \<Longrightarrow> extract_first q = Some ((k, v), q') \<Longrightarrow>
     q = (k, v) # q' \<and> k \<notin> keys q' \<and> (\<forall>k'\<in>keys q'. k < k') \<and> ascending q'"
  by (cases q) auto

interpretation ordered: timeline ascending map_of emplace erase extract_first
proof
  fix q :: "('k::linorder \<times> 'v) list" and k v q'
  assume "ascending q" and "extract_first q = Some ((k, v), q')"
  from extract_first_Some [OF this]
  show "map_of q k = Some v \<and> map_of q' = (map_of q)(k := None) \<and>
      (\<forall>k'\<in>dom (map_of q'). k < k')"
    by (auto simp: fun_eq_iff keys_dom)
next
  fix q :: "('k::linorder \<times> 'v) list" and e q'
  assume "ascending q" and "extract_first q = Some (e, q')"
  then show "ascending q'" by (cases q) auto
next
  fix q :: "('k::linorder \<times> 'v) list"
  show "extract_first q = None \<longleftrightarrow> map_of q = Map.empty"
    by (cases q) (auto simp: fun_eq_iff split: if_splits)
qed (auto simp: map_of_emplace map_of_erase keys_dom ascending_emplace ascending_erase)

end
