(* ===== verification/Scheduler.thy ===== *)
theory Scheduler
  imports Prelude Ordered_Map "HOL-Library.Product_Lexorder"
begin

text \<open>
  The event scheduler of the runtime (\<open>src/runtime/scheduler.cpp\<close>): a timeline of callbacks ordered by
  deadline and identifier, advanced up to a target cycle under an event budget.  A callback is a value
  of type \<open>'c\<close> (an empty \<open>std::function\<close> is \<open>None\<close>) and a reset observer one of type \<open>'r\<close>; what they do
  to the scheduler and to the rest of the program is a parameter.  The notes an attached crash capsule
  or replay log takes do not flow back and are left out.
\<close>

type_synonym EventKey = "u64 \<times> u64"

datatype SchedulerEventKind =
    UnknownEvent | DiscRead | Sh4Dmac | GdRomPacket | HollyG1Dma | HollyG2Dma | HollyPvrDma
  | MapleDma | MediaVideo | MediaAudio | PvrRender | PvrVblankIn | PvrVblankOut | PvrHblank
  | ScifTransmit | SystemAsic | Sh4Rtc | Sh4Tmu0 | Sh4Tmu1 | Sh4Tmu2 | AicaTick

datatype scheduler_error =
  Invalid_Argument string | Logic_Error string | Overflow_Error string | Runtime_Error string
| Callback_Error nat

record 'c ScheduledEvent =
  ev_callback :: 'c
  ev_kind :: SchedulerEventKind

record ('c, 'r) EventScheduler =
  es_current_cycle :: u64
  es_next_event_id :: u64
  es_next_reset_observer_id :: u64
  es_processed_event_count :: u64
  es_reset_generation :: u64
  es_guest_cycle_budget :: "u64 option"
  es_advance_in_progress :: bool
  es_events :: "(EventKey \<times> 'c ScheduledEvent) list"
  es_event_keys :: "u64 \<Rightarrow> EventKey option"
  es_reset_observers :: "(u64 \<times> 'r) list"

definition initial_scheduler :: "('c, 'r) EventScheduler" where
  "initial_scheduler = \<lparr>es_current_cycle = 0, es_next_event_id = 1, es_next_reset_observer_id = 1,
     es_processed_event_count = 0, es_reset_generation = 0, es_guest_cycle_budget = None,
     es_advance_in_progress = False, es_events = [], es_event_keys = Map.empty,
     es_reset_observers = []\<rparr>"

abbreviation max_u64 :: u64 where "max_u64 \<equiv> - 1"

subsection \<open>Scheduling and cancelling\<close>

definition schedule_at ::
    "u64 \<Rightarrow> 'c option \<Rightarrow> SchedulerEventKind \<Rightarrow> ('c, 'r) EventScheduler \<Rightarrow>
     scheduler_error + u64 \<times> ('c, 'r) EventScheduler" where
  "schedule_at guest_cycle callback kind s =
     (case callback of
        None \<Rightarrow> Inl (Invalid_Argument ''Scheduler-Ereignis benoetigt einen Callback.'')
      | Some c \<Rightarrow>
     (if guest_cycle < es_current_cycle s then
        Inl (Invalid_Argument ''Scheduler-Ereignis darf nicht in der Vergangenheit liegen.'')
      else if es_next_event_id s = max_u64 then
        Inl (Overflow_Error ''Scheduler-Ereignis-ID ist uebergelaufen.'')
      else
        let event_id = es_next_event_id s; key = (guest_cycle, event_id)
        in if key \<in> keys (es_events s) then
             Inl (Logic_Error ''Scheduler-Ereignisschluessel ist bereits aktiv.'')
           else if es_event_keys s event_id \<noteq> None then
             Inl (Logic_Error ''Scheduler-Ereignis-ID ist bereits aktiv.'')
           else Inr (event_id,
             s\<lparr>es_events := emplace key \<lparr>ev_callback = c, ev_kind = kind\<rparr> (es_events s),
               es_event_keys := (es_event_keys s)(event_id \<mapsto> key),
               es_next_event_id := event_id + 1\<rparr>)))"

definition schedule_after ::
    "u64 \<Rightarrow> 'c option \<Rightarrow> SchedulerEventKind \<Rightarrow> ('c, 'r) EventScheduler \<Rightarrow>
     scheduler_error + u64 \<times> ('c, 'r) EventScheduler" where
  "schedule_after guest_cycles callback kind s =
     (if guest_cycles > max_u64 - es_current_cycle s then
        Inl (Overflow_Error ''Scheduler-Zielzyklus ist uebergelaufen.'')
      else schedule_at (es_current_cycle s + guest_cycles) callback kind s)"

definition schedule_at_or_now ::
    "u64 \<Rightarrow> 'c option \<Rightarrow> SchedulerEventKind \<Rightarrow> ('c, 'r) EventScheduler \<Rightarrow>
     scheduler_error + u64 \<times> ('c, 'r) EventScheduler" where
  "schedule_at_or_now requested_guest_cycle callback kind s =
     schedule_at (max requested_guest_cycle (es_current_cycle s)) callback kind s"

definition cancel :: "u64 \<Rightarrow> ('c, 'r) EventScheduler \<Rightarrow> bool \<times> ('c, 'r) EventScheduler" where
  "cancel event_id s =
     (case es_event_keys s event_id of
        None \<Rightarrow> (False, s)
      | Some key \<Rightarrow> (True, s\<lparr>es_events := erase key (es_events s),
          es_event_keys := (es_event_keys s)(event_id := None)\<rparr>))"

definition add_reset_observer ::
    "'r option \<Rightarrow> ('c, 'r) EventScheduler \<Rightarrow> scheduler_error + u64 \<times> ('c, 'r) EventScheduler" where
  "add_reset_observer callback s =
     (case callback of
        None \<Rightarrow> Inl (Invalid_Argument ''Scheduler-Resetbeobachter benoetigt einen Callback.'')
      | Some r \<Rightarrow>
     (if es_next_reset_observer_id s = max_u64 then
        Inl (Overflow_Error ''Scheduler-Resetbeobachter-ID ist uebergelaufen.'')
      else let observer_id = es_next_reset_observer_id s
           in Inr (observer_id, s\<lparr>es_next_reset_observer_id := observer_id + 1,
                es_reset_observers := emplace observer_id r (es_reset_observers s)\<rparr>)))"

definition remove_reset_observer ::
    "u64 \<Rightarrow> ('c, 'r) EventScheduler \<Rightarrow> bool \<times> ('c, 'r) EventScheduler" where
  "remove_reset_observer observer_id s =
     (observer_id \<in> keys (es_reset_observers s),
      s\<lparr>es_reset_observers := erase observer_id (es_reset_observers s)\<rparr>)"

definition clear :: "('c, 'r) EventScheduler \<Rightarrow> ('c, 'r) EventScheduler" where
  "clear s = s\<lparr>es_events := [], es_event_keys := Map.empty\<rparr>"

subsection \<open>Reset and restore\<close>

definition reset_timeline :: "('c, 'r) EventScheduler \<Rightarrow> ('c, 'r) EventScheduler" where
  "reset_timeline s = (clear s)\<lparr>es_current_cycle := 0, es_processed_event_count := 0,
     es_reset_generation := es_reset_generation s + 1\<rparr>"

text \<open>Every observer is called; the first error is rethrown at the end.\<close>

primrec notify_observers ::
    "('r \<Rightarrow> 's \<times> 'w \<Rightarrow> scheduler_error option \<times> 's \<times> 'w) \<Rightarrow> 'r list \<Rightarrow> 's \<times> 'w \<Rightarrow>
     scheduler_error option \<times> 's \<times> 'w" where
  "notify_observers notify [] sw = (None, sw)"
| "notify_observers notify (r # rs) sw =
     (let (e, sw') = notify r sw; (e', sw'') = notify_observers notify rs sw'
      in (case e of Some x \<Rightarrow> Some x | None \<Rightarrow> e', sw''))"

definition reset ::
    "('r \<Rightarrow> ('c, 'r) EventScheduler \<times> 'w \<Rightarrow>
       scheduler_error option \<times> ('c, 'r) EventScheduler \<times> 'w) \<Rightarrow>
     ('c, 'r) EventScheduler \<times> 'w \<Rightarrow> scheduler_error option \<times> ('c, 'r) EventScheduler \<times> 'w" where
  "reset notify sw =
     (let (s, w) = sw
      in if es_advance_in_progress s then
           (Some (Logic_Error
             ''Scheduler-Reset ist waehrend eines laufenden Advances nicht erlaubt.''), sw)
         else if es_reset_generation s = max_u64 then
           (Some (Overflow_Error ''Scheduler-Resetgeneration ist uebergelaufen.''), sw)
         else notify_observers notify (map snd (es_reset_observers s)) (reset_timeline s, w))"

definition restore_time_passive ::
    "u64 \<Rightarrow> ('c, 'r) EventScheduler \<Rightarrow> scheduler_error + ('c, 'r) EventScheduler" where
  "restore_time_passive guest_cycle s =
     (if es_advance_in_progress s then
        Inl (Logic_Error ''Passive Schedulerwiederherstellung ist waehrend eines laufenden Advances nicht erlaubt.'')
      else if (case es_guest_cycle_budget s of None \<Rightarrow> False | Some b \<Rightarrow> guest_cycle > b) then
        Inl (Invalid_Argument ''Passive Schedulerwiederherstellung liegt hinter dem Gastzyklusbudget.'')
      else Inr ((clear s)\<lparr>es_current_cycle := guest_cycle\<rparr>))"

record 'c SchedulerPreparedEvent =
  pe_guest_cycle :: u64
  pe_callback :: "'c option"
  pe_kind :: SchedulerEventKind

record 'c PreparedPassiveRestore =
  pr_guest_cycle :: u64
  pr_expected_next_event_id :: u64
  pr_next_event_id :: u64
  pr_expected_guest_cycle_budget :: "u64 option"
  pr_events :: "(EventKey \<times> 'c ScheduledEvent) list"
  pr_event_keys :: "u64 \<Rightarrow> EventKey option"
  pr_assigned_event_ids :: "u64 list"

definition prepare_event ::
    "'c SchedulerPreparedEvent \<Rightarrow> 'c PreparedPassiveRestore \<Rightarrow>
     scheduler_error + 'c PreparedPassiveRestore" where
  "prepare_event event p =
     (case pe_callback event of
        None \<Rightarrow> Inl (Invalid_Argument ''Passive Schedulerwiederherstellung benoetigt fuer jedes Ereignis einen Callback.'')
      | Some c \<Rightarrow>
     (if pe_guest_cycle event < pr_guest_cycle p then
        Inl (Invalid_Argument ''Passives Schedulerereignis darf nicht in der Vergangenheit liegen.'')
      else
        let event_id = pr_next_event_id p; key = (pe_guest_cycle event, event_id)
        in if key \<in> keys (pr_events p) then
             Inl (Logic_Error ''Passiver Schedulerereignisschluessel ist bereits aktiv.'')
           else if pr_event_keys p event_id \<noteq> None then
             Inl (Logic_Error ''Passive Schedulerereignis-ID ist bereits aktiv.'')
           else Inr (p\<lparr>pr_next_event_id := event_id + 1,
             pr_events := emplace key \<lparr>ev_callback = c, ev_kind = pe_kind event\<rparr> (pr_events p),
             pr_event_keys := (pr_event_keys p)(event_id \<mapsto> key),
             pr_assigned_event_ids := pr_assigned_event_ids p @ [event_id]\<rparr>)))"

fun prepare_events ::
    "'c SchedulerPreparedEvent list \<Rightarrow> 'c PreparedPassiveRestore \<Rightarrow>
     scheduler_error + 'c PreparedPassiveRestore" where
  "prepare_events [] p = Inr p"
| "prepare_events (event # events) p =
     (case prepare_event event p of Inl e \<Rightarrow> Inl e | Inr p' \<Rightarrow> prepare_events events p')"

definition prepare_passive_restore ::
    "u64 \<Rightarrow> 'c SchedulerPreparedEvent list \<Rightarrow> ('c, 'r) EventScheduler \<Rightarrow>
     scheduler_error + 'c PreparedPassiveRestore" where
  "prepare_passive_restore guest_cycle events s =
     (if es_advance_in_progress s then
        Inl (Logic_Error ''Passive Schedulerwiederherstellung ist waehrend eines laufenden Advances nicht erlaubt.'')
      else if (case es_guest_cycle_budget s of None \<Rightarrow> False | Some b \<Rightarrow> guest_cycle > b) then
        Inl (Invalid_Argument ''Passive Schedulerwiederherstellung liegt hinter dem Gastzyklusbudget.'')
      else if length events > unat (max_u64 - es_next_event_id s) then
        Inl (Overflow_Error ''Scheduler-Ereignis-IDs fuer passive Wiederherstellung sind uebergelaufen.'')
      else prepare_events events
        \<lparr>pr_guest_cycle = guest_cycle, pr_expected_next_event_id = es_next_event_id s,
         pr_next_event_id = es_next_event_id s,
         pr_expected_guest_cycle_budget = es_guest_cycle_budget s, pr_events = [],
         pr_event_keys = Map.empty, pr_assigned_event_ids = []\<rparr>)"

text \<open>
  \<open>None\<close> is \<open>std::terminate\<close>.  A restore that was moved from, or prepared by another scheduler object,
  also terminates; the model hands over only restores of this scheduler.
\<close>

definition commit_prepared_passive_restore ::
    "'c PreparedPassiveRestore \<Rightarrow> ('c, 'r) EventScheduler \<Rightarrow> ('c, 'r) EventScheduler option" where
  "commit_prepared_passive_restore p s =
     (if es_advance_in_progress s \<or> es_next_event_id s \<noteq> pr_expected_next_event_id p \<or>
         es_guest_cycle_budget s \<noteq> pr_expected_guest_cycle_budget p then None
      else Some (s\<lparr>es_events := pr_events p, es_event_keys := pr_event_keys p,
        es_current_cycle := pr_guest_cycle p, es_next_event_id := pr_next_event_id p\<rparr>))"

subsection \<open>Advancing\<close>

datatype SchedulerAdvanceStatus = ReachedTarget | EventBudgetExhausted | GuestCycleBudgetExhausted

record SchedulerAdvanceResult =
  ar_status :: SchedulerAdvanceStatus
  ar_processed_events :: nat
  ar_guest_cycle :: u64

text \<open>
  The head of the loop: the first event, if it is due, with the scheduler as its callback finds it.
\<close>

definition next_due ::
    "u64 \<Rightarrow> ('c, 'r) EventScheduler \<Rightarrow>
     (EventKey \<times> 'c ScheduledEvent \<times> ('c, 'r) EventScheduler) option" where
  "next_due target s =
     (case extract_first (es_events s) of
        None \<Rightarrow> None
      | Some ((key, event), events) \<Rightarrow>
          if fst key \<le> target then
            Some (key, event,
              s\<lparr>es_events := events, es_event_keys := (es_event_keys s)(snd key := None),
                es_current_cycle := fst key,
                es_processed_event_count := es_processed_event_count s + 1\<rparr>)
          else None)"

datatype loop_end = Drained | BudgetUsed | Raised scheduler_error

text \<open>
  The loop; \<open>remaining\<close> is \<open>event_budget - processed\<close>, which the loop tests against zero.  The keys of
  the events that ran, in order, are part of the result: their number is \<open>processed\<close>.
\<close>

type_synonym ('c, 'r, 'w) invoke =
  "'c \<Rightarrow> u64 \<Rightarrow> u64 \<Rightarrow> ('c, 'r) EventScheduler \<times> 'w \<Rightarrow>
   scheduler_error option \<times> ('c, 'r) EventScheduler \<times> 'w"

primrec run_events ::
    "('c, 'r, 'w) invoke \<Rightarrow> u64 \<Rightarrow> nat \<Rightarrow> ('c, 'r) EventScheduler \<times> 'w \<Rightarrow>
     EventKey list \<times> loop_end \<times> ('c, 'r) EventScheduler \<times> 'w" where
  "run_events invoke target 0 sw =
     ([], (if next_due target (fst sw) = None then Drained else BudgetUsed), sw)"
| "run_events invoke target (Suc remaining) sw =
     (case next_due target (fst sw) of
        None \<Rightarrow> ([], Drained, sw)
      | Some (key, event, s) \<Rightarrow>
          (case invoke (ev_callback event) (snd key) (fst key) (s, snd sw) of
             (Some e, sw') \<Rightarrow> ([key], Raised e, sw')
           | (None, sw') \<Rightarrow>
               (case run_events invoke target remaining sw' of
                  (executed, r, sw'') \<Rightarrow> (key # executed, r, sw''))))"

definition effective_target :: "u64 \<Rightarrow> ('c, 'r) EventScheduler \<Rightarrow> u64" where
  "effective_target guest_cycle s =
     (case es_guest_cycle_budget s of Some budget \<Rightarrow> min guest_cycle budget | None \<Rightarrow> guest_cycle)"

definition advance_to ::
    "('c, 'r, 'w) invoke \<Rightarrow> u64 \<Rightarrow> nat \<Rightarrow> ('c, 'r) EventScheduler \<times> 'w \<Rightarrow>
     EventKey list \<times> (scheduler_error + SchedulerAdvanceResult) \<times> ('c, 'r) EventScheduler \<times> 'w" where
  "advance_to invoke guest_cycle event_budget sw =
     (let (s, w) = sw
      in if es_advance_in_progress s then
           ([], Inl (Logic_Error ''Rekursives Scheduler-Advance ist nicht erlaubt.''), sw)
         else if guest_cycle < es_current_cycle s then
           ([], Inl (Invalid_Argument ''Scheduler-Zyklusuhr darf nicht rueckwaerts laufen.''), sw)
         else
           let target = effective_target guest_cycle s
           in case run_events invoke target event_budget
                (s\<lparr>es_advance_in_progress := True\<rparr>, w) of
                (executed, Raised e, s', w') \<Rightarrow> (executed, Inl e, s'\<lparr>es_advance_in_progress := False\<rparr>, w')
              | (executed, BudgetUsed, s', w') \<Rightarrow>
                  (executed, Inr \<lparr>ar_status = EventBudgetExhausted, ar_processed_events = length executed,
                     ar_guest_cycle = es_current_cycle s'\<rparr>,
                   s'\<lparr>es_advance_in_progress := False\<rparr>, w')
              | (executed, Drained, s', w') \<Rightarrow>
                  (executed, Inr \<lparr>ar_status =
                       (if target = guest_cycle then ReachedTarget
                        else GuestCycleBudgetExhausted),
                     ar_processed_events = length executed, ar_guest_cycle = target\<rparr>,
                   s'\<lparr>es_current_cycle := target, es_advance_in_progress := False\<rparr>, w'))"

definition advance_by ::
    "('c, 'r, 'w) invoke \<Rightarrow> u64 \<Rightarrow> nat \<Rightarrow> ('c, 'r) EventScheduler \<times> 'w \<Rightarrow>
     EventKey list \<times> (scheduler_error + SchedulerAdvanceResult) \<times> ('c, 'r) EventScheduler \<times> 'w" where
  "advance_by invoke guest_cycles event_budget sw =
     (if es_advance_in_progress (fst sw) then
        ([], Inl (Logic_Error ''Rekursives Scheduler-Advance ist nicht erlaubt.''), sw)
      else if guest_cycles > max_u64 - es_current_cycle (fst sw) then
        ([], Inl (Overflow_Error ''Scheduler-Zielzyklus ist uebergelaufen.''), sw)
      else advance_to invoke (es_current_cycle (fst sw) + guest_cycles) event_budget sw)"

subsection \<open>Budget and queries\<close>

definition set_guest_cycle_budget ::
    "u64 option \<Rightarrow> ('c, 'r) EventScheduler \<Rightarrow> scheduler_error + ('c, 'r) EventScheduler" where
  "set_guest_cycle_budget maximum_cycle s =
     (if maximum_cycle = Some 0 then
        Inl (Invalid_Argument ''Gastzyklusbudget muss groesser null sein.'')
      else if es_guest_cycle_budget s \<noteq> None \<and> maximum_cycle \<noteq> es_guest_cycle_budget s then
        Inl (Logic_Error ''Gastzyklusbudget eines Laufs ist unveraenderlich.'')
      else if es_guest_cycle_budget s = None \<and> maximum_cycle \<noteq> None \<and> es_current_cycle s \<noteq> 0 then
        Inl (Logic_Error ''Gastzyklusbudget muss vor dem ersten Advance gesetzt werden.'')
      else if (case maximum_cycle of None \<Rightarrow> False | Some m \<Rightarrow> m < es_current_cycle s) then
        Inl (Invalid_Argument ''Gastzyklusbudget darf nicht vor dem aktuellen Schedulerzyklus liegen.'')
      else Inr (s\<lparr>es_guest_cycle_budget := maximum_cycle\<rparr>))"

definition try_set_guest_cycle_budget_after_current_cycle ::
    "u64 \<Rightarrow> ('c, 'r) EventScheduler \<Rightarrow> u64 option \<times> ('c, 'r) EventScheduler" where
  "try_set_guest_cycle_budget_after_current_cycle guest_cycles s =
     (if es_advance_in_progress s \<or> es_guest_cycle_budget s \<noteq> None \<or> guest_cycles = 0 \<or>
         guest_cycles > max_u64 - es_current_cycle s then (None, s)
      else let budget = Some (es_current_cycle s + guest_cycles)
           in (budget, s\<lparr>es_guest_cycle_budget := budget\<rparr>))"

definition remaining_guest_cycles :: "('c, 'r) EventScheduler \<Rightarrow> u64 option" where
  "remaining_guest_cycles s = map_option (\<lambda>b. b - es_current_cycle s) (es_guest_cycle_budget s)"

definition next_event_cycle :: "('c, 'r) EventScheduler \<Rightarrow> u64 option" where
  "next_event_cycle s =
     (case es_events s of [] \<Rightarrow> None | (key, _) # _ \<Rightarrow> Some (fst key))"

definition pending_event_count :: "('c, 'r) EventScheduler \<Rightarrow> nat" where
  "pending_event_count s = length (es_events s)"

record SchedulerPendingEventSnapshot =
  ps_guest_cycle :: u64
  ps_event_id :: u64
  ps_kind :: SchedulerEventKind

record EventSchedulerSnapshot =
  sn_current_cycle :: u64
  sn_next_event_id :: u64
  sn_next_reset_observer_id :: u64
  sn_processed_event_count :: u64
  sn_reset_generation :: u64
  sn_guest_cycle_budget :: "u64 option"
  sn_advance_in_progress :: bool
  sn_pending_events :: "SchedulerPendingEventSnapshot list"
  sn_reset_observer_ids :: "u64 list"

definition scheduler_snapshot :: "('c, 'r) EventScheduler \<Rightarrow> EventSchedulerSnapshot" where
  "scheduler_snapshot s =
     \<lparr>sn_current_cycle = es_current_cycle s, sn_next_event_id = es_next_event_id s,
      sn_next_reset_observer_id = es_next_reset_observer_id s,
      sn_processed_event_count = es_processed_event_count s,
      sn_reset_generation = es_reset_generation s,
      sn_guest_cycle_budget = es_guest_cycle_budget s,
      sn_advance_in_progress = es_advance_in_progress s,
      sn_pending_events = map (\<lambda>(key, event). \<lparr>ps_guest_cycle = fst key, ps_event_id = snd key,
        ps_kind = ev_kind event\<rparr>) (es_events s),
      sn_reset_observer_ids = map fst (es_reset_observers s)\<rparr>"

end
