(* ===== verification/Scheduler_Correct.thy ===== *)
theory Scheduler_Correct
  imports Scheduler
begin

text \<open>
  The scheduler's state machine: the calls a callback can make while an advance is in progress, the
  steps of the whole interface, the invariant they keep, and what an advance runs and in which order.
\<close>

declare split_paired_All [simp del] split_paired_Ex [simp del]

subsection \<open>Invariant\<close>

text \<open>
  The timeline is ordered, the identifier index mirrors it, identifiers stay below the next one, and
  no pending event lies in the past.
\<close>

definition scheduler_ok :: "('c, 'r) EventScheduler \<Rightarrow> bool" where
  "scheduler_ok s \<longleftrightarrow>
     ascending (es_events s) \<and>
     (\<forall>i k. es_event_keys s i = Some k \<longleftrightarrow> k \<in> keys (es_events s) \<and> snd k = i) \<and>
     (\<forall>k\<in>keys (es_events s). es_current_cycle s \<le> fst k \<and> snd k < es_next_event_id s) \<and>
     ascending (es_reset_observers s) \<and>
     (\<forall>k\<in>keys (es_reset_observers s). k < es_next_reset_observer_id s)"

lemma initial_ok: "scheduler_ok initial_scheduler"
  by (simp add: scheduler_ok_def initial_scheduler_def)

lemma less_next:
  assumes "n \<noteq> (- 1 :: u64)"
  shows "n < n + 1"
proof -
  have "n + 1 \<noteq> 0" using assms by (metis add_eq_0_iff add.commute)
  then have "unat (n + 1) = Suc (unat n)" using unatSuc [of n] by (simp add: add.commute)
  then show ?thesis by (simp add: word_less_nat_alt)
qed

lemma less_next_trans: "k < n \<Longrightarrow> n \<noteq> (- 1 :: u64) \<Longrightarrow> k < n + 1"
  by (meson less_next order.strict_trans)

lemma keys_erased: "ascending m \<Longrightarrow> keys (erase k m) = keys m - {k}"
  by (auto simp: keys_dom map_of_erase)

text \<open>Insertion of an event under a fresh identifier, as scheduling and the passive restore do it.\<close>

definition index_ok :: "(EventKey \<times> 'c ScheduledEvent) list \<Rightarrow> (u64 \<Rightarrow> EventKey option) \<Rightarrow> u64 \<Rightarrow> u64 \<Rightarrow> bool"
  where
  "index_ok events index now next_id \<longleftrightarrow>
     ascending events \<and>
     (\<forall>i k. index i = Some k \<longleftrightarrow> k \<in> keys events \<and> snd k = i) \<and>
     (\<forall>k\<in>keys events. now \<le> fst k \<and> snd k < next_id)"

lemma scheduler_ok_iff:
  "scheduler_ok s \<longleftrightarrow>
     index_ok (es_events s) (es_event_keys s) (es_current_cycle s) (es_next_event_id s) \<and>
     ascending (es_reset_observers s) \<and>
     (\<forall>k\<in>keys (es_reset_observers s). k < es_next_reset_observer_id s)"
  by (auto simp: scheduler_ok_def index_ok_def)

lemma index_ok_Nil [simp]: "index_ok [] Map.empty now n"
  by (simp add: index_ok_def)

lemma index_ok_index:
  "index_ok events index now n \<Longrightarrow> index i = Some k \<longleftrightarrow> k \<in> keys events \<and> snd k = i"
  unfolding index_ok_def by blast

lemma index_ok_keys:
  "index_ok events index now n \<Longrightarrow> k \<in> keys events \<Longrightarrow> now \<le> fst k \<and> snd k < n"
  by (simp add: index_ok_def)

lemma index_ok_insert:
  assumes "index_ok events index now n" and "now \<le> c" and "n \<noteq> - 1"
  shows "index_ok (emplace (c, n) e events) (index(n \<mapsto> (c, n))) now (n + 1)"
proof -
  have "\<forall>k\<in>keys events. snd k \<noteq> n" using assms(1) by (auto simp: index_ok_def)
  moreover have "\<forall>k\<in>keys events. snd k < n + 1"
    using assms(1) less_next [OF assms(3)] by (auto simp: index_ok_def)
  ultimately show ?thesis
    using assms less_next [OF assms(3)]
    by (auto simp: index_ok_def keys_emplace ascending_emplace)
qed

lemma index_ok_erase:
  assumes "index_ok events index now n" and "index i = Some k"
  shows "index_ok (erase k events) (index(i := None)) now n"
proof -
  note index = index_ok_index [OF assms(1)]
  have "k' = k" if "k' \<in> keys events" "snd k' = i" for k'
    using that assms(2) index [of i k'] by simp
  then show ?thesis
    using assms(1) assms(2) [unfolded index] index
    by (auto simp: index_ok_def keys_erased ascending_erase)
qed

lemma index_ok_fresh:
  assumes "index_ok events index now n"
  shows "(c, n) \<notin> keys events" and "index n = None"
proof -
  show "(c, n) \<notin> keys events" using index_ok_keys [OF assms, of "(c, n)"] by auto
  show "index n = None"
  proof (rule ccontr)
    assume "index n \<noteq> None"
    then obtain k where "index n = Some k" by blast
    then show False
      using index_ok_keys [OF assms, of k] index_ok_index [OF assms, of n k] by simp
  qed
qed

text \<open>The two consistency errors of scheduling cannot occur.\<close>

lemma schedule_at_ok:
  assumes "scheduler_ok s"
  shows "schedule_at c (Some f) kind s =
    (if c < es_current_cycle s then
       Inl (Invalid_Argument ''Scheduler-Ereignis darf nicht in der Vergangenheit liegen.'')
     else if es_next_event_id s = - 1 then
       Inl (Overflow_Error ''Scheduler-Ereignis-ID ist uebergelaufen.'')
     else Inr (es_next_event_id s,
       s\<lparr>es_events := emplace (c, es_next_event_id s) \<lparr>ev_callback = f, ev_kind = kind\<rparr> (es_events s),
         es_event_keys := (es_event_keys s)(es_next_event_id s \<mapsto> (c, es_next_event_id s)),
         es_next_event_id := es_next_event_id s + 1\<rparr>))"
proof -
  note ok = conjunct1 [OF assms [unfolded scheduler_ok_iff]]
  show ?thesis by (simp add: schedule_at_def Let_def index_ok_fresh [OF ok])
qed

lemma schedule_at_keeps:
  assumes "scheduler_ok s" and "schedule_at c f kind s = Inr (i, s')"
  shows "scheduler_ok s'"
proof -
  obtain g where g: "f = Some g" using assms(2) by (cases f) (simp_all add: schedule_at_def)
  show ?thesis
    using assms index_ok_insert [of "es_events s"] unfolding g schedule_at_ok [OF assms(1)]
    by (auto simp: scheduler_ok_iff split: if_splits)
qed

lemma cancel_keeps: "scheduler_ok s \<Longrightarrow> scheduler_ok (snd (cancel i s))"
  using index_ok_erase [of "es_events s" "es_event_keys s"]
  by (auto simp: scheduler_ok_iff cancel_def split: option.splits)

lemma add_observer_keeps:
  "scheduler_ok s \<Longrightarrow> add_reset_observer r s = Inr (i, s') \<Longrightarrow> scheduler_ok s'"
  by (clarsimp simp: scheduler_ok_iff add_reset_observer_def Let_def keys_emplace ascending_emplace
      less_next split: option.splits if_splits) (blast intro: less_next_trans)

lemma remove_observer_keeps: "scheduler_ok s \<Longrightarrow> scheduler_ok (snd (remove_reset_observer i s))"
  using keys_erase [of i "es_reset_observers s"]
  by (auto simp: scheduler_ok_iff remove_reset_observer_def ascending_erase)

lemma clear_keeps: "scheduler_ok s \<Longrightarrow> scheduler_ok (clear s)"
  by (simp add: scheduler_ok_iff clear_def)

lemma set_budget_keeps:
  "scheduler_ok s \<Longrightarrow> set_guest_cycle_budget b s = Inr s' \<Longrightarrow> scheduler_ok s'"
  by (auto simp: scheduler_ok_iff set_guest_cycle_budget_def split: if_splits)

subsection \<open>Calls from a callback\<close>

text \<open>
  What a callback can do to the scheduler: the other operations refuse while an advance is in progress.
\<close>

inductive callback_call :: "('c, 'r) EventScheduler \<Rightarrow> ('c, 'r) EventScheduler \<Rightarrow> bool" where
  call_schedule: "schedule_at c f kind s = Inr (i, s') \<Longrightarrow> callback_call s s'"
| call_cancel: "callback_call s (snd (cancel i s))"
| call_add_observer: "add_reset_observer r s = Inr (i, s') \<Longrightarrow> callback_call s s'"
| call_remove_observer: "callback_call s (snd (remove_reset_observer i s))"
| call_clear: "callback_call s (clear s)"
| call_set_budget: "set_guest_cycle_budget b s = Inr s' \<Longrightarrow> callback_call s s'"

definition well_behaved :: "('c, 'r, 'w) invoke \<Rightarrow> bool" where
  "well_behaved invoke \<longleftrightarrow>
     (\<forall>c i t s w. es_advance_in_progress s \<longrightarrow>
        callback_call\<^sup>*\<^sup>* s (fst (snd (invoke c i t (s, w)))))"

lemma call_schedule_after: "schedule_after c f kind s = Inr (i, s') \<Longrightarrow> callback_call s s'"
  by (auto simp: schedule_after_def intro: call_schedule split: if_splits)

lemma call_schedule_at_or_now: "schedule_at_or_now c f kind s = Inr (i, s') \<Longrightarrow> callback_call s s'"
  by (auto simp: schedule_at_or_now_def intro: call_schedule)

lemma callback_call_keeps: "callback_call s s' \<Longrightarrow> scheduler_ok s \<Longrightarrow> scheduler_ok s'"
  by (induction rule: callback_call.induct)
    (auto intro: schedule_at_keeps cancel_keeps add_observer_keeps remove_observer_keeps clear_keeps
      set_budget_keeps)

lemma callback_call_clock:
  "callback_call s s' \<Longrightarrow> es_current_cycle s' = es_current_cycle s \<and>
     es_advance_in_progress s' = es_advance_in_progress s \<and>
     es_reset_generation s' = es_reset_generation s \<and>
     es_processed_event_count s' = es_processed_event_count s"
  by (induction rule: callback_call.induct)
    (auto simp: schedule_at_def cancel_def add_reset_observer_def remove_reset_observer_def clear_def
      set_guest_cycle_budget_def Let_def split: option.splits if_splits)

text \<open>Nothing a callback schedules comes before an event that has run.\<close>

definition beyond :: "EventKey \<Rightarrow> ('c, 'r) EventScheduler \<Rightarrow> bool" where
  "beyond k s \<longleftrightarrow> (\<forall>k'\<in>keys (es_events s). k < k') \<and> fst k \<le> es_current_cycle s \<and>
     snd k < es_next_event_id s"

lemma beyond_trans:
  assumes "beyond k s" and "k' < k" and "snd k' < es_next_event_id s"
  shows "beyond k' s"
proof -
  have "fst k' \<le> fst k" using assms(2) by (auto simp: less_prod_def)
  moreover have "\<forall>x\<in>keys (es_events s). k' < x"
    using assms(1) order.strict_trans [OF assms(2)] by (simp add: beyond_def)
  ultimately show ?thesis using assms(1,3) by (auto simp: beyond_def)
qed

lemma callback_call_beyond:
  "callback_call s s' \<Longrightarrow> scheduler_ok s \<Longrightarrow> beyond k s \<Longrightarrow> beyond k s'"
proof (induction rule: callback_call.induct)
  case (call_schedule c f kind s i s')
  obtain g where g: "f = Some g" using call_schedule(1) by (cases f) (simp_all add: schedule_at_def)
  have "k < (c, es_next_event_id s)" if "\<not> c < es_current_cycle s"
    using call_schedule(3) that by (cases k) (auto simp: beyond_def less_prod_def)
  then show ?case
    using call_schedule(1,3) less_next [of "es_next_event_id s"]
    unfolding g schedule_at_ok [OF call_schedule(2)]
    by (auto simp: beyond_def keys_emplace split: if_splits)
qed (use keys_erase in \<open>fastforce simp: beyond_def cancel_def add_reset_observer_def
  remove_reset_observer_def clear_def set_guest_cycle_budget_def Let_def split: option.splits if_splits\<close>)+

lemma callback_calls_keep:
  "callback_call\<^sup>*\<^sup>* s s' \<Longrightarrow> scheduler_ok s \<Longrightarrow> scheduler_ok s' \<and> (beyond k s \<longrightarrow> beyond k s') \<and>
     es_current_cycle s' = es_current_cycle s \<and> es_advance_in_progress s' = es_advance_in_progress s"
  by (induction rule: rtranclp_induct)
    (auto simp: callback_call_clock intro: callback_call_keeps callback_call_beyond)

subsection \<open>Advancing\<close>

lemma next_due_Some:
  assumes "scheduler_ok s" and "next_due target s = Some (k, event, s')"
  shows "scheduler_ok s' \<and> beyond k s' \<and> fst k \<le> target \<and> es_current_cycle s \<le> fst k \<and>
    es_current_cycle s' = fst k \<and> es_advance_in_progress s' = es_advance_in_progress s \<and>
    es_next_event_id s' = es_next_event_id s \<and> k \<in> keys (es_events s) \<and> map_of (es_events s) k = Some event"
proof -
  obtain events where first: "extract_first (es_events s) = Some ((k, event), events)"
    and due: "fst k \<le> target"
    and s': "s' = s\<lparr>es_events := events, es_event_keys := (es_event_keys s)(snd k := None),
      es_current_cycle := fst k, es_processed_event_count := es_processed_event_count s + 1\<rparr>"
    using assms(2) by (auto simp: next_due_def split: option.splits prod.splits if_splits)
  have ok: "index_ok (es_events s) (es_event_keys s) (es_current_cycle s) (es_next_event_id s)"
    using assms(1) by (simp add: scheduler_ok_iff)
  then have "ascending (es_events s)" by (simp add: index_ok_def)
  note rest = extract_first_Some [OF this first]
  have member: "k \<in> keys (es_events s)" using rest by simp
  then have key: "es_event_keys s (snd k) = Some k" by (simp add: index_ok_index [OF ok])
  have "erase k (es_events s) = events" using rest by simp
  with index_ok_erase [OF ok key]
  have "index_ok events ((es_event_keys s)(snd k := None)) (es_current_cycle s) (es_next_event_id s)"
    by simp
  moreover have "\<forall>k'\<in>keys events. fst k \<le> fst k'"
    using rest by (auto simp: less_prod_def)
  ultimately have
    "index_ok events ((es_event_keys s)(snd k := None)) (fst k) (es_next_event_id s)"
    by (simp add: index_ok_def)
  then show ?thesis
    using assms(1) rest member due index_ok_keys [OF ok member]
    by (auto simp: s' scheduler_ok_iff beyond_def)
qed

lemma next_due_None:
  assumes "scheduler_ok s" and "next_due target s = None" and "k \<in> keys (es_events s)"
  shows "target < fst k"
proof (cases "es_events s")
  case (Cons e events)
  then have "target < fst (fst e)"
    using assms(2) by (cases e) (auto simp: next_due_def split: if_splits)
  moreover have "fst (fst e) \<le> fst k"
    using assms(1,3) Cons by (auto simp: scheduler_ok_def less_prod_def)
  ultimately show ?thesis by (rule order.strict_trans2)
qed (use assms(3) in simp)

lemma callback_keeps:
  assumes "well_behaved invoke" and "scheduler_ok s" and "es_advance_in_progress s"
    and "invoke c i t (s, w) = (e, s', w')"
  shows "scheduler_ok s' \<and> (beyond k s \<longrightarrow> beyond k s') \<and> es_current_cycle s' = es_current_cycle s \<and>
    es_advance_in_progress s'"
proof -
  have "callback_call\<^sup>*\<^sup>* s s'" using assms(1,3,4) unfolding well_behaved_def by (metis fst_conv snd_conv)
  then show ?thesis using callback_calls_keep assms(2,3) by blast
qed

text \<open>
  One pass through the loop, with what a run of the loop promises: the events come in order, are due,
  and the loop stops with nothing due, an empty budget or the error of the last callback.
\<close>

definition ran_in_order :: "u64 \<Rightarrow> nat \<Rightarrow> ('c, 'r) EventScheduler \<Rightarrow> EventKey list \<Rightarrow> loop_end \<Rightarrow>
    ('c, 'r) EventScheduler \<Rightarrow> bool" where
  "ran_in_order target budget s executed r s' \<longleftrightarrow>
     scheduler_ok s' \<and> es_advance_in_progress s' \<and>
     sorted_wrt (<) executed \<and> length executed \<le> budget \<and>
     (\<forall>k\<in>set executed. es_current_cycle s \<le> fst k \<and> fst k \<le> target) \<and>
     (\<forall>k. beyond k s \<longrightarrow> list_all (\<lambda>k'. k < k') executed \<and> beyond k s') \<and>
     es_current_cycle s' = (if executed = [] then es_current_cycle s else fst (last executed)) \<and>
     (r = Drained \<longrightarrow> next_due target s' = None) \<and>
     (r = BudgetUsed \<longrightarrow> length executed = budget \<and> next_due target s' \<noteq> None) \<and>
     ((\<exists>e. r = Raised e) \<longrightarrow> executed \<noteq> [])"

lemma run_events_order:
  assumes "well_behaved invoke" and "scheduler_ok s" and "es_advance_in_progress s"
    and "run_events invoke target budget (s, w) = (executed, r, s', w')"
  shows "ran_in_order target budget s executed r s'"
  using assms(2-)
proof (induction budget arbitrary: s w executed r s' w')
  case 0
  then show ?case by (auto simp: ran_in_order_def split: if_splits)
next
  case (Suc budget)
  show ?case
  proof (cases "next_due target s")
    case None
    then show ?thesis using Suc.prems by (auto simp: ran_in_order_def)
  next
    case (Some x)
    then obtain k event s1 where due: "next_due target s = Some (k, event, s1)" by (cases x) auto
    note d = next_due_Some [OF Suc.prems(1) due]
    obtain e s2 w2 where inv: "invoke (ev_callback event) (snd k) (fst k) (s1, w) = (e, s2, w2)"
      by (metis prod_cases3)
    have c: "scheduler_ok s2 \<and> beyond k s2 \<and> es_current_cycle s2 = fst k \<and> es_advance_in_progress s2"
      using callback_keeps [OF assms(1) _ _ inv, of k] d Suc.prems(2) by auto
    have first: "beyond k' s \<longrightarrow> k' < k" for k' using d by (auto simp: beyond_def)
    have carry: "beyond k' s \<longrightarrow> beyond k' s2" for k'
    proof
      assume b: "beyond k' s"
      have "snd k' < es_next_event_id s1" using b d by (simp add: beyond_def)
      then have "beyond k' s1" using beyond_trans [of k s1 k'] b d first [of k'] by blast
      then show "beyond k' s2" using callback_keeps [OF assms(1) _ _ inv, of k'] d Suc.prems(2) by auto
    qed
    show ?thesis
    proof (cases e)
      case (Some x)
      then show ?thesis
        using Suc.prems(3) due inv c d first carry by (auto simp: ran_in_order_def)
    next
      case None
      obtain ks r' s3 w3 where rest: "run_events invoke target budget (s2, w2) = (ks, r', s3, w3)"
        by (metis prod_cases4)
      have IH: "ran_in_order target budget s2 ks r' s3" using Suc.IH [OF _ _ rest] c by blast
      have eq: "executed = k # ks" "r = r'" "s' = s3"
        using Suc.prems(3) due inv None rest by auto
      have "list_all (\<lambda>k'. k < k') ks" using IH c unfolding ran_in_order_def by blast
      then show ?thesis
        using IH c d first carry unfolding eq
        by (auto simp: ran_in_order_def list_all_iff dest: order.trans)
    qed
  qed
qed

lemma scheduler_ok_progress [simp]: "scheduler_ok (s\<lparr>es_advance_in_progress := b\<rparr>) = scheduler_ok s"
  by (simp add: scheduler_ok_def)

lemma next_due_progress:
  "next_due target (s\<lparr>es_advance_in_progress := b\<rparr>) = None \<longleftrightarrow> next_due target s = None"
  by (auto simp: next_due_def split: option.splits)

lemma scheduler_ok_clock:
  "scheduler_ok s \<Longrightarrow> next_due t s = None \<Longrightarrow> scheduler_ok (s\<lparr>es_current_cycle := t\<rparr>)"
  using next_due_None [of s t] by (auto simp: scheduler_ok_def less_imp_le)

lemma due_pending: "next_due t s \<noteq> None \<Longrightarrow> \<exists>k\<in>keys (es_events s). fst k \<le> t"
  by (cases "es_events s") (auto simp: next_due_def split: if_splits)

text \<open>What an advance does that is not refused.\<close>

lemma advance_to_correct:
  assumes "well_behaved invoke" and "scheduler_ok s" and "\<not> es_advance_in_progress s"
    and "es_current_cycle s \<le> guest_cycle"
    and "advance_to invoke guest_cycle event_budget (s, w) = (executed, r, s', w')"
  shows "sorted_wrt (<) executed \<and> length executed \<le> event_budget \<and>
    (\<forall>k\<in>set executed. es_current_cycle s \<le> fst k \<and> fst k \<le> effective_target guest_cycle s) \<and>
    scheduler_ok s' \<and> \<not> es_advance_in_progress s' \<and>
    (case r of
       Inl e \<Rightarrow> executed \<noteq> [] \<and> es_current_cycle s' = fst (last executed)
     | Inr result \<Rightarrow>
         ar_processed_events result = length executed \<and> ar_guest_cycle result = es_current_cycle s' \<and>
         (if ar_status result = EventBudgetExhausted then
            length executed = event_budget \<and>
            (\<exists>k\<in>keys (es_events s'). fst k \<le> effective_target guest_cycle s) \<and>
            es_current_cycle s' = (if executed = [] then es_current_cycle s else fst (last executed))
          else
            es_current_cycle s' = effective_target guest_cycle s \<and>
            (\<forall>k\<in>keys (es_events s'). effective_target guest_cycle s < fst k) \<and>
            (ar_status result = ReachedTarget \<longleftrightarrow> effective_target guest_cycle s = guest_cycle)))"
proof -
  let ?t = "effective_target guest_cycle s"
  obtain ks e s1 w1 where
    run: "run_events invoke ?t event_budget (s\<lparr>es_advance_in_progress := True\<rparr>, w) = (ks, e, s1, w1)"
    by (metis prod_cases4)
  have o: "ran_in_order ?t event_budget (s\<lparr>es_advance_in_progress := True\<rparr>) ks e s1"
    using run_events_order [OF assms(1) _ _ run] assms(2) by simp
  note eq = assms(5) [unfolded advance_to_def, simplified assms(3) assms(4) [folded not_less] run
      prod.case if_False Let_def]
  show ?thesis
  proof (cases e)
    case Drained
    then show ?thesis
      using eq o next_due_None [of s1 ?t] scheduler_ok_clock [of s1 ?t] by (auto simp: ran_in_order_def)
  next
    case BudgetUsed
    then have vals: "executed = ks" "s' = s1\<lparr>es_advance_in_progress := False\<rparr>"
      "r = Inr \<lparr>ar_status = EventBudgetExhausted, ar_processed_events = length ks,
         ar_guest_cycle = es_current_cycle s1\<rparr>"
      using eq by auto
    have "\<exists>k\<in>keys (es_events s1). fst k \<le> ?t"
      using o BudgetUsed due_pending [of ?t s1] by (simp add: ran_in_order_def)
    then show ?thesis using o BudgetUsed unfolding vals by (simp add: ran_in_order_def)
  next
    case (Raised x)
    then show ?thesis using eq o by (auto simp: ran_in_order_def)
  qed
qed

lemma advance_to_keeps:
  assumes "well_behaved invoke" and "scheduler_ok s"
    and "advance_to invoke guest_cycle event_budget (s, w) = (executed, r, s', w')"
  shows "scheduler_ok s'"
proof (cases "es_advance_in_progress s \<or> guest_cycle < es_current_cycle s")
  case True
  then show ?thesis using assms(2,3) by (simp add: advance_to_def split: if_splits)
next
  case False
  then show ?thesis using advance_to_correct [OF assms(1,2) _ _ assms(3)] by auto
qed

subsection \<open>The whole interface\<close>

lemma prepare_events_ok:
  assumes "index_ok (pr_events p) (pr_event_keys p) (pr_guest_cycle p) (pr_next_event_id p)"
    and "length events \<le> unat (- 1 - pr_next_event_id p)"
    and "prepare_events events p = Inr p'"
  shows "index_ok (pr_events p') (pr_event_keys p') (pr_guest_cycle p') (pr_next_event_id p')"
  using assms
proof (induction events arbitrary: p)
  case (Cons event events)
  let ?n = "pr_next_event_id p"
  have n: "?n \<noteq> - 1" using Cons.prems(2) by auto
  obtain q where q: "prepare_event event p = Inr q" "prepare_events events q = Inr p'"
    using Cons.prems(3) by (auto split: sum.splits)
  have next_id: "pr_next_event_id q = ?n + 1"
    and ok: "index_ok (pr_events q) (pr_event_keys q) (pr_guest_cycle q) (pr_next_event_id q)"
    using q(1) index_ok_insert [OF Cons.prems(1) _ n]
    by (auto simp: prepare_event_def Let_def split: option.splits if_splits)
  have "unat (- 1 - (?n + 1)) = unat (- 1 - ?n) - 1"
  proof -
    have "- 1 - ?n \<noteq> 0" using n by simp
    then have "unat ((- 1 - ?n) - 1) = unat (- 1 - ?n) - 1"
      by (metis unat_minus_one)
    then show ?thesis by (simp add: algebra_simps)
  qed
  then show ?case using Cons.IH [OF ok _ q(2)] Cons.prems(2) next_id by simp
qed simp

lemma prepare_restore_ok:
  assumes "prepare_passive_restore c events s = Inr p"
  shows "index_ok (pr_events p) (pr_event_keys p) (pr_guest_cycle p) (pr_next_event_id p)"
proof -
  let ?p = "\<lparr>pr_guest_cycle = c, pr_expected_next_event_id = es_next_event_id s,
    pr_next_event_id = es_next_event_id s, pr_expected_guest_cycle_budget = es_guest_cycle_budget s,
    pr_events = [], pr_event_keys = Map.empty, pr_assigned_event_ids = []\<rparr>"
  have "prepare_events events ?p = Inr p" "length events \<le> unat (- 1 - es_next_event_id s)"
    using assms by (simp_all add: prepare_passive_restore_def split: if_splits)
  then show ?thesis using prepare_events_ok [of ?p events p] by simp
qed

inductive scheduler_step ::
    "('c, 'r, 'w) invoke \<Rightarrow> ('c, 'r) EventScheduler \<Rightarrow> ('c, 'r) EventScheduler \<Rightarrow> bool"
  for invoke where
  step_call: "callback_call s s' \<Longrightarrow> scheduler_step invoke s s'"
| step_try_budget: "scheduler_step invoke s (snd (try_set_guest_cycle_budget_after_current_cycle c s))"
| step_reset: "\<not> es_advance_in_progress s \<Longrightarrow> es_reset_generation s \<noteq> - 1 \<Longrightarrow>
    scheduler_step invoke s (reset_timeline s)"
| step_restore: "restore_time_passive c s = Inr s' \<Longrightarrow> scheduler_step invoke s s'"
| step_commit: "prepare_passive_restore c events (s0 :: ('c, 'r) EventScheduler) = Inr p \<Longrightarrow>
    commit_prepared_passive_restore p s = Some s' \<Longrightarrow> scheduler_step invoke s s'"
| step_advance: "advance_to invoke c n (s, w) = (executed, r, s', w') \<Longrightarrow> scheduler_step invoke s s'"

lemma scheduler_step_keeps:
  "scheduler_step invoke s s' \<Longrightarrow> well_behaved invoke \<Longrightarrow> scheduler_ok s \<Longrightarrow> scheduler_ok s'"
proof (induction rule: scheduler_step.induct)
  case (step_commit c events s0 p s s')
  then show ?case using prepare_restore_ok [of c events s0 p]
    by (auto simp: commit_prepared_passive_restore_def scheduler_ok_iff split: if_splits)
next
  case (step_advance c n s w executed r s' w')
  show ?case by (rule advance_to_keeps [OF step_advance(2,3,1)])
qed (auto simp: scheduler_ok_iff reset_timeline_def clear_def restore_time_passive_def
    try_set_guest_cycle_budget_after_current_cycle_def Let_def callback_call_keeps split: if_splits option.splits
    dest: callback_call_keeps)

lemma notify_observers_steps:
  assumes "\<And>r s w. (scheduler_step invoke)\<^sup>*\<^sup>* s (fst (snd (notify r (s, w))))"
  shows "(scheduler_step invoke)\<^sup>*\<^sup>* (fst sw) (fst (snd (notify_observers notify rs sw)))"
proof (induction rs arbitrary: sw)
  case (Cons r rs)
  show ?case
    using assms [of "fst sw" r "snd sw"] Cons.IH [of "snd (notify r sw)"]
    by (auto simp: case_prod_beta Let_def intro: rtranclp_trans)
qed simp

text \<open>A reset is a step of its own followed by those of its observers.\<close>

lemma reset_steps:
  assumes "\<And>r s w. (scheduler_step invoke)\<^sup>*\<^sup>* s (fst (snd (notify r (s, w))))"
  shows "(scheduler_step invoke)\<^sup>*\<^sup>* s (fst (snd (reset notify (s, w))))"
proof -
  have "scheduler_step invoke s (reset_timeline s)"
    if "\<not> es_advance_in_progress s" "es_reset_generation s \<noteq> - 1"
    using that by (rule step_reset)
  then show ?thesis
    using notify_observers_steps [where notify = notify and sw = "(reset_timeline s, w)", OF assms]
    by (auto simp: reset_def intro: converse_rtranclp_into_rtranclp)
qed

lemma reachable_ok:
  assumes "well_behaved invoke" and "(scheduler_step invoke)\<^sup>*\<^sup>* initial_scheduler s"
  shows "scheduler_ok s"
  using assms(2) by (induction rule: rtranclp_induct) (auto simp: initial_ok intro: scheduler_step_keeps [OF _ assms(1)])

end
