(* ===== verification/Scheduler_Safepoint.thy ===== *)
theory Scheduler_Safepoint
  imports Scheduler_Correct "HOL-Library.Monad_Syntax"
begin

text \<open>
  Safepoints (\<open>src/runtime/scheduler_safepoint.cpp\<close>): translated code hands the guest cycles it has
  used to the scheduler, in chunks of a quantum when it leaves a long loop, and interrupts are
  delivered after each chunk.  The loop over the chunks is a partial function; it is shown to return.
\<close>

datatype ExecutionOrigin = Backend | Fallback
datatype SafepointKind = BlockEnd | LoopBackedge | BeforeDelaySlot | AfterDelaySlot

record SafepointReport =
  sr_kind :: SafepointKind
  sr_origin :: ExecutionOrigin
  sr_requested_cycle :: u64
  sr_delivered_cycle :: u64
  sr_jitter :: u64
  sr_processed_events :: nat
  sr_interrupt_delivered :: bool
  sr_budget_exhausted :: bool
  sr_guest_cycle_budget_exhausted :: bool

record SchedulerSafepoints =
  sp_event_budget :: nat
  sp_loop_quantum :: u64
  sp_reports :: "SafepointReport list"

definition make_safepoints :: "nat \<Rightarrow> u64 \<Rightarrow> scheduler_error + SchedulerSafepoints" where
  "make_safepoints event_budget loop_quantum =
     (if event_budget = 0 \<or> loop_quantum = 0 then
        Inl (Invalid_Argument ''Scheduler-Safepoints brauchen Ereignisbudget und Schleifenquantum.'')
      else Inr \<lparr>sp_event_budget = event_budget, sp_loop_quantum = loop_quantum, sp_reports = []\<rparr>)"

text \<open>\<open>interrupt_delivery\<close> is an optional function; it may throw.\<close>

type_synonym ('c, 'r, 'w) delivery =
  "(('c, 'r) EventScheduler \<times> 'w \<Rightarrow> (scheduler_error + bool) \<times> ('c, 'r) EventScheduler \<times> 'w) option"

definition deliver ::
    "('c, 'r, 'w) delivery \<Rightarrow> ('c, 'r) EventScheduler \<times> 'w \<Rightarrow>
     (scheduler_error + bool) \<times> ('c, 'r) EventScheduler \<times> 'w" where
  "deliver delivery sw = (case delivery of None \<Rightarrow> (Inr False, sw) | Some d \<Rightarrow> d sw)"

definition safepoint_report ::
    "SafepointKind \<Rightarrow> ExecutionOrigin \<Rightarrow> u64 \<Rightarrow> u64 \<Rightarrow> SchedulerAdvanceResult \<Rightarrow> bool \<Rightarrow> SafepointReport" where
  "safepoint_report kind origin target delivered advanced interrupt =
     \<lparr>sr_kind = kind, sr_origin = origin, sr_requested_cycle = target, sr_delivered_cycle = delivered,
      sr_jitter = (if delivered > target then delivered - target else target - delivered),
      sr_processed_events = ar_processed_events advanced, sr_interrupt_delivered = interrupt,
      sr_budget_exhausted = (ar_status advanced = EventBudgetExhausted),
      sr_guest_cycle_budget_exhausted = (ar_status advanced = GuestCycleBudgetExhausted)\<rparr>"

definition consume ::
    "('c, 'r, 'w) invoke \<Rightarrow> ('c, 'r, 'w) delivery \<Rightarrow> u64 \<Rightarrow> SafepointKind \<Rightarrow> ExecutionOrigin \<Rightarrow>
     SchedulerSafepoints \<Rightarrow> ('c, 'r) EventScheduler \<times> 'w \<Rightarrow>
     (scheduler_error + SafepointReport) \<times> SchedulerSafepoints \<times> ('c, 'r) EventScheduler \<times> 'w" where
  "consume invoke delivery guest_cycles kind origin points sw =
     (if guest_cycles > max_u64 - es_current_cycle (fst sw) then
        (Inl (Overflow_Error ''Gastzyklusbudget laeuft ueber.''), points, sw)
      else
        let target = es_current_cycle (fst sw) + guest_cycles
        in case advance_to invoke target (sp_event_budget points) sw of
             (_, Inl e, sw') \<Rightarrow> (Inl e, points, sw')
           | (_, Inr advanced, sw') \<Rightarrow>
               (case deliver delivery sw' of
                  (Inl e, sw'') \<Rightarrow> (Inl e, points, sw'')
                | (Inr interrupt, sw'') \<Rightarrow>
                    let report = safepoint_report kind origin target (es_current_cycle (fst sw''))
                          advanced interrupt
                    in (Inr report, points\<lparr>sp_reports := sp_reports points @ [report]\<rparr>, sw'')))"

partial_function (option) consume_loop ::
    "('c, 'r, 'w) invoke \<Rightarrow> ('c, 'r, 'w) delivery \<Rightarrow> ExecutionOrigin \<Rightarrow> u64 \<Rightarrow>
     SchedulerSafepoints \<Rightarrow> ('c, 'r) EventScheduler \<times> 'w \<Rightarrow>
     ((scheduler_error + SafepointReport list) \<times> SchedulerSafepoints \<times> ('c, 'r) EventScheduler \<times> 'w) option"
  where
  "consume_loop invoke delivery origin guest_cycles points sw =
     (if guest_cycles = 0 then Some (Inr [], points, sw)
      else
        let chunk = min guest_cycles (sp_loop_quantum points);
            before = es_current_cycle (fst sw)
        in case consume invoke delivery chunk LoopBackedge origin points sw of
             (Inl e, points', sw') \<Rightarrow> Some (Inl e, points', sw')
           | (Inr report, points', sw') \<Rightarrow>
               if sr_guest_cycle_budget_exhausted report then
                 Some (Inl (Runtime_Error
                   ''Gastzyklusbudget ist am Scheduler-Safepoint erschoepft.''), points', sw')
               else
                 let consumed = sr_delivered_cycle report - before
                 in if consumed = 0 \<and> sr_budget_exhausted report then
                      Some (Inl (Runtime_Error
                        ''Scheduler-Ereignisbudget ist ohne Gastzyklusfortschritt erschoepft.''),
                        points', sw')
                    else
                      consume_loop invoke delivery origin (guest_cycles - consumed) points' sw' \<bind>
                        (\<lambda>(result, points'', sw'').
                           Some (case result of Inl e \<Rightarrow> Inl e | Inr reports \<Rightarrow> Inr (report # reports),
                             points'', sw'')))"

subsection \<open>One chunk\<close>

text \<open>What is relied on of the interrupt delivery: it leaves the scheduler alone.\<close>

definition leaves_scheduler :: "('c, 'r, 'w) delivery \<Rightarrow> bool" where
  "leaves_scheduler delivery \<longleftrightarrow> (\<forall>s w. fst (snd (deliver delivery (s, w))) = s)"

lemma effective_target_le: "effective_target c s \<le> c"
  by (simp add: effective_target_def split: option.splits)

lemma target_no_wrap:
  assumes "n \<le> (- 1 :: u64) - c"
  shows "c \<le> c + n" and "unat (c + n) = unat c + unat n"
proof -
  have "unat (- 1 - c) = unat (- 1 :: u64) - unat c" by (simp add: unat_sub)
  then have "unat c + unat n \<le> unat (- 1 :: u64)"
    using assms unat_mono by (metis add.commute le_diff_conv2 word_le_nat_alt word_order.extremum)
  also have "\<dots> < 2 ^ LENGTH(64)" by (rule unsigned_less)
  finally have "unat c + unat n < 2 ^ LENGTH(64)" .
  then show "unat (c + n) = unat c + unat n" by (simp add: unat_add_lem [THEN iffD1])
  then show "c \<le> c + n" by (simp add: word_le_nat_alt)
qed

lemma consume_report:
  assumes "well_behaved invoke" and "leaves_scheduler delivery" and "scheduler_ok s"
    and "\<not> es_advance_in_progress s"
    and "consume invoke delivery n kind origin points (s, w) = (Inr report, points', s', w')"
  shows "scheduler_ok s' \<and> \<not> es_advance_in_progress s' \<and>
    n \<le> - 1 - es_current_cycle s \<and>
    points' = points\<lparr>sp_reports := sp_reports points @ [report]\<rparr> \<and>
    sr_delivered_cycle report = es_current_cycle s' \<and>
    (\<not> sr_guest_cycle_budget_exhausted report \<and> \<not> sr_budget_exhausted report \<longrightarrow>
       es_current_cycle s' = es_current_cycle s + n) \<and>
    (sr_budget_exhausted report \<longrightarrow>
       es_current_cycle s \<le> es_current_cycle s' \<and> es_current_cycle s' \<le> es_current_cycle s + n)"
proof -
  let ?t = "es_current_cycle s + n"
  have n: "n \<le> - 1 - es_current_cycle s"
    using assms(5) by (auto simp: consume_def split: if_splits)
  note t = target_no_wrap [OF n] and n' = n [folded not_less]
  obtain executed r s1 w1 where adv: "advance_to invoke ?t (sp_event_budget points) (s, w) =
      (executed, r, s1, w1)"
    by (metis prod_cases4)
  note a = advance_to_correct [OF assms(1,3,4) t(1) adv]
  obtain advanced where r: "r = Inr advanced"
    using assms(5) adv n' by (cases r) (simp_all add: consume_def)
  obtain d w2 where del: "deliver delivery (s1, w1) = (d, s1, w2)"
    using assms(2) unfolding leaves_scheduler_def by (metis prod.collapse)
  obtain interrupt where d: "d = Inr interrupt"
    using assms(5) adv n' r del by (cases d) (simp_all add: consume_def)
  have res: "s' = s1" "points' = points\<lparr>sp_reports := sp_reports points @ [report]\<rparr>"
    "report = safepoint_report kind origin ?t (es_current_cycle s1) advanced interrupt"
    using assms(5) adv n' r del d by (auto simp: consume_def Let_def)
  have last: "es_current_cycle s \<le> fst (last executed) \<and> fst (last executed) \<le> ?t"
    if "executed \<noteq> []"
    using that a effective_target_le [of ?t s] last_in_set [OF that] by (meson order.trans)
  show ?thesis
    using a t last n unfolding res r by (cases "ar_status advanced") (auto simp: safepoint_report_def)
qed

lemma consume_keeps:
  assumes "well_behaved invoke" and "leaves_scheduler delivery" and "scheduler_ok s"
    and "consume invoke delivery n kind origin points (s, w) = (r, points', s', w')"
  shows "scheduler_ok s'"
proof (cases "n > - 1 - es_current_cycle s")
  case False
  obtain executed x s1 w1 where adv: "advance_to invoke (es_current_cycle s + n) (sp_event_budget points) (s, w) =
      (executed, x, s1, w1)"
    by (metis prod_cases4)
  obtain d w2 where "deliver delivery (s1, w1) = (d, s1, w2)"
    using assms(2) unfolding leaves_scheduler_def by (metis prod.collapse)
  then have "s' = s1"
    using assms(4) adv False by (auto simp: consume_def Let_def split: sum.splits)
  then show ?thesis using advance_to_keeps [OF assms(1,3) adv] by simp
qed (use assms(3,4) in \<open>simp add: consume_def\<close>)

subsection \<open>The loop returns\<close>

lemma word_diff_add: "b \<le> (a :: u64) \<Longrightarrow> a \<le> b + n \<Longrightarrow> unat (b + n) = unat b + unat n \<Longrightarrow>
    a - b \<le> n \<and> unat (a - b) = unat a - unat b"
  by (auto simp: unat_sub word_le_nat_alt)

lemma consume_loop_returns:
  assumes "well_behaved invoke" and "leaves_scheduler delivery"
    and "scheduler_ok s" and "\<not> es_advance_in_progress s" and "sp_loop_quantum points \<noteq> 0"
  shows "\<exists>r points' s' w'. consume_loop invoke delivery origin n points (s, w) = Some (r, points', s', w') \<and>
    scheduler_ok s' \<and>
    (\<forall>reports. r = Inr reports \<longrightarrow> unat (es_current_cycle s') = unat (es_current_cycle s) + unat n \<and>
       sp_reports points' = sp_reports points @ reports)"
  using assms(3-)
proof (induction "unat n" arbitrary: n points s w rule: less_induct)
  case less
  let ?chunk = "min n (sp_loop_quantum points)"
  show ?case
  proof (cases "n = 0")
    case True
    then show ?thesis using less.prems by (simp add: consume_loop.simps)
  next
    case False
    have chunk: "?chunk \<noteq> 0" "?chunk \<le> n" using False less.prems(3) by (auto simp: min_def)
    obtain x points1 s1 w1 where
      con: "consume invoke delivery ?chunk LoopBackedge origin points (s, w) = (x, points1, s1, w1)"
      by (metis prod_cases4)
    show ?thesis
    proof (cases x)
      case (Inl e)
      then show ?thesis
        using con False consume_keeps [OF assms(1,2) less.prems(1) con]
        by (subst consume_loop.simps) (simp add: Let_def)
    next
      case (Inr report)
      note c = consume_report [OF assms(1,2) less.prems(1,2) con [unfolded Inr]]
      let ?consumed = "es_current_cycle s1 - es_current_cycle s"
      show ?thesis
      proof (cases "sr_guest_cycle_budget_exhausted report \<or> ?consumed = 0 \<and> sr_budget_exhausted report")
        case True
        then show ?thesis using con Inr False c by (subst consume_loop.simps) (auto simp: Let_def)
      next
        case go: False
        note w = target_no_wrap [OF conjunct1 [OF conjunct2 [OF conjunct2 [OF c]]]]
        have moved: "es_current_cycle s \<le> es_current_cycle s1"
          "es_current_cycle s1 \<le> es_current_cycle s + ?chunk"
          using c go w(1) by (cases "sr_budget_exhausted report"; auto)+
        have "?consumed \<noteq> 0" using c go chunk(1) by (cases "sr_budget_exhausted report") auto
        moreover have "?consumed \<le> ?chunk"
          and u: "unat ?consumed = unat (es_current_cycle s1) - unat (es_current_cycle s)"
          using word_diff_add [OF moved w(2)] by auto
        ultimately have le: "?consumed \<le> n" and pos: "?consumed \<noteq> 0" using chunk(2) by auto
        have "unat n \<noteq> 0" "unat ?consumed \<noteq> 0" using pos \<open>n \<noteq> 0\<close> by (simp_all add: unat_eq_0)
        then have "unat (n - ?consumed) < unat n" using le by (simp add: unat_sub)
        with le obtain r points' s' w' where
          rest: "consume_loop invoke delivery origin (n - ?consumed) points1 (s1, w1) = Some (r, points', s', w')"
          and ok: "scheduler_ok s'" and val: "\<forall>reports. r = Inr reports \<longrightarrow>
            unat (es_current_cycle s') = unat (es_current_cycle s1) + unat (n - ?consumed) \<and>
            sp_reports points' = sp_reports points1 @ reports"
          using less.hyps [of "n - ?consumed" s1 points1 w1] c less.prems(3) by auto
        have "consume_loop invoke delivery origin n points (s, w) =
            Some (case r of Inl e \<Rightarrow> Inl e | Inr reports \<Rightarrow> Inr (report # reports), points', s', w')"
          using con Inr False go c rest by (subst consume_loop.simps) (auto simp: Let_def)
        moreover have "unat (es_current_cycle s1) + unat (n - ?consumed) =
            unat (es_current_cycle s) + unat n"
          using le u moved(1) by (simp add: unat_sub word_le_nat_alt)
        ultimately show ?thesis using ok val c by (auto split: sum.splits)
      qed
    qed
  qed
qed

end
