(* ===== verification/Interrupt.thy ===== *)
theory Interrupt
  imports Cpu_State
begin

text \<open>
  The interrupt controller (\<open>src/runtime/interrupt.cpp\<close>): a set of pending requests, one per source,
  with a cached level mask and highest level that the translated code tests at its safepoints, and the
  acceptance of the most urgent request by the CPU.
\<close>

record PendingInterrupt =
  pi_source :: u32
  pi_level :: u8
  pi_event_code :: u32

record InterruptController =
  ic_pending :: "PendingInterrupt list"
  ic_interrupt_epoch :: u64
  ic_pending_mask :: u64
  ic_highest_pending_level :: u8

definition initial_controller :: InterruptController where
  "initial_controller = \<lparr>ic_pending = [], ic_interrupt_epoch = 0, ic_pending_mask = 0,
     ic_highest_pending_level = 0\<rparr>"

definition update_pending_metadata :: "InterruptController \<Rightarrow> InterruptController" where
  "update_pending_metadata c =
     c\<lparr>ic_pending_mask := fold (\<lambda>p m. m OR push_bit (unat (pi_level p)) 1) (ic_pending c) 0,
       ic_highest_pending_level := fold (\<lambda>p h. max h (pi_level p)) (ic_pending c) 0\<rparr>"

text \<open>The statements that end every change: a new epoch and fresh metadata.\<close>

definition commit_pending :: "PendingInterrupt list \<Rightarrow> InterruptController \<Rightarrow> InterruptController" where
  "commit_pending pending c =
     update_pending_metadata (c\<lparr>ic_pending := pending,
       ic_interrupt_epoch := ic_interrupt_epoch c + 1\<rparr>)"

fun replace_source :: "PendingInterrupt \<Rightarrow> PendingInterrupt list \<Rightarrow> PendingInterrupt list" where
  "replace_source request [] = [request]"
| "replace_source request (p # ps) =
     (if pi_source p = pi_source request then request # ps else p # replace_source request ps)"

fun remove_source :: "u32 \<Rightarrow> PendingInterrupt list \<Rightarrow> PendingInterrupt list" where
  "remove_source source [] = []"
| "remove_source source (p # ps) =
     (if pi_source p = source then ps else p # remove_source source ps)"

definition pending_source :: "u32 \<Rightarrow> InterruptController \<Rightarrow> bool" where
  "pending_source source c \<longleftrightarrow> list_ex (\<lambda>p. pi_source p = source) (ic_pending c)"

definition request_interrupt :: "u32 \<Rightarrow> u8 \<Rightarrow> u32 \<Rightarrow> InterruptController \<Rightarrow> InterruptController" where
  "request_interrupt source level event_code c =
     (let request = \<lparr>pi_source = source, pi_level = (if level > 15 then 15 else level),
            pi_event_code = event_code\<rparr>
      in if find (\<lambda>p. pi_source p = source) (ic_pending c) = Some request then c
         else commit_pending (replace_source request (ic_pending c)) c)"

definition cancel_interrupt :: "u32 \<Rightarrow> InterruptController \<Rightarrow> bool \<times> InterruptController" where
  "cancel_interrupt source c =
     (if \<not> pending_source source c then (False, c)
      else (True, commit_pending (remove_source source (ic_pending c)) c))"

definition clear_interrupts :: "InterruptController \<Rightarrow> InterruptController" where
  "clear_interrupts c = (if ic_pending c = [] then c else commit_pending [] c)"

definition can_accept :: "CpuState \<Rightarrow> InterruptController \<Rightarrow> bool" where
  "can_accept cpu c \<longleftrightarrow>
     \<not> interrupts_blocked cpu \<and> ic_highest_pending_level c > interrupt_mask cpu"

text \<open>\<open>std::max_element\<close>: the first of the largest elements.\<close>

fun max_element :: "('a \<Rightarrow> 'a \<Rightarrow> bool) \<Rightarrow> 'a list \<Rightarrow> 'a option" where
  "max_element below [] = None"
| "max_element below (x # xs) = Some (fold (\<lambda>y m. if below m y then y else m) xs x)"

definition less_urgent :: "PendingInterrupt \<Rightarrow> PendingInterrupt \<Rightarrow> bool" where
  "less_urgent left right \<longleftrightarrow>
     (if pi_level left \<noteq> pi_level right then pi_level left < pi_level right
      else pi_source left > pi_source right)"

definition highest_pending :: "InterruptController \<Rightarrow> PendingInterrupt option" where
  "highest_pending c = max_element less_urgent (ic_pending c)"

definition interrupt_request :: "PendingInterrupt \<Rightarrow> CpuState \<Rightarrow> ExceptionRequest" where
  "interrupt_request accepted cpu =
     \<lparr>er_cause = ExceptionCause.Interrupt, er_event_code = pi_event_code accepted,
      er_vector_offset = interrupt_vector, er_return_pc = cpu_pc cpu, er_fault_address = None,
      er_interrupt = True, er_in_delay_slot = False, er_instruction_pc = None,
      er_delay_slot_owner_pc = None\<rparr>"

definition accept_pending_interrupt ::
    "reset_sink \<Rightarrow> CpuState \<times> InterruptController \<Rightarrow> bool \<times> CpuState \<times> InterruptController" where
  "accept_pending_interrupt sink state =
     (let (cpu, c) = state
      in if \<not> can_accept cpu c then (False, state)
         else case max_element less_urgent (ic_pending c) of
           None \<Rightarrow> (False, state)
         | Some accepted \<Rightarrow>
             (True, enter_exception sink (interrupt_request accepted cpu) cpu,
              commit_pending (remove1 accepted (ic_pending c)) c))"

subsection \<open>Snapshot and restore\<close>

definition interrupt_snapshot :: "InterruptController \<Rightarrow> PendingInterrupt list" where
  "interrupt_snapshot c = sort_key pi_source (ic_pending c)"

fun canonical_pending :: "u32 option \<Rightarrow> PendingInterrupt list \<Rightarrow> bool" where
  "canonical_pending previous [] = True"
| "canonical_pending previous (p # ps) =
     (if pi_level p > 15 \<or> (case previous of None \<Rightarrow> False | Some s \<Rightarrow> pi_source p \<le> s) then False
      else canonical_pending (Some (pi_source p)) ps)"

definition validate_interrupt_restore :: "PendingInterrupt list \<Rightarrow> string + unit" where
  "validate_interrupt_restore state =
     (if canonical_pending None state then Inr ()
      else Inl ''Interrupt-Handoff besitzt keine kanonische Pending-Liste.'')"

definition restore_interrupts_passive ::
    "PendingInterrupt list \<Rightarrow> InterruptController \<Rightarrow> string + InterruptController" where
  "restore_interrupts_passive state c =
     (case validate_interrupt_restore state of
        Inl e \<Rightarrow> Inl e | Inr _ \<Rightarrow> Inr (commit_pending state c))"

subsection \<open>Invariant\<close>

definition pending_ok :: "PendingInterrupt list \<Rightarrow> bool" where
  "pending_ok ps \<longleftrightarrow> distinct (map pi_source ps) \<and> (\<forall>p\<in>set ps. pi_level p \<le> 15)"

definition metadata_ok :: "InterruptController \<Rightarrow> bool" where
  "metadata_ok c \<longleftrightarrow>
     (\<forall>n. bit (ic_pending_mask c) n \<longleftrightarrow> (\<exists>p\<in>set (ic_pending c). unat (pi_level p) = n)) \<and>
     ic_highest_pending_level c = Max (insert 0 (pi_level ` set (ic_pending c)))"

definition controller_ok :: "InterruptController \<Rightarrow> bool" where
  "controller_ok c \<longleftrightarrow> pending_ok (ic_pending c) \<and> metadata_ok c"

lemma fold_mask_bit:
  assumes "\<forall>p\<in>set ps. pi_level p \<le> 15"
  shows "bit (fold (\<lambda>p m. m OR push_bit (unat (pi_level p)) 1) ps (m :: u64)) n \<longleftrightarrow>
    bit m n \<or> (\<exists>p\<in>set ps. unat (pi_level p) = n)"
  using assms
proof (induction ps arbitrary: m)
  case (Cons p ps)
  have "unat (pi_level p) \<le> 15" using Cons.prems by (simp add: word_le_nat_alt)
  then have "bit (push_bit (unat (pi_level p)) (1 :: u64)) n \<longleftrightarrow> unat (pi_level p) = n"
    by (auto simp: bit_push_bit_iff bit_1_iff bit_exp_iff)
  then show ?case using Cons by (auto simp: bit_or_iff)
qed simp

lemma fold_max_level:
  "fold (\<lambda>p h. max h (pi_level p)) ps h = Max (insert h (pi_level ` set ps))"
proof (induction ps arbitrary: h)
  case (Cons p ps)
  have "insert (max h (pi_level p)) L = {max h (pi_level p)} \<union> L" for L by simp
  moreover have "Max (insert (max h (pi_level p)) L) = Max (insert h (insert (pi_level p) L))"
    if "finite L" for L
    using that by (cases "L = {}") (simp_all add: max.assoc)
  ultimately show ?case using Cons.IH by simp
qed simp

lemma commit_pending_ok [simp]: "pending_ok ps \<Longrightarrow> controller_ok (commit_pending ps c)"
  using fold_mask_bit [of ps 0]
  by (simp add: controller_ok_def metadata_ok_def commit_pending_def update_pending_metadata_def
      fold_max_level pending_ok_def)

lemma commit_pending_list [simp]: "ic_pending (commit_pending ps c) = ps"
  by (simp add: commit_pending_def update_pending_metadata_def)

lemma initial_controller_ok: "controller_ok initial_controller"
  by (simp add: controller_ok_def metadata_ok_def pending_ok_def initial_controller_def)

lemma set_replace_source:
  "distinct (map pi_source ps) \<Longrightarrow>
     set (replace_source r ps) = insert r {p \<in> set ps. pi_source p \<noteq> pi_source r}"
  by (induction ps) (auto simp: image_iff)

lemma sources_replace_source: "pi_source ` set (replace_source r ps) = insert (pi_source r) (pi_source ` set ps)"
  by (induction ps) auto

lemma distinct_replace_source:
  "distinct (map pi_source ps) \<Longrightarrow> distinct (map pi_source (replace_source r ps))"
  by (induction ps) (auto simp: sources_replace_source)

lemma remove_source_filter:
  "distinct (map pi_source ps) \<Longrightarrow> remove_source s ps = filter (\<lambda>p. pi_source p \<noteq> s) ps"
proof (induction ps)
  case (Cons p ps)
  then show ?case by (auto simp: image_iff intro!: filter_True [symmetric])
qed simp

lemma pending_ok_filter: "pending_ok ps \<Longrightarrow> pending_ok (filter P ps)"
  by (auto simp: pending_ok_def distinct_map inj_on_def)

lemma pending_ok_replace: "pending_ok ps \<Longrightarrow> pi_level r \<le> 15 \<Longrightarrow> pending_ok (replace_source r ps)"
  by (auto simp: pending_ok_def set_replace_source distinct_replace_source)

lemma canonical_pending_ok:
  "canonical_pending previous ps \<longleftrightarrow>
     (\<forall>p\<in>set ps. pi_level p \<le> 15) \<and> sorted_wrt (<) (map pi_source ps) \<and>
     (\<forall>s. previous = Some s \<longrightarrow> (\<forall>p\<in>set ps. s < pi_source p))"
proof (induction ps arbitrary: previous)
  case (Cons p ps)
  then show ?case
    by (cases previous) (auto simp: not_less not_le dest: order.strict_trans)
qed simp

lemma canonical_restores: "canonical_pending None ps \<Longrightarrow> pending_ok ps"
  by (simp add: canonical_pending_ok pending_ok_def strict_sorted_iff)

inductive controller_step :: "InterruptController \<Rightarrow> InterruptController \<Rightarrow> bool" where
  step_request: "controller_step c (request_interrupt source level event_code c)"
| step_cancel: "controller_step c (snd (cancel_interrupt source c))"
| step_clear: "controller_step c (clear_interrupts c)"
| step_restore: "restore_interrupts_passive ps c = Inr c' \<Longrightarrow> controller_step c c'"
| step_accept: "controller_step c (snd (snd (accept_pending_interrupt sink (cpu, c))))"

lemma pending_ok_remove: "pending_ok ps \<Longrightarrow> pending_ok (remove1 p ps)"
  by (metis notin_set_remove1 pending_ok_def distinct_remove1 distinct_map set_remove1_subset inj_on_subset
      subsetD)

lemma controller_step_keeps: "controller_step c c' \<Longrightarrow> controller_ok c \<Longrightarrow> controller_ok c'"
proof (induction rule: controller_step.induct)
  case (step_request c source level event_code)
  then have "pending_ok (ic_pending c)" by (simp add: controller_ok_def)
  then show ?case
    using step_request by (auto simp: request_interrupt_def Let_def intro!: commit_pending_ok pending_ok_replace)
next
  case (step_cancel c source)
  then have p: "pending_ok (ic_pending c)" by (simp add: controller_ok_def)
  then have "remove_source source (ic_pending c) = filter (\<lambda>p. pi_source p \<noteq> source) (ic_pending c)"
    by (simp add: pending_ok_def remove_source_filter)
  then show ?case using step_cancel pending_ok_filter [OF p] by (simp add: cancel_interrupt_def)
next
  case (step_clear c)
  then show ?case by (simp add: clear_interrupts_def pending_ok_def)
next
  case (step_restore ps c c')
  then show ?case
    by (auto simp: restore_interrupts_passive_def validate_interrupt_restore_def intro!: commit_pending_ok
        canonical_restores split: if_splits)
next
  case (step_accept c sink cpu)
  then have "pending_ok (ic_pending c)" by (simp add: controller_ok_def)
  then show ?case
    using step_accept by (simp add: accept_pending_interrupt_def pending_ok_remove split: option.split)
qed

lemma reachable_controller_ok: "controller_step\<^sup>*\<^sup>* initial_controller c \<Longrightarrow> controller_ok c"
  by (induction rule: rtranclp_induct) (auto simp: initial_controller_ok intro: controller_step_keeps)

subsection \<open>Selection and acceptance\<close>

text \<open>The selection contract: a strict order that is total on the distinct entries.\<close>

locale urgency =
  fixes below :: "'a \<Rightarrow> 'a \<Rightarrow> bool"
  assumes below_trans: "below x y \<Longrightarrow> below y z \<Longrightarrow> below x z"
    and below_irrefl: "\<not> below x x"
    and not_below_trans: "\<not> below x y \<Longrightarrow> \<not> below y z \<Longrightarrow> \<not> below x z"
begin

lemma fold_max: "let m = fold (\<lambda>y m. if below m y then y else m) xs x
    in m \<in> insert x (set xs) \<and> (\<forall>y\<in>insert x (set xs). \<not> below m y)"
proof (induction xs arbitrary: x)
  case (Cons y xs)
  define z where "z = (if below x y then y else x)"
  have z: "z \<in> {x, y}" "\<not> below z x" "\<not> below z y"
    using below_irrefl below_trans [of x y x] by (auto simp: z_def)
  have "fold (\<lambda>y m. if below m y then y else m) (y # xs) x =
      fold (\<lambda>y m. if below m y then y else m) xs z" by (simp add: z_def)
  then show ?case using Cons.IH [of z] z not_below_trans unfolding Let_def by auto
qed (simp add: below_irrefl)

lemma max_element_greatest:
  assumes "max_element below xs = Some m"
  shows "m \<in> set xs \<and> (\<forall>y\<in>set xs. \<not> below m y)"
  using assms fold_max by (cases xs) (auto simp: Let_def)

end

interpretation interrupts: urgency less_urgent
  by unfold_locales (auto simp: less_urgent_def split: if_splits)

lemma interrupt_metadata:
  "em_interrupt (exception_metadata ExceptionCause.Interrupt code)"
  "em_vector_offset (exception_metadata ExceptionCause.Interrupt code) = interrupt_vector"
  "em_event_code (exception_metadata ExceptionCause.Interrupt code) = code"
  by (simp_all add: exception_metadata_def cause_index_def exception_table_def exception_row_def)

lemma interrupt_taken: "takes_exception (interrupt_request p cpu) cpu"
  by (simp add: takes_exception_def interrupt_request_def interrupt_metadata)

lemma interrupt_event:
  "cpu_intevt (enter_exception sink (interrupt_request p cpu) cpu) = pi_event_code p"
  by (simp add: enter_exception_def interrupt_request_def interrupt_metadata Let_def accept_exception_def)

lemma can_accept_iff:
  assumes "controller_ok c"
  shows "can_accept cpu c \<longleftrightarrow>
    \<not> interrupts_blocked cpu \<and> (\<exists>p\<in>set (ic_pending c). interrupt_mask cpu < pi_level p)"
proof -
  have "interrupt_mask cpu < Max (insert 0 (pi_level ` set (ic_pending c))) \<longleftrightarrow>
      (\<exists>p\<in>set (ic_pending c). interrupt_mask cpu < pi_level p)"
    by (subst Max_gr_iff) auto
  then show ?thesis using assms by (simp add: can_accept_def controller_ok_def metadata_ok_def)
qed

text \<open>No pending request is more urgent than the accepted one.\<close>

definition most_urgent :: "PendingInterrupt \<Rightarrow> PendingInterrupt list \<Rightarrow> bool" where
  "most_urgent p ps \<longleftrightarrow> p \<in> set ps \<and>
     (\<forall>q\<in>set ps. pi_level q < pi_level p \<or> pi_level q = pi_level p \<and> pi_source p \<le> pi_source q)"

lemma max_element_most_urgent:
  assumes "max_element less_urgent ps = Some p"
  shows "most_urgent p ps"
proof -
  note g = interrupts.max_element_greatest [OF assms]
  have "pi_level q < pi_level p \<or> pi_level q = pi_level p \<and> pi_source p \<le> pi_source q"
    if "q \<in> set ps" for q
    using g that by (cases "pi_level p = pi_level q") (auto simp: less_urgent_def not_less)
  then show ?thesis using g by (simp add: most_urgent_def)
qed

lemma accept_exact:
  assumes "controller_ok c"
  shows "accept_pending_interrupt sink (cpu, c) = (False, cpu, c) \<and>
      (interrupts_blocked cpu \<or> (\<forall>p\<in>set (ic_pending c). pi_level p \<le> interrupt_mask cpu)) \<or>
    (\<exists>p. most_urgent p (ic_pending c) \<and> interrupt_mask cpu < pi_level p \<and> \<not> interrupts_blocked cpu \<and>
       accept_pending_interrupt sink (cpu, c) =
         (True, enter_exception sink (interrupt_request p cpu) cpu,
          commit_pending (remove1 p (ic_pending c)) c))"
proof (cases "can_accept cpu c")
  case True
  then obtain q where q: "q \<in> set (ic_pending c)" "interrupt_mask cpu < pi_level q"
    and open_cpu: "\<not> interrupts_blocked cpu"
    using can_accept_iff [OF assms] by blast
  then obtain p where p: "max_element less_urgent (ic_pending c) = Some p"
    by (cases "ic_pending c") auto
  note m = max_element_most_urgent [OF p]
  have "interrupt_mask cpu < pi_level p"
    using m q by (auto simp: most_urgent_def dest: order.strict_trans)
  then show ?thesis using True m open_cpu p by (auto simp: accept_pending_interrupt_def)
next
  case False
  then show ?thesis using can_accept_iff [OF assms, of cpu]
    by (auto simp: accept_pending_interrupt_def not_less)
qed

text \<open>A snapshot restores to the same requests.\<close>

lemma snapshot_restores:
  assumes "controller_ok c"
  shows "\<exists>c'. restore_interrupts_passive (interrupt_snapshot c) d = Inr c' \<and> controller_ok c' \<and>
    set (ic_pending c') = set (ic_pending c) \<and> ic_pending_mask c' = ic_pending_mask c \<and>
    ic_highest_pending_level c' = ic_highest_pending_level c"
proof -
  let ?ps = "interrupt_snapshot c"
  have set: "set ?ps = set (ic_pending c)" by (simp add: interrupt_snapshot_def)
  have "distinct (map pi_source ?ps)"
    using assms by (simp add: interrupt_snapshot_def controller_ok_def pending_ok_def distinct_map)
  moreover have "sorted (map pi_source ?ps)" by (simp add: interrupt_snapshot_def)
  ultimately have canon: "canonical_pending None ?ps"
    using assms set by (simp add: canonical_pending_ok controller_ok_def pending_ok_def strict_sorted_iff)
  have ok: "controller_ok (commit_pending ?ps d)"
    by (rule commit_pending_ok) (rule canonical_restores [OF canon])
  have "ic_pending_mask (commit_pending ?ps d) = ic_pending_mask c"
    using ok assms set by (intro bit_eqI) (simp add: controller_ok_def metadata_ok_def)
  moreover have "ic_highest_pending_level (commit_pending ?ps d) = ic_highest_pending_level c"
    using ok assms set by (simp add: controller_ok_def metadata_ok_def)
  ultimately show ?thesis
    using canon ok set by (simp add: restore_interrupts_passive_def validate_interrupt_restore_def)
qed

end
