(* ===== verification/Spec2Isabelle.thy ===== *)
theory Spec2Isabelle
  imports Liveness_Sound Memory_Bytes Code_Address Disassembler Optimize_Pipeline
    Address_Space_Translation Scheduler_Safepoint
    Interrupt "HOL-Library.Code_Target_Nat"
begin

text \<open>
  KatanaRecomp translates Dreamcast (SH-4) code to C++.  An executable is decoded
  (\<open>src/decoder\<close>), lowered to an intermediate representation (\<open>src/ir\<close>), checked by a
  verifier, optimised, emitted as C++ (\<open>src/codegen\<close>) and run on a runtime library
  (\<open>src/runtime\<close>) that also holds an interpreter for code that was not translated.  The theories
  below follow this path; paths in them are relative to \<open>src/\<close>.

  \<^bold>\<open>From bytes to the intermediate representation.\<close>
  \<^item> \<open>Instruction\<close>: \<open>include/katana/sh4/instruction.hpp\<close>.  The C++ enum of instruction kinds is one
    datatype per group (arithmetic, shift, multiply and divide, logic, move, system, flow, FPU) under
    a common sum.
  \<^item> \<open>Instruction_Metadata\<close>: the two opcode tables (\<open>decoder/instruction_metadata.cpp\<close>), row by row,
    and the collision self-check (\<open>decoder/decoder_validation.cpp\<close>), which is shown to find nothing.
  \<^item> \<open>Decoder\<close>: the chain of tests of \<open>decoder/decoder.cpp\<close>, one definition per group.  It accepts
    exactly the rows of the tables, with operands in range, and direct branch targets wrap at 32 bits.
  \<^item> \<open>Disassembler\<close>: byte ranges and image segments (\<open>analysis/disassembler.cpp\<close>), errors included.
  \<^item> \<open>Ir\<close>, \<open>Ir_Effects\<close>, \<open>Lower\<close>: \<open>include/katana/ir/ir.hpp\<close>, the tables of widths, status,
    memory and accumulator effects, and the lowering of one instruction (\<open>ir/lower.cpp\<close>).

  \<^bold>\<open>Checking and improving the representation.\<close>
  \<^item> \<open>Verifier\<close>, \<open>Verifier_Correct\<close>: \<open>ir/verifier.cpp\<close>.  The issue list is empty exactly for the
    well-formed functions, and whatever the disassembler produces lowers to accepted instructions.
  \<^item> \<open>Optimize\<close>, \<open>Optimize_Correct\<close>, \<open>Optimize_Valid\<close>, \<open>Optimize_Pipeline\<close>: the five passes of
    \<open>ir/optimize.cpp\<close>, the dispatchability contract and the pipeline.  The passes refine the block
    semantics of \<open>Block_Semantics\<close>; \<open>close_reachable\<close>, the worklist of the CFG pass, ends by a measure
    on unvisited addresses and computes reachability.
  \<^item> \<open>Register_Liveness\<close>, \<open>Liveness_Fixpoint\<close>, \<open>Liveness_Sound\<close>: use and definition sets of every
    operation and the localization planner (\<open>ir/register_liveness.cpp\<close>).  The fixed-point loop is a
    \<^theory_text>\<open>partial_function (option)\<close>; it returns for every function with distinct block starts, with the
    least solution of the liveness equations, and the sets are sound for the emitted code.

  \<^bold>\<open>The two ways to run an instruction.\<close>
  \<^item> \<open>Emitted\<close>, \<open>Memory_Instructions\<close>, \<open>Block_Semantics\<close>: what the statements written by
    \<open>codegen/cpp_emitter.cpp\<close> do to the CPU and the memory, for one instruction and for a block with
    its terminal instruction and delay slot.
  \<^item> \<open>Interpreter\<close>, \<open>Interpreter_Access\<close>: the same instructions in \<open>execute_one\<close> of
    \<open>runtime/dynamic_interpreter.cpp\<close>, and that both agree for every decoded opcode.

  \<^bold>\<open>The runtime.\<close>
  \<^item> \<open>Runtime_Types\<close>, \<open>Cpu_State\<close>: the CPU record, status and FPU control registers, banks, reset,
    accounting, exception entry and return (\<open>runtime/runtime.cpp\<close>, \<open>runtime/exception.cpp\<close>).
  \<^item> \<open>Address_Space\<close>, \<open>Address_Space_Invariant\<close>, \<open>Address_Space_Translation\<close>, \<open>Lru_Cache\<close>: UTLB, ITLB,
    translation, block guards, snapshot and restore (\<open>runtime/block_guards.cpp\<close>).  The locale of
    \<open>Lru_Cache\<close> is the contract of a recency cache; the ITLB interprets it.
  \<^item> \<open>Memory\<close>, \<open>Memory_Correct\<close>, \<open>Memory_Bytes\<close>: regions with their page index, scalar loads and stores
    with observers and device errors, the direct alias window and the write batch
    (\<open>runtime/memory.cpp\<close>).  The invariant of every reachable memory makes the page index and the
    direct window invisible; a byte view gives store and load their usual laws at every alias.
  \<^item> \<open>Guest_Memory\<close>: the guest accessors of \<open>runtime/runtime.cpp\<close>: alignment, translation, the shortcut
    for untranslated main RAM and the rewriting of access errors.
  \<^item> \<open>Block_Abi\<close>, \<open>Code_Address\<close>: relocation scopes with their interval caches, block entry and exit
    (\<open>runtime/block_abi.cpp\<close>, \<open>include/katana/runtime/code_address_inline.hpp\<close>).  The caches hold only
    intervals on which the innermost mapping is constant.
  \<^item> \<open>Ordered_Map\<close>, \<open>Scheduler\<close>, \<open>Scheduler_Correct\<close>, \<open>Scheduler_Safepoint\<close>: the event timeline
    (\<open>runtime/scheduler.cpp\<close>) and the safepoints that drive it.  \<open>Ordered_Map\<close> is the contract of a
    map kept in key order, interpreted on the event table.
  \<^item> \<open>Interrupt\<close>: pending requests, selection by urgency, acceptance, snapshot and restore
    (\<open>runtime/interrupt.cpp\<close>).

  \<open>Prelude\<close> holds the word types and the lemmas on lists, words and texts the others share.  This
  theory states the properties, each with a concrete instance where it has hypotheses,
  and the facts behind the recorded findings.

  \<^bold>\<open>Conventions.\<close>  Machine integers are words, so \<open>+\<close> wraps as in C++; where the source widens before
  it computes the model uses \<open>int\<close> or \<open>nat\<close>.  An exception is the left value of a sum, and the state
  it leaves behind is returned beside it.  Callbacks append to a log, or are arguments of the
  operation.  Loops are structural, or recursive with a measure; \<open>run_events\<close> recurses on the event
  budget, \<open>consume_loop\<close> and \<open>solve_liveness\<close> may in principle diverge and are shown to return.
  \<open>resolve_alias\<close> follows at most 16 links, the number of general registers, as its source bounds it.

  \<^bold>\<open>Parameters.\<close>  Code outside the models enters as arguments with named conditions: the event
  callbacks (\<open>well_behaved\<close>: they use the scheduler only through its operations), the interrupt
  delivery (\<open>leaves_scheduler\<close>), the operations of devices that are not RAM (\<open>DeviceOps\<close>), the
  admission callback of a write batch, the reset sink of the CPU, the ABI version numbers, the
  semantics of operations outside a pass in the block semantics, and the relocation of code addresses.
  The direct-RAM helpers of generated code are represented by the guest accessor they fall back to.

  \<^bold>\<open>Not modelled.\<close>  The floating-point instructions, whose results depend on the host; the
  control-flow cases of the interpreter; \<open>lower_function\<close> and the control-flow and value analysis,
  which work on whole images with heuristics; emission of whole programs, port export and the AOT
  registry, which produce text; of \<open>memory.cpp\<close> the bulk writes, transactions, fills, copies and
  device projections; the debugger peeks; block table and dispatch, which rest on host entry points;
  devices and hosts; loaders, command line and user interface.  Performance counters, progress
  callbacks, IR dumps, replay records, the last MMIO record and the crash capsule only observe and
  are left out of the modelled operations.
\<close>

section \<open>Decoding\<close>

text \<open>C1. An opcode that matches a row of the instruction table decodes to that row's kind, with the
  row's control-flow class, delay slot and privilege, and, for the two-register format, with the
  register fields of the opcode.\<close>

theorem decode_follows_table:
  assumes "m \<in> set instruction_metadata" and "matches m opcode"
  shows "d_kind (decode opcode) = md_kind m \<and>
    d_control_flow (decode opcode) = md_control_flow m \<and>
    d_has_delay_slot (decode opcode) = md_has_delay_slot m \<and>
    d_is_privileged (decode opcode) = md_is_privileged m \<and>
    d_special_register (decode opcode) = SpecialRegister.NoneRegister \<and>
    (md_mask m = 0xF00F \<longrightarrow>
       d_destination_register (decode opcode) = field_n opcode \<and>
       d_source_register (decode opcode) = field_m opcode)"
  using row_decodes [OF assms] by (simp add: decodes_as_def)

theorem decode_follows_table_witness:
  "d_kind (decode 0x312C) = K_Arith ArithKind.AddRegister \<and>
   d_destination_register (decode 0x312C) = 1 \<and> d_source_register (decode 0x312C) = 2"
proof -
  let ?m = "KATANA_RULE (K_Arith ArithKind.AddRegister) ''AddRegister'' 0xF00F 0x300C
    RegisterMRegisterN"
  have "?m \<in> set instruction_metadata" by (simp add: instruction_metadata_def move_rules_def)
  moreover have "matches ?m 0x312C" by (simp add: matches_def KATANA_RULE_def KATANA_FLOW_def)
  ultimately show ?thesis
    using decode_follows_table [of ?m "0x312C"]
    by (simp add: KATANA_RULE_def KATANA_FLOW_def field_n_def field_m_def)
qed

text \<open>C2. The decoder knows exactly the opcodes some row of the two tables matches: nothing else is
  accepted and no encoding of the tables is lost.\<close>

theorem decode_known_exactly:
  "is_known (decode opcode) \<longleftrightarrow>
     (\<exists>m\<in>set instruction_metadata. matches m opcode) \<or>
     (\<exists>e\<in>set special_register_encoding_metadata. special_matches e opcode)"
  by (rule decode_known_iff)

text \<open>An opcode outside both tables decodes to the unknown instruction, whose text is its word
  directive, with every other field at its default.\<close>

theorem decode_outside_tables:
  assumes "\<forall>m\<in>set instruction_metadata. \<not> matches m opcode"
    and "\<forall>e\<in>set special_register_encoding_metadata. \<not> special_matches e opcode"
  shows "decode opcode = (fresh_instruction opcode)\<lparr>d_text := unknown_instruction_text opcode\<rparr>"
  using assms by (rule decode_unknown)

theorem decode_outside_tables_witness:
  "d_kind (decode 0xFFFF) = InstructionKind.Unknown \<and> d_text (decode 0xFFFF) = ''.word 0xFFFF''"
proof -
  have "list_all (\<lambda>m. \<not> matches m 0xFFFF) instruction_metadata" by code_simp
  moreover have "list_all (\<lambda>e. \<not> special_matches e 0xFFFF) special_register_encoding_metadata"
    by code_simp
  ultimately have "decode 0xFFFF =
      (fresh_instruction 0xFFFF)\<lparr>d_text := unknown_instruction_text 0xFFFF\<rparr>"
    by (intro decode_outside_tables) (simp_all add: list_all_iff)
  moreover have "unknown_instruction_text 0xFFFF = ''.word 0xFFFF''"
    by (simp add: unknown_instruction_text_def digit_char_def)
  ultimately show ?thesis by (simp add: fresh_instruction_def)
qed

text \<open>A system-register transfer decodes by its own table: kind, special register, privilege and
  the general register in the field the row names.\<close>

theorem decode_special_transfer:
  assumes "e \<in> set special_register_encoding_metadata" and "special_matches e opcode"
  shows "decode opcode = special_transfer e (fresh_instruction opcode) opcode"
  using assms by (rule special_row_decodes)

theorem decode_special_transfer_witness:
  "d_kind (decode 0x450E) = K_System SystemKind.LoadSpecialRegister \<and>
   d_special_register (decode 0x450E) = SpecialRegister.Sr \<and> d_is_privileged (decode 0x450E) \<and>
   d_source_register (decode 0x450E) = 5"
proof -
  let ?e = "KATANA_SPECIAL SystemKind.LoadSpecialRegister ''ldc'' 0x400E
    SpecialRegister.Sr ''sr'' False True True"
  have "?e \<in> set special_register_encoding_metadata"
    by (simp add: special_register_encoding_metadata_def control_transfers_def)
  moreover have "special_matches ?e 0x450E" by (simp add: special_matches_def KATANA_SPECIAL_def)
  ultimately show ?thesis
    using decode_special_transfer [of ?e "0x450E"]
    by (simp add: special_transfer_def KATANA_SPECIAL_def Let_def field_n_def fresh_instruction_def)
qed

text \<open>C5. Every decoded instruction has register numbers below sixteen, an immediate that fits eight
  bits (signed or unsigned) and a displacement that fits thirteen signed bits.\<close>

theorem decode_operand_ranges:
  "d_destination_register (decode opcode) < 16 \<and> d_source_register (decode opcode) < 16 \<and>
   d_branch_register (decode opcode) < 16 \<and>
   - 128 \<le> d_immediate (decode opcode) \<and> d_immediate (decode opcode) \<le> 255 \<and>
   - 4096 \<le> d_displacement (decode opcode) \<and> d_displacement (decode opcode) \<le> 4094"
  using decode_operands_ok [of opcode] by (simp add: operands_ok_def)

text \<open>Encoding a two-register instruction and decoding it gives back its kind and operands.\<close>

theorem decode_of_encoding:
  assumes "m \<in> set instruction_metadata" and "md_mask m = 0xF00F" and "n < 16" and "r < 16"
  shows "d_kind (decode (encode_two_registers m n r)) = md_kind m \<and>
    d_destination_register (decode (encode_two_registers m n r)) = n \<and>
    d_source_register (decode (encode_two_registers m n r)) = r"
  using assms by (rule decode_encode_two_registers)

theorem decode_of_encoding_witness:
  "d_kind (decode 0x6F43) = K_Arith ArithKind.MovRegister \<and>
   d_destination_register (decode 0x6F43) = 15 \<and> d_source_register (decode 0x6F43) = 4"
proof -
  let ?m = "KATANA_RULE (K_Arith ArithKind.MovRegister) ''MovRegister'' 0xF00F 0x6003
    RegisterMRegisterN"
  have "?m \<in> set instruction_metadata" by (simp add: instruction_metadata_def move_rules_def)
  then show ?thesis
    using decode_of_encoding [of ?m 15 4]
    by (simp add: KATANA_RULE_def KATANA_FLOW_def encode_two_registers_def)
qed

text \<open>C7. A direct branch has a target exactly when its row has a displacement operand; the target is
  the address plus four plus twice the sign-extended displacement field, with 32-bit wrap-around.\<close>

theorem direct_branch_target:
  assumes "m \<in> set instruction_metadata" and "matches m opcode"
  shows "calculate_direct_branch_target (decode opcode) a =
    (case md_operand_format m of
       Displacement12 \<Rightarrow> Some (a + 4 + word_of_int (2 * signed_take_bit 11 (uint opcode)))
     | Displacement8 \<Rightarrow> Some (a + 4 + word_of_int (2 * signed_take_bit 7 (uint opcode)))
     | _ \<Rightarrow> None)"
  using branch_target_row [OF assms, of a]
  by (simp add: branch_displacement_def split: OperandFormat.splits)

theorem direct_branch_target_witness:
  "calculate_direct_branch_target (decode 0xAFFE) 0x8C010000 = Some 0x8C010000"
proof -
  let ?m = "KATANA_FLOW (K_Flow FlowKind.Bra) ''Bra'' 0xF000 0xA000 Displacement12
    UnconditionalBranch True False"
  have "?m \<in> set instruction_metadata" by (simp add: instruction_metadata_def flow_rules_def)
  moreover have "matches ?m 0xAFFE" by (simp add: matches_def KATANA_FLOW_def)
  ultimately show ?thesis
    using direct_branch_target [of ?m "0xAFFE" "0x8C010000"] by (simp add: KATANA_FLOW_def)
qed

text \<open>C8. The decoder self-check reports no collision, so no opcode matches two rules.\<close>

theorem decoder_tables_collision_free:
  "find_decoder_collisions = [] \<and>
   sorted_wrt (\<lambda>a b. \<forall>opcode. \<not> (rule_matches a opcode \<and> rule_matches b opcode)) decoder_rules"
  using no_collisions decoder_rules_separate by blast

text \<open>The self-check is exact: two well-formed rules are reported as overlapping when and only
  when some opcode matches both.\<close>

theorem overlap_check_exact:
  assumes "rv_pattern a AND rv_mask a = rv_pattern a" and "rv_pattern b AND rv_mask b = rv_pattern b"
  shows "opcode_rules_overlap a b \<longleftrightarrow> (\<exists>opcode. rule_matches a opcode \<and> rule_matches b opcode)"
  using assms by (intro overlap_iff_common) (simp_all add: rule_wf_def)

theorem overlap_check_exact_witness:
  "\<exists>opcode. rule_matches \<lparr>rv_name = ''bt'', rv_mask = 0xFF00, rv_pattern = 0x8900\<rparr> opcode \<and>
     rule_matches \<lparr>rv_name = ''row 8'', rv_mask = 0xF000, rv_pattern = 0x8000\<rparr> opcode"
  using overlap_check_exact [of "\<lparr>rv_name = ''bt'', rv_mask = 0xFF00, rv_pattern = 0x8900\<rparr>"
      "\<lparr>rv_name = ''row 8'', rv_mask = 0xF000, rv_pattern = 0x8000\<rparr>"]
  by (simp add: opcode_rules_overlap_def)
section \<open>The CPU state\<close>

text \<open>The state and the request the examples of this section use.\<close>

definition idle_cpu :: CpuState where
  "idle_cpu = reset_cpu \<lparr>rs_program_counter = 0x8C010000, rs_stack_pointer = 0x8CFFFFFC,
     rs_vector_base = 0x8C000000, rs_status_register = 0x40000000, rs_fpscr = 0x00040001\<rparr>
     initial_cpu"

definition trap_request :: ExceptionRequest where
  "trap_request = \<lparr>er_cause = TrapCause, er_event_code = event_trapa,
     er_vector_offset = general_exception_vector, er_return_pc = 0x8C010002,
     er_fault_address = None, er_interrupt = False, er_in_delay_slot = False,
     er_instruction_pc = Some 0x8C010000, er_delay_slot_owner_pc = None\<rparr>"

lemma idle_cpu_fields:
  "cpu_fpscr idle_cpu = 0x00040001" "cpu_sr idle_cpu = 0x40000000" "read_sr idle_cpu = 0x40000000"
  "cpu_vbr idle_cpu = 0x8C000000"
  by (simp_all add: idle_cpu_def reset_cpu_fields sr_masks fpscr_masks)

lemma idle_takes_trap: "takes_exception trap_request idle_cpu"
  by (simp add: takes_exception_def trap_request_def interrupts_blocked_def idle_cpu_fields sr_masks)

lemma blocked_idle_refuses_trap: "\<not> takes_exception trap_request (write_sr 0x50000000 idle_cpu)"
  by (simp add: takes_exception_def trap_request_def trap_metadata interrupts_blocked_def
      read_write_sr sr_masks)

text \<open>Writing the status register and reading it back gives the written value restricted to the
  writable bits, whatever the previous state.\<close>

theorem status_register_round_trip:
  "read_sr (write_sr v cpu) = v AND sr_writable_mask"
  by (rule read_write_sr)

text \<open>C11. A status write exchanges the two general-register banks exactly when it changes the
  selected bank, and leaves R8 to R15 alone.\<close>

theorem status_write_banks:
  "cpu_r (write_sr v cpu) i =
     (if i < 8 \<and> bank_one v \<noteq> bank_one (read_sr cpu) then cpu_r_bank cpu i else cpu_r cpu i) \<and>
   cpu_r_bank (write_sr v cpu) i =
     (if i < 8 \<and> bank_one v \<noteq> bank_one (read_sr cpu) then cpu_r cpu i else cpu_r_bank cpu i)"
  by (cases "bank_one v = bank_one (cpu_sr cpu)") (simp_all add: write_sr_same_bank write_sr_other_bank)

text \<open>Toggling the FPU register bank exchanges the two FPU banks, and toggling it twice restores
  the whole state.\<close>

theorem fpu_bank_toggle:
  assumes "cpu_fpscr cpu AND fpscr_writable_mask = cpu_fpscr cpu"
  shows "cpu_fr (toggle_fpu_register_bank cpu) = cpu_xf cpu \<and>
    cpu_xf (toggle_fpu_register_bank cpu) = cpu_fr cpu \<and>
    toggle_fpu_register_bank (toggle_fpu_register_bank cpu) = cpu"
  using toggle_fpu_register_bank_swaps [of cpu] toggle_fpu_register_bank_twice [OF assms] by simp

theorem fpu_bank_toggle_witness:
  "toggle_fpu_register_bank (toggle_fpu_register_bank idle_cpu) = idle_cpu"
  using fpu_bank_toggle [of idle_cpu] by (simp add: idle_cpu_fields fpscr_masks)

text \<open>C13. An accepted exception saves the status register, the return address and R15, selects
  privileged mode, bank one and blocked interrupts, and continues at the vector of its cause.\<close>

theorem exception_entry:
  assumes "takes_exception request cpu"
  shows "cpu_ssr (enter_exception sink request cpu) = read_sr cpu \<and>
    cpu_spc (enter_exception sink request cpu) = er_return_pc request \<and>
    cpu_sgr (enter_exception sink request cpu) = cpu_r cpu 15 \<and>
    cpu_pc (enter_exception sink request cpu) = cpu_vbr cpu +
      em_vector_offset (exception_metadata (er_cause request) (er_event_code request)) \<and>
    privileged_mode (enter_exception sink request cpu) \<and>
    register_bank_selected (enter_exception sink request cpu) \<and>
    interrupts_blocked (enter_exception sink request cpu)"
  using exception_entry_mode [OF assms, of sink] enter_exception_taken [OF assms, of sink] by simp

theorem exception_entry_witness:
  "cpu_pc (enter_exception None trap_request idle_cpu) = 0x8C000100 \<and>
   interrupts_blocked (enter_exception None trap_request idle_cpu)"
  using exception_entry [of trap_request idle_cpu None] idle_takes_trap
  by (simp add: trap_request_def idle_cpu_fields trap_metadata exception_constants)

text \<open>C14. Exception entry followed by return restores the general registers of both banks and the
  status register, and continues at the return address.\<close>

theorem exception_round_trip:
  assumes "takes_exception request cpu" and "cpu_sr cpu AND sr_writable_mask = cpu_sr cpu"
  shows "cpu_r (return_from_exception (enter_exception sink request cpu)) = cpu_r cpu \<and>
    cpu_r_bank (return_from_exception (enter_exception sink request cpu)) = cpu_r_bank cpu \<and>
    read_sr (return_from_exception (enter_exception sink request cpu)) = read_sr cpu \<and>
    cpu_pc (return_from_exception (enter_exception sink request cpu)) = er_return_pc request \<and>
    \<not> cpu_trap_pending (return_from_exception (enter_exception sink request cpu))"
  using exception_sr_writes_back [OF assms(1), of sink] assms(2) by (simp add: sr_ok_def)

theorem exception_round_trip_witness:
  "cpu_pc (return_from_exception (enter_exception None trap_request idle_cpu)) = 0x8C010002 \<and>
   read_sr (return_from_exception (enter_exception None trap_request idle_cpu)) = 0x40000000"
  using exception_round_trip [of trap_request idle_cpu None] idle_takes_trap
  by (simp add: idle_cpu_fields sr_masks trap_request_def)

text \<open>C15. A general exception that arrives while interrupts are blocked does not enter a handler: it
  resets the CPU to the reset vector with the reset status word, and keeps the cycle count.\<close>

theorem blocked_exception_reset:
  assumes "\<not> takes_exception request cpu"
  shows "cpu_pc (enter_exception sink request cpu) = tlb_multiple_hit_reset_vector \<and>
    read_sr (enter_exception sink request cpu) = reset_sr \<and>
    \<not> cpu_trap_pending (enter_exception sink request cpu) \<and>
    cpu_total_guest_cycles (enter_exception sink request cpu) = cpu_total_guest_cycles cpu"
  using blocked_exception_resets [OF assms, of sink] by simp

theorem blocked_exception_reset_witness:
  "cpu_pc (enter_exception None trap_request (write_sr 0x50000000 idle_cpu)) = 0xA0000000"
  using blocked_exception_reset [of trap_request "write_sr 0x50000000 idle_cpu" None]
    blocked_idle_refuses_trap by (simp add: exception_constants)
section \<open>Emitted code and interpreter\<close>

text \<open>For every instruction, the statements the emitter writes for its lowered form and the
  dynamic interpreter change the CPU in the same way, on the instructions both execute without
  memory, FPU, system or control-flow effects; on all others both models yield no result.\<close>

theorem emitted_code_agrees_with_interpreter:
  "exec_simple (lower_instruction line) cpu = interpret_simple (dl_instruction line) cpu"
  by (simp add: exec_simple_def lower_instruction_def Let_def interpret_emitted)
section \<open>The runtime address space\<close>

text \<open>An address space used by the examples: translation on, a shared page in slot 0 and a page of
  address-space identifier 1 in slot 1, both at 0x1000.\<close>

definition shared_page :: TlbMapping where
  "shared_page = default_mapping\<lparr>tm_virtual_page := 0x1000, tm_physical_page := 0x0C001000,
     tm_shared := True\<rparr>"

definition private_page :: TlbMapping where
  "private_page = default_mapping\<lparr>tm_virtual_page := 0x1000, tm_physical_page := 0x0C002000,
     tm_asid := 1, tm_slot := 1\<rparr>"

definition two_pages :: RuntimeAddressSpace where
  "two_pages = (set_mode Mmu initial_address_space)\<lparr>as_mappings := [shared_page, private_page],
     as_mmu_generation := 2\<rparr>"

definition fetched :: RuntimeAddressSpace where
  "fetched = snd (translate two_pages 0x1000 InstructionFetch True)"

lemmas example_space = two_pages_def shared_page_def private_page_def default_mapping_def
  initial_address_space_def set_mode_def

lemma two_pages_loaded:
  "ldtlb shared_page (set_mode Mmu initial_address_space) = Inr s \<Longrightarrow>
   ldtlb private_page s = Inr two_pages"
  by (auto simp: ldtlb_def valid_page_size_def Let_def example_space canonical_physical_address_def
      bump_mmu_def clear_itlb_def split: if_splits)

lemma two_pages_reachable: "reachable_space two_pages"
proof -
  have "space_step (set_mode Mmu initial_address_space)
      (projr (ldtlb shared_page (set_mode Mmu initial_address_space)))"
    by (rule step_ldtlb [of shared_page])
      (simp_all add: shared_page_def default_mapping_def ldtlb_def valid_page_size_def Let_def)
  moreover have "space_step (projr (ldtlb shared_page (set_mode Mmu initial_address_space))) two_pages"
    by (rule step_ldtlb [of private_page], simp add: private_page_def default_mapping_def)
      (rule two_pages_loaded,
        simp add: shared_page_def default_mapping_def ldtlb_def valid_page_size_def Let_def)
  ultimately show ?thesis
    by (blast intro: reach_initial reach_step step_set_mode)
qed

lemma fetched_reachable: "reachable_space fetched"
  unfolding fetched_def by (rule reach_step [OF two_pages_reachable step_translate])

lemmas example_translation = translate_def inspect_translation_def translate_impl_def Let_def
  instruction_translation_path_def segment_def sh4_on_chip_ram_address_def translate_mapped_def
  itlb_hit_def translate_utlb_def tlb_matches_def finish_translation_def outcome_def

lemma four_entries: "[0..<4] = [0, 1, 2, 3]" "replicate 4 x = [x, x, x, x]"
  by (simp_all add: upt_rec numeral_eq_Suc)

lemma fetched_fields:
  "fetched = two_pages\<lparr>as_itlb := (as_itlb two_pages)[0 := shared_page],
     as_itlb_valid := [True, False, False, False], as_itlb_source_slots := [0, 0xFF, 0xFF, 0xFF]\<rparr>"
  by (simp add: fetched_def example_space example_translation refill_itlb_def itlb_replacement_def
      valid_count_def four_entries)

lemmas example_fields = fetched_fields example_space example_translation write_pteh_def bump_mmu_def
  mmucr_sv_mask_def four_entries



text \<open>C18. The validation accepts exactly the states that are well formed once committed: nothing
  malformed is imported and nothing well formed is refused.\<close>

theorem restore_validation_exact:
  assumes "snapshot_arrays state"
  shows "validate_state_restore space state = None \<longleftrightarrow>
    as_address_space_generation space \<noteq> - 1 \<and> as_mmu_generation space \<noteq> - 1 \<and>
    space_ok (commit_validated_state_restore state space)"
  by (rule validate_state_restore_iff [OF assms])

theorem restore_validation_exact_witness:
  "(validate_state_restore initial_address_space (snapshot initial_address_space) = None) =
   space_ok (commit_validated_state_restore (snapshot initial_address_space) initial_address_space)"
  using restore_validation_exact [of "snapshot initial_address_space" initial_address_space]
  by (simp add: snapshot_arrays_def snapshot_def initial_address_space_def)

text \<open>C19. The side-effect free inspection gives the exception or the physical address the real
  access gets, in every reachable state and for every access, unless it reports a multiple hit.\<close>

theorem inspection_agrees_with_translation:
  assumes "reachable_space space"
    and "fst (inspect_translation space a access p) \<noteq>
      Inl (translation_error access a TlbMultipleHit)"
  shows "outcome (fst (translate space a access p)) =
    outcome (fst (inspect_translation space a access p)) \<and>
    snd (inspect_translation space a access p) = space"
  using translate_inspect_outcome [OF reachable_space_ok [OF assms(1)] assms(2)] inspect_keeps_space
  by simp

theorem inspection_agrees_with_translation_witness:
  "outcome (fst (translate fetched 0x1004 InstructionFetch True)) =
    outcome (fst (inspect_translation fetched 0x1004 InstructionFetch True)) \<and>
    snd (inspect_translation fetched 0x1004 InstructionFetch True) = fetched"
proof (rule inspection_agrees_with_translation [OF fetched_reachable])
  show "fst (inspect_translation fetched 0x1004 InstructionFetch True) \<noteq>
      Inl (translation_error InstructionFetch 0x1004 TlbMultipleHit)"
    by (simp add: example_fields)
qed






text \<open>C23. When \<open>prove_instruction_mapping\<close> accepts a range after checking its ends and its 1 KiB
  boundaries, every instruction address of the range translates to the address at the same distance
  from the physical start.\<close>

theorem proved_mapping_is_affine:
  assumes "reachable_space space" and "prove_instruction_mapping space vs ps n p"
    and "off AND 1 = 0" and "off < n"
  shows "outcome (fst (inspect_translation space (vs + off) InstructionFetch p)) = Inr (ps + off)"
  using prove_instruction_mapping_sound [OF reachable_space_ok [OF assms(1)] assms(2-4)]
  by (auto simp: translated_at_def outcome_def split: sum.splits)

theorem proved_mapping_is_affine_witness:
  "prove_instruction_mapping fetched 0x13F0 0x0C0013F0 0x20 True \<and>
   outcome (fst (inspect_translation fetched (0x13F0 + 0x12) InstructionFetch True)) =
     Inr (0x0C0013F0 + 0x12)"
proof
  show proved: "prove_instruction_mapping fetched 0x13F0 0x0C0013F0 0x20 True"
    by (simp add: prove_instruction_mapping_def translated_at_def check_boundaries.simps
        example_fields)
  show "outcome (fst (inspect_translation fetched (0x13F0 + 0x12) InstructionFetch True)) =
     Inr (0x0C0013F0 + 0x12)"
    by (rule proved_mapping_is_affine [OF fetched_reachable proved]) simp_all
qed



section \<open>Disassembly, verification and optimisation\<close>

text \<open>C25. Disassembly of a byte range: an odd count is refused, a range that leaves the 32-bit
  address space is refused, and otherwise line \<open>k\<close> is the decoded little-endian half-word at
  \<open>base + 2 * k\<close>, marked as a delay slot exactly when its predecessor has one, with the direct branch
  target of its opcode at its address.\<close>

theorem disassemble_exact:
  "disassemble bytes base =
     (if odd (length bytes) then Inl OddByteCount
      else if unat base + length bytes > 0x100000001 then Inl AddressOverflow
      else Inr (map (\<lambda>k. let opcode = opcode_at bytes k; address = base + of_nat (2 * k)
        in \<lparr>dl_address = address, dl_opcode = opcode, dl_instruction = decode opcode,
            dl_is_delay_slot = (k \<noteq> 0 \<and> d_has_delay_slot (decode (opcode_at bytes (k - 1)))),
            dl_target_address = calculate_direct_branch_target (decode opcode) address\<rparr>)
        [0..<length bytes div 2]))"
  unfolding disassemble_result line_at_def disassembled_line_def Let_def by simp



definition example_bytes :: "u8 list" where
  "example_bytes = [0x01, 0xE1, 0x13, 0x62, 0x05, 0xE2]"

definition example_block :: BasicBlock where
  "example_block = \<lparr>bb_start_address = 0x8C010000,
     bb_instructions = map (\<lambda>k. lower_instruction (line_at example_bytes 0x8C010000 k)) [0, 1, 2],
     bb_successors = [], bb_guarded_case_ownership_targets = [], bb_has_indirect_successor = False\<rparr>"

definition example_function :: Function where
  "example_function = \<lparr>fn_entry_address = 0x8C010000, fn_blocks = [example_block],
     fn_direct_callees = [], fn_indirect_call_sites = []\<rparr>"

lemma example_opcodes:
  "opcode_at example_bytes 0 = 0xE101" "opcode_at example_bytes 1 = 0x6213"
  "opcode_at example_bytes 2 = 0xE205"
  by (simp_all add: opcode_at_def example_bytes_def)

lemma example_rows:
  "KATANA_RULE (K_Arith ArithKind.MovImmediate) ''MovImmediate'' 0xF000 0xE000 Immediate8RegisterN
     \<in> set instruction_metadata"
  "KATANA_RULE (K_Arith ArithKind.MovRegister) ''MovRegister'' 0xF00F 0x6003 RegisterMRegisterN
     \<in> set instruction_metadata"
  by (simp_all add: instruction_metadata_def move_rules_def)

lemmas row_fields = matches_def decodes_as_def KATANA_RULE_def KATANA_FLOW_def

lemma example_decoded:
  "d_kind (decode 0xE101) = K_Arith ArithKind.MovImmediate" "\<not> d_has_delay_slot (decode 0xE101)"
  "d_kind (decode 0xE205) = K_Arith ArithKind.MovImmediate" "\<not> d_has_delay_slot (decode 0xE205)"
  "d_kind (decode 0x6213) = K_Arith ArithKind.MovRegister" "\<not> d_has_delay_slot (decode 0x6213)"
  using row_decodes [OF example_rows(1), of "0xE101"] row_decodes [OF example_rows(1), of "0xE205"]
    row_decodes [OF example_rows(2), of "0x6213"]
  by (simp_all add: row_fields)

definition example_instruction :: "nat \<Rightarrow> Instruction" where
  "example_instruction k = lower_instruction (line_at example_bytes 0x8C010000 k)"

lemma example_instructions:
  "bb_instructions example_block = [example_instruction 0, example_instruction 1, example_instruction 2]"
  by (simp add: example_block_def example_instruction_def)

lemma example_image_fields:
  "ir_operation (example_instruction 0) = O_Arith ArithOp.MovImmediate"
  "ir_operation (example_instruction (Suc 0)) = O_Arith ArithOp.MovRegister"
  "ir_operation (example_instruction 2) = O_Arith ArithOp.MovImmediate"
  "ir_source_address (example_instruction 0) = 0x8C010000"
  "ir_source_address (example_instruction (Suc 0)) = 0x8C010002"
  "ir_source_address (example_instruction 2) = 0x8C010004"
  "ir_original_opcode (example_instruction 0) = 0xE101"
  "ir_original_opcode (example_instruction (Suc 0)) = 0x6213"
  "ir_original_opcode (example_instruction 2) = 0xE205"
  "ir_delay_slot (example_instruction 0) = no_delay_slot"
  "ir_delay_slot (example_instruction (Suc 0)) = no_delay_slot"
  "ir_delay_slot (example_instruction 2) = no_delay_slot"
  "ir_forwarded_value_register (example_instruction k) = None"
  "ir_original_operation (example_instruction k) = ir_operation (example_instruction k)"
  by (simp_all add: example_instruction_def line_at_def disassembled_line_def lower_instruction_def
      Let_def example_opcodes [unfolded One_nat_def] example_opcodes example_decoded lower_operation_def lowered_delay_slot_def
      empty_instruction_def)










text \<open>C30. The single forward pass of dead-write elimination computes what a rescan of the rest of the
  block computes: a write (other than the first instruction) becomes a \<open>nop\<close> exactly when a pure write
  to its register is reached before a read of it and before a barrier.\<close>

theorem dead_write_pass_is_rescan:
  "bb_instructions (fst (eliminate_dead_block_code block)) =
     (case bb_instructions block of [] \<Rightarrow> [] | i # is \<Rightarrow> i # eliminate_reference is)"
  by (rule eliminate_dead_block_code_reference)



text \<open>C32. The worklist of the control-flow pass terminates with exactly the addresses reachable, over
  successors and ownership targets, from the entry and the externally dispatchable blocks.\<close>

theorem cfg_worklist_computes_reachability:
  "cfg_reachable d f = {b. \<exists>a. (a = fn_entry_address f \<or> a \<in> set (cfg_roots d (fn_blocks f))) \<and>
     (a, b) \<in> {(x, y). y \<in> set (block_targets (fn_blocks f) x)}\<^sup>*}"
  by (auto simp: cfg_reachable_eq edge_relation_def)

text \<open>The contract check accepts a program exactly when every external block entry starts a block
  and every external continuation is an instruction outside a delay slot.\<close>

theorem dispatchability_check_exact:
  "require_dispatchability_contract program index = Inr () \<longleftrightarrow>
     di_block_entries index \<subseteq> program_starts program \<and>
     di_instruction_continuations index \<subseteq> fst ` program_sites program \<and>
     (\<forall>a\<in>di_instruction_continuations index. (a, Slot) \<notin> program_sites program)"
  by (simp add: require_contract_iff contract_ok_def)

theorem dispatchability_check_exact_witness:
  "require_dispatchability_contract [example_function]
     (empty_index\<lparr>di_instruction_continuations := {0x8C010002}\<rparr>) = Inr ()"
proof -
  have "program_sites [example_function] =
      {(0x8C010000, NoneRole), (0x8C010002, NoneRole), (0x8C010004, NoneRole)}"
    by (auto simp: program_sites_def program_blocks_def example_function_def block_sites_def
        example_instructions example_image_fields no_delay_slot_def)
  then show ?thesis
    using dispatchability_check_exact [of "[example_function]"
        "empty_index\<lparr>di_instruction_continuations := {0x8C010002}\<rparr>"]
    by (simp add: empty_index_def)
qed



section \<open>Scheduler, safepoints and interrupts\<close>

definition periodic :: "(nat, unit, unit) invoke" where
  "periodic = (\<lambda>c i t (s, w).
     case schedule_after 10 (Some c) Sh4Tmu0 s of
       Inr (_, s') \<Rightarrow> (None, s', w) | Inl e \<Rightarrow> (Some e, s, w))"

definition timer_scheduler :: "(nat, unit) EventScheduler" where
  "timer_scheduler = initial_scheduler\<lparr>es_next_event_id := 2,
     es_events := [((5, 1), \<lparr>ev_callback = 7, ev_kind = Sh4Tmu0\<rparr>)], es_event_keys := [1 \<mapsto> (5, 1)]\<rparr>"

lemma periodic_well_behaved: "well_behaved periodic"
  unfolding well_behaved_def periodic_def
  by (auto split: sum.splits intro: call_schedule_after)

lemma timer_scheduled: "schedule_at 5 (Some 7) Sh4Tmu0 initial_scheduler = Inr (1, timer_scheduler)"
  by (simp add: schedule_at_def initial_scheduler_def timer_scheduler_def Let_def)

lemma timer_reachable: "(scheduler_step periodic)\<^sup>*\<^sup>* initial_scheduler timer_scheduler"
  by (rule r_into_rtranclp) (blast intro: step_call call_schedule timer_scheduled)

text \<open>C35. In every state the scheduler can reach, through any sequence of its operations and with
  callbacks that call back into it, the timeline is ordered by deadline and identifier, the identifier
  index lists exactly the pending events, no identifier is reused and no pending event lies in the
  past; so scheduling fails only for a missing callback, a deadline in the past or used-up identifiers.\<close>

theorem reachable_scheduler_consistent:
  assumes "well_behaved invoke" and "(scheduler_step invoke)\<^sup>*\<^sup>* initial_scheduler s"
  shows "scheduler_ok s \<and>
    (schedule_at c (Some f) kind s \<in> range Inr \<longleftrightarrow> es_current_cycle s \<le> c \<and> es_next_event_id s \<noteq> - 1)"
proof -
  note ok = reachable_ok [OF assms]
  show ?thesis using ok by (auto simp: schedule_at_ok [OF ok] not_less)
qed

theorem reachable_scheduler_consistent_witness:
  "scheduler_ok timer_scheduler \<and> schedule_at 9 (Some 8) PvrHblank timer_scheduler \<in> range Inr"
  using reachable_scheduler_consistent [OF periodic_well_behaved timer_reachable, of 9 8 PvrHblank]
  by (simp add: timer_scheduler_def initial_scheduler_def)

text \<open>C36. An advance runs due events only, in strictly ascending order of deadline and identifier and
  never the same twice, also when callbacks schedule and cancel events; it stops when nothing up to the
  target is pending any more, when the event budget is used up, or with the error of the last callback,
  and it reports the number of events and the cycle it reached.\<close>

theorem advance_runs_due_events_in_order:
  assumes "well_behaved invoke" and "scheduler_ok s" and "\<not> es_advance_in_progress s"
    and "es_current_cycle s \<le> guest_cycle"
  shows "case advance_to invoke guest_cycle event_budget (s, w) of (executed, r, s', w') \<Rightarrow>
    sorted_wrt (<) executed \<and> length executed \<le> event_budget \<and>
    (\<forall>k\<in>set executed. es_current_cycle s \<le> fst k \<and> fst k \<le> effective_target guest_cycle s) \<and>
    scheduler_ok s' \<and> \<not> es_advance_in_progress s' \<and>
    (case r of
       Inl e \<Rightarrow> executed \<noteq> [] \<and> es_current_cycle s' = fst (last executed)
     | Inr result \<Rightarrow>
         ar_processed_events result = length executed \<and> ar_guest_cycle result = es_current_cycle s' \<and>
         (if ar_status result = EventBudgetExhausted then
            length executed = event_budget \<and>
            (\<exists>k\<in>keys (es_events s'). fst k \<le> effective_target guest_cycle s) \<and>
            es_current_cycle s' = (if executed = [] then es_current_cycle s else fst (last executed))
          else
            es_current_cycle s' = effective_target guest_cycle s \<and>
            (\<forall>k\<in>keys (es_events s'). effective_target guest_cycle s < fst k) \<and>
            (ar_status result = ReachedTarget \<longleftrightarrow> effective_target guest_cycle s = guest_cycle)))"
proof -
  obtain executed r s' w' where a: "advance_to invoke guest_cycle event_budget (s, w) = (executed, r, s', w')"
    by (metis prod_cases4)
  show ?thesis using advance_to_correct [OF assms a] unfolding a prod.case .
qed

theorem advance_runs_due_events_in_order_witness:
  "fst (advance_to periodic 25 10 (timer_scheduler, ())) = [(5, 1), (15, 2), (25, 3)] \<and>
   sorted_wrt (<) (fst (advance_to periodic 25 10 (timer_scheduler, ())))"
proof -
  have "scheduler_ok timer_scheduler" by (rule reachable_ok [OF periodic_well_behaved timer_reachable])
  moreover have "\<not> es_advance_in_progress timer_scheduler" "es_current_cycle timer_scheduler \<le> 25"
    by (simp_all add: timer_scheduler_def initial_scheduler_def)
  ultimately have "sorted_wrt (<) (fst (advance_to periodic 25 10 (timer_scheduler, ())))"
    using advance_runs_due_events_in_order [OF periodic_well_behaved, of timer_scheduler 25 10 "()"]
    by (simp add: case_prod_beta)
  moreover have "fst (advance_to periodic 25 10 (timer_scheduler, ())) = [(5, 1), (15, 2), (25, 3)]"
    by code_simp
  ultimately show ?thesis by simp
qed




definition level_controller :: InterruptController where
  "level_controller = request_interrupt 9 7 0x320 (request_interrupt 3 5 0x400 initial_controller)"

lemma level_reachable: "controller_step\<^sup>*\<^sup>* initial_controller level_controller"
  unfolding level_controller_def
  by (rule rtranclp.rtrancl_into_rtrancl [OF r_into_rtranclp]) (rule step_request)+

lemma level_pending:
  "ic_pending level_controller =
     [\<lparr>pi_source = 3, pi_level = 5, pi_event_code = 0x400\<rparr>, \<lparr>pi_source = 9, pi_level = 7, pi_event_code = 0x320\<rparr>]"
  by (simp add: level_controller_def request_interrupt_def initial_controller_def Let_def)

text \<open>C38. In every reachable state of the interrupt controller, an interrupt is delivered exactly when
  interrupts are not blocked and some pending level exceeds the mask of the status register.  Then it is
  the one of highest level, of lowest source among these; it leaves the controller, its code is in
  \<open>INTEVT\<close>, the program counter is saved, further interrupts are blocked, and execution continues at the
  interrupt vector.\<close>

theorem interrupt_acceptance_exact:
  assumes "controller_step\<^sup>*\<^sup>* initial_controller c"
  shows "case accept_pending_interrupt sink (cpu, c) of (accepted, cpu', c') \<Rightarrow>
    (accepted \<longleftrightarrow> \<not> interrupts_blocked cpu \<and>
       (\<exists>p\<in>set (ic_pending c). interrupt_mask cpu < pi_level p)) \<and>
    (if accepted then
       \<exists>p. most_urgent p (ic_pending c) \<and> set (ic_pending c') = set (ic_pending c) - {p} \<and>
         cpu_intevt cpu' = pi_event_code p \<and> cpu_spc cpu' = cpu_pc cpu \<and>
         cpu_pc cpu' = cpu_vbr cpu + interrupt_vector \<and> interrupts_blocked cpu'
     else cpu' = cpu \<and> c' = c)"
proof -
  note ok = reachable_controller_ok [OF assms]
  have "distinct (ic_pending c)" using ok by (simp add: controller_ok_def pending_ok_def distinct_map)
  then have removed: "set (remove1 p (ic_pending c)) = set (ic_pending c) - {p}" for p by simp
  have entered: "cpu_spc (enter_exception sink (interrupt_request p cpu) cpu) = cpu_pc cpu"
    "cpu_pc (enter_exception sink (interrupt_request p cpu) cpu) = cpu_vbr cpu + interrupt_vector"
    "interrupts_blocked (enter_exception sink (interrupt_request p cpu) cpu)" for p
    using enter_exception_taken [OF interrupt_taken, of sink p cpu]
      exception_entry_mode [OF interrupt_taken, of sink p cpu]
    by (simp_all add: interrupt_request_def interrupt_metadata)
  from accept_exact [OF ok, of sink cpu] show ?thesis
  proof (elim disjE exE conjE)
    fix p
    assume "most_urgent p (ic_pending c)" and "interrupt_mask cpu < pi_level p"
      and "\<not> interrupts_blocked cpu" and eq: "accept_pending_interrupt sink (cpu, c) =
        (True, enter_exception sink (interrupt_request p cpu) cpu,
         commit_pending (remove1 p (ic_pending c)) c)"
    then show ?thesis
      unfolding eq prod.case using entered [of p] removed [of p] interrupt_event [of sink p cpu]
      by (auto simp: most_urgent_def)
  qed (auto simp: not_less)
qed

theorem interrupt_acceptance_exact_witness:
  "fst (accept_pending_interrupt None (idle_cpu, level_controller)) \<and>
   cpu_intevt (fst (snd (accept_pending_interrupt None (idle_cpu, level_controller)))) = 0x320"
proof -
  have "\<not> interrupts_blocked idle_cpu" "interrupt_mask idle_cpu = 0"
    by (simp_all add: interrupts_blocked_def interrupt_mask_def read_sr_def idle_cpu_fields sr_masks)
  moreover have "p = \<lparr>pi_source = 9, pi_level = 7, pi_event_code = 0x320\<rparr>"
    if "most_urgent p (ic_pending level_controller)" for p
    using that by (auto simp: most_urgent_def level_pending)
  ultimately show ?thesis
    using interrupt_acceptance_exact [OF level_reachable, of idle_cpu None]
    by (fastforce simp: case_prod_beta bex_simps level_pending [THEN arg_cong, of set])
qed

definition interrupt_at_safepoint :: "(nat, unit, CpuState \<times> InterruptController) delivery" where
  "interrupt_at_safepoint = Some (\<lambda>(s, w).
     let (accepted, w') = accept_pending_interrupt None w in (Inr accepted, s, w'))"

definition quiet :: "(nat, unit, CpuState \<times> InterruptController) invoke" where
  "quiet = (\<lambda>c i t sw. (None, sw))"

lemma quiet_well_behaved: "well_behaved quiet"
  by (simp add: well_behaved_def quiet_def)

lemma interrupt_leaves_scheduler: "leaves_scheduler interrupt_at_safepoint"
  by (simp add: leaves_scheduler_def interrupt_at_safepoint_def deliver_def case_prod_beta Let_def)

text \<open>C39. Handing over the cycles of a long loop at a safepoint always returns, whatever the
  callbacks schedule: either with an error, or after the clock has advanced by exactly the cycles that
  were handed over, with one report for each chunk.\<close>

theorem consume_loop_total:
  assumes "well_behaved invoke" and "leaves_scheduler delivery" and "scheduler_ok s"
    and "\<not> es_advance_in_progress s" and "make_safepoints event_budget loop_quantum = Inr points"
  shows "\<exists>r points' s' w'.
    consume_loop invoke delivery origin guest_cycles points (s, w) = Some (r, points', s', w') \<and>
    scheduler_ok s' \<and>
    (\<forall>reports. r = Inr reports \<longrightarrow>
       unat (es_current_cycle s') = unat (es_current_cycle s) + unat guest_cycles \<and>
       sp_reports points' = sp_reports points @ reports)"
proof -
  have "sp_loop_quantum points \<noteq> 0"
    using assms(5) by (auto simp: make_safepoints_def split: if_splits)
  from consume_loop_returns [OF assms(1-4) this] show ?thesis .
qed

theorem consume_loop_total_witness:
  "\<exists>r points' s' w'. consume_loop quiet interrupt_at_safepoint Backend 1000
     \<lparr>sp_event_budget = 4, sp_loop_quantum = 64, sp_reports = []\<rparr>
     (initial_scheduler, (idle_cpu, level_controller)) = Some (r, points', s', w')"
proof -
  have "make_safepoints 4 64 = Inr \<lparr>sp_event_budget = 4, sp_loop_quantum = 64, sp_reports = []\<rparr>"
    by (simp add: make_safepoints_def)
  moreover have "\<not> es_advance_in_progress initial_scheduler" by (simp add: initial_scheduler_def)
  ultimately show ?thesis
    using consume_loop_total [OF quiet_well_behaved interrupt_leaves_scheduler initial_ok]
    by blast
qed
section \<open>Guest memory\<close>

text \<open>The memory of the examples: sixteen bytes of RAM, mapped at two addresses, with the direct window
  over both.\<close>

definition no_devices :: "unit DeviceOps" where
  "no_devices = \<lparr>dev_read = (\<lambda>d width offset world. (Inl None, world)),
     dev_write = (\<lambda>d width offset v world. (Inl None, world)),
     dev_validate_write = (\<lambda>d offset n source world. None),
     dev_projected_value = (\<lambda>d offset width world. None)\<rparr>"

definition bare_memory :: "unit Memory" where
  "bare_memory = empty_memory Strict [0 \<mapsto> LinearMemoryDevice (replicate 16 0)] ()"

definition mapped_once :: "unit Memory" where
  "mapped_once = projr (map_region ''ram'' 0x0C000000 0 RegionReadWrite bare_memory)"

definition mapped_twice :: "unit Memory" where
  "mapped_twice = projr (map_region ''mirror'' 0x0C000010 0 RegionReadWrite mapped_once)"

definition example_memory :: "unit Memory" where
  "example_memory = projr (bind_direct_linear_alias_window 0x0C000000 32 0 mapped_twice)"

lemma projr_step: "\<not> isl x \<Longrightarrow> x = Inr (projr x)"
  by (cases x) simp_all

lemma example_memory_reachable: "reachable_memory no_devices example_memory"
proof -
  have "reachable_memory no_devices bare_memory"
    unfolding bare_memory_def by (rule reachable_empty)
  moreover have "map_region ''ram'' 0x0C000000 0 RegionReadWrite bare_memory = Inr mapped_once"
    unfolding mapped_once_def by (rule projr_step) code_simp
  ultimately have "reachable_memory no_devices mapped_once"
    by (rule reachable_step [OF _ step_map])
  moreover have "map_region ''mirror'' 0x0C000010 0 RegionReadWrite mapped_once = Inr mapped_twice"
    unfolding mapped_twice_def by (rule projr_step) code_simp
  ultimately have "reachable_memory no_devices mapped_twice"
    by (rule reachable_step [OF _ step_map])
  moreover have "bind_direct_linear_alias_window 0x0C000000 32 0 mapped_twice = Inr example_memory"
    unfolding example_memory_def by (rule projr_step) code_simp
  ultimately show ?thesis by (rule reachable_step [OF _ step_bind])
qed

text \<open>C3. Whatever regions are mapped, windows bound, observers set and accesses made, the memory keeps
  its invariant (regions disjoint and in order, page index current, direct flags justified), and the
  page index never changes which region an access resolves to or which error it raises.\<close>

theorem reachable_memory_consistent:
  assumes "reachable_memory ops mem"
  shows "memory_ok mem \<and>
    resolve mem address width operation = resolve (reference_mode mem) address width operation"
  using reachable_memory_ok [OF assms] resolve_index_free by blast

theorem reachable_memory_consistent_witness:
  "memory_ok example_memory \<and> resolve example_memory 0x0C00001E WordAccess ReadAccess =
     Inl (access_error ReasonMisaligned ReadAccess 0x0C00001E WordAccess)"
proof -
  have "resolve example_memory 0x0C00001E WordAccess ReadAccess =
      Inl (access_error ReasonMisaligned ReadAccess 0x0C00001E WordAccess)"
    by code_simp
  then show ?thesis using reachable_memory_consistent [OF example_memory_reachable] by blast
qed

text \<open>C4. The shortcut of the guest accessors for untranslated main RAM is invisible: a guest load and
  a guest store do what the full path does, which checks the alignment, translates the address and
  resolves the region; values, errors, state of the translation unit and notifications are the same.\<close>

theorem guest_access_shortcut_invisible:
  assumes "reachable_memory ops (snd s)"
  shows "guest_read_at ops width origin address s =
      with_guest_instruction_origin address origin (translated_read ops width origin address s) \<and>
    guest_write_at ops width origin address v source s =
      with_guest_instruction_origin address origin
        (translated_write ops width origin address v source s)"
  using guest_read_translated guest_write_translated reachable_memory_ok [OF assms] by blast

theorem guest_access_shortcut_invisible_witness:
  "try_read_direct_linear example_memory WordAccess 0x0C000014 = Some 0 \<and>
   guest_read_at no_devices WordAccess no_origin 0x8C000014 (idle_cpu, example_memory) =
     with_guest_instruction_origin 0x8C000014 no_origin
       (translated_read no_devices WordAccess no_origin 0x8C000014 (idle_cpu, example_memory))"
proof -
  have "try_read_direct_linear example_memory WordAccess 0x0C000014 = Some 0" by code_simp
  then show ?thesis
    using guest_access_shortcut_invisible [of no_devices "(idle_cpu, example_memory)"]
      example_memory_reachable by simp
qed

text \<open>C10. A store to RAM succeeds.  Afterwards each byte of the address space, at whatever alias, holds
  the stored byte when it is backed by a byte of the store, and its old value otherwise; a load of the
  same width at any alias of the address gives back the value cut to the width.\<close>

theorem store_visible_at_every_alias:
  assumes "reachable_memory ops mem" and "resolve_writable mem address width = Inr m"
    and "linear_bytes mem (mr_device m) = Some bytes"
    and "write_at ops width address v context source mem = (r, mem')"
  shows "r = Inr () \<and>
    byte_at mem' x = (case byte_home mem x of None \<Rightarrow> None | Some (d, k) \<Rightarrow>
      if d = mr_device m \<and> unat (region_offset m address) \<le> k \<and>
         k < unat (region_offset m address) + width_bytes width
      then Some (ucast (drop_bit (8 * (k - unat (region_offset m address))) v)) else byte_at mem x) \<and>
    (\<forall>y m'. resolve mem' y width ReadAccess = Inr m' \<and> mr_device m' = mr_device m \<and>
       region_offset m' y = region_offset m address \<longrightarrow>
       fst (read_at ops width y context' mem') = Inr (v AND width_mask width))"
proof -
  note ok = reachable_memory_ok [OF assms(1)]
  show ?thesis
    using write_at_linear(1) [OF ok assms(2,3), of ops v "context" source] assms(4)
      byte_at_after_store [OF ok assms(2,3,4)] load_after_store [OF ok assms(2,3,4)] by auto
qed

definition stored_memory :: "unit Memory" where
  "stored_memory = snd (write_at no_devices HalfwordAccess 0x0C000002 0xABCD (plain_context 0x0C000002)
     CpuWrite example_memory)"

theorem store_visible_at_every_alias_witness:
  "byte_at stored_memory 0x0C000003 = Some 0xAB \<and>
   fst (read_at no_devices HalfwordAccess 0x0C000012 (plain_context 0) stored_memory) = Inr 0xABCD"
proof -
  define m where "m = projr (resolve_writable example_memory 0x0C000002 HalfwordAccess)"
  define m' where "m' = projr (resolve stored_memory 0x0C000012 HalfwordAccess ReadAccess)"
  have m: "resolve_writable example_memory 0x0C000002 HalfwordAccess = Inr m"
    unfolding m_def by (rule projr_step) code_simp
  have m': "resolve stored_memory 0x0C000012 HalfwordAccess ReadAccess = Inr m'"
    unfolding m'_def by (rule projr_step) code_simp
  have devices: "mr_device m = 0" "mr_device m' = 0" unfolding m_def m'_def by code_simp+
  have offsets: "region_offset m 0x0C000002 = 2" "region_offset m' 0x0C000012 = 2"
    unfolding m_def m'_def by code_simp+
  have home: "byte_home example_memory 0x0C000003 = Some (0, 3)" by code_simp
  have bytes: "linear_bytes example_memory (mr_device m) = Some (replicate 16 0)"
    unfolding devices by code_simp
  have "write_at no_devices HalfwordAccess 0x0C000002 0xABCD (plain_context 0x0C000002) CpuWrite
      example_memory = (fst (write_at no_devices HalfwordAccess 0x0C000002 0xABCD
        (plain_context 0x0C000002) CpuWrite example_memory), stored_memory)"
    by (simp add: stored_memory_def)
  note result = store_visible_at_every_alias [OF example_memory_reachable m bytes this]
  have "byte_at stored_memory 0x0C000003 = Some 0xAB"
    using result [of "0x0C000003"] home devices offsets by simp
  moreover have "fst (read_at no_devices HalfwordAccess 0x0C000012 (plain_context 0) stored_memory) =
      Inr 0xABCD"
    using result m' devices offsets by fastforce
  ultimately show ?thesis by blast
qed

text \<open>C9. Staging the stores of a block and flushing the batch is the same as storing them one after
  the other: the flush never fails and leaves the same memory, whether the observer admits the batch
  or each store is replayed; only the notification differs, one for the batch instead of one for each
  store.\<close>

theorem batch_flush_is_stores_in_order:
  assumes "staged mem batch"
  shows "\<exists>mem'. store_in_order (wb_entries batch) mem = Some mem' \<and>
    flush_direct_linear_write_batch ops admit batch mem =
      Some (if wb_entries batch \<noteq> [] \<and> mem_batch_observer mem \<and> admit (map entry_event (wb_entries batch))
            then add_log [GuestWriteBatchCommit (map entry_event (wb_entries batch))]
                   (mem'\<lparr>mem_log := mem_log mem\<rparr>) else mem')"
  by (rule flush_in_order [OF assms])

definition example_batch :: DirectLinearWriteBatch where
  "example_batch = the (try_stage example_memory WordAccess 0x0C000004 0x11223344 CpuWrite
     (begin_direct_linear_write_batch example_memory))"

theorem batch_flush_is_stores_in_order_witness:
  "flush_direct_linear_write_batch no_devices (\<lambda>_. True) example_batch example_memory =
     try_write_direct_linear WordAccess 0x0C000004 0x11223344 CpuWrite example_memory"
proof -
  let ?batch = "try_stage example_memory WordAccess 0x0C000004 0x11223344 CpuWrite
    (begin_direct_linear_write_batch example_memory)"
  have "?batch \<noteq> None" by code_simp
  then have "?batch = Some example_batch" by (auto simp: example_batch_def)
  then have "staged example_memory example_batch"
    by (rule staged_store [OF staged_begin, rotated]) simp
  moreover have "\<not> mem_batch_observer example_memory" by code_simp
  moreover have "store_in_order (wb_entries example_batch) example_memory =
      try_write_direct_linear WordAccess 0x0C000004 0x11223344 CpuWrite example_memory"
  proof -
    have "map (\<lambda>e. (be_width e, be_physical_address e, be_value e, be_source e))
        (wb_entries example_batch) = [(WordAccess, 0x0C000004, 0x11223344, CpuWrite)]" by code_simp
    then obtain e where "wb_entries example_batch = [e]" "be_width e = WordAccess"
      "be_physical_address e = 0x0C000004" "be_value e = 0x11223344" "be_source e = CpuWrite"
      by (cases "wb_entries example_batch"; cases "tl (wb_entries example_batch)") auto
    then show ?thesis
      by (cases "try_write_direct_linear WordAccess 0x0C000004 0x11223344 CpuWrite example_memory")
        simp_all
  qed
  ultimately show ?thesis
    using batch_flush_is_stores_in_order [of example_memory example_batch no_devices "\<lambda>_. True"] by auto
qed

section \<open>Code relocation and block exits\<close>

text \<open>A state with two nested relocations; the inner one covers a part of the outer one.\<close>

definition outer_mapping :: CodeAddressMapping where
  "outer_mapping = \<lparr>cm_source_start = 0x8C010000, cm_runtime_start = 0x8C200000, cm_extent = 0x1000\<rparr>"

definition inner_mapping :: CodeAddressMapping where
  "inner_mapping = \<lparr>cm_source_start = 0x8C010800, cm_runtime_start = 0x8C300000, cm_extent = 0x100\<rparr>"

definition outer_state :: CodeAddressState where
  "outer_state = snd (projr (enter_mapping outer_mapping initial_code_addresses))"

definition nested_state :: CodeAddressState where
  "nested_state = snd (projr (enter_mapping inner_mapping outer_state))"

lemma entered: "\<not> isl (enter_mapping m st) \<Longrightarrow> reachable_code_addresses st \<Longrightarrow>
    reachable_code_addresses (snd (projr (enter_mapping m st)))"
  using code_address_step.enter reachable_code_addresses.step
  by (cases "enter_mapping m st") (auto split: prod.splits)

lemma outer_state_reachable: "reachable_code_addresses outer_state"
proof -
  have "\<not> isl (enter_mapping outer_mapping initial_code_addresses)" by code_simp
  then show ?thesis
    unfolding outer_state_def by (rule entered) (rule reachable_code_addresses.start)
qed

lemma nested_state_reachable: "reachable_code_addresses nested_state"
proof -
  have "\<not> isl (enter_mapping inner_mapping outer_state)" by code_simp
  then show ?thesis
    unfolding nested_state_def by (rule entered) (rule outer_state_reachable)
qed

text \<open>C12. The interval caches of the code relocation are invisible: in every state the scopes and
  earlier lookups can lead to, both directions, in the library and in the inline form of the generated
  code, give one step of the innermost active mapping that contains the address; and an address the
  innermost scope maps is mapped back.\<close>

theorem code_address_lookups_exact:
  assumes "reachable_code_addresses st"
  shows "fst (relocate_code_address a st) = map_code_address False (ca_mappings st) a \<and>
    fst (unrelocate_code_address a st) = map_code_address True (ca_mappings st) a \<and>
    fst (relocate_code_address_inline a st) = map_code_address False (ca_mappings st) a \<and>
    fst (unrelocate_code_address_inline a st) = map_code_address True (ca_mappings st) a \<and>
    (\<forall>older token m. ca_mappings st = older @ [(token, m)] \<and> mapping_contains False a m \<longrightarrow>
       fst (unrelocate_code_address (fst (relocate_code_address a st))
         (snd (relocate_code_address a st))) = a)"
proof -
  note ok = reachable_code_addresses_ok [OF assms]
  note exact = relocate_exact [OF ok] inline_exact [OF ok]
  have returns: "fst (unrelocate_code_address (fst (relocate_code_address a st))
      (snd (relocate_code_address a st))) = a"
    if "ca_mappings st = older @ [(token, m)]" "mapping_contains False a m" for older token m
  proof -
    have "usable_mapping m" using ok that(1) by (auto simp: code_addresses_ok_def)
    then show ?thesis
      using round_trip_innermost(1) [OF _ that(2,1)] exact(1) [of a] relocate_exact(2)
      by (simp add: exact_lookup_def)
  qed
  then show ?thesis using exact by (simp add: exact_lookup_def)
qed

theorem code_address_lookups_exact_witness:
  "fst (relocate_code_address 0x8C010810 nested_state) = 0x8C300010 \<and>
   fst (relocate_code_address 0x8C010910 nested_state) = 0x8C200910"
proof -
  have "map_code_address False (ca_mappings nested_state) 0x8C010810 = 0x8C300010"
    "map_code_address False (ca_mappings nested_state) 0x8C010910 = 0x8C200910" by code_simp+
  then show ?thesis using code_address_lookups_exact [OF nested_state_reachable] by simp
qed

text \<open>C40. When an exception is accepted while a block runs, the exit of the block reports it: its cause,
  the instruction that raised it, the owner of the delay slot it was in, and the pc the exception
  belongs to.\<close>

theorem block_exit_reports_exception:
  fixes sink :: reset_sink
  assumes "takes_exception request cpu"
    and "bx_exception_generation_on_entry context = Some (cpu_exception_generation cpu)"
  shows "\<exists>out. make_block_exit (enter_exception sink request cpu) context ExceptionEnd source target =
      Inr (out, context\<lparr>bx_sync_point := ExitPoint\<rparr>) \<and>
    bo_exception_cause out =
      em_cause (exception_metadata (er_cause request) (er_event_code request)) \<and>
    bo_in_delay_slot out = er_in_delay_slot request \<and>
    bo_exception_instruction_pc out =
      value_or (er_instruction_pc request) (cpu_active_instruction_pc cpu) \<and>
    ba_virtual_address (bo_source out) = bo_exception_instruction_pc out \<and>
    bo_exception_owner_pc out =
      value_or (er_delay_slot_owner_pc request) (bo_exception_instruction_pc out) \<and>
    bo_exception_generation out \<noteq> cpu_exception_generation cpu \<and>
    effective_exception_pc (enter_exception sink request cpu) context = bo_exception_owner_pc out"
  using exit_reports_exception [OF assms, of sink source target] by auto

definition entry_context :: BlockExecutionContext where
  "entry_context = \<lparr>bx_scheduler_cycle = 0, bx_scheduler_event_budget = 0,
     bx_delay_slot_owner_pc = None,
     bx_exception_generation_on_entry = Some (cpu_exception_generation idle_cpu),
     bx_sync_point = EntryPoint\<rparr>"

theorem block_exit_reports_exception_witness:
  "effective_exception_pc (enter_exception None trap_request idle_cpu) entry_context = 0x8C010000"
proof -
  have "bx_exception_generation_on_entry entry_context = Some (cpu_exception_generation idle_cpu)"
    by (simp add: entry_context_def)
  from block_exit_reports_exception [OF idle_takes_trap this, of None
      "\<lparr>ba_virtual_address = 0x8C010000, ba_physical_address = 0x0C010000\<rparr>" None]
  obtain out :: BlockExit where "bo_exception_instruction_pc out =
      value_or (er_instruction_pc trap_request) (cpu_active_instruction_pc idle_cpu)"
    "bo_exception_owner_pc out =
      value_or (er_delay_slot_owner_pc trap_request) (bo_exception_instruction_pc out)"
    "effective_exception_pc (enter_exception None trap_request idle_cpu) entry_context =
      bo_exception_owner_pc out"
    by blast
  then show ?thesis by (simp add: trap_request_def value_or_def)
qed

section \<open>Memory and system instructions\<close>






section \<open>Register liveness\<close>




text \<open>The exception: \<open>ldc r8,sr\<close> selects the other bank, which changes R0 although its definition set
  does not hold R0.\<close>

definition bank_instruction :: DecodedInstruction where
  "bank_instruction = special_transfer
     (KATANA_SPECIAL SystemKind.LoadSpecialRegister ''ldc'' 0x400E SpecialRegister.Sr ''sr'' False True True)
     (fresh_instruction 0x480E) 0x480E"

definition bank_load :: DisassemblyLine where
  "bank_load = \<lparr>dl_address = 0x8C010000, dl_opcode = 0x480E, dl_instruction = bank_instruction,
     dl_is_delay_slot = False, dl_target_address = None\<rparr>"

lemma decode_bank_load: "decode 0x480E = bank_instruction"
  unfolding bank_instruction_def
  by (rule special_row_decodes)
    (simp_all add: special_register_encoding_metadata_def control_transfers_def special_matches_KATANA)

definition banked_cpu :: CpuState where
  "banked_cpu = initial_cpu\<lparr>cpu_sr := 0x40000000, cpu_r := (\<lambda>_. 0)(8 := 0x60000000),
     cpu_r_bank := (\<lambda>_. 0)(0 := 7)\<rparr>"

lemma status_load_runs: "ir_operation i = O_System SystemOp.LoadSpecialRegister \<Longrightarrow>
    ir_special_register i = IrSpecialRegister.Sr \<Longrightarrow>
    exec_access relocate rd wr i (cpu, mem) =
      Some (Inr (), write_sr (cpu_r cpu (ir_source_register i)) cpu, mem)"
  by (simp add: exec_access_def emit_special_register_write_def on_registers_def)

theorem status_load_changes_registers_outside_defs:
  "\<exists>cpu'. exec_access id (guest_reader no_devices no_origin) (guest_writer no_devices no_origin)
     (lower_instruction bank_load) (banked_cpu, example_memory) = Some (Inr (), cpu', example_memory) \<and>
   cpu_r cpu' 0 = 7 \<and> cpu_r banked_cpu 0 = 0 \<and>
   \<not> bit (ud_defs (instruction_register_use_def (lower_instruction bank_load))) 0 \<and>
   dl_instruction bank_load = decode 0x480E"
proof -
  define i where "i = lower_instruction bank_load"
  have "ir_operation i = O_System SystemOp.LoadSpecialRegister"
    "ir_special_register i = IrSpecialRegister.Sr" unfolding i_def by code_simp+
  note run = status_load_runs [OF this]
  have "ir_source_register i = 8" "\<not> bit (ud_defs (instruction_register_use_def i)) 0"
    unfolding i_def by code_simp+
  moreover have "cpu_r banked_cpu 8 = 0x60000000" "cpu_r banked_cpu 0 = 0"
    by (simp_all add: banked_cpu_def)
  moreover have "cpu_r (write_sr 0x60000000 banked_cpu) 0 = 7"
    by (simp add: write_sr_def Let_def banked_cpu_def bank_one_def sr_masks)
  moreover have "dl_instruction bank_load = decode 0x480E"
    by (simp add: bank_load_def decode_bank_load)
  ultimately show ?thesis unfolding i_def [symmetric]
    by (intro exI [of _ "write_sr 0x60000000 banked_cpu"]) (simp add: run)
qed



end
